(* ===== verification/Prelude.thy ===== *)
theory Prelude
  imports Main
begin

text \<open>
  Shared vocabulary of the development: identifiers and timestamps, the errors the database
  driver can report, the transaction type \<open>tx\<close> that every query and every service method is
  written in, and the generic facts on tables (lists of rows) that the component theories use.

  A method of the program that runs inside \<open>ExecTx\<close> is a function from the database to either
  an error or a result with the new database. \<open>tx_bind\<close> is Go's \<open>if err != nil { return err }\<close>.
\<close>

named_theorems tx_simps "unfolding rules for computations in the transaction monad"
named_theorems num_simps "conversions between the scales of decimal numbers"
named_theorems query_defs "definitions of the SQL queries"
named_theorems keeps_intros "rules that show an invariant is kept, one per program construct"

text \<open>A UUID is its 128-bit value, a \<open>pgtype.UUID\<close> with \<open>Valid = false\<close> is \<open>None\<close>; a
  \<open>timestamptz\<close> is a number of microseconds since the Unix epoch.\<close>

type_synonym uuid = nat
type_synonym pg_uuid = "uuid option"
type_synonym timestamptz = int

text \<open>What a transaction takes from outside: \<open>NOW()\<close>, which PostgreSQL fixes when the
  transaction starts, and the values successive calls of \<open>gen_random_uuid()\<close> return.\<close>

record env =
  env_now :: timestamptz
  env_uuid :: "nat \<Rightarrow> uuid"

datatype db_error =
    UniqueViolation
  | CheckViolation
  | NotNullViolation
  | NumericOverflow
  | RowCountMismatch
  | InvalidText

section \<open>The transaction monad\<close>

type_synonym ('s, 'e, 'a) tx = "'s \<Rightarrow> 'e + ('a \<times> 's)"

definition ret :: "'a \<Rightarrow> ('s, 'e, 'a) tx" where
  "ret x = (\<lambda>s. Inr (x, s))"

definition throw :: "'e \<Rightarrow> ('s, 'e, 'a) tx" where
  "throw e = (\<lambda>s. Inl e)"

definition tx_bind :: "('s, 'e, 'a) tx \<Rightarrow> ('a \<Rightarrow> ('s, 'e, 'b) tx) \<Rightarrow> ('s, 'e, 'b) tx" where
  "tx_bind m f = (\<lambda>s. case m s of Inl e \<Rightarrow> Inl e | Inr (x, s') \<Rightarrow> f x s')"

definition gets :: "('s \<Rightarrow> 'a) \<Rightarrow> ('s, 'e, 'a) tx" where
  "gets f = (\<lambda>s. Inr (f s, s))"

definition modify :: "('s \<Rightarrow> 's) \<Rightarrow> ('s, 'e, unit) tx" where
  "modify f = (\<lambda>s. Inr ((), f s))"

text \<open>\<open>tx.Begin \<dots> Commit\<close> with the deferred \<open>Rollback\<close>: on an error the caller sees the
  error and the database it started with.\<close>

definition execTx :: "('s, 'e, 'a) tx \<Rightarrow> 's \<Rightarrow> ('e + 'a) \<times> 's" where
  "execTx fn s = (case fn s of Inl e \<Rightarrow> (Inl e, s) | Inr (x, s') \<Rightarrow> (Inr x, s'))"

lemma tx_run [tx_simps]:
  "ret x s = Inr (x, s)"
  "throw e s = Inl e"
  "gets f s = Inr (f s, s)"
  "modify g s = Inr ((), g s)"
  by (simp_all add: ret_def throw_def gets_def modify_def)

lemma tx_bind_Inr_iff [tx_simps]:
  "tx_bind m f s = Inr (y, s') \<longleftrightarrow> (\<exists>x s1. m s = Inr (x, s1) \<and> f x s1 = Inr (y, s'))"
  by (auto simp: tx_bind_def split: sum.splits)

lemma tx_bind_Inl_iff [tx_simps]:
  "tx_bind m f s = Inl e \<longleftrightarrow> m s = Inl e \<or> (\<exists>x s1. m s = Inr (x, s1) \<and> f x s1 = Inl e)"
  by (auto simp: tx_bind_def split: sum.splits)

lemma tx_bind_run [simp]:
  "m s = Inr (x, s1) \<Longrightarrow> tx_bind m f s = f x s1"
  "m s = Inl e \<Longrightarrow> tx_bind m f s = Inl e"
  by (simp_all add: tx_bind_def)

lemma tx_bindE:
  assumes "tx_bind m f s = Inr (y, s')"
  obtains x s1 where "m s = Inr (x, s1)" "f x s1 = Inr (y, s')"
  using assms by (auto simp: tx_simps)

text \<open>Case distinctions of a computation, as disjunctions: these replace splitting.\<close>

lemma tx_option_Inr [tx_simps]:
  "(case x of None \<Rightarrow> f | Some y \<Rightarrow> g y) s = Inr r \<longleftrightarrow>
     (x = None \<and> f s = Inr r) \<or> (\<exists>y. x = Some y \<and> g y s = Inr r)"
  by (cases x) auto

lemma tx_option_Inl [tx_simps]:
  "(case x of None \<Rightarrow> f | Some y \<Rightarrow> g y) s = Inl e \<longleftrightarrow>
     (x = None \<and> f s = Inl e) \<or> (\<exists>y. x = Some y \<and> g y s = Inl e)"
  by (cases x) auto

lemma tx_if_Inr [tx_simps]:
  "(if b then f else g) s = Inr r \<longleftrightarrow> (b \<and> f s = Inr r) \<or> (\<not> b \<and> g s = Inr r)"
  by simp

lemma tx_if_Inl [tx_simps]:
  "(if b then f else g) s = Inl e \<longleftrightarrow> (b \<and> f s = Inl e) \<or> (\<not> b \<and> g s = Inl e)"
  by simp

lemma tx_list_Inr [tx_simps]:
  "(case x of [] \<Rightarrow> f | y # ys \<Rightarrow> g y ys) s = Inr r \<longleftrightarrow>
     (x = [] \<and> f s = Inr r) \<or> (\<exists>y ys. x = y # ys \<and> g y ys s = Inr r)"
  by (cases x) auto

text \<open>A transaction that fails leaves no trace, and one that succeeds leaves exactly what it
  computed: the atomicity of \<open>ExecTx\<close> in the three stores.\<close>

lemma execTx_error: "execTx fn s = (Inl e, s') \<longleftrightarrow> fn s = Inl e \<and> s' = s"
  by (auto simp: execTx_def split: sum.splits)

lemma execTx_ok: "execTx fn s = (Inr x, s') \<longleftrightarrow> fn s = Inr (x, s')"
  by (auto simp: execTx_def split: sum.splits)

text \<open>An invariant of the database that a transaction keeps on every path that commits.\<close>

definition keeps :: "('s \<Rightarrow> bool) \<Rightarrow> ('s, 'e, 'a) tx \<Rightarrow> bool" where
  "keeps P m \<longleftrightarrow> (\<forall>s x s'. P s \<longrightarrow> m s = Inr (x, s') \<longrightarrow> P s')"

lemma keepsI: "(\<And>s x s'. P s \<Longrightarrow> m s = Inr (x, s') \<Longrightarrow> P s') \<Longrightarrow> keeps P m"
  by (auto simp: keeps_def)

lemma keepsD: "keeps P m \<Longrightarrow> P s \<Longrightarrow> m s = Inr (x, s') \<Longrightarrow> P s'"
  by (auto simp: keeps_def)

lemma keeps_ret [keeps_intros]: "keeps P (ret x)"
  and keeps_throw [keeps_intros]: "keeps P (throw e)"
  and keeps_gets [keeps_intros]: "keeps P (gets f)"
  by (auto simp: keeps_def tx_simps)

lemma keeps_bind [keeps_intros]: "keeps P m \<Longrightarrow> (\<And>x. keeps P (f x)) \<Longrightarrow> keeps P (tx_bind m f)"
  unfolding keeps_def by (metis tx_bindE)

lemma keeps_option [keeps_intros]:
  "keeps P f \<Longrightarrow> (\<And>y. keeps P (g y)) \<Longrightarrow> keeps P (case x of None \<Rightarrow> f | Some y \<Rightarrow> g y)"
  by (cases x) auto

lemma keeps_list [keeps_intros]:
  "keeps P f \<Longrightarrow> (\<And>y ys. keeps P (g y ys)) \<Longrightarrow> keeps P (case x of [] \<Rightarrow> f | y # ys \<Rightarrow> g y ys)"
  by (cases x) auto

lemma keeps_prod [keeps_intros]: "(\<And>y z. keeps P (g y z)) \<Longrightarrow> keeps P (case x of (y, z) \<Rightarrow> g y z)"
  by (cases x) auto

lemma keeps_if [keeps_intros]: "keeps P f \<Longrightarrow> keeps P g \<Longrightarrow> keeps P (if b then f else g)"
  by simp

lemma keeps_Let [keeps_intros]: "(\<And>y. keeps P (f y)) \<Longrightarrow> keeps P (let y = x in f y)"
  by simp

lemma keeps_execTx: "keeps P m \<Longrightarrow> P s \<Longrightarrow> P (snd (execTx m s))"
  by (auto simp: execTx_def keeps_def split: sum.splits)

section \<open>Tables as lists of rows\<close>

lemma find_Some_set: "find P xs = Some x \<Longrightarrow> x \<in> set xs \<and> P x"
  by (auto simp: find_Some_iff)

lemma Some_find_set: "Some x = find P xs \<Longrightarrow> x \<in> set xs \<and> P x"
  by (metis find_Some_set)

lemma find_None_set: "find P xs = None \<Longrightarrow> x \<in> set xs \<Longrightarrow> \<not> P x"
  by (auto simp: find_None_iff)

lemma find_ex: "(\<exists>x. find P xs = Some x) \<longleftrightarrow> (\<exists>x\<in>set xs. P x)"
  by (induction xs) auto

lemma find_append: "find P (xs @ ys) = (case find P xs of None \<Rightarrow> find P ys | Some x \<Rightarrow> Some x)"
  by (induction xs) auto

lemma find_map_update:
  assumes "find (\<lambda>x. k x = i) xs = Some x" and "\<And>x. k (f x) = k x"
  shows "find (\<lambda>x. k x = i) (map (\<lambda>x. if k x = i then f x else x) xs) = Some (f x)"
  using assms by (induction xs) (auto split: if_splits)

lemma map_if_filter_None:
  "(\<And>x. x \<in> set xs \<Longrightarrow> \<not> Q x) \<Longrightarrow> map (\<lambda>x. if Q x then f x else x) xs = xs"
  by (induction xs) auto

text \<open>\<open>SUM\<close> over the rows that satisfy a condition.\<close>

definition sum_where :: "('r \<Rightarrow> bool) \<Rightarrow> ('r \<Rightarrow> int) \<Rightarrow> 'r list \<Rightarrow> int" where
  "sum_where P f xs = sum_list (map f (filter P xs))"

lemma sum_where_simps [simp]:
  "sum_where P f [] = 0"
  "sum_where P f (x # xs) = (if P x then f x else 0) + sum_where P f xs"
  "sum_where P f (xs @ ys) = sum_where P f xs + sum_where P f ys"
  by (simp_all add: sum_where_def)

lemma sum_where_nonneg: "(\<And>x. x \<in> set xs \<Longrightarrow> P x \<Longrightarrow> 0 \<le> f x) \<Longrightarrow> 0 \<le> sum_where P f xs"
  by (induction xs) auto

lemma sum_where_map_le:
  "(\<And>x. x \<in> set xs \<Longrightarrow> (if P (g x) then f (g x) else 0) \<le> (if P x then f x else 0)) \<Longrightarrow>
   sum_where P f (map g xs) \<le> sum_where P f xs"
proof (induction xs)
  case (Cons a xs)
  have "(if P (g a) then f (g a) else 0) \<le> (if P a then f a else 0)"
    by (rule Cons.prems) simp
  moreover have "sum_where P f (map g xs) \<le> sum_where P f xs"
    by (rule Cons.IH) (simp add: Cons.prems)
  ultimately show ?case by simp
qed simp

lemma sum_where_map_eq:
  "(\<And>x. x \<in> set xs \<Longrightarrow> (if P (g x) then f (g x) else 0) = (if P x then f x else 0)) \<Longrightarrow>
   sum_where P f (map g xs) = sum_where P f xs"
  by (induction xs) auto

text \<open>An update that touches one row, found by its key: the sum changes by that row's change.\<close>

lemma sum_where_update_one:
  assumes "distinct (map k xs)" and "r \<in> set xs"
  shows "sum_where P f (map (\<lambda>x. if k x = k r then g x else x) xs)
       = sum_where P f xs - (if P r then f r else 0) + (if P (g r) then f (g r) else 0)"
  using assms
proof (induction xs)
  case (Cons y ys)
  show ?case
  proof (cases "y = r")
    case True
    have "map (\<lambda>x. if k x = k r then g x else x) ys = ys"
      using Cons.prems True by (intro map_if_filter_None) (metis distinct.simps(2) image_eqI list.set_map list.simps(9))
    with True show ?thesis by simp
  next
    case False
    with Cons.prems have "r \<in> set ys" and "k y \<noteq> k r" by auto
    with Cons show ?thesis by simp
  qed
qed simp

end
