(* ===== verification/Errors.thy ===== *)
theory Errors
  imports Prelude
begin

text \<open>
  The sentinel errors of the packages \<open>member\<close>, \<open>share\<close> and \<open>loan\<close>, and the union that a
  transaction returns; \<open>NoRowsE\<close> is \<open>pgx.ErrNoRows\<close> where the code passes it on. A wrapped error (\<open>fmt.Errorf\<close> with \<open>%w\<close>) is identified with the
  sentinel that \<open>errors.Is\<close> finds in it; where two sentinels are wrapped together both are kept.
\<close>

datatype member_error =
    ErrInvalidStatusTransition
  | ErrMemberAlreadyClosed
  | ErrMemberNotActive
  | ErrInvalidIdentifier
  | ErrBranchTransferNotSupported

datatype share_error =
    ErrGuaranteeCapacity
  | ErrLoanSecurity
  | ErrAccountNotFound
  | ErrAccountAlreadyExists
  | ErrAccountNotActive
  | ErrInsufficientBalance
  | ErrTransactionNotFound
  | ErrAdjustmentNotFound
  | ErrInvalidIdentifier
  | ErrAdjustmentExists
  | ErrAdjustmentNotPending
  | ErrNotAdjustment
  | ErrAlreadyApproved
  | ErrUnauthorizedApprover
  | ErrDuplicateReference
  | ErrCannotReverse
  | ErrAlreadyReversed

datatype loan_error =
    ErrLoanNotFound
  | ErrGuarantorNotFound
  | ErrInvalidLoanAmount
  | ErrInvalidInterestRate
  | ErrInvalidRepaymentPeriod
  | ErrMemberNotActive
  | ErrGuarantorNotActive
  | ErrInvalidGuaranteedAmount
  | ErrInvalidStatusTransition
  | ErrInvalidGuarantorStatus
  | ErrSelfGuarantee
  | ErrDuplicateGuarantor
  | ErrTooManyGuarantors
  | ErrInsufficientCollateral
  | ErrPaymentNotAllowed
  | ErrRepaymentScheduleMissing
  | ErrRepaymentAmountConflict
  | ErrGatewayTransactionID
  | ErrUnsupportedLoanOperation

datatype contribution_error =
    ErrInvalidCharge
  | ErrChargeConflict
  | ErrChargeOverpayment
  | ErrMembershipFeeMismatch
  | ErrInvalidReceiptAmount
  | ErrInvalidAllocationPlan
  | ErrAllocationRequired
  | ErrInvalidAllocation
  | ErrInvalidPayment
  | ErrDuplicateAllocation
  | ErrAllocationTotalMismatch
  | ErrReceiptReferenceRequired
  | ErrReceiptNotFound
  | ErrReceiptNotProcessable
  | ErrAllocationNotSupported
  | ErrOwningServiceMissing
  | ErrPaymentRequestNotFound
  | ErrPaymentRequestInProgress
  | ErrPaymentAmountMismatch
  | ErrInconsistentReceipt
  | ErrDarajaClientMissing
  | ErrDarajaQueryUnavailable
  | ErrDarajaRejected
  | ErrDarajaNotSent
  | ErrCashierSessionNotFound
  | ErrCashierSessionState
  | ErrCashVarianceReason
  | ErrCashDepositInvalid
  | ErrCashSeparationOfDuties
  | ErrCashDepositSelfVerify

text \<open>The gRPC status codes the program uses; the message that accompanies a code is left out.\<close>

datatype grpc_code =
    Unauthenticated
  | PermissionDenied
  | InvalidArgument
  | NotFound
  | AlreadyExists
  | FailedPrecondition
  | Unavailable
  | Internal

datatype error =
    MemberE member_error
  | ShareE share_error
  | LoanE loan_error
  | DbE db_error
  | NoRowsE
  | LoanWrapE loan_error error
  | StatusE grpc_code
  | ContributionE contribution_error
  | PlainE

text \<open>\<open>PlainE\<close> is an error made from a text alone.\<close>

text \<open>\<open>errors.Is\<close> on the union.\<close>

fun errors_is :: "error \<Rightarrow> error \<Rightarrow> bool" where
  "errors_is (LoanWrapE l e) target = (LoanE l = target \<or> errors_is e target \<or> LoanWrapE l e = target)"
| "errors_is e target = (e = target)"

text \<open>A value for a \<open>NUMERIC(19,4)\<close> column, or the driver's error; \<open>db_check\<close> is a
  \<open>CHECK\<close> constraint.\<close>

definition lift_db :: "db_error + 'a \<Rightarrow> ('s, error, 'a) tx" where
  "lift_db r = (\<lambda>s. case r of Inl e \<Rightarrow> Inl (DbE e) | Inr x \<Rightarrow> Inr (x, s))"

definition db_check :: "bool \<Rightarrow> ('s, error, unit) tx" where
  "db_check b = (if b then ret () else throw (DbE CheckViolation))"

lemma lift_db_Inr [tx_simps]: "lift_db r s = Inr (x, s') \<longleftrightarrow> r = Inr x \<and> s' = s"
  by (auto simp: lift_db_def split: sum.splits)

lemma lift_db_Inl [tx_simps]: "lift_db r s = Inl e \<longleftrightarrow> (\<exists>d. r = Inl d \<and> e = DbE d)"
  by (auto simp: lift_db_def split: sum.splits)

lemma db_check_Inr [tx_simps]: "db_check b s = Inr (x, s') \<longleftrightarrow> b \<and> s' = s"
  by (auto simp: db_check_def tx_simps)

lemma db_check_Inl [tx_simps]: "db_check b s = Inl e \<longleftrightarrow> \<not> b \<and> e = DbE CheckViolation"
  by (auto simp: db_check_def tx_simps)

lemma keeps_lift_db [keeps_intros]: "keeps P (lift_db r)"
  and keeps_db_check [keeps_intros]: "keeps P (db_check b)"
  by (auto simp: keeps_def tx_simps)

end
