(* ===== verification/Member.thy ===== *)
theory Member
  imports Errors
begin

text \<open>
  Package \<open>member\<close>: the \<open>members\<close> and \<open>member_status_history\<close> tables, the queries other
  packages use to hold eligibility stable, and the status state machine of
  \<open>internal/member/service.go\<close>. A member's status is a \<open>TEXT\<close> column, so it is a string here.
\<close>

record member_row =
  mem_id :: uuid
  mem_branch :: int
  mem_number :: int
  mem_national_id :: string
  mem_status :: string
  mem_deleted :: bool
  mem_created :: timestamptz
  mem_updated :: timestamptz

record status_change =
  sc_member :: uuid
  sc_from :: "string option"
  sc_to :: string
  sc_reason :: "string option"
  sc_created :: timestamptz

record member_db =
  members :: "member_row list"
  member_status_history :: "status_change list"

section \<open>Queries\<close>

definition live_member :: "uuid \<Rightarrow> member_row \<Rightarrow> bool" where
  "live_member i r = (mem_id r = i \<and> \<not> mem_deleted r)"

definition q_GetMemberByID :: "pg_uuid \<Rightarrow> ('s member_db_scheme, error, member_row option) tx" where
  [query_defs]: "q_GetMemberByID i = gets (\<lambda>s. case i of None \<Rightarrow> None
      | Some i \<Rightarrow> find (live_member i) (members s))"

definition active_in_branch :: "int \<Rightarrow> member_row \<Rightarrow> bool" where
  "active_in_branch b r = (mem_branch r = b \<and> mem_status r = ''active'' \<and> \<not> mem_deleted r)"

definition q_ValidateMemberActiveInBranch ::
    "pg_uuid \<Rightarrow> int \<Rightarrow> ('s member_db_scheme, error, member_row option) tx" where
  [query_defs]: "q_ValidateMemberActiveInBranch i b = gets (\<lambda>s. case i of None \<Rightarrow> None
      | Some i \<Rightarrow> find (\<lambda>r. mem_id r = i \<and> active_in_branch b r) (members s))"

definition q_LockActiveMembersInBranch ::
    "pg_uuid list \<Rightarrow> int \<Rightarrow> ('s member_db_scheme, error, uuid list) tx" where
  [query_defs]: "q_LockActiveMembersInBranch ids b = gets (\<lambda>s.
      sort (map mem_id (filter (\<lambda>r. Some (mem_id r) \<in> set ids \<and> active_in_branch b r) (members s))))"

definition q_UpdateMemberStatus ::
    "env \<Rightarrow> uuid \<Rightarrow> string \<Rightarrow> ('s member_db_scheme, error, member_row option) tx" where
  [query_defs]: "q_UpdateMemberStatus v i st = tx_bind
      (modify (members_update (map (\<lambda>r. if live_member i r
          then r\<lparr>mem_status := st, mem_updated := env_now v\<rparr> else r))))
      (\<lambda>_. q_GetMemberByID (Some i))"

definition q_DeactivateMember ::
    "env \<Rightarrow> uuid \<Rightarrow> ('s member_db_scheme, error, member_row option) tx" where
  [query_defs]: "q_DeactivateMember v i = tx_bind (q_GetMemberByID (Some i)) (\<lambda>old.
      tx_bind (modify (members_update (map (\<lambda>r. if live_member i r
          then r\<lparr>mem_deleted := True, mem_status := ''closed'', mem_updated := env_now v\<rparr> else r))))
      (\<lambda>_. ret (map_option (\<lambda>r. r\<lparr>mem_deleted := True, mem_status := ''closed'',
                                 mem_updated := env_now v\<rparr>) old)))"

definition q_RecordMemberStatusTransition ::
    "status_change \<Rightarrow> ('s member_db_scheme, error, unit) tx" where
  [query_defs]: "q_RecordMemberStatusTransition c = modify (member_status_history_update (\<lambda>h. h @ [c]))"

section \<open>Service\<close>

definition LockActiveMembersInTx ::
    "pg_uuid list \<Rightarrow> int \<Rightarrow> ('s member_db_scheme, error, uuid list) tx" where
  "LockActiveMembersInTx ids branch = q_LockActiveMembersInBranch ids branch"

definition RequireActiveMemberInTx ::
    "pg_uuid \<Rightarrow> int \<Rightarrow> ('s member_db_scheme, error, unit) tx" where
  "RequireActiveMemberInTx i branch = tx_bind (q_ValidateMemberActiveInBranch i branch)
     (\<lambda>r. case r of None \<Rightarrow> throw (MemberE member_error.ErrMemberNotActive) | Some _ \<Rightarrow> ret ())"

definition RequireActiveMember :: "pg_uuid \<Rightarrow> ('s member_db_scheme, error, unit) tx" where
  "RequireActiveMember i = tx_bind (q_GetMemberByID i)
     (\<lambda>r. case r of None \<Rightarrow> throw NoRowsE
        | Some m \<Rightarrow> if mem_status m \<noteq> ''active'' then throw (MemberE member_error.ErrMemberNotActive)
            else ret ())"

text \<open>The map literal \<open>statusTransitions\<close>: \<open>None\<close> where the status is not a key.\<close>

definition statusTransitions :: "string \<Rightarrow> (string \<Rightarrow> bool) option" where
  "statusTransitions st =
     (if st = ''pending'' then Some (\<lambda>t. t = ''active'' \<or> t = ''rejected'')
      else if st = ''active'' then Some (\<lambda>t. t = ''suspended'' \<or> t = ''closed'')
      else if st = ''suspended'' then Some (\<lambda>t. t = ''active'')
      else None)"

definition text_of :: "string \<Rightarrow> string option" where
  "text_of s = (if s = '''' then None else Some s)"

definition UpdateMemberStatus ::
    "env \<Rightarrow> uuid \<Rightarrow> string \<Rightarrow> string \<Rightarrow> ('s member_db_scheme, error, member_row) tx" where
  "UpdateMemberStatus v i newStatus reason = tx_bind (q_GetMemberByID (Some i)) (\<lambda>r.
     case r of None \<Rightarrow> throw NoRowsE
     | Some current \<Rightarrow>
       (case statusTransitions (mem_status current) of
          None \<Rightarrow> throw (MemberE member_error.ErrInvalidStatusTransition)
        | Some allowedTransitions \<Rightarrow>
          if \<not> allowedTransitions newStatus then throw (MemberE member_error.ErrInvalidStatusTransition)
          else tx_bind (q_UpdateMemberStatus v i newStatus) (\<lambda>upd.
            case upd of None \<Rightarrow> throw NoRowsE
            | Some _ \<Rightarrow> tx_bind (q_RecordMemberStatusTransition
                 \<lparr>sc_member = i, sc_from = Some (mem_status current), sc_to = newStatus,
                  sc_reason = text_of reason, sc_created = env_now v\<rparr>) (\<lambda>_.
               tx_bind (q_GetMemberByID (Some i)) (\<lambda>m.
                 case m of None \<Rightarrow> throw NoRowsE | Some m \<Rightarrow> ret m)))))"

definition CloseMember ::
    "env \<Rightarrow> uuid \<Rightarrow> string \<Rightarrow> ('s member_db_scheme, error, member_row) tx" where
  "CloseMember v i reason = tx_bind (q_GetMemberByID (Some i)) (\<lambda>r.
     case r of None \<Rightarrow> throw NoRowsE
     | Some current \<Rightarrow>
       if mem_status current = ''closed'' then throw (MemberE ErrMemberAlreadyClosed)
       else if \<not> (case statusTransitions (mem_status current) of None \<Rightarrow> False | Some f \<Rightarrow> f ''closed'')
       then throw (MemberE member_error.ErrInvalidStatusTransition)
       else tx_bind (q_DeactivateMember v i) (\<lambda>d.
         case d of None \<Rightarrow> throw NoRowsE
         | Some deactivated \<Rightarrow> tx_bind (q_RecordMemberStatusTransition
              \<lparr>sc_member = i, sc_from = Some (mem_status current), sc_to = ''closed'',
               sc_reason = text_of reason, sc_created = env_now v\<rparr>) (\<lambda>_.
            ret deactivated)))"

section \<open>Facts\<close>

definition member_ids_unique :: "'s member_db_scheme \<Rightarrow> bool" where
  "member_ids_unique s \<longleftrightarrow> distinct (map mem_id (members s))"

lemma RequireActiveMemberInTx_Inr:
  "RequireActiveMemberInTx i b s = Inr (x, s') \<longleftrightarrow>
     s' = s \<and> (\<exists>r\<in>set (members s). Some (mem_id r) = i \<and> active_in_branch b r)"
  by (cases i) (auto simp: RequireActiveMemberInTx_def query_defs tx_simps find_ex)

lemma keeps_RequireActiveMemberInTx [keeps_intros]: "keeps P (RequireActiveMemberInTx i b)"
  by (auto simp: keeps_def RequireActiveMemberInTx_Inr)

lemma LockActiveMembersInTx_Inr:
  "LockActiveMembersInTx ids b s = Inr (x, s') \<longleftrightarrow> s' = s \<and>
     x = sort (map mem_id (filter (\<lambda>r. Some (mem_id r) \<in> set ids \<and> active_in_branch b r) (members s)))"
  by (auto simp: LockActiveMembersInTx_def query_defs tx_simps)

end
