(* ===== verification/Numeric.thy ===== *)
theory Numeric
  imports Prelude
begin

text \<open>
  Decimal numbers: \<open>pgtype.Numeric\<close> values, the \<open>math/big\<close> operations the program applies to
  them, what PostgreSQL does when such a value is stored in a \<open>NUMERIC(19,4)\<close> column, and the
  conversion helpers of \<open>internal/share/converters.go\<close> and \<open>internal/loan/service.go\<close>.

  A column of type \<open>NUMERIC(19,4)\<close> is kept as its number of ten-thousandths, an \<open>int\<close>; reading
  it gives \<open>db_num v\<close>, a \<open>pgtype.Numeric\<close> with exponent \<open>-4\<close>.
\<close>

section \<open>Values and big-integer arithmetic\<close>

text \<open>\<open>pgtype.Numeric\<close>: \<open>Int * 10^Exp\<close>. A nil \<open>Int\<close> (also NaN and the infinities) is \<open>None\<close>.\<close>

record numeric =
  n_int :: "int option"
  n_exp :: int
  n_valid :: bool

text \<open>\<open>big.Int.Quo\<close> truncates towards zero and \<open>big.Int.Mod\<close> is Euclidean.\<close>

definition big_quo :: "int \<Rightarrow> int \<Rightarrow> int" where
  "big_quo a b = sgn a * sgn b * (\<bar>a\<bar> div \<bar>b\<bar>)"

definition big_mod :: "int \<Rightarrow> int \<Rightarrow> int" where
  "big_mod a b = a mod \<bar>b\<bar>"

fun pow10_loop :: "nat \<Rightarrow> int \<Rightarrow> int" where
  "pow10_loop 0 result = result"
| "pow10_loop (Suc i) result = pow10_loop i (result * 10)"

definition pow10 :: "int \<Rightarrow> int" where
  "pow10 e = pow10_loop (nat e) 1"

definition numericToNanos :: "numeric \<Rightarrow> int" where
  "numericToNanos n = (case n_int n of None \<Rightarrow> 0
     | Some v \<Rightarrow> (let shift = n_exp n + 9 in
         if shift > 0 then v * 10 ^ nat shift
         else if shift < 0 then big_quo v (10 ^ nat (- shift))
         else v))"

definition numericToScale :: "numeric \<Rightarrow> int \<Rightarrow> int" where
  "numericToScale n scale =
     (if \<not> n_valid n \<or> n_int n = None then 0
      else let out = the (n_int n); diff = n_exp n - scale in
        if diff > 0 then out * pow10 diff
        else if diff < 0 then big_quo out (pow10 (- diff))
        else out)"

definition numericFromScale :: "int \<Rightarrow> numeric" where
  "numericFromScale n = \<lparr>n_int = Some n, n_exp = -4, n_valid = True\<rparr>"

definition minBigInt :: "int \<Rightarrow> int \<Rightarrow> int" where
  "minBigInt a b = (if a < b then a else b)"

definition positive :: "numeric \<Rightarrow> bool" where
  "positive n = (n_valid n \<and> (case n_int n of None \<Rightarrow> False | Some v \<Rightarrow> v > 0))"

definition nonNegative :: "numeric \<Rightarrow> bool" where
  "nonNegative n = (n_valid n \<and> (case n_int n of None \<Rightarrow> False | Some v \<Rightarrow> v \<ge> 0))"

section \<open>Storing a number in a \<open>NUMERIC(19,4)\<close> column\<close>

text \<open>PostgreSQL rounds half away from zero to the scale of the column and rejects a value
  with more than fifteen digits before the point.\<close>

definition round_div :: "int \<Rightarrow> int \<Rightarrow> int" where
  "round_div a b = sgn a * ((2 * \<bar>a\<bar> + b) div (2 * b))"

definition round4 :: "int \<Rightarrow> int \<Rightarrow> int" where
  "round4 v e = (if e \<ge> -4 then v * 10 ^ nat (e + 4) else round_div v (10 ^ nat (-4 - e)))"

definition store_numeric :: "numeric \<Rightarrow> db_error + int" where
  "store_numeric n =
     (if \<not> n_valid n then Inl NotNullViolation
      else case n_int n of None \<Rightarrow> Inl CheckViolation
        | Some v \<Rightarrow> (let r = round4 v (n_exp n) in
            if \<bar>r\<bar> \<ge> 10 ^ 19 then Inl NumericOverflow else Inr r))"

definition db_num :: "int \<Rightarrow> numeric" where
  "db_num v = \<lparr>n_int = Some v, n_exp = -4, n_valid = True\<rparr>"

definition nano_num :: "int \<Rightarrow> numeric" where
  "nano_num v = \<lparr>n_int = Some v, n_exp = -9, n_valid = True\<rparr>"

section \<open>Protocol money\<close>

text \<open>\<open>memberv1.Money\<close>; \<open>Units\<close> is an \<open>int64\<close> and \<open>Nanos\<close> an \<open>int32\<close>. \<open>big.Int.Int64\<close> and the
  conversion to \<open>int32\<close> keep the low bits.\<close>

record money =
  m_currency :: string
  m_units :: int
  m_nanos :: int

definition int64_of :: "int \<Rightarrow> int" where
  "int64_of i = signed_take_bit 63 i"

definition int32_of :: "int \<Rightarrow> int" where
  "int32_of i = signed_take_bit 31 i"

definition moneyToNumeric :: "money option \<Rightarrow> numeric" where
  "moneyToNumeric m = (case m of None \<Rightarrow> \<lparr>n_int = None, n_exp = 0, n_valid = False\<rparr>
     | Some m \<Rightarrow> \<lparr>n_int = Some (m_units m * 1000000000 + m_nanos m), n_exp = -9, n_valid = True\<rparr>)"

definition numericToMoney :: "numeric \<Rightarrow> money" where
  "numericToMoney n =
     (let nanos = numericToNanos n; billion = 1000000000;
          units = big_quo nanos billion; frac = big_mod nanos billion
      in \<lparr>m_currency = ''KES'', m_units = int64_of units, m_nanos = int32_of (int64_of frac)\<rparr>)"

section \<open>Facts\<close>

lemma pow10_loop_eq: "pow10_loop n r = r * 10 ^ n"
  by (induction n arbitrary: r) auto

lemma pow10_eq [simp]: "pow10 e = 10 ^ nat e"
  by (simp add: pow10_def pow10_loop_eq)

lemma big_quo_nonneg: "0 \<le> a \<Longrightarrow> 0 < b \<Longrightarrow> big_quo a b = a div b"
  by (cases "a = 0") (auto simp: big_quo_def)

lemma big_quo_0 [simp]: "big_quo 0 b = 0"
  by (simp add: big_quo_def)

lemma big_quo_exact: "0 < b \<Longrightarrow> big_quo (k * b) b = k"
  by (simp add: big_quo_def abs_mult sgn_mult)
    (simp add: sgn_if)

lemma minBigInt_min [simp]: "minBigInt a b = min a b"
  by (auto simp: minBigInt_def)

lemma numericToNanos_db [num_simps, simp]: "numericToNanos (db_num v) = v * 100000"
  by (simp add: numericToNanos_def db_num_def)

lemma numericToNanos_nano [num_simps, simp]: "numericToNanos (nano_num v) = v"
  by (simp add: numericToNanos_def nano_num_def)

lemma numericToScale_db [num_simps, simp]:
  "numericToScale (db_num v) (-4) = v" "numericToScale (db_num v) (-9) = v * 100000"
  by (simp_all add: numericToScale_def db_num_def)

lemma numericToScale_from [num_simps, simp]: "numericToScale (numericFromScale v) (-4) = v"
  by (simp add: numericToScale_def numericFromScale_def)

lemma positive_db [simp]: "positive (db_num v) = (0 < v)"
  by (simp add: positive_def db_num_def)

text \<open>Rounding to the column's scale is monotone and exact on multiples.\<close>

lemma round_div_exact [simp]: "0 < b \<Longrightarrow> round_div (k * b) b = k"
proof -
  assume b: "0 < b"
  have "(2 * \<bar>k * b\<bar> + b) div (2 * b) = \<bar>k\<bar>"
  proof (rule int_div_pos_eq [where r = b])
    show "2 * \<bar>k * b\<bar> + b = 2 * b * \<bar>k\<bar> + b" using b by (simp add: abs_mult)
  qed (use b in auto)
  with b show ?thesis
    by (cases k "0::int" rule: linorder_cases) (auto simp: round_div_def sgn_mult)
qed

lemma round_div_nonneg: "0 < b \<Longrightarrow> 0 \<le> a \<Longrightarrow> round_div a b = (2 * a + b) div (2 * b)"
  by (cases "a = 0") (auto simp: round_div_def)

lemma round_div_minus [simp]: "round_div (- a) b = - round_div a b"
  by (simp add: round_div_def)

lemma round_div_mono_nonneg: "0 < b \<Longrightarrow> 0 \<le> a \<Longrightarrow> a \<le> a' \<Longrightarrow> round_div a b \<le> round_div a' b"
  by (simp add: round_div_nonneg zdiv_mono1)

lemma round_div_ge0: "0 < b \<Longrightarrow> 0 \<le> a \<Longrightarrow> 0 \<le> round_div a b"
  by (simp add: round_div_nonneg pos_imp_zdiv_nonneg_iff)

lemma round_div_mono:
  assumes b: "0 < b" and le: "a \<le> a'"
  shows "round_div a b \<le> round_div a' b"
proof (cases "0 \<le> a")
  case True
  show ?thesis by (rule round_div_mono_nonneg [OF b True le])
next
  case neg: False
  then have low: "round_div a b \<le> 0"
    using round_div_ge0 [of b "- a"] b by simp
  show ?thesis
  proof (cases "0 \<le> a'")
    case True
    then have "0 \<le> round_div a' b" using b by (simp add: round_div_ge0)
    with low show ?thesis by simp
  next
    case False
    then have "round_div (- a') b \<le> round_div (- a) b"
      using le by (intro round_div_mono_nonneg [OF b]) auto
    then show ?thesis by simp
  qed
qed

lemma store_nano_Inr:
  "store_numeric (nano_num v) = Inr r \<longleftrightarrow> r = round_div v 100000 \<and> \<bar>r\<bar> < 10 ^ 19"
  by (auto simp: store_numeric_def nano_num_def round4_def Let_def)

lemma store_db_Inr: "store_numeric (db_num v) = Inr r \<longleftrightarrow> r = v \<and> \<bar>v\<bar> < 10 ^ 19"
  by (auto simp: store_numeric_def db_num_def round4_def Let_def)

end
