(* ===== verification/Share_Store.thy ===== *)
theory Share_Store
  imports Member Numeric
begin

text \<open>
  The tables of the share domain and the SQL queries of \<open>internal/share/repository/sqlc\<close>.
  A table is the list of its rows in the order they were inserted. A query that returns at most
  one row returns an \<open>option\<close>: \<open>None\<close> is \<open>pgx.ErrNoRows\<close>. An \<open>INSERT\<close> evaluates its \<open>NOT NULL\<close>
  and \<open>CHECK\<close> constraints, then the conflict target of \<open>ON CONFLICT\<close>, then the other unique
  indexes, as PostgreSQL does. Row locks have no effect on a transaction that runs alone.
\<close>

section \<open>Tables\<close>

datatype ShareAccountStatus = AccountActive | AccountDormant | AccountClosed | AccountFrozen

datatype ShareTransactionType = Purchase | Withdrawal | Dividend | Reversal | Adjustment

datatype ShareAdjustmentStatus = AdjustmentPending | AdjustmentApproved | AdjustmentRejected

datatype SharePledgeType = ApplicantSecurity | GuarantorSecurity

datatype SharePledgeStatus = PledgePending | PledgeActive | PledgeReleased | PledgeCancelled

record ShareAccount =
  sa_id :: uuid
  sa_member :: uuid
  sa_branch :: int
  sa_status :: ShareAccountStatus
  sa_opened :: timestamptz
  sa_deleted :: bool
  sa_created :: timestamptz
  sa_updated :: timestamptz

record ShareTransaction =
  st_id :: uuid
  st_account :: uuid
  st_type :: ShareTransactionType
  st_amount :: int
  st_balance_after :: int
  st_reference :: uuid
  st_reversal_of :: pg_uuid
  st_reason :: "string option"
  st_originator :: pg_uuid
  st_created :: timestamptz

record ShareAdjustment =
  sj_id :: uuid
  sj_share_transaction :: pg_uuid
  sj_approver :: pg_uuid
  sj_reason :: string
  sj_audit_report :: pg_uuid
  sj_created :: timestamptz
  sj_account :: uuid
  sj_amount :: int
  sj_reference :: uuid
  sj_requested_by :: pg_uuid
  sj_status :: ShareAdjustmentStatus
  sj_posted_transaction :: pg_uuid
  sj_approved_by :: pg_uuid
  sj_approved_at :: "timestamptz option"

record SharePledge =
  sp_id :: uuid
  sp_account :: uuid
  sp_loan :: uuid
  sp_amount :: int
  sp_type :: SharePledgeType
  sp_status :: SharePledgeStatus
  sp_approved_by :: pg_uuid
  sp_approved_at :: "timestamptz option"
  sp_released_at :: "timestamptz option"
  sp_created :: timestamptz
  sp_updated :: timestamptz

record share_db = member_db +
  share_accounts :: "ShareAccount list"
  share_transactions :: "ShareTransaction list"
  share_adjustments :: "ShareAdjustment list"
  share_pledges :: "SharePledge list"

text \<open>\<open>ORDER BY \<dots> DESC LIMIT 1\<close>: the greatest row. SQL leaves the order of equal rows open;
  the model takes the one inserted last.\<close>

fun latest_by :: "('r \<Rightarrow> 'r \<Rightarrow> bool) \<Rightarrow> 'r list \<Rightarrow> 'r option" where
  "latest_by lt [] = None"
| "latest_by lt (x # xs) = (case latest_by lt xs of None \<Rightarrow> Some x
     | Some y \<Rightarrow> if lt y x then Some x else Some y)"

section \<open>Accounts\<close>

definition q_CreateShareAccount ::
    "env \<Rightarrow> uuid \<Rightarrow> int \<Rightarrow> ('s share_db_scheme, error, ShareAccount) tx" where
  [query_defs]: "q_CreateShareAccount v m b = (\<lambda>s.
     let r = \<lparr>sa_id = env_uuid v 0, sa_member = m, sa_branch = b, sa_status = AccountActive,
              sa_opened = env_now v, sa_deleted = False, sa_created = env_now v, sa_updated = env_now v\<rparr>
     in if \<exists>a\<in>set (share_accounts s). sa_id a = sa_id r then Inl (DbE UniqueViolation)
        else Inr (r, s\<lparr>share_accounts := share_accounts s @ [r]\<rparr>))"

definition live_account :: "(ShareAccount \<Rightarrow> bool) \<Rightarrow> 's share_db_scheme \<Rightarrow> ShareAccount option" where
  "live_account P s = find (\<lambda>a. P a \<and> \<not> sa_deleted a) (share_accounts s)"

definition q_GetAccountByMemberID ::
    "pg_uuid \<Rightarrow> ('s share_db_scheme, error, ShareAccount option) tx" where
  [query_defs]: "q_GetAccountByMemberID m = gets (live_account (\<lambda>a. Some (sa_member a) = m))"

definition q_LockAccountByMemberID ::
    "pg_uuid \<Rightarrow> ('s share_db_scheme, error, ShareAccount option) tx" where
  [query_defs]: "q_LockAccountByMemberID m = gets (live_account (\<lambda>a. Some (sa_member a) = m))"

definition q_LockAndReadAccount ::
    "pg_uuid \<Rightarrow> ('s share_db_scheme, error, ShareAccount option) tx" where
  [query_defs]: "q_LockAndReadAccount i = gets (live_account (\<lambda>a. Some (sa_id a) = i))"

text \<open>The join with \<open>members\<close> drops an account whose member row is missing.\<close>

definition q_GetAccountByID ::
    "pg_uuid \<Rightarrow> ('s share_db_scheme, error, ShareAccount option) tx" where
  [query_defs]: "q_GetAccountByID i = gets (\<lambda>s. live_account (\<lambda>a. Some (sa_id a) = i \<and>
      (\<exists>m\<in>set (members s). mem_id m = sa_member a)) s)"

definition q_UpdateAccountStatus ::
    "env \<Rightarrow> uuid \<Rightarrow> ShareAccountStatus \<Rightarrow> ('s share_db_scheme, error, ShareAccount option) tx" where
  [query_defs]: "q_UpdateAccountStatus v i st = tx_bind
      (modify (share_accounts_update (map (\<lambda>a. if sa_id a = i \<and> \<not> sa_deleted a
          then a\<lparr>sa_status := st, sa_updated := env_now v\<rparr> else a))))
      (\<lambda>_. q_LockAndReadAccount (Some i))"

section \<open>Pledges\<close>

definition active_pledge :: "uuid \<Rightarrow> SharePledge \<Rightarrow> bool" where
  "active_pledge a p = (sp_account p = a \<and> sp_status p = PledgeActive)"

text \<open>\<open>COALESCE(SUM(pledged_amount), 0)\<close> over an account's active pledges.\<close>

definition pledged_of :: "uuid \<Rightarrow> 's share_db_scheme \<Rightarrow> int" where
  "pledged_of a s = sum_where (active_pledge a) sp_amount (share_pledges s)"

definition q_GetActivePledgedAmount :: "uuid \<Rightarrow> ('s share_db_scheme, error, numeric) tx" where
  [query_defs]: "q_GetActivePledgedAmount a = gets (\<lambda>s. db_num (pledged_of a s))"

definition q_GetActiveApplicantPledgeAmount :: "uuid \<Rightarrow> ('s share_db_scheme, error, numeric) tx" where
  [query_defs]: "q_GetActiveApplicantPledgeAmount l = gets (\<lambda>s. db_num (sum_where
      (\<lambda>p. sp_loan p = l \<and> sp_type p = ApplicantSecurity \<and> sp_status p = PledgeActive)
      sp_amount (share_pledges s)))"

definition q_GetApplicantSharePledge :: "uuid \<Rightarrow> ('s share_db_scheme, error, SharePledge option) tx" where
  [query_defs]: "q_GetApplicantSharePledge l = gets (\<lambda>s.
      find (\<lambda>p. sp_loan p = l \<and> sp_type p = ApplicantSecurity) (share_pledges s))"

definition q_GetGuarantorSharePledge ::
    "uuid \<Rightarrow> uuid \<Rightarrow> ('s share_db_scheme, error, SharePledge option) tx" where
  [query_defs]: "q_GetGuarantorSharePledge a l = gets (\<lambda>s.
      find (\<lambda>p. sp_account p = a \<and> sp_loan p = l \<and> sp_type p = GuarantorSecurity) (share_pledges s))"

text \<open>The table constraints \<open>chk_share_pledge_*\<close>.\<close>

definition pledge_check :: "SharePledge \<Rightarrow> bool" where
  "pledge_check p \<longleftrightarrow> sp_amount p > 0
     \<and> (if sp_status p = PledgeActive \<or> sp_status p = PledgeReleased
        then sp_approved_by p \<noteq> None \<and> sp_approved_at p \<noteq> None
        else sp_approved_by p = None \<and> sp_approved_at p = None)
     \<and> (sp_status p = PledgeReleased) = (sp_released_at p \<noteq> None)
     \<and> (case sp_approved_at p of None \<Rightarrow> True | Some t \<Rightarrow> t \<ge> sp_created p)
     \<and> (case (sp_released_at p, sp_approved_at p) of (Some r, Some t) \<Rightarrow> r \<ge> t | _ \<Rightarrow> True)"

definition q_CreateSharePledge ::
    "env \<Rightarrow> uuid \<Rightarrow> uuid \<Rightarrow> numeric \<Rightarrow> SharePledgeType \<Rightarrow> ('s share_db_scheme, error, SharePledge option) tx" where
  [query_defs]: "q_CreateSharePledge v a l amount ty = tx_bind (lift_db (store_numeric amount)) (\<lambda>amt.
     let p = \<lparr>sp_id = env_uuid v 0, sp_account = a, sp_loan = l, sp_amount = amt, sp_type = ty,
              sp_status = PledgePending, sp_approved_by = None, sp_approved_at = None,
              sp_released_at = None, sp_created = env_now v, sp_updated = env_now v\<rparr>
     in tx_bind (db_check (pledge_check p)) (\<lambda>_ s.
       if \<exists>q\<in>set (share_pledges s). sp_account q = a \<and> sp_loan q = l then Inr (None, s)
       else if \<exists>q\<in>set (share_pledges s). sp_id q = sp_id p then Inl (DbE UniqueViolation)
       else Inr (Some p, s\<lparr>share_pledges := share_pledges s @ [p]\<rparr>)))"

definition activate_pledge :: "env \<Rightarrow> pg_uuid \<Rightarrow> SharePledge \<Rightarrow> SharePledge" where
  "activate_pledge v by p = p\<lparr>sp_status := PledgeActive, sp_approved_by := by,
     sp_approved_at := Some (env_now v), sp_updated := env_now v\<rparr>"

definition q_ActivateSharePledge ::
    "env \<Rightarrow> uuid \<Rightarrow> pg_uuid \<Rightarrow> ('s share_db_scheme, error, SharePledge option) tx" where
  [query_defs]: "q_ActivateSharePledge v i by = (\<lambda>s.
     case find (\<lambda>p. sp_id p = i \<and> sp_status p = PledgePending) (share_pledges s) of
       None \<Rightarrow> Inr (None, s)
     | Some p \<Rightarrow> if \<not> pledge_check (activate_pledge v by p) then Inl (DbE CheckViolation)
         else Inr (Some (activate_pledge v by p), s\<lparr>share_pledges := map (\<lambda>q. if sp_id q = sp_id p
             then activate_pledge v by q else q) (share_pledges s)\<rparr>))"

definition release_pledge :: "env \<Rightarrow> SharePledge \<Rightarrow> SharePledge" where
  "release_pledge v p = p\<lparr>
     sp_status := (if sp_status p = PledgePending then PledgeCancelled else PledgeReleased),
     sp_released_at := (if sp_status p = PledgeActive then Some (env_now v) else sp_released_at p),
     sp_updated := env_now v\<rparr>"

text \<open>The rows of \<open>ReleaseLoanSharePledges\<close> and \<open>LockLoanShareAccounts\<close>: the loan's pending and
  active pledges, of one member when a member is given.\<close>

definition releasable :: "uuid \<Rightarrow> pg_uuid \<Rightarrow> 's share_db_scheme \<Rightarrow> SharePledge \<Rightarrow> bool" where
  "releasable l m s p = (sp_loan p = l \<and> (sp_status p = PledgePending \<or> sp_status p = PledgeActive)
     \<and> (\<exists>a\<in>set (share_accounts s). sa_id a = sp_account p \<and> (m = None \<or> m = Some (sa_member a))))"

definition q_LockLoanShareAccounts ::
    "uuid \<Rightarrow> pg_uuid \<Rightarrow> ('s share_db_scheme, error, uuid list) tx" where
  [query_defs]: "q_LockLoanShareAccounts l m = gets (\<lambda>s. sort (map sa_id (filter (\<lambda>a.
      (m = None \<or> m = Some (sa_member a)) \<and>
      (\<exists>p\<in>set (share_pledges s). sp_account p = sa_id a \<and> sp_loan p = l
         \<and> (sp_status p = PledgePending \<or> sp_status p = PledgeActive))) (share_accounts s))))"

definition q_ReleaseLoanSharePledges ::
    "env \<Rightarrow> uuid \<Rightarrow> pg_uuid \<Rightarrow> ('s share_db_scheme, error, unit) tx" where
  [query_defs]: "q_ReleaseLoanSharePledges v l m = (\<lambda>s.
     if \<exists>p\<in>set (share_pledges s). releasable l m s p \<and> \<not> pledge_check (release_pledge v p)
     then Inl (DbE CheckViolation)
     else Inr ((), s\<lparr>share_pledges := map (\<lambda>p. if releasable l m s p then release_pledge v p else p)
            (share_pledges s)\<rparr>))"

section \<open>Ledger\<close>

definition rows_of :: "uuid \<Rightarrow> 's share_db_scheme \<Rightarrow> ShareTransaction list" where
  "rows_of a s = filter (\<lambda>r. st_account r = a) (share_transactions s)"

definition older :: "ShareTransaction \<Rightarrow> ShareTransaction \<Rightarrow> bool" where
  "older x y = (st_created x < st_created y)"

definition older_id :: "ShareTransaction \<Rightarrow> ShareTransaction \<Rightarrow> bool" where
  "older_id x y = (st_created x < st_created y \<or> (st_created x = st_created y \<and> st_id x < st_id y))"

definition latest_balance :: "uuid \<Rightarrow> 's share_db_scheme \<Rightarrow> int option" where
  "latest_balance a s = map_option st_balance_after (latest_by older (rows_of a s))"

definition balance_of :: "uuid \<Rightarrow> 's share_db_scheme \<Rightarrow> int" where
  "balance_of a s = (case latest_balance a s of None \<Rightarrow> 0 | Some b \<Rightarrow> b)"

definition q_GetLatestBalance :: "uuid \<Rightarrow> ('s share_db_scheme, error, numeric option) tx" where
  [query_defs]: "q_GetLatestBalance a = gets (\<lambda>s. map_option db_num (latest_balance a s))"

definition q_GetWithdrawalPosition :: "uuid \<Rightarrow> ('s share_db_scheme, error, numeric \<times> numeric) tx" where
  [query_defs]: "q_GetWithdrawalPosition a = gets (\<lambda>s. (db_num (balance_of a s), db_num (pledged_of a s)))"

definition q_GetTransactionByID :: "uuid \<Rightarrow> ('s share_db_scheme, error, ShareTransaction option) tx" where
  [query_defs]: "q_GetTransactionByID i = gets (\<lambda>s. find (\<lambda>r. st_id r = i) (share_transactions s))"

definition q_GetTransactionByReference ::
    "uuid \<Rightarrow> pg_uuid \<Rightarrow> ShareTransactionType \<Rightarrow> ('s share_db_scheme, error, ShareTransaction option) tx" where
  [query_defs]: "q_GetTransactionByReference a ref ty = gets (\<lambda>s.
      find (\<lambda>r. st_account r = a \<and> Some (st_reference r) = ref \<and> st_type r = ty) (share_transactions s))"

definition q_GetReversalTransactions :: "uuid \<Rightarrow> ('s share_db_scheme, error, ShareTransaction list) tx" where
  [query_defs]: "q_GetReversalTransactions i = gets (\<lambda>s.
      filter (\<lambda>r. st_reversal_of r = Some i) (share_transactions s))"

record InsertShareTransactionParams =
  ip_account :: uuid
  ip_type :: ShareTransactionType
  ip_amount :: numeric
  ip_balance_after :: numeric
  ip_reference :: pg_uuid
  ip_reversal_of :: pg_uuid
  ip_reason :: "string option"
  ip_originator :: pg_uuid

definition transaction_check :: "ShareTransaction \<Rightarrow> bool" where
  "transaction_check r \<longleftrightarrow> (st_amount r > 0 \<or> st_type r = Reversal \<or> st_type r = Adjustment)
     \<and> st_balance_after r \<ge> 0"

definition q_InsertShareTransaction ::
    "env \<Rightarrow> InsertShareTransactionParams \<Rightarrow> ('s share_db_scheme, error, ShareTransaction option) tx" where
  [query_defs]: "q_InsertShareTransaction v p = tx_bind (lift_db (store_numeric (ip_amount p))) (\<lambda>amt.
     tx_bind (lift_db (store_numeric (ip_balance_after p))) (\<lambda>bal.
     case ip_reference p of None \<Rightarrow> throw (DbE NotNullViolation)
     | Some ref \<Rightarrow>
       let r = \<lparr>st_id = env_uuid v 0, st_account = ip_account p, st_type = ip_type p, st_amount = amt,
                st_balance_after = bal, st_reference = ref, st_reversal_of = ip_reversal_of p,
                st_reason = ip_reason p, st_originator = ip_originator p, st_created = env_now v\<rparr>
       in tx_bind (db_check (transaction_check r)) (\<lambda>_ s.
         if \<exists>q\<in>set (share_transactions s). st_account q = st_account r \<and> st_reference q = st_reference r
              \<and> st_type q = st_type r then Inr (None, s)
         else if \<exists>q\<in>set (share_transactions s). st_id q = st_id r
              \<or> (st_reversal_of r \<noteq> None \<and> st_reversal_of q = st_reversal_of r) then Inl (DbE UniqueViolation)
         else Inr (Some r, s\<lparr>share_transactions := share_transactions s @ [r]\<rparr>))))"

text \<open>\<open>GetSecurityBalances\<close>: every live account of the given members with its balance and its
  active pledges.\<close>

record GetSecurityBalancesRow =
  sb_id :: uuid
  sb_member :: uuid
  sb_status :: ShareAccountStatus
  sb_balance :: numeric
  sb_pledged :: numeric

definition security_balance :: "uuid \<Rightarrow> 's share_db_scheme \<Rightarrow> int" where
  "security_balance a s = (case latest_by older_id (rows_of a s) of None \<Rightarrow> 0 | Some r \<Rightarrow> st_balance_after r)"

definition q_GetSecurityBalances ::
    "pg_uuid list \<Rightarrow> ('s share_db_scheme, error, GetSecurityBalancesRow list) tx" where
  [query_defs]: "q_GetSecurityBalances ms = gets (\<lambda>s. map (\<lambda>a.
      \<lparr>sb_id = sa_id a, sb_member = sa_member a, sb_status = sa_status a,
       sb_balance = db_num (security_balance (sa_id a) s), sb_pledged = db_num (pledged_of (sa_id a) s)\<rparr>)
      (filter (\<lambda>a. Some (sa_member a) \<in> set ms \<and> \<not> sa_deleted a) (share_accounts s)))"

definition q_LockSecurityAccounts :: "pg_uuid list \<Rightarrow> ('s share_db_scheme, error, uuid list) tx" where
  [query_defs]: "q_LockSecurityAccounts ms = gets (\<lambda>s. sort (map sa_id
      (filter (\<lambda>a. Some (sa_member a) \<in> set ms \<and> \<not> sa_deleted a) (share_accounts s))))"

definition q_ListGuarantorSharePledges ::
    "uuid \<Rightarrow> pg_uuid list \<Rightarrow> ('s share_db_scheme, error, (uuid \<times> int \<times> SharePledgeStatus) list) tx" where
  [query_defs]: "q_ListGuarantorSharePledges l ms = gets (\<lambda>s. concat (map (\<lambda>p.
      map (\<lambda>a. (sa_member a, sp_amount p, sp_status p))
        (filter (\<lambda>a. sa_id a = sp_account p \<and> Some (sa_member a) \<in> set ms) (share_accounts s)))
      (filter (\<lambda>p. sp_loan p = l \<and> sp_type p = GuarantorSecurity) (share_pledges s))))"

section \<open>Adjustments\<close>

definition q_GetAdjustmentByReference ::
    "uuid \<Rightarrow> pg_uuid \<Rightarrow> ('s share_db_scheme, error, ShareAdjustment option) tx" where
  [query_defs]: "q_GetAdjustmentByReference a ref = gets (\<lambda>s.
      find (\<lambda>j. sj_account j = a \<and> Some (sj_reference j) = ref) (share_adjustments s))"

definition q_LockAdjustmentByID :: "uuid \<Rightarrow> ('s share_db_scheme, error, ShareAdjustment option) tx" where
  [query_defs]: "q_LockAdjustmentByID i = gets (\<lambda>s. find (\<lambda>j. sj_id j = i) (share_adjustments s))"

definition q_InsertAdjustment ::
    "env \<Rightarrow> uuid \<Rightarrow> numeric \<Rightarrow> pg_uuid \<Rightarrow> pg_uuid \<Rightarrow> string \<Rightarrow>
     ('s share_db_scheme, error, ShareAdjustment option) tx" where
  [query_defs]: "q_InsertAdjustment v a amount ref by reason = tx_bind (lift_db (store_numeric amount)) (\<lambda>amt.
     case ref of None \<Rightarrow> throw (DbE NotNullViolation)
     | Some ref \<Rightarrow> (\<lambda>s.
       let j = \<lparr>sj_id = env_uuid v 0, sj_share_transaction = None, sj_approver = None, sj_reason = reason,
                sj_audit_report = None, sj_created = env_now v, sj_account = a, sj_amount = amt,
                sj_reference = ref, sj_requested_by = by, sj_status = AdjustmentPending,
                sj_posted_transaction = None, sj_approved_by = None, sj_approved_at = None\<rparr>
       in if \<exists>q\<in>set (share_adjustments s). sj_account q = a \<and> sj_reference q = ref then Inr (None, s)
          else if \<exists>q\<in>set (share_adjustments s). sj_id q = sj_id j then Inl (DbE UniqueViolation)
          else Inr (Some j, s\<lparr>share_adjustments := share_adjustments s @ [j]\<rparr>)))"

definition approve_adjustment ::
    "env \<Rightarrow> uuid \<Rightarrow> pg_uuid \<Rightarrow> string \<Rightarrow> pg_uuid \<Rightarrow> ShareAdjustment \<Rightarrow> ShareAdjustment" where
  "approve_adjustment v t by reason audit j = j\<lparr>sj_status := AdjustmentApproved,
     sj_share_transaction := Some t, sj_posted_transaction := Some t, sj_approver := by,
     sj_approved_by := by, sj_reason := reason, sj_audit_report := audit,
     sj_approved_at := Some (env_now v)\<rparr>"

text \<open>The constraint \<open>share_adjustments_posted_consistency\<close> requires an approver.\<close>

definition q_UpdateAdjustmentApproved ::
    "env \<Rightarrow> uuid \<Rightarrow> uuid \<Rightarrow> pg_uuid \<Rightarrow> string \<Rightarrow> pg_uuid \<Rightarrow>
     ('s share_db_scheme, error, ShareAdjustment option) tx" where
  [query_defs]: "q_UpdateAdjustmentApproved v i t by reason audit = (\<lambda>s.
     case find (\<lambda>j. sj_id j = i) (share_adjustments s) of
       None \<Rightarrow> Inr (None, s)
     | Some j \<Rightarrow> if by = None then Inl (DbE CheckViolation)
         else Inr (Some (approve_adjustment v t by reason audit j),
           s\<lparr>share_adjustments := map (\<lambda>q. if sj_id q = i then approve_adjustment v t by reason audit q else q)
              (share_adjustments s)\<rparr>))"

end
