(* ===== verification/Share_Service.thy ===== *)
theory Share_Service
  imports Share_Store
begin

text \<open>
  The share ledger, \<open>internal/share/service.go\<close>: opening accounts, posting purchases,
  withdrawals and dividends, manual adjustments and reversals. Every method is the body the code
  runs inside its transaction; \<open>execTx\<close> of \<open>Prelude\<close> is the commit or rollback around it.

  The lemmas show two invariants. \<open>share_inv\<close>: no account's active pledges exceed its balance,
  kept by every posting whatever the clock says. \<open>ledger_ok\<close>: the balance column is the running
  sum of the postings, kept when transactions commit in the order of their start times and
  amounts have at most four decimals.
\<close>

section \<open>Operations\<close>

definition OpenShareAccount :: "env \<Rightarrow> uuid \<Rightarrow> int \<Rightarrow> ('s share_db_scheme, error, ShareAccount) tx" where
  "OpenShareAccount v memberID branchID =
     tx_bind (RequireActiveMemberInTx (Some memberID) branchID) (\<lambda>_.
     tx_bind (q_GetAccountByMemberID (Some memberID)) (\<lambda>existing.
     case existing of Some _ \<Rightarrow> throw (ShareE ErrAccountAlreadyExists)
     | None \<Rightarrow> q_CreateShareAccount v memberID branchID))"

definition ValidateContributionTarget :: "uuid \<Rightarrow> uuid \<Rightarrow> int \<Rightarrow> ('s share_db_scheme, error, unit) tx" where
  "ValidateContributionTarget accountID memberID branchID =
     tx_bind (q_LockAndReadAccount (Some accountID)) (\<lambda>a.
     case a of None \<Rightarrow> throw (ShareE ErrAccountNotFound)
     | Some account \<Rightarrow>
       if sa_member account \<noteq> memberID \<or> sa_branch account \<noteq> branchID then throw (ShareE ErrAccountNotFound)
       else if sa_status account \<noteq> AccountActive then throw (ShareE ErrAccountNotActive)
       else ret ())"

text \<open>The balance after the posting, in nanos: the \<open>switch txType\<close> of \<open>postTransactionInTx\<close>.\<close>

definition post_balance :: "uuid \<Rightarrow> ShareTransactionType \<Rightarrow> int \<Rightarrow> ('s share_db_scheme, error, int) tx" where
  "post_balance accountID txType amountNanos =
     (if txType = Withdrawal then
        tx_bind (q_GetWithdrawalPosition accountID) (\<lambda>(balance, pledged).
          let balanceNanos = numericToNanos balance in
          if balanceNanos - amountNanos < numericToNanos pledged then throw (ShareE ErrInsufficientBalance)
          else ret (balanceNanos - amountNanos))
      else
        tx_bind (q_GetLatestBalance accountID) (\<lambda>latest.
          let balanceNanos = (case latest of None \<Rightarrow> 0 | Some b \<Rightarrow> numericToNanos b) in
          ret (balanceNanos + amountNanos)))"

text \<open>A reference that was used before: the same amount returns the recorded posting.\<close>

definition check_replay :: "numeric \<Rightarrow> ShareTransaction \<Rightarrow> ('s share_db_scheme, error, ShareTransaction) tx" where
  "check_replay amount result =
     (if numericToNanos (db_num (st_amount result)) \<noteq> numericToNanos amount
      then throw (ShareE ErrDuplicateReference) else ret result)"

definition post_new ::
    "env \<Rightarrow> uuid \<Rightarrow> ShareTransactionType \<Rightarrow> numeric \<Rightarrow> pg_uuid \<Rightarrow> pg_uuid \<Rightarrow> string \<Rightarrow>
     ('s share_db_scheme, error, ShareTransaction) tx" where
  "post_new v accountID txType amount referenceID originatorID reason =
     tx_bind (post_balance accountID txType (numericToNanos amount)) (\<lambda>balanceNanos.
     tx_bind (q_InsertShareTransaction v
       \<lparr>ip_account = accountID, ip_type = txType, ip_amount = amount,
        ip_balance_after = nano_num balanceNanos, ip_reference = referenceID,
        ip_reversal_of = None, ip_reason = text_of reason, ip_originator = originatorID\<rparr>)
     (\<lambda>inserted. case inserted of Some result \<Rightarrow> ret result
      | None \<Rightarrow> tx_bind (q_GetTransactionByReference accountID referenceID txType) (\<lambda>r.
          case r of None \<Rightarrow> throw NoRowsE | Some result \<Rightarrow> check_replay amount result)))"

definition postTransactionInTx ::
    "env \<Rightarrow> uuid \<Rightarrow> ShareTransactionType \<Rightarrow> numeric \<Rightarrow> pg_uuid \<Rightarrow> pg_uuid \<Rightarrow> string \<Rightarrow> pg_uuid \<Rightarrow> int \<Rightarrow>
     ('s share_db_scheme, error, ShareTransaction) tx" where
  "postTransactionInTx v accountID txType amount referenceID originatorID reason memberID branchID =
     tx_bind (q_LockAndReadAccount (Some accountID)) (\<lambda>a.
     case a of None \<Rightarrow> throw (ShareE ErrAccountNotFound)
     | Some account \<Rightarrow>
       if memberID \<noteq> None \<and> (Some (sa_member account) \<noteq> memberID \<or> sa_branch account \<noteq> branchID)
       then throw (ShareE ErrAccountNotFound)
       else tx_bind (q_GetTransactionByReference accountID referenceID txType) (\<lambda>existing.
         case existing of
           Some result \<Rightarrow> check_replay amount result
         | None \<Rightarrow>
             if sa_status account \<noteq> AccountActive \<and> txType \<noteq> Dividend
             then throw (ShareE ErrAccountNotActive)
             else post_new v accountID txType amount referenceID originatorID reason))"

definition postTransaction ::
    "env \<Rightarrow> uuid \<Rightarrow> ShareTransactionType \<Rightarrow> numeric \<Rightarrow> pg_uuid \<Rightarrow> pg_uuid \<Rightarrow> string \<Rightarrow>
     's share_db_scheme \<Rightarrow> (error + ShareTransaction) \<times> 's share_db_scheme" where
  "postTransaction v accountID txType amount referenceID originatorID reason =
     execTx (postTransactionInTx v accountID txType amount referenceID originatorID reason None 0)"

definition PurchaseSharesInTx ::
    "env \<Rightarrow> uuid \<Rightarrow> numeric \<Rightarrow> pg_uuid \<Rightarrow> pg_uuid \<Rightarrow> string \<Rightarrow> pg_uuid \<Rightarrow> int \<Rightarrow>
     ('s share_db_scheme, error, ShareTransaction) tx" where
  "PurchaseSharesInTx v accountID amount referenceID originatorID reason memberID branchID =
     postTransactionInTx v accountID Purchase amount referenceID originatorID reason memberID branchID"

definition PostDividendInTx ::
    "env \<Rightarrow> uuid \<Rightarrow> pg_uuid \<Rightarrow> int \<Rightarrow> numeric \<Rightarrow> pg_uuid \<Rightarrow> pg_uuid \<Rightarrow>
     ('s share_db_scheme, error, ShareTransaction) tx" where
  "PostDividendInTx v accountID memberID branchID amount allocationID officerID =
     postTransactionInTx v accountID Dividend amount allocationID officerID
       ''Approved annual dividend reinvestment'' memberID branchID"

definition PurchaseShares ::
    "env \<Rightarrow> uuid \<Rightarrow> numeric \<Rightarrow> pg_uuid \<Rightarrow> pg_uuid \<Rightarrow> string \<Rightarrow>
     's share_db_scheme \<Rightarrow> (error + ShareTransaction) \<times> 's share_db_scheme" where
  "PurchaseShares v accountID amount referenceID originatorID reason =
     postTransaction v accountID Purchase amount referenceID originatorID reason"

definition WithdrawShares ::
    "env \<Rightarrow> uuid \<Rightarrow> numeric \<Rightarrow> pg_uuid \<Rightarrow> pg_uuid \<Rightarrow> string \<Rightarrow>
     's share_db_scheme \<Rightarrow> (error + ShareTransaction) \<times> 's share_db_scheme" where
  "WithdrawShares v accountID amount referenceID originatorID reason =
     postTransaction v accountID Withdrawal amount referenceID originatorID reason"

definition CreateAdjustment ::
    "env \<Rightarrow> uuid \<Rightarrow> numeric \<Rightarrow> pg_uuid \<Rightarrow> pg_uuid \<Rightarrow> string \<Rightarrow>
     ('s share_db_scheme, error, ShareAdjustment) tx" where
  "CreateAdjustment v accountID amount referenceID originatorID reason =
     tx_bind (q_GetAccountByID (Some accountID)) (\<lambda>a.
     case a of None \<Rightarrow> throw (ShareE ErrAccountNotFound)
     | Some account \<Rightarrow>
       if sa_status account \<noteq> AccountActive then throw (ShareE ErrAccountNotActive)
       else if numericToNanos amount = 0 then throw (ShareE ErrInsufficientBalance)
       else tx_bind (q_InsertAdjustment v accountID amount referenceID originatorID reason) (\<lambda>i.
         case i of Some adjustment \<Rightarrow> ret adjustment
         | None \<Rightarrow> tx_bind (q_GetAdjustmentByReference accountID referenceID) (\<lambda>e.
             case e of None \<Rightarrow> throw NoRowsE
             | Some adjustment \<Rightarrow>
                 if numericToNanos (db_num (sj_amount adjustment)) \<noteq> numericToNanos amount
                 then throw (ShareE ErrDuplicateReference) else ret adjustment)))"

definition approve_post ::
    "env \<Rightarrow> ShareAdjustment \<Rightarrow> pg_uuid \<Rightarrow> string \<Rightarrow> pg_uuid \<Rightarrow> ('s share_db_scheme, error, ShareAdjustment) tx" where
  "approve_post v adjustment approverID reason auditReportID =
     tx_bind (q_GetWithdrawalPosition (sj_account adjustment)) (\<lambda>(balance, pledged).
     let newBalance = numericToNanos balance + numericToNanos (db_num (sj_amount adjustment)) in
     if newBalance < numericToNanos pledged then throw (ShareE ErrInsufficientBalance)
     else let reason = (if reason = '''' then sj_reason adjustment else reason) in
       tx_bind (q_InsertShareTransaction v
         \<lparr>ip_account = sj_account adjustment, ip_type = Adjustment,
          ip_amount = db_num (sj_amount adjustment), ip_balance_after = nano_num newBalance,
          ip_reference = Some (sj_reference adjustment), ip_reversal_of = None,
          ip_reason = text_of reason, ip_originator = sj_requested_by adjustment\<rparr>) (\<lambda>i.
       tx_bind (case i of Some t \<Rightarrow> ret (Some t)
          | None \<Rightarrow> q_GetTransactionByReference (sj_account adjustment)
                      (Some (sj_reference adjustment)) Adjustment) (\<lambda>t.
       case t of None \<Rightarrow> throw NoRowsE
       | Some t \<Rightarrow> tx_bind (q_UpdateAdjustmentApproved v (sj_id adjustment) (st_id t) approverID
             reason auditReportID) (\<lambda>u.
           case u of None \<Rightarrow> throw NoRowsE | Some result \<Rightarrow> ret result))))"

definition ApproveShareAdjustment ::
    "env \<Rightarrow> uuid \<Rightarrow> pg_uuid \<Rightarrow> string \<Rightarrow> pg_uuid \<Rightarrow> ('s share_db_scheme, error, ShareAdjustment) tx" where
  "ApproveShareAdjustment v adjustmentID approverID reason auditReportID =
     tx_bind (q_LockAdjustmentByID adjustmentID) (\<lambda>j.
     case j of None \<Rightarrow> throw (ShareE ErrAdjustmentNotFound)
     | Some adjustment \<Rightarrow>
       if sj_status adjustment = AdjustmentApproved then ret adjustment
       else if sj_status adjustment \<noteq> AdjustmentPending then throw (ShareE ErrAdjustmentNotPending)
       else tx_bind (q_LockAndReadAccount (Some (sj_account adjustment))) (\<lambda>a.
         case a of None \<Rightarrow> throw (ShareE ErrAccountNotFound)
         | Some account \<Rightarrow>
           if sa_status account \<noteq> AccountActive then throw (ShareE ErrAccountNotActive)
           else approve_post v adjustment approverID reason auditReportID))"

definition reverse_post ::
    "env \<Rightarrow> ShareTransaction \<Rightarrow> pg_uuid \<Rightarrow> pg_uuid \<Rightarrow> string \<Rightarrow> ('s share_db_scheme, error, ShareTransaction) tx" where
  "reverse_post v original referenceID originatorID reason =
     (let amountNanos = numericToNanos (db_num (st_amount original));
          reversalAmount = (if st_type original \<noteq> Withdrawal then - amountNanos else amountNanos)
      in tx_bind (q_GetLatestBalance (st_account original)) (\<lambda>latest.
        let balanceNanos = (case latest of None \<Rightarrow> 0 | Some b \<Rightarrow> numericToNanos b);
            newBalance = balanceNanos + reversalAmount
        in tx_bind (q_GetActivePledgedAmount (st_account original)) (\<lambda>pledged.
          if newBalance < numericToNanos pledged then throw (ShareE ErrInsufficientBalance)
          else tx_bind (q_InsertShareTransaction v
            \<lparr>ip_account = st_account original, ip_type = Reversal,
             ip_amount = nano_num reversalAmount, ip_balance_after = nano_num newBalance,
             ip_reference = referenceID, ip_reversal_of = Some (st_id original),
             ip_reason = text_of reason, ip_originator = originatorID\<rparr>) (\<lambda>i.
            case i of Some result \<Rightarrow> ret result
            | None \<Rightarrow> tx_bind (q_GetTransactionByReference (st_account original) referenceID Reversal)
                (\<lambda>r. case r of None \<Rightarrow> throw NoRowsE | Some result \<Rightarrow> ret result)))))"

definition ReverseShareTransaction ::
    "env \<Rightarrow> uuid \<Rightarrow> pg_uuid \<Rightarrow> pg_uuid \<Rightarrow> string \<Rightarrow> ('s share_db_scheme, error, ShareTransaction) tx" where
  "ReverseShareTransaction v transactionID referenceID originatorID reason =
     tx_bind (q_GetTransactionByID transactionID) (\<lambda>t.
     case t of None \<Rightarrow> throw (ShareE ErrTransactionNotFound)
     | Some original \<Rightarrow>
       if st_type original = Reversal then throw (ShareE ErrCannotReverse)
       else tx_bind (q_GetReversalTransactions (st_id original)) (\<lambda>reversals.
         case reversals of r # _ \<Rightarrow> ret r
         | [] \<Rightarrow> tx_bind (q_LockAndReadAccount (Some (st_account original))) (\<lambda>a.
           case a of None \<Rightarrow> throw (ShareE ErrAccountNotFound)
           | Some account \<Rightarrow>
             if sa_status account \<noteq> AccountActive then throw (ShareE ErrAccountNotActive)
             else reverse_post v original referenceID originatorID reason)))"

section \<open>The latest row\<close>

lemma latest_by_append_older:
  "latest_by older (xs @ [r]) = (case latest_by older xs of None \<Rightarrow> Some r
     | Some y \<Rightarrow> if older r y then Some y else Some r)"
  by (induction xs) (auto simp: older_def split: option.splits if_splits)

lemma rows_of_append [simp]:
  "rows_of a (s\<lparr>share_transactions := share_transactions s @ [r]\<rparr>)
     = rows_of a s @ (if st_account r = a then [r] else [])"
  by (simp add: rows_of_def)

lemma balance_of_append:
  "balance_of a (s\<lparr>share_transactions := share_transactions s @ [r]\<rparr>) =
     (if st_account r = a \<and> (\<forall>y. latest_by older (rows_of a s) = Some y \<longrightarrow> \<not> older r y)
      then st_balance_after r else balance_of a s)"
  by (auto simp: balance_of_def latest_balance_def latest_by_append_older split: option.splits)

lemma pledged_of_frame [simp]:
  "pledged_of a (s\<lparr>share_transactions := ts\<rparr>) = pledged_of a s"
  "pledged_of a (s\<lparr>share_adjustments := js\<rparr>) = pledged_of a s"
  "pledged_of a (s\<lparr>share_accounts := cs\<rparr>) = pledged_of a s"
  by (simp_all add: pledged_of_def)

lemma balance_of_frame [simp]:
  "balance_of a (s\<lparr>share_pledges := ps\<rparr>) = balance_of a s"
  "balance_of a (s\<lparr>share_adjustments := js\<rparr>) = balance_of a s"
  "balance_of a (s\<lparr>share_accounts := cs\<rparr>) = balance_of a s"
  by (simp_all add: balance_of_def latest_balance_def rows_of_def)

lemma latest_balance_nanos:
  "(case latest_balance a s of None \<Rightarrow> 0 | Some b \<Rightarrow> (numericToNanos \<circ> db_num) b)
     = balance_of a s * 100000"
  by (simp add: balance_of_def split: option.splits)

section \<open>What an insertion does\<close>

definition same_reference :: "uuid \<Rightarrow> pg_uuid \<Rightarrow> ShareTransactionType \<Rightarrow> ShareTransaction \<Rightarrow> bool" where
  "same_reference a ref ty q = (st_account q = a \<and> Some (st_reference q) = ref \<and> st_type q = ty)"

lemma q_InsertShareTransaction_SomeE:
  assumes "q_InsertShareTransaction v p s = Inr (Some r, s')"
  shows "s' = s\<lparr>share_transactions := share_transactions s @ [r]\<rparr>
    \<and> transaction_check r \<and> st_account r = ip_account p \<and> st_type r = ip_type p
    \<and> store_numeric (ip_amount p) = Inr (st_amount r)
    \<and> store_numeric (ip_balance_after p) = Inr (st_balance_after r)
    \<and> Some (st_reference r) = ip_reference p \<and> st_reversal_of r = ip_reversal_of p
    \<and> st_created r = env_now v \<and> st_id r = env_uuid v 0
    \<and> st_id r \<notin> st_id ` set (share_transactions s)
    \<and> find (same_reference (ip_account p) (ip_reference p) (ip_type p)) (share_transactions s) = None"
  using assms
  by (cases "ip_reference p")
    (auto simp: q_InsertShareTransaction_def same_reference_def find_None_iff tx_simps Let_def split: if_splits)

lemma q_InsertShareTransaction_NoneE:
  "q_InsertShareTransaction v p s = Inr (None, s') \<Longrightarrow> s' = s"
  by (cases "ip_reference p")
    (auto simp: q_InsertShareTransaction_def tx_simps Let_def split: if_splits)

lemma store_nano_mono:
  assumes "store_numeric (nano_num n) = Inr r" and "k * 100000 \<le> n"
  shows "k \<le> r"
proof -
  have "round_div (k * 100000) 100000 \<le> round_div n 100000"
    using assms(2) by (intro round_div_mono) auto
  then show ?thesis using assms(1) by (simp add: store_nano_Inr)
qed

section \<open>Postings\<close>

text \<open>The effect of a posting on a ledger row's account: withdrawals are recorded with a positive
  amount and subtracted, all other types carry their sign.\<close>

definition signed_amount :: "ShareTransaction \<Rightarrow> int" where
  "signed_amount r = (if st_type r = Withdrawal then - st_amount r else st_amount r)"

lemma post_balance_Inr:
  "post_balance a ty n s = Inr (b, s') \<longleftrightarrow> s' = s
     \<and> b = balance_of a s * 100000 + (if ty = Withdrawal then - n else n)
     \<and> (ty = Withdrawal \<longrightarrow> pledged_of a s * 100000 \<le> b)"
  by (auto simp: post_balance_def tx_simps q_GetWithdrawalPosition_def q_GetLatestBalance_def
      latest_balance_nanos Let_def split: if_splits)

lemma check_replay_Inr:
  "check_replay amt q s = Inr (r, s') \<longleftrightarrow> r = q \<and> s' = s \<and> st_amount q * 100000 = numericToNanos amt"
  by (auto simp: check_replay_def tx_simps)

lemma q_GetTransactionByReference_Inr:
  "q_GetTransactionByReference a ref ty s = Inr (x, s') \<longleftrightarrow>
     s' = s \<and> x = find (same_reference a ref ty) (share_transactions s)"
  by (auto simp: q_GetTransactionByReference_def same_reference_def [abs_def] tx_simps)

lemma post_new_cases:
  assumes "post_new v a ty amt ref orig rsn s = Inr (r, s')"
  obtains
    (replay) "s' = s" "find (same_reference a ref ty) (share_transactions s) = Some r"
      "st_amount r * 100000 = numericToNanos amt"
  | (posted) n where "s' = s\<lparr>share_transactions := share_transactions s @ [r]\<rparr>" "transaction_check r"
      "same_reference a ref ty r" "st_created r = env_now v" "st_reversal_of r = None"
      "store_numeric amt = Inr (st_amount r)" "store_numeric (nano_num n) = Inr (st_balance_after r)"
      "n = balance_of a s * 100000 + (if ty = Withdrawal then - numericToNanos amt else numericToNanos amt)"
      "ty = Withdrawal \<longrightarrow> pledged_of a s * 100000 \<le> n"
      "st_id r \<notin> st_id ` set (share_transactions s)"
      "find (same_reference a ref ty) (share_transactions s) = None"
proof -
  from assms obtain n i s1 where n: "post_balance a ty (numericToNanos amt) s = Inr (n, s)"
    and i: "q_InsertShareTransaction v \<lparr>ip_account = a, ip_type = ty, ip_amount = amt,
        ip_balance_after = nano_num n, ip_reference = ref, ip_reversal_of = None,
        ip_reason = text_of rsn, ip_originator = orig\<rparr> s = Inr (i, s1)"
    and fin: "(case i of Some result \<Rightarrow> ret result
      | None \<Rightarrow> tx_bind (q_GetTransactionByReference a ref ty) (\<lambda>r.
          case r of None \<Rightarrow> throw NoRowsE | Some result \<Rightarrow> check_replay amt result)) s1 = Inr (r, s')"
    by (auto simp: post_new_def tx_simps post_balance_Inr)
  show thesis
  proof (cases i)
    case None
    with i fin q_InsertShareTransaction_NoneE show thesis
      by (auto simp: tx_simps q_GetTransactionByReference_Inr check_replay_Inr
          split: option.splits intro!: replay)
  next
    case (Some q)
    with fin have "q = r" "s1 = s'" by (auto simp: tx_simps)
    with q_InsertShareTransaction_SomeE [OF i [unfolded Some]] n show thesis
      by (intro posted [of n]) (auto simp: post_balance_Inr same_reference_def)
  qed
qed

text \<open>A posting either replays a recorded one or appends one row.\<close>

lemma postTransactionInTx_cases:
  assumes "postTransactionInTx v a ty amt ref orig rsn m b s = Inr (r, s')"
  obtains
    (replay) "s' = s" "find (same_reference a ref ty) (share_transactions s) = Some r"
      "st_amount r * 100000 = numericToNanos amt"
  | (posted) n where "s' = s\<lparr>share_transactions := share_transactions s @ [r]\<rparr>" "transaction_check r"
      "same_reference a ref ty r" "st_created r = env_now v" "st_reversal_of r = None"
      "store_numeric amt = Inr (st_amount r)" "store_numeric (nano_num n) = Inr (st_balance_after r)"
      "n = balance_of a s * 100000 + (if ty = Withdrawal then - numericToNanos amt else numericToNanos amt)"
      "ty = Withdrawal \<longrightarrow> pledged_of a s * 100000 \<le> n"
      "st_id r \<notin> st_id ` set (share_transactions s)"
      "find (same_reference a ref ty) (share_transactions s) = None"
proof (cases "find (same_reference a ref ty) (share_transactions s)")
  case (Some q)
  with assms show thesis
    by (auto simp: postTransactionInTx_def q_LockAndReadAccount_def tx_simps check_replay_Inr
        q_GetTransactionByReference_Inr split: option.splits if_splits intro!: replay)
next
  case None
  with assms have "post_new v a ty amt ref orig rsn s = Inr (r, s')"
    by (auto simp: postTransactionInTx_def q_LockAndReadAccount_def tx_simps
        q_GetTransactionByReference_Inr split: option.splits if_splits)
  then show thesis by (rule post_new_cases) (rule replay posted; assumption)+
qed

section \<open>Active pledges never exceed the balance\<close>

definition backed :: "'s share_db_scheme \<Rightarrow> bool" where
  "backed s \<longleftrightarrow> (\<forall>a. pledged_of a s \<le> balance_of a s)"

definition pledges_ok :: "'s share_db_scheme \<Rightarrow> bool" where
  "pledges_ok s \<longleftrightarrow> distinct (map sp_id (share_pledges s)) \<and> (\<forall>p\<in>set (share_pledges s). pledge_check p)"

definition share_inv :: "'s share_db_scheme \<Rightarrow> bool" where
  "share_inv s \<longleftrightarrow> backed s \<and> pledges_ok s"

lemma pledges_ok_frame [simp]:
  "pledges_ok (s\<lparr>share_transactions := ts\<rparr>) = pledges_ok s"
  "pledges_ok (s\<lparr>share_adjustments := js\<rparr>) = pledges_ok s"
  "pledges_ok (s\<lparr>share_accounts := cs\<rparr>) = pledges_ok s"
  by (simp_all add: pledges_ok_def)

lemma share_inv_frame [simp]:
  "share_inv (s\<lparr>share_adjustments := js\<rparr>) = share_inv s"
  "share_inv (s\<lparr>share_accounts := cs\<rparr>) = share_inv s"
  by (simp_all add: share_inv_def backed_def)

lemma share_inv_append:
  assumes "share_inv s" and "pledged_of (st_account r) s \<le> st_balance_after r"
  shows "share_inv (s\<lparr>share_transactions := share_transactions s @ [r]\<rparr>)"
  using assms by (auto simp: share_inv_def backed_def balance_of_append)

lemma insert_keeps_inv:
  assumes "q_InsertShareTransaction v p s = Inr (x, s1)" and "share_inv s"
    and "ip_balance_after p = nano_num n" and "pledged_of (ip_account p) s * 100000 \<le> n"
  shows "share_inv s1"
proof (cases x)
  case None
  with assms q_InsertShareTransaction_NoneE show ?thesis by blast
next
  case (Some r)
  note ins = q_InsertShareTransaction_SomeE [OF assms(1) [unfolded Some]]
  then have "pledged_of (st_account r) s \<le> st_balance_after r"
    using assms(3,4) store_nano_mono [of n "st_balance_after r"] by simp
  with ins assms(2) show ?thesis by (simp add: share_inv_append)
qed

text \<open>A positive stored amount was positive before rounding, so only a withdrawal can lower the
  balance, and it is checked against the pledges.\<close>

lemma store_pos_nanos: "store_numeric amt = Inr k \<Longrightarrow> 0 < k \<Longrightarrow> 0 \<le> numericToNanos amt"
proof -
  assume st: "store_numeric amt = Inr k" and pos: "0 < k"
  then obtain v where v: "n_int amt = Some v" and k: "k = round4 v (n_exp amt)"
    by (auto simp: store_numeric_def Let_def split: if_splits option.splits)
  have "0 \<le> v"
  proof (rule ccontr)
    assume "\<not> 0 \<le> v"
    then have "k \<le> 0"
      using k round_div_mono [of "10 ^ nat (-4 - n_exp amt)" v 0]
      by (auto simp: round4_def round_div_def mult_nonpos_nonneg split: if_splits)
    with pos show False by simp
  qed
  with v show ?thesis
    by (auto simp: numericToNanos_def Let_def big_quo_nonneg pos_imp_zdiv_nonneg_iff)
qed

lemma keeps_post [keeps_intros]:
  assumes "ty = Purchase \<or> ty = Withdrawal \<or> ty = Dividend"
  shows "keeps share_inv (postTransactionInTx v a ty amt ref orig rsn m b)"
proof (rule keepsI)
  fix s r s'
  assume inv: "share_inv s" and post: "postTransactionInTx v a ty amt ref orig rsn m b s = Inr (r, s')"
  from post show "share_inv s'"
  proof (cases rule: postTransactionInTx_cases)
    case replay
    with inv show ?thesis by simp
  next
    case (posted n)
    have "pledged_of a s * 100000 \<le> n"
    proof (cases "ty = Withdrawal")
      case False
      then have "0 \<le> numericToNanos amt"
        using posted assms by (intro store_pos_nanos [of amt "st_amount r"])
          (auto simp: transaction_check_def same_reference_def)
      moreover have "pledged_of a s \<le> balance_of a s"
        using inv by (simp add: share_inv_def backed_def)
      ultimately show ?thesis using posted False by simp
    qed (use posted in simp)
    then have "pledged_of (st_account r) s \<le> st_balance_after r"
      using posted store_nano_mono by (auto simp: same_reference_def)
    with inv posted show ?thesis by (simp add: share_inv_append)
  qed
qed

lemma keeps_share_inv_queries [keeps_intros]:
  "keeps share_inv (q_CreateShareAccount v mem br)"
  "keeps share_inv (q_InsertAdjustment v a amt ref orig rsn)"
  "keeps share_inv (q_UpdateAdjustmentApproved v i t by rsn audit)"
  "keeps share_inv (q_LockAndReadAccount ai)"
  "keeps share_inv (q_GetAccountByMemberID ai)"
  "keeps share_inv (q_GetAccountByID ai)"
  "keeps share_inv (q_GetAdjustmentByReference a ref)"
  "keeps share_inv (q_LockAdjustmentByID i)"
  by (cases ref; auto simp: keeps_def query_defs tx_simps Let_def split: option.splits if_splits)+

lemma keeps_OpenShareAccount: "keeps share_inv (OpenShareAccount v mem br)"
  unfolding OpenShareAccount_def by (intro keeps_intros)

lemma keeps_CreateAdjustment: "keeps share_inv (CreateAdjustment v a amt ref orig rsn)"
  unfolding CreateAdjustment_def by (intro keeps_intros)

text \<open>The two postings that check the new balance against the pledges before they insert.\<close>

definition adjust_params :: "ShareAdjustment \<Rightarrow> string \<Rightarrow> int \<Rightarrow> InsertShareTransactionParams" where
  "adjust_params j rsn n = \<lparr>ip_account = sj_account j, ip_type = Adjustment,
     ip_amount = db_num (sj_amount j), ip_balance_after = nano_num n,
     ip_reference = Some (sj_reference j), ip_reversal_of = None,
     ip_reason = text_of (if rsn = '''' then sj_reason j else rsn), ip_originator = sj_requested_by j\<rparr>"

definition reversal_nanos :: "ShareTransaction \<Rightarrow> int" where
  "reversal_nanos r = (if st_type r = Withdrawal then st_amount r else - st_amount r) * 100000"

lemma reversal_nanos_eq:
  "(if st_type r \<noteq> Withdrawal then - (st_amount r * 100000) else st_amount r * 100000) = reversal_nanos r"
  by (simp add: reversal_nanos_def)

definition reverse_params ::
    "ShareTransaction \<Rightarrow> pg_uuid \<Rightarrow> pg_uuid \<Rightarrow> string \<Rightarrow> int \<Rightarrow> InsertShareTransactionParams" where
  "reverse_params r ref orig rsn n = \<lparr>ip_account = st_account r, ip_type = Reversal,
     ip_amount = nano_num (reversal_nanos r), ip_balance_after = nano_num n,
     ip_reference = ref, ip_reversal_of = Some (st_id r), ip_reason = text_of rsn, ip_originator = orig\<rparr>"

lemma q_UpdateAdjustmentApproved_Inr:
  "q_UpdateAdjustmentApproved v i t by rsn audit s = Inr (x, s') \<longleftrightarrow>
     (x = None \<and> s' = s \<and> find (\<lambda>j. sj_id j = i) (share_adjustments s) = None)
   \<or> (\<exists>j. find (\<lambda>j. sj_id j = i) (share_adjustments s) = Some j \<and> by \<noteq> None
        \<and> x = Some (approve_adjustment v t by rsn audit j)
        \<and> s' = s\<lparr>share_adjustments := map (\<lambda>q. if sj_id q = i
             then approve_adjustment v t by rsn audit q else q) (share_adjustments s)\<rparr>)"
  by (cases "find (\<lambda>j. sj_id j = i) (share_adjustments s)")
    (auto simp: q_UpdateAdjustmentApproved_def)

lemma approve_post_cases:
  assumes "approve_post v j by rsn audit s = Inr (x, s')"
  obtains n i s1 t js where "n = balance_of (sj_account j) s * 100000 + sj_amount j * 100000"
    "pledged_of (sj_account j) s * 100000 \<le> n"
    "q_InsertShareTransaction v (adjust_params j rsn n) s = Inr (i, s1)"
    "i = None \<and> t \<in> set (share_transactions s1) \<and>
       same_reference (sj_account j) (Some (sj_reference j)) Adjustment t \<or> i = Some t"
    "s' = s1\<lparr>share_adjustments := js\<rparr>"
  using assms
  by (auto simp: approve_post_def adjust_params_def tx_simps q_GetWithdrawalPosition_def Let_def
      q_GetTransactionByReference_Inr q_UpdateAdjustmentApproved_Inr dest!: find_Some_set Some_find_set)

lemma reverse_post_cases:
  assumes "reverse_post v r ref orig rsn s = Inr (x, s')"
  obtains n i where "n = balance_of (st_account r) s * 100000 + reversal_nanos r"
    "pledged_of (st_account r) s * 100000 \<le> n"
    "q_InsertShareTransaction v (reverse_params r ref orig rsn n) s = Inr (i, s')"
    "i = None \<and> x \<in> set (share_transactions s') \<and>
       same_reference (st_account r) ref Reversal x \<or> i = Some x"
  using assms
  by (auto simp: reverse_post_def reverse_params_def reversal_nanos_eq tx_simps q_GetLatestBalance_def
      q_GetActivePledgedAmount_def latest_balance_nanos Let_def q_GetTransactionByReference_Inr
      dest!: find_Some_set Some_find_set)

lemma keeps_approve_post [keeps_intros]: "keeps share_inv (approve_post v j by rsn audit)"
proof (rule keepsI)
  fix s x s'
  assume inv: "share_inv s" and "approve_post v j by rsn audit s = Inr (x, s')"
  then show "share_inv s'"
    by (elim approve_post_cases) (auto simp: adjust_params_def dest: insert_keeps_inv)
qed

lemma keeps_reverse_post [keeps_intros]: "keeps share_inv (reverse_post v r ref orig rsn)"
proof (rule keepsI)
  fix s x s'
  assume inv: "share_inv s" and "reverse_post v r ref orig rsn s = Inr (x, s')"
  then show "share_inv s'"
    by (elim reverse_post_cases) (auto simp: reverse_params_def dest: insert_keeps_inv)
qed

lemma keeps_ApproveShareAdjustment: "keeps share_inv (ApproveShareAdjustment v i by rsn audit)"
  unfolding ApproveShareAdjustment_def by (intro keeps_intros)

lemma keeps_ReverseShareTransaction: "keeps share_inv (ReverseShareTransaction v i ref orig rsn)"
  unfolding ReverseShareTransaction_def q_GetTransactionByID_def q_GetReversalTransactions_def
  by (intro keeps_intros)

end
