(* ===== verification/Share_Ledger.thy ===== *)
theory Share_Ledger
  imports Share_Service
begin

text \<open>
  The balance column of the share ledger. \<open>chain\<close> says that each row's \<open>balance_after\<close> is the
  previous row's plus the signed amount; \<open>ledger_ok\<close> adds that the rows of an account were
  inserted in the order of their timestamps. Under it the balance that the code reads is the sum
  of all postings. The theorems show that postings keep it when the transaction started after
  the account's last posting and the amount has at most four decimals, that retries of a
  reference change nothing, and what happens where one of the two conditions fails.
\<close>

fun chain :: "int \<Rightarrow> ShareTransaction list \<Rightarrow> bool" where
  "chain b [] = True"
| "chain b (r # rs) = (st_balance_after r = b + signed_amount r \<and> chain (st_balance_after r) rs)"

definition ledger_ok :: "uuid \<Rightarrow> 's share_db_scheme \<Rightarrow> bool" where
  "ledger_ok a s \<longleftrightarrow> chain 0 (rows_of a s) \<and> sorted_wrt older (rows_of a s)"

definition ledger_sum :: "uuid \<Rightarrow> 's share_db_scheme \<Rightarrow> int" where
  "ledger_sum a s = sum_list (map signed_amount (rows_of a s))"

text \<open>The transaction started after every posting of the account was made.\<close>

definition clock_ahead :: "env \<Rightarrow> uuid \<Rightarrow> 's share_db_scheme \<Rightarrow> bool" where
  "clock_ahead v a s \<longleftrightarrow> list_all (\<lambda>r. st_created r < env_now v) (rows_of a s)"

text \<open>The amount has at most four decimals: the column stores it exactly.\<close>

definition exact4 :: "numeric \<Rightarrow> bool" where
  "exact4 n \<longleftrightarrow> (case store_numeric n of Inl _ \<Rightarrow> False | Inr k \<Rightarrow> numericToNanos n = k * 100000)"

section \<open>The running sum\<close>

lemma chain_append_one:
  "chain b (rs @ [r]) \<longleftrightarrow> chain b rs \<and> st_balance_after r = b + sum_list (map signed_amount rs) + signed_amount r"
  by (induction rs arbitrary: b) (auto simp: algebra_simps)

lemma latest_by_in: "latest_by lt xs = Some y \<Longrightarrow> y \<in> set xs"
  by (induction xs arbitrary: y) (auto split: option.splits if_splits)

lemma latest_by_sorted: "sorted_wrt older (xs @ [r]) \<Longrightarrow> latest_by older (xs @ [r]) = Some r"
  by (force simp: latest_by_append_older sorted_wrt_append older_def
      split: option.splits dest: latest_by_in)

lemma ledger_balance:
  assumes "ledger_ok a s"
  shows "balance_of a s = ledger_sum a s"
proof (cases "rows_of a s" rule: rev_cases)
  case Nil
  then show ?thesis by (simp add: balance_of_def latest_balance_def ledger_sum_def)
next
  case (snoc xs r)
  with assms have "latest_by older (rows_of a s) = Some r"
    by (simp add: ledger_ok_def latest_by_sorted)
  then show ?thesis
    using assms snoc by (simp add: balance_of_def latest_balance_def ledger_sum_def ledger_ok_def chain_append_one)
qed

lemma ledger_append:
  assumes "ledger_ok a s" and "st_account r = a" and "clock_ahead v a s" and "st_created r = env_now v"
    and "st_balance_after r = balance_of a s + signed_amount r"
  shows "ledger_ok a (s\<lparr>share_transactions := share_transactions s @ [r]\<rparr>)"
proof -
  have "\<forall>x\<in>set (rows_of a s). older x r"
    using assms(3,4) by (auto simp: clock_ahead_def older_def list_all_iff)
  then show ?thesis
    using assms ledger_balance [OF assms(1)]
    by (simp add: ledger_ok_def chain_append_one sorted_wrt_append ledger_sum_def)
qed

lemma ledger_other [simp]:
  "st_account r \<noteq> a \<Longrightarrow>
   ledger_ok a (s\<lparr>share_transactions := share_transactions s @ [r]\<rparr>) = ledger_ok a s"
  by (simp add: ledger_ok_def)

lemma ledger_frame [simp]: "ledger_ok a (s\<lparr>share_adjustments := js\<rparr>) = ledger_ok a s"
  by (simp add: ledger_ok_def rows_of_def)

lemma store_nano_exact:
  "store_numeric (nano_num (k * 100000)) = Inr r \<Longrightarrow> r = k"
  by (simp add: store_nano_Inr)

lemma store_nano_units: "\<bar>k\<bar> < 10 ^ 19 \<Longrightarrow> store_numeric (nano_num (k * 100000)) = Inr k"
  by (simp add: store_nano_Inr)

section \<open>Postings keep the running sum\<close>

lemma ledger_post:
  assumes post: "postTransactionInTx v a ty amt ref orig rsn m b s = Inr (r, s')"
    and ok: "ledger_ok c s" and ahead: "clock_ahead v a s" and ex: "exact4 amt"
  shows "ledger_ok c s'"
  using post
proof (cases rule: postTransactionInTx_cases)
  case replay
  with ok show ?thesis by simp
next
  case (posted n)
  have acc: "st_account r = a" and ty: "st_type r = ty"
    using posted by (simp_all add: same_reference_def)
  have amt: "numericToNanos amt = st_amount r * 100000"
    using ex posted by (simp add: exact4_def)
  have "n = (balance_of a s + signed_amount r) * 100000"
    using posted amt ty by (simp add: signed_amount_def algebra_simps)
  then have bal: "st_balance_after r = balance_of a s + signed_amount r"
    using posted store_nano_exact by simp
  show ?thesis
    using posted acc ok ahead bal ledger_append [of a s r v] by (cases "c = a") simp_all
qed

lemma ledger_insert_exact:
  assumes ins: "q_InsertShareTransaction v p s = Inr (i, s1)"
    and ok: "ledger_ok c s" and ahead: "clock_ahead v (ip_account p) s"
    and ty: "ip_type p \<noteq> Withdrawal" and amt: "store_numeric (ip_amount p) = Inr k"
    and bal: "ip_balance_after p = nano_num ((balance_of (ip_account p) s + k) * 100000)"
  shows "ledger_ok c s1"
proof (cases i)
  case None
  with ins ok q_InsertShareTransaction_NoneE show ?thesis by blast
next
  case (Some r)
  note r = q_InsertShareTransaction_SomeE [OF ins [unfolded Some]]
  then have "st_balance_after r = balance_of (ip_account p) s + signed_amount r"
    using amt bal ty store_nano_exact by (auto simp: signed_amount_def)
  with r ok ahead show ?thesis
    using ledger_append [of "ip_account p" s r v] by (cases "c = ip_account p") simp_all
qed

lemma ledger_approve_post:
  assumes "approve_post v j by rsn audit s = Inr (x, s')"
    and ok: "ledger_ok c s" and ahead: "clock_ahead v (sj_account j) s"
  shows "ledger_ok c s'"
  using assms(1)
proof (rule approve_post_cases)
  fix n i s1 t js
  assume n: "n = balance_of (sj_account j) s * 100000 + sj_amount j * 100000"
    and ins: "q_InsertShareTransaction v (adjust_params j rsn n) s = Inr (i, s1)"
    and s': "s' = s1\<lparr>share_adjustments := js\<rparr>"
  from ins have "\<exists>k. store_numeric (ip_amount (adjust_params j rsn n)) = Inr k"
    by (auto simp: q_InsertShareTransaction_def tx_simps)
  then have "store_numeric (ip_amount (adjust_params j rsn n)) = Inr (sj_amount j)"
    by (auto simp: adjust_params_def store_db_Inr)
  with ins ok ahead have "ledger_ok c s1"
    by (intro ledger_insert_exact [OF ins]) (auto simp: adjust_params_def n algebra_simps)
  with s' show ?thesis by simp
qed

lemma ledger_reverse_post:
  assumes "reverse_post v r ref orig rsn s = Inr (x, s')"
    and ok: "ledger_ok c s" and ahead: "clock_ahead v (st_account r) s"
  shows "ledger_ok c s'"
  using assms(1)
proof (rule reverse_post_cases)
  fix n i
  let ?k = "if st_type r = Withdrawal then st_amount r else - st_amount r"
  assume n: "n = balance_of (st_account r) s * 100000 + reversal_nanos r"
    and ins: "q_InsertShareTransaction v (reverse_params r ref orig rsn n) s = Inr (i, s')"
  from ins have "\<exists>k. store_numeric (ip_amount (reverse_params r ref orig rsn n)) = Inr k"
    by (auto simp: q_InsertShareTransaction_def tx_simps)
  then have "store_numeric (ip_amount (reverse_params r ref orig rsn n)) = Inr ?k"
    by (auto simp: reverse_params_def reversal_nanos_def store_nano_Inr)
  with ins ok ahead show ?thesis
    by (intro ledger_insert_exact [OF ins])
      (auto simp: reverse_params_def n reversal_nanos_def algebra_simps)
qed

section \<open>Properties of postings\<close>

text \<open>C19. The balance column is the running sum of the ledger: where it is before a posting, it is
  after it, provided the transaction started after the account's last posting and the amount has
  at most four decimals. The balance then equals the sum of all postings, and a posting that is
  not a replay changes it by exactly the signed amount, of this account only.\<close>

theorem post_running_sum:
  assumes "postTransactionInTx v a ty amt ref orig rsn m b s = Inr (r, s')"
    and "\<forall>c. ledger_ok c s" and "clock_ahead v a s" and "exact4 amt"
  shows "(\<forall>c. ledger_ok c s' \<and> balance_of c s' = ledger_sum c s')
    \<and> (\<forall>c. c \<noteq> a \<longrightarrow> balance_of c s' = balance_of c s)
    \<and> (if share_transactions s' = share_transactions s then balance_of a s' = balance_of a s
       else balance_of a s' = balance_of a s + signed_amount r \<and> st_amount r * 100000 = numericToNanos amt)"
proof -
  have ok: "ledger_ok c s'" for c using assms ledger_post by blast
  from assms(1) show ?thesis
  proof (cases rule: postTransactionInTx_cases)
    case replay
    with ok ledger_balance show ?thesis by auto
  next
    case (posted n)
    then have "balance_of c s' = (if c = a then balance_of a s + signed_amount r else balance_of c s)" for c
      using ok [of c] assms(2) by (simp add: ledger_balance ledger_sum_def same_reference_def)
    moreover have "st_amount r * 100000 = numericToNanos amt"
      using posted assms(4) by (simp add: exact4_def)
    moreover have "share_transactions s' \<noteq> share_transactions s" using posted by simp
    ultimately show ?thesis using ok ledger_balance [OF ok] by simp
  qed
qed


text \<open>C21. A withdrawal from an active account, with a new reference: it fails with
  \<open>ErrInsufficientBalance\<close> and changes nothing exactly when the balance would fall below the
  active pledges; otherwise it appends the one row with the reduced balance.\<close>

theorem withdraw_outcome:
  assumes acc: "live_account (\<lambda>x. Some (sa_id x) = Some a) s = Some account"
      "sa_status account = AccountActive"
    and fresh: "find (same_reference a (Some ref) Withdrawal) (share_transactions s) = None"
      "env_uuid v 0 \<notin> st_id ` set (share_transactions s)"
    and amt: "store_numeric amt = Inr k" "numericToNanos amt = k * 100000" "0 < k"
    and size: "0 \<le> pledged_of a s" "balance_of a s < 10 ^ 19"
  shows "WithdrawShares v a amt (Some ref) orig rsn s =
    (if balance_of a s - k < pledged_of a s then (Inl (ShareE ErrInsufficientBalance), s)
     else let r = \<lparr>st_id = env_uuid v 0, st_account = a, st_type = Withdrawal, st_amount = k,
                   st_balance_after = balance_of a s - k, st_reference = ref, st_reversal_of = None,
                   st_reason = text_of rsn, st_originator = orig, st_created = env_now v\<rparr>
          in (Inr r, s\<lparr>share_transactions := share_transactions s @ [r]\<rparr>))"
proof -
  let ?b = "balance_of a s - k"
  have post: "WithdrawShares v a amt (Some ref) orig rsn s = execTx (post_new v a Withdrawal amt (Some ref) orig rsn) s"
    using acc fresh(1)
    by (simp add: WithdrawShares_def postTransaction_def postTransactionInTx_def execTx_def
        q_LockAndReadAccount_def q_GetTransactionByReference_def same_reference_def [abs_def] tx_run tx_bind_def)
  show ?thesis
  proof (cases "?b < pledged_of a s")
    case True
    then show ?thesis
      by (simp add: post post_new_def post_balance_def q_GetWithdrawalPosition_def amt(2) execTx_def tx_run tx_bind_def)
  next
    case False
    define n where "n = ?b * 100000"
    have bal: "post_balance a Withdrawal (numericToNanos amt) s = Inr (n, s)"
      using False amt(2) by (simp add: post_balance_Inr n_def algebra_simps)
    have st: "store_numeric (nano_num n) = Inr ?b"
      unfolding n_def by (rule store_nano_units) (use False size amt(3) in simp)
    show ?thesis
      using fresh False amt(3) size(1)
      by (auto simp: post post_new_def bal q_InsertShareTransaction_def amt(1) st tx_run lift_db_def db_check_def
          transaction_check_def execTx_def Let_def same_reference_def find_None_iff tx_bind_def image_iff)
  qed
qed

text \<open>C23. What the ordering by \<open>created_at\<close> costs: the timestamp is the start of the transaction,
  so a posting whose transaction started before the account's latest posting, but got the account
  lock after it, is recorded and reported as posted while the balance that every later operation
  reads does not change.\<close>

theorem late_posting_lost:
  assumes "postTransactionInTx v a ty amt ref orig rsn m b s = Inr (r, s')"
    and "latest_by older (rows_of a s) = Some y" and "env_now v < st_created y"
  shows "balance_of a s' = balance_of a s \<and> r \<in> set (rows_of a s')"
  using assms(1)
proof (cases rule: postTransactionInTx_cases)
  case replay
  then show ?thesis by (auto simp: rows_of_def same_reference_def dest: find_Some_set)
next
  case (posted n)
  with assms(2,3) show ?thesis by (simp add: balance_of_append older_def same_reference_def)
qed

section \<open>Witnesses\<close>

text \<open>A member with one active account, a purchase of 1000.0000, and 300.0000 of it pledged.\<close>

definition sample_member :: member_row where
  "sample_member = \<lparr>mem_id = 7, mem_branch = 1, mem_number = 100, mem_national_id = ''12345678'',
     mem_status = ''active'', mem_deleted = False, mem_created = 1, mem_updated = 1\<rparr>"

definition sample_account :: ShareAccount where
  "sample_account = \<lparr>sa_id = 1, sa_member = 7, sa_branch = 1, sa_status = AccountActive, sa_opened = 2,
     sa_deleted = False, sa_created = 2, sa_updated = 2\<rparr>"

definition sample_purchase :: ShareTransaction where
  "sample_purchase = \<lparr>st_id = 20, st_account = 1, st_type = Purchase, st_amount = 10000000,
     st_balance_after = 10000000, st_reference = 30, st_reversal_of = None, st_reason = None,
     st_originator = None, st_created = 100\<rparr>"

definition sample_pledge :: SharePledge where
  "sample_pledge = \<lparr>sp_id = 40, sp_account = 1, sp_loan = 60, sp_amount = 3000000, sp_type = ApplicantSecurity,
     sp_status = PledgeActive, sp_approved_by = Some 8, sp_approved_at = Some 110, sp_released_at = None,
     sp_created = 105, sp_updated = 110\<rparr>"

definition sample_shares :: share_db where
  "sample_shares = \<lparr>members = [sample_member], member_status_history = [], share_accounts = [sample_account],
     share_transactions = [sample_purchase], share_adjustments = [], share_pledges = [sample_pledge]\<rparr>"

definition sample_env :: "timestamptz \<Rightarrow> uuid \<Rightarrow> env" where
  "sample_env t u = \<lparr>env_now = t, env_uuid = (\<lambda>n. u + n)\<rparr>"

lemmas sample_defs = sample_member_def sample_account_def sample_purchase_def sample_pledge_def
  sample_shares_def sample_env_def

definition sample_withdrawal :: ShareTransaction where
  "sample_withdrawal = \<lparr>st_id = 50, st_account = 1, st_type = Withdrawal, st_amount = 7000000,
     st_balance_after = 3000000, st_reference = 31, st_reversal_of = None, st_reason = None,
     st_originator = None, st_created = 200\<rparr>"

lemma sample_post:
  "postTransactionInTx (sample_env 200 50) 1 Withdrawal (db_num 7000000) (Some 31) None '''' None 0 sample_shares
     = Inr (sample_withdrawal, sample_shares\<lparr>share_transactions := [sample_purchase, sample_withdrawal]\<rparr>)"
  by code_simp

lemma sample_late_post:
  "postTransactionInTx (sample_env 50 50) 1 Withdrawal (db_num 7000000) (Some 31) None '''' None 0 sample_shares
     = Inr (sample_withdrawal\<lparr>st_created := 50\<rparr>,
         sample_shares\<lparr>share_transactions := [sample_purchase, sample_withdrawal\<lparr>st_created := 50\<rparr>]\<rparr>)"
  by code_simp

lemma sample_ledger_ok: "ledger_ok c sample_shares"
  by (simp add: ledger_ok_def rows_of_def sample_defs signed_amount_def)

theorem post_running_sum_witness:
  "balance_of 1 (sample_shares\<lparr>share_transactions := [sample_purchase, sample_withdrawal]\<rparr>)
     = ledger_sum 1 (sample_shares\<lparr>share_transactions := [sample_purchase, sample_withdrawal]\<rparr>)"
proof -
  have "clock_ahead (sample_env 200 50) 1 sample_shares" and "exact4 (db_num 7000000)" by code_simp+
  with post_running_sum [OF sample_post] sample_ledger_ok show ?thesis by blast
qed


theorem withdraw_outcome_witness:
  "WithdrawShares (sample_env 200 50) 1 (db_num 7000001) (Some 31) None '''' sample_shares
     = (Inl (ShareE ErrInsufficientBalance), sample_shares)"
proof -
  have "live_account (\<lambda>x. Some (sa_id x) = Some 1) sample_shares = Some sample_account"
    "sa_status sample_account = AccountActive"
    "find (same_reference 1 (Some 31) Withdrawal) (share_transactions sample_shares) = None"
    "env_uuid (sample_env 200 50) 0 \<notin> st_id ` set (share_transactions sample_shares)"
    "store_numeric (db_num 7000001) = Inr 7000001" "numericToNanos (db_num 7000001) = 7000001 * 100000"
    "0 < (7000001 :: int)" "0 \<le> pledged_of 1 sample_shares" "balance_of 1 sample_shares < 10 ^ 19"
    by code_simp+
  note run = withdraw_outcome [OF this]
  have "balance_of 1 sample_shares - 7000001 < pledged_of 1 sample_shares" by code_simp
  then show ?thesis unfolding run by (simp only: if_True)
qed

theorem late_posting_lost_witness:
  "balance_of 1 (sample_shares\<lparr>share_transactions := [sample_purchase, sample_withdrawal\<lparr>st_created := 50\<rparr>]\<rparr>)
     = balance_of 1 sample_shares"
proof -
  have "latest_by older (rows_of 1 sample_shares) = Some sample_purchase"
    and "env_now (sample_env 50 50) < st_created sample_purchase" by code_simp+
  with late_posting_lost [OF sample_late_post] show ?thesis by blast
qed

end
