(* ===== verification/Share_Security.thy ===== *)
theory Share_Security
  imports Share_Ledger
begin

text \<open>
  Share pledges as loan security, \<open>internal/share/loan_security.go\<close>: what a member can offer,
  proposing and activating pledges, the checks that approval and disbursement repeat, and the
  release of a loan's security. A Go map from guarantors to amounts is an association list in
  the order the application gave the guarantors; its iteration order only decides which of
  several errors is reported.

  The lemmas show that every operation keeps \<open>share_inv\<close> (active pledges are covered by shares)
  and what each check guarantees to the loan package, stated as the locale \<open>loan_security\<close>.
\<close>

section \<open>Operations\<close>

definition loanSecurityBalances ::
    "pg_uuid \<Rightarrow> ('s share_db_scheme, error, ShareAccount \<times> int \<times> int) tx" where
  "loanSecurityBalances memberID = tx_bind (q_LockAccountByMemberID memberID) (\<lambda>a.
     case a of None \<Rightarrow> throw (ShareE ErrAccountNotFound)
     | Some account \<Rightarrow>
       if sa_status account \<noteq> AccountActive then throw (ShareE ErrAccountNotActive)
       else tx_bind (q_GetLatestBalance (sa_id account)) (\<lambda>latest.
         tx_bind (q_GetActivePledgedAmount (sa_id account)) (\<lambda>pledged.
           ret (account, (case latest of None \<Rightarrow> 0 | Some b \<Rightarrow> numericToNanos b), numericToNanos pledged))))"

definition guaranteeAvailable :: "int \<Rightarrow> int \<Rightarrow> int" where
  "guaranteeAvailable balance pledged =
     (let available = balance - pledged;
          available = (if available < 0 then 0 else available)
      in big_quo available 100000 * 100000)"

definition CheckGuarantorSecurity :: "pg_uuid \<Rightarrow> numeric \<Rightarrow> ('s share_db_scheme, error, uuid) tx" where
  "CheckGuarantorSecurity memberID amount = tx_bind (loanSecurityBalances memberID)
     (\<lambda>(account, balance, pledged).
        if numericToNanos amount \<le> 0 \<or> numericToNanos amount > guaranteeAvailable balance pledged
        then throw (ShareE ErrGuaranteeCapacity) else ret (sa_id account))"

text \<open>The map \<open>accounts\<close> built from the rows of \<open>GetSecurityBalances\<close>: the last row of a member wins.\<close>

definition security_row :: "uuid \<Rightarrow> GetSecurityBalancesRow list \<Rightarrow> GetSecurityBalancesRow option" where
  "security_row m rows = find (\<lambda>r. sb_member r = m) (rev rows)"

definition check_proposal ::
    "GetSecurityBalancesRow list \<Rightarrow> (uuid \<times> numeric) list \<Rightarrow> uuid \<Rightarrow> share_error option" where
  "check_proposal rows guarantors i = (case security_row i rows of None \<Rightarrow> Some ErrAccountNotFound
     | Some account \<Rightarrow>
       if sb_status account \<noteq> AccountActive then Some ErrAccountNotActive
       else case map_of guarantors i of None \<Rightarrow> None
         | Some guarantee \<Rightarrow>
           let balance = numericToNanos (sb_balance account); pledged = numericToNanos (sb_pledged account)
           in if numericToNanos guarantee \<le> 0 \<or> numericToNanos guarantee > guaranteeAvailable balance pledged
              then Some ErrGuaranteeCapacity else None)"

fun first_error :: "('a \<Rightarrow> 'e option) \<Rightarrow> 'a list \<Rightarrow> 'e option" where
  "first_error f [] = None"
| "first_error f (x # xs) = (case f x of Some e \<Rightarrow> Some e | None \<Rightarrow> first_error f xs)"

definition ProposeApplicantSecurity ::
    "env \<Rightarrow> uuid \<Rightarrow> uuid \<Rightarrow> numeric \<Rightarrow> numeric \<Rightarrow> (uuid \<times> numeric) list \<Rightarrow> ('s share_db_scheme, error, unit) tx" where
  "ProposeApplicantSecurity v loanID memberID prin amount guarantors =
     (let memberIDs = memberID # map fst guarantors in
      tx_bind (q_LockSecurityAccounts (map Some memberIDs)) (\<lambda>_.
      tx_bind (q_GetSecurityBalances (map Some memberIDs)) (\<lambda>rows.
      case first_error (check_proposal rows guarantors) memberIDs of Some e \<Rightarrow> throw (ShareE e)
      | None \<Rightarrow>
        (case security_row memberID rows of None \<Rightarrow> throw (ShareE ErrAccountNotFound)
         | Some account \<Rightarrow>
           let balance = numericToNanos (sb_balance account); pledged = numericToNanos (sb_pledged account)
           in if balance * 3 < numericToNanos prin then throw (ShareE ErrLoanSecurity)
              else if balance - pledged < numericToNanos amount then throw (ShareE ErrLoanSecurity)
              else if numericToNanos amount = 0 then ret ()
              else tx_bind (q_CreateSharePledge v (sb_id account) loanID amount ApplicantSecurity) (\<lambda>p.
                case p of None \<Rightarrow> throw NoRowsE | Some _ \<Rightarrow> ret ())))))"

definition ApproveGuarantorSecurity ::
    "env \<Rightarrow> uuid \<Rightarrow> pg_uuid \<Rightarrow> pg_uuid \<Rightarrow> numeric \<Rightarrow> ('s share_db_scheme, error, unit) tx" where
  "ApproveGuarantorSecurity v loanID memberID approvedBy amount =
     tx_bind (CheckGuarantorSecurity memberID amount) (\<lambda>accountID.
     tx_bind (q_CreateSharePledge v accountID loanID amount GuarantorSecurity) (\<lambda>p.
     case p of None \<Rightarrow> throw NoRowsE
     | Some pledge \<Rightarrow> tx_bind (q_ActivateSharePledge v (sp_id pledge) approvedBy) (\<lambda>u.
         case u of None \<Rightarrow> throw NoRowsE | Some _ \<Rightarrow> ret ())))"

definition activate_applicant ::
    "env \<Rightarrow> pg_uuid \<Rightarrow> int \<Rightarrow> int \<Rightarrow> SharePledge \<Rightarrow> ('s share_db_scheme, error, SharePledge) tx" where
  "activate_applicant v approvedBy balance pledged pledge =
     (if sp_status pledge = PledgePending \<and> approvedBy \<noteq> None then
        (if balance - pledged < numericToNanos (db_num (sp_amount pledge)) then throw (ShareE ErrLoanSecurity)
         else tx_bind (q_ActivateSharePledge v (sp_id pledge) approvedBy) (\<lambda>u.
           case u of None \<Rightarrow> throw NoRowsE | Some p \<Rightarrow> ret p))
      else ret pledge)"

definition VerifyApplicantSecurity ::
    "env \<Rightarrow> uuid \<Rightarrow> pg_uuid \<Rightarrow> pg_uuid \<Rightarrow> numeric \<Rightarrow> ('s share_db_scheme, error, numeric) tx" where
  "VerifyApplicantSecurity v loanID memberID approvedBy prin =
     tx_bind (q_LockLoanShareAccounts loanID None) (\<lambda>_.
     tx_bind (loanSecurityBalances memberID) (\<lambda>(account, balance, pledged).
     if balance * 3 < numericToNanos prin \<or> pledged > balance then throw (ShareE ErrLoanSecurity)
     else tx_bind (q_GetApplicantSharePledge loanID) (\<lambda>p.
       case p of None \<Rightarrow> ret \<lparr>n_int = Some 0, n_exp = 0, n_valid = True\<rparr>
       | Some pledge \<Rightarrow> tx_bind (activate_applicant v approvedBy balance pledged pledge) (\<lambda>pledge.
           if sp_status pledge \<noteq> PledgeActive then throw (ShareE ErrLoanSecurity)
           else ret (db_num (sp_amount pledge))))))"

definition VerifyGuarantorSecurity ::
    "uuid \<Rightarrow> pg_uuid \<Rightarrow> numeric \<Rightarrow> ('s share_db_scheme, error, unit) tx" where
  "VerifyGuarantorSecurity loanID memberID amount =
     tx_bind (loanSecurityBalances memberID) (\<lambda>(account, balance, pledged).
     tx_bind (q_GetGuarantorSharePledge (sa_id account) loanID) (\<lambda>p.
     case p of None \<Rightarrow> throw (ShareE ErrLoanSecurity)
     | Some pledge \<Rightarrow>
       if sp_status pledge \<noteq> PledgeActive
          \<or> numericToNanos (db_num (sp_amount pledge)) < numericToNanos amount
       then throw (ShareE ErrLoanSecurity)
       else if pledged > balance then throw (ShareE ErrGuaranteeCapacity)
       else ret ()))"

definition check_guarantor ::
    "GetSecurityBalancesRow list \<Rightarrow> (uuid \<times> int \<times> SharePledgeStatus) list \<Rightarrow> uuid \<times> numeric \<Rightarrow> share_error option" where
  "check_guarantor accounts pledges = (\<lambda>(i, amount).
     case security_row i accounts of None \<Rightarrow> Some ErrAccountNotFound
     | Some account \<Rightarrow>
       if sb_status account \<noteq> AccountActive then Some ErrAccountNotActive
       else (case find (\<lambda>p. fst p = i) (rev pledges) of None \<Rightarrow> Some ErrLoanSecurity
         | Some (_, pledgedAmount, st) \<Rightarrow>
           if st \<noteq> PledgeActive \<or> numericToNanos (db_num pledgedAmount) < numericToNanos amount
           then Some ErrLoanSecurity
           else if numericToNanos (sb_pledged account) > numericToNanos (sb_balance account)
           then Some ErrGuaranteeCapacity else None))"

definition VerifyGuarantorSecurities ::
    "uuid \<Rightarrow> (uuid \<times> numeric) list \<Rightarrow> ('s share_db_scheme, error, unit) tx" where
  "VerifyGuarantorSecurities loanID amounts =
     (if amounts = [] then ret ()
      else tx_bind (q_GetSecurityBalances (map (Some \<circ> fst) amounts)) (\<lambda>accounts.
        tx_bind (q_ListGuarantorSharePledges loanID (map (Some \<circ> fst) amounts)) (\<lambda>pledges.
        case first_error (check_guarantor accounts pledges) amounts of Some e \<Rightarrow> throw (ShareE e)
        | None \<Rightarrow> ret ())))"

definition ReleaseLoanSecurity :: "env \<Rightarrow> uuid \<Rightarrow> pg_uuid \<Rightarrow> ('s share_db_scheme, error, unit) tx" where
  "ReleaseLoanSecurity v loanID memberID =
     tx_bind (q_LockLoanShareAccounts loanID memberID) (\<lambda>_. q_ReleaseLoanSharePledges v loanID memberID)"

section \<open>Balances and capacity\<close>

lemma loanSecurityBalances_Inr:
  "loanSecurityBalances m s = Inr ((account, b, p), s') \<longleftrightarrow> s' = s
     \<and> live_account (\<lambda>a. Some (sa_member a) = m) s = Some account \<and> sa_status account = AccountActive
     \<and> b = balance_of (sa_id account) s * 100000 \<and> p = pledged_of (sa_id account) s * 100000"
  by (auto simp: loanSecurityBalances_def tx_simps q_LockAccountByMemberID_def q_GetLatestBalance_def
      q_GetActivePledgedAmount_def latest_balance_nanos)

lemma guaranteeAvailable_eq: "guaranteeAvailable b p = max 0 (b - p) div 100000 * 100000"
  by (simp add: guaranteeAvailable_def Let_def big_quo_nonneg max_def)

lemma guaranteeAvailable_units:
  "guaranteeAvailable (b * 100000) (p * 100000) = max 0 (b - p) * 100000"
proof -
  have "max 0 (b * 100000 - p * 100000) = max 0 (b - p) * 100000" by (simp add: max_def)
  then show ?thesis by (simp add: guaranteeAvailable_eq)
qed

lemma first_error_None: "first_error f xs = None \<longleftrightarrow> (\<forall>x\<in>set xs. f x = None)"
  by (induction xs) (auto split: option.splits)

text \<open>An amount within a bound of whole ledger units is still within it after rounding.\<close>

lemma round_div_le_units:
  assumes "0 < b" and "0 \<le> c" and "2 * c < b" and "v \<le> u * b + c" and "0 \<le> u"
  shows "round_div v b \<le> u"
proof -
  have "round_div v b \<le> round_div (u * b + c) b"
    using assms by (intro round_div_mono) auto
  also have "\<dots> = (2 * (u * b + c) + b) div (2 * b)"
    using assms by (intro round_div_nonneg) auto
  also have "\<dots> = u"
    by (rule int_div_pos_eq [where r = "2 * c + b"]) (use assms in \<open>auto simp: algebra_simps\<close>)
  finally show ?thesis .
qed

lemma store_le_units:
  assumes st: "store_numeric amt = Inr k" and le: "numericToNanos amt \<le> u * 100000" and u: "0 \<le> u"
  shows "k \<le> u"
proof -
  obtain v where v: "n_int amt = Some v" and k: "k = round4 v (n_exp amt)"
    using st by (auto simp: store_numeric_def Let_def split: if_splits option.splits)
  consider (whole) "n_exp amt \<ge> -4" | (nano) "-9 \<le> n_exp amt" "n_exp amt < -4" | (fine) "n_exp amt < -9"
    by linarith
  then show ?thesis
  proof cases
    case whole
    define f where "f = nat (n_exp amt + 4)"
    have "n_exp amt = int f - 4" using whole by (simp add: f_def)
    then have "numericToNanos amt = v * 10 ^ f * 100000" and "k = v * 10 ^ f"
      using v k by (simp_all add: numericToNanos_def round4_def Let_def nat_add_distrib power_add)
    with le show ?thesis by simp
  next
    case nano
    define e where "e = nat (n_exp amt + 9)"
    let ?b = "10 ^ (5 - e) :: int"
    have e: "n_exp amt = int e - 9" "e < 5" using nano by (auto simp: e_def)
    have "?b * 10 ^ e = 10 ^ (5 - e + e)" by (simp only: power_add)
    then have split: "?b * 10 ^ e = (100000 :: int)" using e by simp
    have "numericToNanos amt = v * 10 ^ e"
      using v e by (cases "e = 0") (simp_all add: numericToNanos_def Let_def)
    then have "v * 10 ^ e \<le> (u * ?b) * 10 ^ e"
      using le split by (simp add: mult.assoc)
    then have "v \<le> u * ?b" by simp
    moreover have "k = round_div v ?b" using k e by (simp add: round4_def nat_diff_distrib)
    ultimately show ?thesis using round_div_le_units [of ?b 0 v u] u by simp
  next
    case fine
    define d where "d = nat (-9 - n_exp amt)"
    let ?b = "10 ^ (5 + d) :: int"
    have d: "n_exp amt = - 9 - int d" "0 < d" using fine by (auto simp: d_def)
    have "big_quo v (10 ^ d) \<le> u * 100000"
      using le v d by (simp add: numericToNanos_def Let_def)
    then have "v \<le> u * 100000 * 10 ^ d + 10 ^ d"
    proof (cases "0 \<le> v")
      case True
      then have "v div 10 ^ d \<le> u * 100000" using \<open>big_quo v (10 ^ d) \<le> u * 100000\<close>
        by (simp add: big_quo_nonneg)
      then have "(v div 10 ^ d + 1) * 10 ^ d \<le> (u * 100000 + 1) * 10 ^ d"
        by (intro mult_right_mono) auto
      moreover have "v < (v div 10 ^ d + 1) * 10 ^ d"
      proof -
        have "v mod 10 ^ d < 10 ^ d" by (rule pos_mod_bound) simp
        with div_mult_mod_eq [of v "10 ^ d"] show ?thesis unfolding distrib_right by linarith
      qed
      ultimately have "v < (u * 100000 + 1) * 10 ^ d" by linarith
      then show ?thesis by (simp add: algebra_simps)
    next
      case False
      have "0 \<le> u * 100000 * 10 ^ d + 10 ^ d" using u by simp
      with False show ?thesis by linarith
    qed
    then have "v \<le> u * ?b + 10 ^ d" by (simp add: power_add algebra_simps)
    moreover have "k = round_div v ?b" using k d by (simp add: round4_def nat_add_distrib add.commute)
    ultimately show ?thesis using round_div_le_units [of ?b "10 ^ d" v u] u by (simp add: power_add)
  qed
qed

section \<open>Every operation keeps active pledges covered\<close>

lemma pledge_frame [simp]:
  "pledges_ok (s\<lparr>share_pledges := ps\<rparr>) \<longleftrightarrow> distinct (map sp_id ps) \<and> (\<forall>p\<in>set ps. pledge_check p)"
  "pledged_of a (s\<lparr>share_pledges := ps\<rparr>) = sum_where (active_pledge a) sp_amount ps"
  by (simp_all add: pledges_ok_def pledged_of_def)

lemma q_CreateSharePledge_Some:
  assumes "q_CreateSharePledge v a l amt ty s = Inr (Some p, s')"
  shows "s' = s\<lparr>share_pledges := share_pledges s @ [p]\<rparr> \<and> pledge_check p
    \<and> sp_status p = PledgePending \<and> sp_account p = a \<and> sp_loan p = l \<and> sp_type p = ty
    \<and> sp_id p = env_uuid v 0 \<and> store_numeric amt = Inr (sp_amount p)
    \<and> sp_id p \<notin> sp_id ` set (share_pledges s)"
  using assms by (auto simp: q_CreateSharePledge_def tx_simps Let_def split: if_splits)

lemma q_CreateSharePledge_None: "q_CreateSharePledge v a l amt ty s = Inr (None, s') \<Longrightarrow> s' = s"
  by (auto simp: q_CreateSharePledge_def tx_simps Let_def split: if_splits)

lemma add_pending_inv:
  assumes "share_inv s" and "pledge_check p" and "sp_status p = PledgePending"
    and "sp_id p \<notin> sp_id ` set (share_pledges s)"
  shows "share_inv (s\<lparr>share_pledges := share_pledges s @ [p]\<rparr>)"
  using assms by (auto simp: share_inv_def backed_def pledges_ok_def active_pledge_def pledged_of_def)

lemma keeps_CreateSharePledge [keeps_intros]: "keeps share_inv (q_CreateSharePledge v a l amt ty)"
proof (rule keepsI)
  fix s x s'
  assume "share_inv s" and c: "q_CreateSharePledge v a l amt ty s = Inr (x, s')"
  then show "share_inv s'"
    using q_CreateSharePledge_None [of v a l amt ty s] q_CreateSharePledge_Some [of v a l amt ty s]
    by (cases x) (auto simp: add_pending_inv)
qed

lemma activated_pledges:
  assumes "pledges_ok s" and "p \<in> set (share_pledges s)" and "sp_status p = PledgePending"
    and "pledge_check (activate_pledge v by p)"
  defines "ps \<equiv> map (\<lambda>q. if sp_id q = sp_id p then activate_pledge v by q else q) (share_pledges s)"
  shows "pledges_ok (s\<lparr>share_pledges := ps\<rparr>)"
    and "pledged_of a (s\<lparr>share_pledges := ps\<rparr>) = pledged_of a s + (if sp_account p = a then sp_amount p else 0)"
proof -
  have dist: "distinct (map sp_id (share_pledges s))" using assms(1) by (simp add: pledges_ok_def)
  have ids: "map sp_id ps = map sp_id (share_pledges s)" by (simp add: ps_def activate_pledge_def)
  have one: "q = p" if "q \<in> set (share_pledges s)" "sp_id q = sp_id p" for q
    using dist that assms(2) by (metis distinct_map inj_onD)
  have "\<forall>q\<in>set ps. pledge_check q"
    using assms(1,4) one by (auto simp: ps_def pledges_ok_def)
  with dist ids show "pledges_ok (s\<lparr>share_pledges := ps\<rparr>)" by simp
  show "pledged_of a (s\<lparr>share_pledges := ps\<rparr>) = pledged_of a s + (if sp_account p = a then sp_amount p else 0)"
    unfolding ps_def pledge_frame sum_where_update_one [OF dist assms(2)]
    using assms(3) by (simp add: active_pledge_def activate_pledge_def pledged_of_def)
qed

lemma q_ActivateSharePledge_Some:
  assumes "q_ActivateSharePledge v i by s = Inr (Some q, s')"
  obtains p where "p \<in> set (share_pledges s)" "sp_id p = i" "sp_status p = PledgePending"
    "q = activate_pledge v by p" "pledge_check q"
    "s' = s\<lparr>share_pledges := map (\<lambda>x. if sp_id x = sp_id p then activate_pledge v by x else x) (share_pledges s)\<rparr>"
  using assms by (auto simp: q_ActivateSharePledge_def split: option.splits if_splits dest: find_Some_set)

lemma q_ActivateSharePledge_None: "q_ActivateSharePledge v i by s = Inr (None, s') \<Longrightarrow> s' = s"
  by (auto simp: q_ActivateSharePledge_def split: option.splits if_splits)

text \<open>Activating a pending pledge keeps the invariant when its amount fits in what is left.\<close>

lemma activate_inv:
  assumes inv: "share_inv s" and act: "q_ActivateSharePledge v i by s = Inr (Some q, s')"
    and room: "\<And>p. p \<in> set (share_pledges s) \<Longrightarrow> sp_id p = i
       \<Longrightarrow> pledged_of (sp_account p) s + sp_amount p \<le> balance_of (sp_account p) s"
  shows "share_inv s'"
proof -
  from act obtain p where p: "p \<in> set (share_pledges s)" "sp_id p = i" "sp_status p = PledgePending"
      "pledge_check (activate_pledge v by p)"
    and s': "s' = s\<lparr>share_pledges := map (\<lambda>x. if sp_id x = sp_id p then activate_pledge v by x else x) (share_pledges s)\<rparr>"
    by (elim q_ActivateSharePledge_Some) simp
  have ok: "pledges_ok s" and cov: "\<And>a. pledged_of a s \<le> balance_of a s"
    using inv by (auto simp: share_inv_def backed_def)
  note new = activated_pledges [OF ok p(1,3,4)]
  have "pledged_of a s' \<le> balance_of a s'" for a
    unfolding s' new(2) using cov [of a] room [OF p(1,2)] by auto
  with new(1) s' show ?thesis by (simp add: share_inv_def backed_def del: pledge_frame)
qed

lemma release_pledge_check_status: "sp_status (release_pledge v p) \<noteq> PledgeActive"
  by (simp add: release_pledge_def)

lemma released_pledges:
  assumes "pledges_ok s" and "\<forall>p\<in>set (share_pledges s). Q p \<longrightarrow> pledge_check (release_pledge v p)"
  defines "ps \<equiv> map (\<lambda>p. if Q p then release_pledge v p else p) (share_pledges s)"
  shows "pledges_ok (s\<lparr>share_pledges := ps\<rparr>)" and "pledged_of a (s\<lparr>share_pledges := ps\<rparr>) \<le> pledged_of a s"
proof -
  have ids: "map sp_id ps = map sp_id (share_pledges s)" by (simp add: ps_def release_pledge_def)
  moreover have "\<forall>p\<in>set ps. pledge_check p"
    using assms(1,2) by (auto simp: ps_def pledges_ok_def)
  ultimately show "pledges_ok (s\<lparr>share_pledges := ps\<rparr>)"
    using assms(1) by (simp add: pledges_ok_def)
  have "0 \<le> sp_amount p" if "p \<in> set (share_pledges s)" for p
    using assms(1) that by (auto simp: pledges_ok_def pledge_check_def)
  then show "pledged_of a (s\<lparr>share_pledges := ps\<rparr>) \<le> pledged_of a s"
    unfolding ps_def pledge_frame pledged_of_def [of a s]
    by (intro sum_where_map_le) (auto simp: active_pledge_def release_pledge_check_status)
qed

lemma q_ReleaseLoanSharePledges_Inr:
  "q_ReleaseLoanSharePledges v l m s = Inr (x, s') \<longleftrightarrow>
     (\<forall>p\<in>set (share_pledges s). releasable l m s p \<longrightarrow> pledge_check (release_pledge v p))
   \<and> s' = s\<lparr>share_pledges := map (\<lambda>p. if releasable l m s p then release_pledge v p else p) (share_pledges s)\<rparr>"
  by (auto simp: q_ReleaseLoanSharePledges_def)

lemma keeps_ReleaseLoanSharePledges [keeps_intros]: "keeps share_inv (q_ReleaseLoanSharePledges v l m)"
proof (rule keepsI)
  fix s x s'
  assume inv: "share_inv s" and rel: "q_ReleaseLoanSharePledges v l m s = Inr (x, s')"
  then have ok: "pledges_ok s" and "\<And>a. pledged_of a s \<le> balance_of a s"
    by (auto simp: share_inv_def backed_def)
  with rel released_pledges [OF ok, of "releasable l m s" v] show "share_inv s'"
    by (force simp: q_ReleaseLoanSharePledges_Inr share_inv_def backed_def simp del: pledge_frame intro: order_trans)
qed

lemma keeps_ReleaseLoanSecurity [keeps_intros]: "keeps share_inv (ReleaseLoanSecurity v l m)"
  unfolding ReleaseLoanSecurity_def q_LockLoanShareAccounts_def by (intro keeps_intros)

lemma keeps_ProposeApplicantSecurity [keeps_intros]:
  "keeps share_inv (ProposeApplicantSecurity v l m prin amt gs)"
  unfolding ProposeApplicantSecurity_def q_LockSecurityAccounts_def q_GetSecurityBalances_def
  by (intro keeps_intros)

lemma CheckGuarantorSecurity_Inr:
  "CheckGuarantorSecurity m amt s = Inr (a, s') \<longleftrightarrow> s' = s
     \<and> (\<exists>account. live_account (\<lambda>a. Some (sa_member a) = m) s = Some account
          \<and> sa_status account = AccountActive \<and> a = sa_id account)
     \<and> 0 < numericToNanos amt
     \<and> numericToNanos amt \<le> guaranteeAvailable (balance_of a s * 100000) (pledged_of a s * 100000)"
  by (auto simp: CheckGuarantorSecurity_def tx_simps loanSecurityBalances_Inr)

lemma ApproveGuarantorSecurity_Inr:
  assumes "ApproveGuarantorSecurity v l m by amt s = Inr (x, s')"
  obtains a p s1 q where "CheckGuarantorSecurity m amt s = Inr (a, s)"
    "q_CreateSharePledge v a l amt GuarantorSecurity s = Inr (Some p, s1)"
    "q_ActivateSharePledge v (sp_id p) by s1 = Inr (Some q, s')"
  using assms by (auto simp: ApproveGuarantorSecurity_def tx_simps CheckGuarantorSecurity_Inr)

lemma keeps_ApproveGuarantorSecurity [keeps_intros]:
  "keeps share_inv (ApproveGuarantorSecurity v l m by amt)"
proof (rule keepsI)
  fix s x s'
  assume inv: "share_inv s" and "ApproveGuarantorSecurity v l m by amt s = Inr (x, s')"
  then obtain a p s1 q where chk: "CheckGuarantorSecurity m amt s = Inr (a, s)"
    and new: "q_CreateSharePledge v a l amt GuarantorSecurity s = Inr (Some p, s1)"
    and act: "q_ActivateSharePledge v (sp_id p) by s1 = Inr (Some q, s')"
    by (elim ApproveGuarantorSecurity_Inr)
  note p = q_CreateSharePledge_Some [OF new]
  have le: "numericToNanos amt \<le> max 0 (balance_of a s - pledged_of a s) * 100000"
    using chk by (simp only: CheckGuarantorSecurity_Inr guaranteeAvailable_units)
  have st: "store_numeric amt = Inr (sp_amount p)" using p by blast
  have "sp_amount p \<le> max 0 (balance_of a s - pledged_of a s)"
    by (rule store_le_units [OF st le max.cobounded1])
  moreover have "0 < sp_amount p" using p by (simp add: pledge_check_def)
  ultimately have room: "pledged_of a s + sp_amount p \<le> balance_of a s" by linarith
  have "share_inv s1" using add_pending_inv [OF inv] p by blast
  then show "share_inv s'"
  proof (rule activate_inv [OF _ act])
    fix y
    assume "y \<in> set (share_pledges s1)" and "sp_id y = sp_id p"
    with p have "y = p" by (auto simp: image_iff)
    with p room show "pledged_of (sp_account y) s1 + sp_amount y \<le> balance_of (sp_account y) s1"
      by (simp add: active_pledge_def pledged_of_def)
  qed
qed

text \<open>The applicant's pledge is on the applicant's own account: what \<open>ProposeApplicantSecurity\<close>
  establishes for a new loan.\<close>

definition applicant_account :: "uuid \<Rightarrow> pg_uuid \<Rightarrow> 's share_db_scheme \<Rightarrow> bool" where
  "applicant_account l m s \<longleftrightarrow> (\<forall>p\<in>set (share_pledges s). sp_loan p = l \<and> sp_type p = ApplicantSecurity \<longrightarrow>
     (\<exists>a. live_account (\<lambda>a. Some (sa_member a) = m) s = Some a \<and> sp_account p = sa_id a))"

lemma activate_applicant_Inr:
  assumes "activate_applicant v by b pl p s = Inr (q, s')"
  obtains (same) "q = p" "s' = s"
  | (activated) "sp_status p = PledgePending" "pl + sp_amount p * 100000 \<le> b"
      "q_ActivateSharePledge v (sp_id p) by s = Inr (Some q, s')"
  using assms by (auto simp: activate_applicant_def tx_simps split: if_splits)

lemma VerifyApplicantSecurity_Inr:
  assumes "VerifyApplicantSecurity v l m by prin s = Inr (c, s')"
  obtains a where "live_account (\<lambda>a. Some (sa_member a) = m) s = Some a" "sa_status a = AccountActive"
    "numericToNanos prin \<le> balance_of (sa_id a) s * 100000 * 3"
    "pledged_of (sa_id a) s \<le> balance_of (sa_id a) s"
    "(find (\<lambda>p. sp_loan p = l \<and> sp_type p = ApplicantSecurity) (share_pledges s) = None
        \<and> c = \<lparr>n_int = Some 0, n_exp = 0, n_valid = True\<rparr> \<and> s' = s)
     \<or> (\<exists>p q. find (\<lambda>p. sp_loan p = l \<and> sp_type p = ApplicantSecurity) (share_pledges s) = Some p
        \<and> activate_applicant v by (balance_of (sa_id a) s * 100000) (pledged_of (sa_id a) s * 100000) p s = Inr (q, s')
        \<and> sp_status q = PledgeActive \<and> c = db_num (sp_amount q))"
proof -
  from assms show thesis
    apply (simp only: VerifyApplicantSecurity_def tx_simps q_LockLoanShareAccounts_def q_GetApplicantSharePledge_def)
    apply (elim exE conjE)
    apply (clarsimp simp: tx_simps loanSecurityBalances_Inr)
    apply (rule that)
    apply (auto simp: tx_simps)
    done
qed

lemma VerifyApplicantSecurity_keeps:
  assumes inv: "share_inv s" and own: "applicant_account l m s"
    and ver: "VerifyApplicantSecurity v l m by prin s = Inr (c, s')"
  shows "share_inv s'"
  using ver
proof (rule VerifyApplicantSecurity_Inr)
  fix a
  assume a: "live_account (\<lambda>a. Some (sa_member a) = m) s = Some a"
    and res: "(find (\<lambda>p. sp_loan p = l \<and> sp_type p = ApplicantSecurity) (share_pledges s) = None
        \<and> c = \<lparr>n_int = Some 0, n_exp = 0, n_valid = True\<rparr> \<and> s' = s)
     \<or> (\<exists>p q. find (\<lambda>p. sp_loan p = l \<and> sp_type p = ApplicantSecurity) (share_pledges s) = Some p
        \<and> activate_applicant v by (balance_of (sa_id a) s * 100000) (pledged_of (sa_id a) s * 100000) p s = Inr (q, s')
        \<and> sp_status q = PledgeActive \<and> c = db_num (sp_amount q))"
  show ?thesis
  proof (cases "s' = s")
    case False
    with res obtain p q where p: "p \<in> set (share_pledges s)" "sp_loan p = l" "sp_type p = ApplicantSecurity"
      and act: "activate_applicant v by (balance_of (sa_id a) s * 100000) (pledged_of (sa_id a) s * 100000) p s = Inr (q, s')"
      by (auto dest: find_Some_set)
    have acc: "sp_account p = sa_id a" using own p a by (auto simp: applicant_account_def)
    from act show ?thesis
    proof (cases rule: activate_applicant_Inr)
      case same
      with False show ?thesis by simp
    next
      case activated
      have "y = p" if "y \<in> set (share_pledges s)" "sp_id y = sp_id p" for y
        using inv that p(1) by (auto simp: share_inv_def pledges_ok_def distinct_map dest: inj_onD)
      moreover have "pledged_of (sp_account p) s + sp_amount p \<le> balance_of (sp_account p) s"
        using activated(2) acc by simp
      ultimately show ?thesis by (metis activate_inv [OF inv activated(3)])
    qed
  qed (use inv in simp)
qed

end
