(* ===== verification/Decimal_Text.thy ===== *)
theory Decimal_Text
  imports Numeric
begin

text \<open>
  Decimal texts. The loan package writes the parts of a repayment into a JSON column as decimal
  texts (\<open>decimalStringFromScale\<close>), and its queries read them back with a cast to \<open>numeric\<close>. The
  cast is modelled for texts of an optional sign, digits, and an optional fraction, all that
  \<open>decimalStringFromScale\<close> can write; anything else is \<open>None\<close>, a failing query. The main lemma is
  the round trip.
\<close>

section \<open>Printing\<close>

definition digit_char :: "nat \<Rightarrow> char" where
  "digit_char d = char_of (48 + d)"

text \<open>\<open>big.Int.String\<close> of a number that is not negative.\<close>

fun show_nat :: "nat \<Rightarrow> string" where
  "show_nat n = (if n < 10 then [digit_char n] else show_nat (n div 10) @ [digit_char (n mod 10)])"

declare show_nat.simps [simp del]

definition show_int :: "int \<Rightarrow> string" where
  "show_int i = (if i < 0 then CHR ''-'' # show_nat (nat (- i)) else show_nat (nat i))"

text \<open>The loop \<open>for len(digits) <= places { digits = "0" + digits }\<close>.\<close>

function pad_zeros :: "nat \<Rightarrow> string \<Rightarrow> string" where
  "pad_zeros places digits = (if length digits \<le> places then pad_zeros places (CHR ''0'' # digits) else digits)"
  by auto
termination by (relation "measure (\<lambda>(places, digits). Suc places - length digits)") auto

declare pad_zeros.simps [simp del]

definition trim_right_zeros :: "string \<Rightarrow> string" where
  "trim_right_zeros s = rev (dropWhile (\<lambda>c. c = CHR ''0'') (rev s))"

definition decimalStringFromScale :: "int \<Rightarrow> int \<Rightarrow> string" where
  "decimalStringFromScale n scale =
     (if n = 0 then ''0''
      else if scale \<ge> 0 then show_int (n * pow10 scale)
      else let places = nat (- scale);
               digits = pad_zeros places (show_nat (nat \<bar>n\<bar>));
               whole = take (length digits - places) digits;
               frac = trim_right_zeros (drop (length digits - places) digits)
           in if frac = '''' then (if n < 0 then CHR ''-'' # whole else whole)
              else if n < 0 then CHR ''-'' # whole @ CHR ''.'' # frac
              else whole @ CHR ''.'' # frac)"

definition numericToString :: "numeric \<Rightarrow> string" where
  "numericToString n = (if \<not> n_valid n then '''' else case n_int n of None \<Rightarrow> ''''
     | Some v \<Rightarrow> decimalStringFromScale v (n_exp n))"

section \<open>Reading\<close>

definition is_digit :: "char \<Rightarrow> bool" where
  "is_digit c \<longleftrightarrow> (48 :: nat) \<le> of_char c \<and> of_char c \<le> (57 :: nat)"

definition digits_value :: "string \<Rightarrow> int" where
  "digits_value s = foldl (\<lambda>v c. v * 10 + (int (of_char c) - 48)) 0 s"

text \<open>The value of an unsigned decimal text, as its digits and the number of decimals.\<close>

definition read_unsigned :: "string \<Rightarrow> (int \<times> nat) option" where
  "read_unsigned s = (let w = takeWhile is_digit s in
     if w = [] then None
     else case dropWhile is_digit s of [] \<Rightarrow> Some (digits_value w, 0)
       | c # f \<Rightarrow> if c = CHR ''.'' \<and> list_all is_digit f then Some (digits_value (w @ f), length f) else None)"

definition numeric_in :: "string \<Rightarrow> numeric option" where
  "numeric_in s = (case s of [] \<Rightarrow> None
     | c # t \<Rightarrow> if c = CHR ''-'' then map_option (\<lambda>(v, f). \<lparr>n_int = Some (- v), n_exp = - int f, n_valid = True\<rparr>) (read_unsigned t)
         else map_option (\<lambda>(v, f). \<lparr>n_int = Some v, n_exp = - int f, n_valid = True\<rparr>) (read_unsigned s))"

text \<open>The value in ten-thousandths of a text with at most four decimals.\<close>

definition text_units :: "string \<Rightarrow> int option" where
  "text_units s = (case numeric_in s of None \<Rightarrow> None
     | Some n \<Rightarrow> if n_exp n \<ge> -4 then map_option (\<lambda>v. v * 10 ^ nat (n_exp n + 4)) (n_int n) else None)"

section \<open>Round trip\<close>

lemma digits_value_snoc [simp]: "digits_value (s @ [c]) = digits_value s * 10 + (int (of_char c) - 48)"
  by (simp add: digits_value_def)

lemma digits_value_Nil [simp]: "digits_value [] = 0"
  by (simp add: digits_value_def)

lemma digits_value_append: "digits_value (s @ t) = digits_value s * 10 ^ length t + digits_value t"
proof (induction t rule: rev_induct)
  case (snoc c t)
  have "digits_value (s @ t @ [c]) = digits_value (s @ t) * 10 + (int (of_char c) - 48)"
    using digits_value_snoc [of "s @ t" c] by simp
  with snoc show ?case by (simp add: algebra_simps)
qed simp

lemma of_digit_char: "d < 10 \<Longrightarrow> of_char (digit_char d) = 48 + d"
  by (simp add: digit_char_def of_char_of)

lemma show_nat_digits: "show_nat n \<noteq> [] \<and> list_all is_digit (show_nat n) \<and> digits_value (show_nat n) = int n"
proof (induction n rule: show_nat.induct)
  case (1 n)
  show ?case
  proof (cases "n < 10")
    case True
    then show ?thesis
      by (simp add: show_nat.simps [of n] is_digit_def digits_value_def of_digit_char)
  next
    case False
    have "int n = int (n div 10) * 10 + int (n mod 10)" by (simp add: of_nat_mod of_nat_div)
    with False 1 show ?thesis
      by (simp add: show_nat.simps [of n] is_digit_def of_digit_char)
  qed
qed

lemma is_digit_0 [simp]: "is_digit (CHR ''0'')" "\<not> is_digit (CHR ''.'')" "\<not> is_digit (CHR ''-'')"
  by (simp_all add: is_digit_def)

lemma digits_value_0 [simp]: "digits_value (CHR ''0'' # s) = digits_value s"
  by (simp add: digits_value_def)

lemma pad_zeros_digits:
  "list_all is_digit s \<Longrightarrow> list_all is_digit (pad_zeros p s) \<and> p < length (pad_zeros p s)
     \<and> digits_value (pad_zeros p s) = digits_value s"
proof (induction p s rule: pad_zeros.induct)
  case (1 p s)
  then show ?case by (cases "length s \<le> p") (simp_all add: pad_zeros.simps [of p s])
qed

lemma trim_right_zeros_split:
  obtains k where "s = trim_right_zeros s @ replicate k (CHR ''0'')"
proof -
  let ?z = "takeWhile (\<lambda>c. c = CHR ''0'') (rev s)"
  have "?z = replicate (length ?z) (CHR ''0'')"
    by (rule replicate_eqI [THEN sym, THEN sym]) (auto dest: set_takeWhileD)
  moreover have "rev s = ?z @ dropWhile (\<lambda>c. c = CHR ''0'') (rev s)" by simp
  then have "s = trim_right_zeros s @ rev ?z"
    by (metis rev_append rev_rev_ident trim_right_zeros_def)
  ultimately have "s = trim_right_zeros s @ replicate (length ?z) (CHR ''0'')"
    by (metis rev_replicate)
  then show thesis by (rule that)
qed

lemma digits_value_zeros [simp]: "digits_value (replicate k (CHR ''0'')) = 0"
  by (induction k) simp_all

lemma read_whole: "list_all is_digit w \<Longrightarrow> w \<noteq> [] \<Longrightarrow> read_unsigned w = Some (digits_value w, 0)"
  by (simp add: read_unsigned_def list_all_iff takeWhile_eq_all_conv [THEN iffD2] dropWhile_eq_Nil_conv [THEN iffD2])

lemma read_fraction:
  assumes "list_all is_digit w" and "w \<noteq> []" and "list_all is_digit f"
  shows "read_unsigned (w @ CHR ''.'' # f) = Some (digits_value (w @ f), length f)"
proof -
  have "takeWhile is_digit (w @ CHR ''.'' # f) = w" "dropWhile is_digit (w @ CHR ''.'' # f) = CHR ''.'' # f"
    using assms(1) by (induction w) auto
  with assms show ?thesis by (simp add: read_unsigned_def Let_def)
qed

text \<open>The text that is printed for the digits of a number, without its sign.\<close>

definition unsigned_text :: "nat \<Rightarrow> string \<Rightarrow> string" where
  "unsigned_text places digits =
     (let whole = take (length digits - places) digits;
          frac = trim_right_zeros (drop (length digits - places) digits)
      in if frac = '''' then whole else whole @ CHR ''.'' # frac)"

lemma read_unsigned_text:
  assumes dig: "list_all is_digit ds" and len: "p < length ds"
  obtains v f where "read_unsigned (unsigned_text p ds) = Some (v, f)" "f \<le> p" "v * 10 ^ (p - f) = digits_value ds"
    "unsigned_text p ds \<noteq> []" "is_digit (hd (unsigned_text p ds))"
proof -
  define w r where "w = take (length ds - p) ds" and "r = drop (length ds - p) ds"
  obtain k where k: "r = trim_right_zeros r @ replicate k (CHR ''0'')" by (rule trim_right_zeros_split)
  define f where "f = trim_right_zeros r"
  have ds: "ds = w @ r" by (simp add: w_def r_def)
  have r: "r = f @ replicate k (CHR ''0'')" using k by (simp add: f_def)
  have lens: "length w = length ds - p" "length r = p" using len by (simp_all add: w_def r_def)
  then have w: "w \<noteq> []" "list_all is_digit w" "list_all is_digit f" using len dig ds r by auto
  have fk: "length f + k = p" using lens(2) unfolding r by simp
  have hd: "is_digit (hd w)" using w by (cases w) auto
  have val: "digits_value (w @ f) * 10 ^ k = digits_value ds"
    unfolding ds r by (simp add: digits_value_append power_add algebra_simps)
  have out: "unsigned_text p ds = (if f = [] then w else w @ CHR ''.'' # f)"
    by (simp add: unsigned_text_def Let_def w_def r_def f_def)
  have "read_unsigned (unsigned_text p ds) = Some (digits_value (w @ f), length f)"
    unfolding out using w by (simp add: read_whole read_fraction)
  moreover have "length f \<le> p" "p - length f = k" using fk by auto
  ultimately show thesis using val hd w(1) out by (intro that) auto
qed

lemma decimalStringFromScale_text:
  assumes "n \<noteq> 0" and "scale < 0"
  shows "decimalStringFromScale n scale = (if n < 0 then [CHR ''-''] else [])
     @ unsigned_text (nat (- scale)) (pad_zeros (nat (- scale)) (show_nat (nat \<bar>n\<bar>)))"
  using assms by (simp add: decimalStringFromScale_def unsigned_text_def Let_def)

lemma numeric_in_signed:
  assumes "read_unsigned t = Some (v, f)" and "t \<noteq> []" and "is_digit (hd t)"
  shows "numeric_in ((if b then [CHR ''-''] else []) @ t)
    = Some \<lparr>n_int = Some (if b then - v else v), n_exp = - int f, n_valid = True\<rparr>"
proof -
  obtain c u where "t = c # u" "is_digit c" using assms(2,3) by (cases t) auto
  moreover then have "c \<noteq> CHR ''-''" using is_digit_0(3) by metis
  ultimately show ?thesis using assms(1) by (auto simp: numeric_in_def)
qed

text \<open>What is printed for \<open>n\<close> at a scale reads back as a number of the same value with at most as
  many decimals.\<close>

lemma numeric_in_decimal:
  assumes "scale \<le> 0"
  obtains v f where "numeric_in (decimalStringFromScale n scale) = Some \<lparr>n_int = Some v, n_exp = - int f, n_valid = True\<rparr>"
    "int f \<le> - scale" "v * 10 ^ (nat (- scale) - f) = n"
proof (cases "n = 0 \<or> scale = 0")
  case True
  have zero: "show_nat 0 = ''0''" by code_simp
  have "decimalStringFromScale n scale = (if n < 0 then [CHR ''-''] else []) @ show_nat (nat \<bar>n\<bar>)"
    using True zero by (auto simp: decimalStringFromScale_def show_int_def)
  moreover have "is_digit (hd (show_nat (nat \<bar>n\<bar>)))"
    using show_nat_digits [of "nat \<bar>n\<bar>"] by (cases "show_nat (nat \<bar>n\<bar>)") auto
  ultimately have "numeric_in (decimalStringFromScale n scale)
      = Some \<lparr>n_int = Some n, n_exp = - int 0, n_valid = True\<rparr>"
    using numeric_in_signed [of "show_nat (nat \<bar>n\<bar>)" "\<bar>n\<bar>" 0 "n < 0"] show_nat_digits [of "nat \<bar>n\<bar>"]
    by (simp add: read_whole)
  then show thesis by (rule that) (use True assms in auto)
next
  case False
  define p where "p = nat (- scale)"
  define ds where "ds = pad_zeros p (show_nat (nat \<bar>n\<bar>))"
  have ds: "list_all is_digit ds" "p < length ds" "digits_value ds = \<bar>n\<bar>"
    using pad_zeros_digits [of "show_nat (nat \<bar>n\<bar>)" p] show_nat_digits [of "nat \<bar>n\<bar>"]
    by (simp_all add: ds_def)
  obtain v f where rd: "read_unsigned (unsigned_text p ds) = Some (v, f)" "f \<le> p" "v * 10 ^ (p - f) = \<bar>n\<bar>"
    and hd: "unsigned_text p ds \<noteq> []" "is_digit (hd (unsigned_text p ds))"
    using ds(1,2) unfolding ds(3) [symmetric] by (rule read_unsigned_text)
  have "decimalStringFromScale n scale = (if n < 0 then [CHR ''-''] else []) @ unsigned_text p ds"
    using False assms by (simp add: decimalStringFromScale_text ds_def p_def)
  then have "numeric_in (decimalStringFromScale n scale)
      = Some \<lparr>n_int = Some (if n < 0 then - v else v), n_exp = - int f, n_valid = True\<rparr>"
    using numeric_in_signed [OF rd(1) hd] by simp
  then show thesis
    by (rule that) (use rd(2,3) assms in \<open>auto simp: p_def\<close>)
qed

lemma text_units_decimal [simp]: "text_units (decimalStringFromScale n (-4)) = Some n"
proof -
  obtain v f where vf: "numeric_in (decimalStringFromScale n (-4)) = Some \<lparr>n_int = Some v, n_exp = - int f, n_valid = True\<rparr>"
    "int f \<le> - (-4)" "v * 10 ^ (nat (- (-4)) - f) = n"
    by (rule numeric_in_decimal [of "-4" n]) simp
  moreover have "nat (4 - int f) = 4 - f" by simp
  ultimately show ?thesis by (simp add: text_units_def)
qed

text \<open>C30. The text of a number with any decimals reads back as a number of the same value:
  \<open>numericToString\<close> loses nothing, whatever the sign and the number of decimals.\<close>

theorem decimal_text_round_trip:
  assumes "n_valid m" and "n_int m = Some v" and "n_exp m \<le> 0"
  shows "\<exists>v' e. numeric_in (numericToString m) = Some \<lparr>n_int = Some v', n_exp = e, n_valid = True\<rparr>
    \<and> n_exp m \<le> e \<and> e \<le> 0 \<and> v = v' * 10 ^ nat (e - n_exp m)"
proof -
  obtain v' f where vf: "numeric_in (decimalStringFromScale v (n_exp m)) = Some \<lparr>n_int = Some v', n_exp = - int f, n_valid = True\<rparr>"
    "int f \<le> - n_exp m" "v' * 10 ^ (nat (- n_exp m) - f) = v"
    using assms(3) by (rule numeric_in_decimal)
  moreover have "nat (- n_exp m) - f = nat (- int f - n_exp m)" using vf(2) by simp
  ultimately show ?thesis using assms(1,2)
    by (intro exI [of _ v'] exI [of _ "- int f"]) (simp add: numericToString_def)
qed

theorem decimal_text_round_trip_witness:
  "\<exists>v' e. numeric_in (numericToString (db_num (- 12500))) = Some \<lparr>n_int = Some v', n_exp = e, n_valid = True\<rparr>
    \<and> -4 \<le> e \<and> e \<le> 0 \<and> - 12500 = v' * 10 ^ nat (e + 4)"
  using decimal_text_round_trip [of "db_num (- 12500)" "- 12500"] by (simp add: db_num_def)

end
