(* ===== verification/Calendar.thy ===== *)
theory Calendar
  imports Prelude
begin

text \<open>
  The calendar arithmetic of Go's \<open>time\<close> package and of PostgreSQL dates, as far as the loan
  package uses it: the Gregorian calendar, \<open>time.Date\<close> with its normalisation of months and days
  out of range, \<open>AddDate(0, n, 0)\<close>, first and last day of a month. A \<open>date\<close> is its number of days
  since 1970-01-01. Years are counted from March, so that the leap day ends a year; 719468 days
  lie between 0000-03-01 and 1970-01-01 and 146097 days make 400 years.
\<close>

type_synonym date = int

definition year_start :: "int \<Rightarrow> int" where
  "year_start y = 365 * y + y div 4 - y div 100 + y div 400"

lemma year_start_step: "year_start y + 364 \<le> year_start (y + 1)"
proof -
  have "y div 4 \<le> (y + 1) div 4" "y div 400 \<le> (y + 1) div 400" by (simp_all add: zdiv_mono1)
  moreover have "(y + 1) div 100 \<le> y div 100 + 1" by linarith
  ultimately show ?thesis by (simp add: year_start_def)
qed

lemma year_start_step365: "year_start y + 365 \<le> year_start (y + 1)"
proof -
  define a b where "a = y div 4" and "b = (y + 1) div 4"
  have q: "y div 100 = a div 25" "(y + 1) div 100 = b div 25"
    using zdiv_zmult2_eq [of 25 y 4] zdiv_zmult2_eq [of 25 "y + 1" 4] by (simp_all add: a_def b_def)
  have "b \<le> a + 1" "a \<le> b" unfolding a_def b_def by linarith+
  then have ab: "b = a \<or> b = a + 1" by auto
  have "(a + 1) div 25 \<le> a div 25 + 1" by linarith
  with ab have "b div 25 - a div 25 \<le> b - a" by auto
  moreover have "y div 400 \<le> (y + 1) div 400" by (simp add: zdiv_mono1)
  ultimately show ?thesis
    unfolding year_start_def q a_def [symmetric] b_def [symmetric] by (simp add: algebra_simps)
qed

lemma year_length: "year_start (y + 1) \<le> year_start y + 366"
proof -
  define a b where "a = y div 100" and "b = (y + 1) div 100"
  have q: "y div 400 = a div 4" "(y + 1) div 400 = b div 4"
    using zdiv_zmult2_eq [of 4 y 100] zdiv_zmult2_eq [of 4 "y + 1" 100] by (simp_all add: a_def b_def)
  have "b \<le> a + 1" "a \<le> b" unfolding a_def b_def by linarith+
  then have ab: "b = a \<or> b = a + 1" by auto
  have "(a + 1) div 4 \<le> a div 4 + 1" by linarith
  with ab have "b div 4 - a div 4 \<le> b - a" by auto
  moreover have "(y + 1) div 4 \<le> y div 4 + 1" by linarith
  ultimately show ?thesis
    unfolding year_start_def q a_def [symmetric] b_def [symmetric] by (simp add: algebra_simps)
qed

function year_loop :: "int \<Rightarrow> int \<Rightarrow> int" where
  "year_loop doe y = (if year_start (y + 1) \<le> doe then year_loop doe (y + 1) else y)"
  by auto
termination
proof (relation "measure (\<lambda>(doe, y). nat (doe - year_start y))")
  fix doe y
  assume "year_start (y + 1) \<le> doe"
  with year_start_step [of y] show "((doe, y + 1), doe, y) \<in> measure (\<lambda>(doe, y). nat (doe - year_start y))"
    by simp
qed simp

declare year_loop.simps [simp del]

text \<open>Days before month \<open>mp\<close> of a year that starts in March.\<close>

definition month_days :: "int \<Rightarrow> int" where
  "month_days mp = (153 * mp + 2) div 5"

definition days_of_civil :: "int \<Rightarrow> int \<Rightarrow> int \<Rightarrow> date" where
  "days_of_civil y m d =
     (let y' = (if m \<le> 2 then y - 1 else y); mp = (if m \<le> 2 then m + 9 else m - 3)
      in year_start y' + month_days mp + d - 1 - 719468)"

definition civil_of_days :: "date \<Rightarrow> int \<times> int \<times> int" where
  "civil_of_days n =
     (let z = n + 719468; era = z div 146097; doe = z mod 146097;
          yoe = year_loop doe (doe div 366); doy = doe - year_start yoe;
          mp = (5 * doy + 2) div 153; d = doy - month_days mp + 1;
          m = (if mp < 10 then mp + 3 else mp - 9)
      in (yoe + era * 400 + (if m \<le> 2 then 1 else 0), m, d))"

text \<open>\<open>time.Date(year, month, day, \<dots>)\<close>: months outside 1 to 12 carry into the year, days are counted
  on from the first of the month.\<close>

definition go_date :: "int \<Rightarrow> int \<Rightarrow> int \<Rightarrow> date" where
  "go_date y m d = days_of_civil (y + (m - 1) div 12) ((m - 1) mod 12 + 1) 1 + d - 1"

definition AddDate_months :: "date \<Rightarrow> int \<Rightarrow> date" where
  "AddDate_months t n = (case civil_of_days t of (y, m, d) \<Rightarrow> go_date y (m + n) d)"

definition month_start :: "date \<Rightarrow> date" where
  "month_start t = (case civil_of_days t of (y, m, d) \<Rightarrow> go_date y m 1)"

definition month_end :: "date \<Rightarrow> date" where
  "month_end t = (case civil_of_days t of (y, m, d) \<Rightarrow> go_date y (m + 1) 0)"

text \<open>The date of an instant in a zone with a fixed offset, in microseconds; East Africa Time.\<close>

definition zone_date :: "int \<Rightarrow> timestamptz \<Rightarrow> date" where
  "zone_date offset t = (t + offset) div 86400000000"

definition eat_date :: "timestamptz \<Rightarrow> date" where
  "eat_date = zone_date 10800000000"

text \<open>The month of a date, counted from year 0.\<close>

definition month_index :: "date \<Rightarrow> int" where
  "month_index t = (case civil_of_days t of (y, m, d) \<Rightarrow> 12 * y + m - 1)"

section \<open>The calendar is a bijection\<close>

lemma year_loop_bounds:
  "year_start y \<le> doe \<Longrightarrow> year_start (year_loop doe y) \<le> doe \<and> doe < year_start (year_loop doe y + 1)"
proof (induction doe y rule: year_loop.induct)
  case (1 doe y)
  then show ?case by (cases "year_start (y + 1) \<le> doe") (simp_all add: year_loop.simps [of doe y])
qed

lemma year_start_mono: "x \<le> y \<Longrightarrow> year_start x \<le> year_start y"
proof (induction "nat (y - x)" arbitrary: y)
  case (Suc n)
  then have "year_start x \<le> year_start (y - 1)" by simp
  with year_start_step [of "y - 1"] show ?case by simp
qed simp

lemma year_loop_ge: "y \<le> year_loop doe y"
proof (induction doe y rule: year_loop.induct)
  case (1 doe y)
  then show ?case by (cases "year_start (y + 1) \<le> doe") (simp_all add: year_loop.simps [of doe y])
qed

text \<open>The year found for a day of the 400-year cycle.\<close>

lemma year_found:
  assumes "0 \<le> doe" and "doe < 146097"
  defines "y \<equiv> year_loop doe (doe div 366)"
  shows "0 \<le> y" "y < 400" "year_start y \<le> doe" "doe < year_start (y + 1)"
proof -
  have "year_start (doe div 366) \<le> 366 * (doe div 366)"
  proof -
    have "0 \<le> doe div 366" using assms(1) by (simp add: pos_imp_zdiv_nonneg_iff)
    then have "doe div 366 div 4 \<le> doe div 366" by linarith
    moreover have "doe div 366 div 400 \<le> doe div 366 div 100"
      by (intro zdiv_mono2) (use assms(1) in \<open>auto simp: pos_imp_zdiv_nonneg_iff\<close>)
    ultimately show ?thesis unfolding year_start_def by linarith
  qed
  also have "\<dots> \<le> doe" using assms(1) by linarith
  finally have start: "year_start (doe div 366) \<le> doe" .
  from year_loop_bounds [OF this] show lo: "year_start y \<le> doe" and "doe < year_start (y + 1)"
    by (simp_all add: y_def)
  have "0 \<le> doe div 366" using assms(1) by (simp add: pos_imp_zdiv_nonneg_iff)
  with year_loop_ge [of "doe div 366" doe] show "0 \<le> y" by (simp add: y_def)
  show "y < 400"
  proof (rule ccontr)
    assume "\<not> y < 400"
    then have "year_start 400 \<le> year_start y" by (intro year_start_mono) simp
    with lo assms(2) show False by (simp add: year_start_def)
  qed
qed

lemma year_start_era: "year_start (y + e * 400) = year_start y + e * 146097"
proof -
  have "(y + e * 400) div 4 = y div 4 + e * 100" "(y + e * 400) div 100 = y div 100 + e * 4"
    "(y + e * 400) div 400 = y div 400 + e"
    by linarith+
  then show ?thesis by (simp add: year_start_def)
qed

lemma split12: "0 \<le> r \<Longrightarrow> r < 12 \<Longrightarrow> (12 * q + r) div 12 = q \<and> (12 * q + r) mod 12 = (r :: int)"
  by simp

text \<open>The first day of month \<open>k\<close>, counted from year 0.\<close>

definition first_of :: "int \<Rightarrow> date" where
  "first_of k = year_start ((k - 2) div 12) + month_days ((k - 2) mod 12) - 719468"

lemma days_of_civil_first:
  assumes "1 \<le> m" and "m \<le> 12"
  shows "days_of_civil y m d = first_of (12 * y + m - 1) + d - 1"
proof -
  define y' mp where "y' = (if m \<le> 2 then y - 1 else y)" and "mp = (if m \<le> 2 then m + 9 else m - 3)"
  have k: "12 * y + m - 1 - 2 = 12 * y' + mp" by (simp add: y'_def mp_def)
  have "0 \<le> mp" "mp < 12" using assms by (simp_all add: mp_def)
  from split12 [OF this, of y'] show ?thesis
    unfolding first_of_def k by (simp add: days_of_civil_def Let_def y'_def mp_def)
qed

lemma go_date_first: "go_date y m d = first_of (12 * y + m - 1) + d - 1"
proof -
  define q r where "q = (m - 1) div 12" and "r = (m - 1) mod 12"
  have "12 * q + r = m - 1" by (simp add: q_def r_def)
  then have k: "12 * (y + q) + (r + 1) - 1 = 12 * y + m - 1" by simp
  have "0 \<le> r" "r < 12" by (simp_all add: r_def)
  then show ?thesis
    unfolding go_date_def q_def [symmetric] r_def [symmetric] by (subst days_of_civil_first) (auto simp only: k)
qed

lemma next_month:
  fixes j :: int
  shows "j mod 12 = 11 \<Longrightarrow> (j + 1) div 12 = j div 12 + 1 \<and> (j + 1) mod 12 = 0"
    and "j mod 12 \<noteq> 11 \<Longrightarrow> (j + 1) div 12 = j div 12 \<and> (j + 1) mod 12 = j mod 12 + 1"
proof -
  define q r where "q = j div 12" and "r = j mod 12"
  have j: "j = 12 * q + r" and r: "0 \<le> r" "r < 12" by (simp_all add: q_def r_def)
  show "j mod 12 = 11 \<Longrightarrow> (j + 1) div 12 = j div 12 + 1 \<and> (j + 1) mod 12 = 0"
    using split12 [of 0 "q + 1"] split12 [of r q] r unfolding j by (simp add: algebra_simps)
  show "j mod 12 \<noteq> 11 \<Longrightarrow> (j + 1) div 12 = j div 12 \<and> (j + 1) mod 12 = j mod 12 + 1"
    using split12 [of "r + 1" q] split12 [of r q] r unfolding j by (simp add: algebra_simps)
qed

lemma first_of_next:
  "first_of (k + 1) = (if (k - 2) mod 12 = 11 then year_start ((k - 2) div 12 + 1) - 719468
     else year_start ((k - 2) div 12) + month_days ((k - 2) mod 12 + 1) - 719468)"
proof -
  have k: "k + 1 - 2 = (k - 2) + 1" by simp
  show ?thesis
    using next_month [of "k - 2"] unfolding first_of_def k by (simp add: month_days_def)
qed

lemma month_days_step: "month_days j < month_days (j + 1)"
proof -
  have "(153 * j + 2 + 5) div 5 \<le> (153 * (j + 1) + 2) div 5" by (rule zdiv_mono1) auto
  then show ?thesis unfolding month_days_def by simp
qed

lemma first_of_step: "first_of k < first_of (k + 1)"
proof (cases "(k - 2) mod 12 = 11")
  case True
  with year_start_step [of "(k - 2) div 12"] show ?thesis
    by (simp add: first_of_next) (simp add: first_of_def month_days_def)
next
  case False
  with month_days_step [of "(k - 2) mod 12"] show ?thesis
    by (simp add: first_of_next) (simp add: first_of_def)
qed

lemma first_of_less: "j < k \<Longrightarrow> first_of j < first_of k"
proof (induction "nat (k - j)" arbitrary: k)
  case (Suc n)
  then show ?case
  proof (cases "j = k - 1")
    case False
    with Suc have "first_of j < first_of (k - 1)" by simp
    with first_of_step [of "k - 1"] show ?thesis by simp
  qed (use first_of_step [of j] in simp)
qed simp

lemma first_of_mono: "j \<le> k \<Longrightarrow> first_of j \<le> first_of k"
  using first_of_less [of j k] by (cases "j = k") auto

text \<open>A date lies in the month that \<open>civil_of_days\<close> says, and its day counts from the first.\<close>

lemma civil_of_days_spec:
  assumes "civil_of_days t = (y, m, d)"
  shows "1 \<le> m" "m \<le> 12" "t = first_of (12 * y + m - 1) + d - 1"
    "first_of (12 * y + m - 1) \<le> t" "t < first_of (12 * y + m)"
proof -
  define z where "z = t + 719468"
  define doe where "doe = z mod 146097"
  define e where "e = z div 146097"
  define Y where "Y = year_loop doe (doe div 366)"
  define doy where "doy = doe - year_start Y"
  define mp where "mp = (5 * doy + 2) div 153"
  have doe: "0 \<le> doe" "doe < 146097" by (simp_all add: doe_def)
  note Y = year_found [OF doe, folded Y_def]
  have z: "z = doe + e * 146097" using div_mult_mod_eq [of z 146097] by (simp add: doe_def e_def)
  define M where "M = (if mp < 10 then mp + 3 else mp - 9)"
  have "civil_of_days t = (Y + e * 400 + (if M \<le> 2 then 1 else 0), M, doy - month_days mp + 1)"
    unfolding civil_of_days_def Let_def M_def mp_def doy_def Y_def e_def doe_def z_def by (rule refl)
  with assms have eqs: "m = (if mp < 10 then mp + 3 else mp - 9)" "d = doy - month_days mp + 1"
    "y = Y + e * 400 + (if m \<le> 2 then 1 else 0)"
    by (auto simp: M_def)
  have step: "year_start (Y + 1) \<le> year_start Y + 366"
    by (rule year_length)
  have doy: "0 \<le> doy" "doy \<le> 365" using Y step by (simp_all add: doy_def)
  have mp: "0 \<le> mp" "mp \<le> 11" using doy by (simp_all add: mp_def)
  have md: "month_days mp \<le> doy" "doy < month_days (mp + 1)"
  proof -
    have "153 * mp \<le> 5 * doy + 2" "5 * doy + 2 < 153 * mp + 153" unfolding mp_def by linarith+
    then have "(153 * mp + 2) div 5 \<le> (doy * 5 + 4) div 5" "(doy * 5 + 5) div 5 \<le> (153 * (mp + 1) + 2) div 5"
      by (intro zdiv_mono1; simp)+
    then show "month_days mp \<le> doy" "doy < month_days (mp + 1)" unfolding month_days_def by simp_all
  qed
  show m: "1 \<le> m" "m \<le> 12" using eqs mp by (simp_all split: if_splits)
  define k where "k = 12 * y + m - 1"
  have "k - 2 = 12 * (Y + e * 400) + mp"
    unfolding k_def using eqs mp by (simp split: if_splits)
  then have k: "(k - 2) div 12 = Y + e * 400" "(k - 2) mod 12 = mp"
    using split12 [of mp "Y + e * 400"] mp by simp_all
  then have first: "first_of k = year_start Y + e * 146097 + month_days mp - 719468"
    by (simp add: first_of_def year_start_era)
  show "t = first_of (12 * y + m - 1) + d - 1"
    using first eqs(2) z by (simp add: k_def z_def doy_def)
  show "first_of (12 * y + m - 1) \<le> t" using first md(1) z by (simp add: k_def z_def doy_def)
  have "Y + e * 400 + 1 = (Y + 1) + e * 400" by simp
  then have "year_start (Y + e * 400 + 1) = year_start (Y + 1) + e * 146097"
    by (simp only: year_start_era)
  then have "t < first_of (k + 1)"
    using Y(4) md(2) z by (auto simp: first_of_next k year_start_era z_def doy_def)
  then show "t < first_of (12 * y + m)" by (simp add: k_def)
qed

lemma month_index_bounds: "first_of (month_index t) \<le> t" "t < first_of (month_index t + 1)"
  using civil_of_days_spec [of t] by (cases "civil_of_days t"; force simp: month_index_def)+

lemma month_index_unique: "first_of k \<le> t \<Longrightarrow> t < first_of (k + 1) \<Longrightarrow> month_index t = k"
proof (rule ccontr)
  assume t: "first_of k \<le> t" "t < first_of (k + 1)" and "month_index t \<noteq> k"
  then consider "month_index t + 1 \<le> k" | "k + 1 \<le> month_index t" by linarith
  then show False
    by cases (use t month_index_bounds [of t] first_of_mono in force)+
qed

lemma month_index_first [simp]: "month_index (first_of k) = k"
  by (rule month_index_unique) (auto simp: first_of_step)

lemma month_index_mono: "t \<le> u \<Longrightarrow> month_index t \<le> month_index u"
  using month_index_bounds [of t] month_index_bounds [of u] first_of_mono [of "month_index u + 1" "month_index t"]
  by force

lemma month_start_eq: "month_start t = first_of (month_index t)"
  by (simp add: month_start_def month_index_def go_date_first split: prod.splits)

lemma month_end_eq: "month_end t = first_of (month_index t + 1) - 1"
  by (simp add: month_end_def month_index_def go_date_first split: prod.splits)

lemma month_index_start [simp]: "month_index (month_start t) = month_index t"
  by (simp add: month_start_eq)

lemma month_start_idem [simp]: "month_start (month_start t) = month_start t"
  by (simp add: month_start_eq)

lemma month_start_first [simp]: "month_start (first_of k) = first_of k"
  by (simp add: month_start_eq)

lemma month_start_le: "month_start t \<le> t"
  using month_index_bounds by (simp add: month_start_eq)

lemma month_end_ge: "t \<le> month_end t"
  using month_index_bounds [of t] by (simp add: month_end_eq)

lemma month_index_end [simp]: "month_index (month_end t) = month_index t"
  by (rule month_index_unique) (use month_index_bounds [of t] first_of_step [of "month_index t"] in \<open>auto simp: month_end_eq\<close>)

text \<open>\<open>AddDate(0, n, 0)\<close> keeps the day of the month and carries its excess into the next month.\<close>

lemma AddDate_months_eq: "AddDate_months t n = first_of (month_index t + n) + (t - month_start t)"
proof (cases "civil_of_days t")
  case (fields y m d)
  with civil_of_days_spec(3) [OF fields] show ?thesis
    by (simp add: AddDate_months_def month_index_def month_start_def go_date_first algebra_simps)
qed

lemma AddDate_months_first [simp]: "AddDate_months (first_of k) n = first_of (k + n)"
  by (simp add: AddDate_months_eq)

text \<open>Every month has at least 28 days.\<close>

lemma month_length: "first_of k + 28 \<le> first_of (k + 1)"
proof (cases "(k - 2) mod 12 = 11")
  case True
  with year_start_step365 [of "(k - 2) div 12"] show ?thesis
    by (simp add: first_of_next) (simp add: first_of_def month_days_def)
next
  case False
  have "(153 * j + 2 + 28 * 5) div 5 \<le> (153 * (j + 1) + 2) div 5" for j :: int by (rule zdiv_mono1) auto
  then have "month_days j + 28 \<le> month_days (j + 1)" for j unfolding month_days_def by simp
  from this [of "(k - 2) mod 12"] False show ?thesis by (simp add: first_of_next) (simp add: first_of_def)
qed

text \<open>And at most 31.\<close>

lemma month_at_most: "first_of (k + 1) \<le> first_of k + 31"
proof (cases "(k - 2) mod 12 = 11")
  case True
  with year_length [of "(k - 2) div 12"] show ?thesis
    by (simp add: first_of_next) (simp add: first_of_def month_days_def)
next
  case False
  have "(153 * (j + 1) + 2) div 5 \<le> (153 * j + 2 + 31 * 5) div 5" for j :: int by (rule zdiv_mono1) auto
  then have "month_days (j + 1) \<le> month_days j + 31" for j unfolding month_days_def by simp
  from this [of "(k - 2) mod 12"] False show ?thesis by (simp add: first_of_next) (simp add: first_of_def)
qed

end
