(* ===== verification/Loan_Store.thy ===== *)
theory Loan_Store
  imports Share_Security Texts "HOL-Library.Product_Lexorder"
begin

text \<open>
  The tables of the loan domain and the SQL queries of \<open>internal/loan/repository/sqlc\<close> that its
  service runs. They extend the share tables, since loan transactions change both. The JSON column
  \<open>allocation_breakdown\<close> is a record of optional decimal texts; a text that does not read as a number
  makes the query fail. Dates are day numbers (\<open>Calendar\<close>).
\<close>

section \<open>Tables\<close>

datatype LoanStatus = LoanPending | LoanApproved | LoanRejected | LoanDisbursed | LoanRestructuring
  | LoanActive | LoanDelinquent | LoanClosed | LoanWrittenOff | LoanManualReview

datatype GuarantorStatus = GuarantorPending | GuarantorApproved | GuarantorRejected

datatype LoanTransactionType = Disbursement | Repayment | Penalty | LoanReversal | CreditWithdrawal

datatype RepaymentScheduleStatus = Upcoming | Due | Paid | Missed | Partial | Superseded

datatype CreditBalanceSource = Overpayment | Refund | CreditAdjustment

datatype CreditBalanceStatus = CreditAvailable | CreditFrozen | CreditWithdrawn

fun loan_status_text :: "LoanStatus \<Rightarrow> string" where
  "loan_status_text LoanPending = ''pending''"
| "loan_status_text LoanApproved = ''approved''"
| "loan_status_text LoanRejected = ''rejected''"
| "loan_status_text LoanDisbursed = ''disbursed''"
| "loan_status_text LoanRestructuring = ''restructuring''"
| "loan_status_text LoanActive = ''active''"
| "loan_status_text LoanDelinquent = ''delinquent''"
| "loan_status_text LoanClosed = ''closed''"
| "loan_status_text LoanWrittenOff = ''written_off''"
| "loan_status_text LoanManualReview = ''manual_review''"

fun guarantor_status_text :: "GuarantorStatus \<Rightarrow> string" where
  "guarantor_status_text GuarantorPending = ''pending''"
| "guarantor_status_text GuarantorApproved = ''approved''"
| "guarantor_status_text GuarantorRejected = ''rejected''"

record Loan =
  ln_id :: uuid
  ln_member :: uuid
  ln_branch :: int
  ln_principal :: int
  ln_rate :: int
  ln_months :: int
  ln_status :: LoanStatus
  ln_disbursed :: "timestamptz option"
  ln_updated_by :: pg_uuid
  ln_previous :: "LoanStatus option"
  ln_deleted :: bool
  ln_created :: timestamptz
  ln_updated :: timestamptz
  ln_key :: pg_uuid
  ln_hash :: "string option"

record LoanGuarantor =
  lg_loan :: uuid
  lg_guarantor :: uuid
  lg_amount :: int
  lg_status :: GuarantorStatus
  lg_approved_at :: "timestamptz option"
  lg_approved_by :: pg_uuid
  lg_created :: timestamptz

record allocation_json =
  aj_period :: "date option"
  aj_principal :: "string option"
  aj_interest :: "string option"
  aj_penalty :: "string option"
  aj_credit :: "string option"

definition empty_json :: allocation_json where
  "empty_json = \<lparr>aj_period = None, aj_principal = None, aj_interest = None, aj_penalty = None, aj_credit = None\<rparr>"

record LoanTransaction =
  lt_id :: uuid
  lt_loan :: uuid
  lt_type :: LoanTransactionType
  lt_amount :: int
  lt_reference :: uuid
  lt_gateway :: "string option"
  lt_breakdown :: allocation_json
  lt_created :: timestamptz
  lt_created_by :: pg_uuid

record RepaymentSchedule =
  rs_id :: uuid
  rs_loan :: uuid
  rs_installment :: int
  rs_due :: date
  rs_amount :: int
  rs_status :: RepaymentScheduleStatus
  rs_created :: timestamptz
  rs_updated :: timestamptz

record LoanMonthlyInterest =
  li_loan :: uuid
  li_period :: date
  li_previous :: int
  li_rate :: int
  li_amount :: int
  li_created :: timestamptz

record CreditBalance =
  cb_id :: uuid
  cb_member :: uuid
  cb_loan :: pg_uuid
  cb_amount :: int
  cb_source :: CreditBalanceSource
  cb_status :: CreditBalanceStatus
  cb_created :: timestamptz
  cb_last_activity :: timestamptz

record CreditOperation =
  co_id :: uuid
  co_credit :: uuid
  co_amount :: int
  co_action :: string
  co_target :: pg_uuid
  co_period :: "date option"
  co_status :: string
  co_reason :: string
  co_consent :: string
  co_requested_by :: uuid
  co_reviewed_by :: pg_uuid
  co_reviewed_at :: "timestamptz option"
  co_review_reason :: "string option"
  co_completed_by :: pg_uuid
  co_completed_at :: "timestamptz option"
  co_payout_reference :: "string option"
  co_payout_evidence :: "string option"
  co_created :: timestamptz

record LoanAuditTrail =
  au_id :: uuid
  au_loan :: uuid
  au_field :: string
  au_previous :: "string option"
  au_new :: string
  au_changed_by :: uuid
  au_reason :: string
  au_created :: timestamptz

record loan_db = share_db +
  loans :: "Loan list"
  loan_guarantors :: "LoanGuarantor list"
  repayment_schedules :: "RepaymentSchedule list"
  loan_transactions :: "LoanTransaction list"
  loan_monthly_interest :: "LoanMonthlyInterest list"
  credit_balances :: "CreditBalance list"
  credit_operations :: "CreditOperation list"
  loan_audit_trails :: "LoanAuditTrail list"

section \<open>Loans\<close>

text \<open>Interest rates are \<open>NUMERIC(9,4)\<close>.\<close>

definition store_rate :: "numeric \<Rightarrow> db_error + int" where
  "store_rate n = (case store_numeric n of Inl e \<Rightarrow> Inl e
     | Inr r \<Rightarrow> if \<bar>r\<bar> \<ge> 10 ^ 9 then Inl NumericOverflow else Inr r)"

record CreateLoanParams =
  cl_member :: pg_uuid
  cl_branch :: int
  cl_principal :: numeric
  cl_rate :: numeric
  cl_months :: int
  cl_updated_by :: pg_uuid
  cl_key :: pg_uuid
  cl_hash :: "string option"

definition open_application :: "Loan \<Rightarrow> bool" where
  "open_application l \<longleftrightarrow> (ln_status l = LoanPending \<or> ln_status l = LoanApproved) \<and> \<not> ln_deleted l"

definition loan_check :: "Loan \<Rightarrow> bool" where
  "loan_check l \<longleftrightarrow> ln_principal l > 0 \<and> ln_rate l \<ge> 0 \<and> ln_months l > 0 \<and> ln_months l \<le> 36
     \<and> (ln_status l = LoanDisbursed \<longrightarrow> ln_disbursed l \<noteq> None)
     \<and> (ln_key l = None) = (ln_hash l = None)"

text \<open>The primary key, \<open>uq_loans_one_open_application_per_member\<close> and \<open>uq_loans_application_key\<close>.\<close>

definition loan_conflict :: "Loan \<Rightarrow> Loan \<Rightarrow> bool" where
  "loan_conflict l q \<longleftrightarrow> ln_id q = ln_id l
     \<or> (ln_member q = ln_member l \<and> open_application q \<and> open_application l)
     \<or> (ln_key l \<noteq> None \<and> ln_key q = ln_key l)"

definition q_CreateLoan :: "env \<Rightarrow> CreateLoanParams \<Rightarrow> ('s loan_db_scheme, error, Loan option) tx" where
  [query_defs]: "q_CreateLoan v p = tx_bind (lift_db (store_numeric (cl_principal p))) (\<lambda>prin.
     tx_bind (lift_db (store_rate (cl_rate p))) (\<lambda>rate.
     case cl_member p of None \<Rightarrow> throw (DbE NotNullViolation)
     | Some m \<Rightarrow>
       let l = \<lparr>ln_id = env_uuid v 0, ln_member = m, ln_branch = cl_branch p, ln_principal = prin, ln_rate = rate,
                ln_months = cl_months p, ln_status = LoanPending, ln_disbursed = None,
                ln_updated_by = cl_updated_by p, ln_previous = None, ln_deleted = False,
                ln_created = env_now v, ln_updated = env_now v, ln_key = cl_key p, ln_hash = cl_hash p\<rparr>
       in tx_bind (db_check (loan_check l)) (\<lambda>_ s.
         if \<exists>q\<in>set (loans s). loan_conflict l q then Inr (None, s)
         else Inr (Some l, s\<lparr>loans := loans s @ [l]\<rparr>))))"

definition live_loan :: "uuid \<Rightarrow> Loan \<Rightarrow> bool" where
  "live_loan i l \<longleftrightarrow> ln_id l = i \<and> \<not> ln_deleted l"

definition q_LockLoanByID :: "uuid \<Rightarrow> ('s loan_db_scheme, error, Loan option) tx" where
  [query_defs]: "q_LockLoanByID i = gets (\<lambda>s. find (live_loan i) (loans s))"

definition q_GetLoanByID :: "uuid \<Rightarrow> ('s loan_db_scheme, error, Loan option) tx" where
  [query_defs]: "q_GetLoanByID i = gets (\<lambda>s. find (live_loan i) (loans s))"

text \<open>An \<open>UPDATE\<close> of the loan with the given id: constraints are checked on the new row.\<close>

definition update_loan :: "(Loan \<Rightarrow> bool) \<Rightarrow> (Loan \<Rightarrow> Loan) \<Rightarrow> ('s loan_db_scheme, error, Loan option) tx" where
  "update_loan P f = (\<lambda>s. case find P (loans s) of None \<Rightarrow> Inr (None, s)
     | Some l \<Rightarrow>
       if \<not> loan_check (f l) then Inl (DbE CheckViolation)
       else if \<exists>q\<in>set (loans s). ln_id q \<noteq> ln_id l \<and> loan_conflict (f l) q then Inl (DbE UniqueViolation)
       else Inr (Some (f l), s\<lparr>loans := map (\<lambda>q. if ln_id q = ln_id l then f q else q) (loans s)\<rparr>))"

definition set_loan_status :: "env \<Rightarrow> LoanStatus \<Rightarrow> pg_uuid \<Rightarrow> Loan \<Rightarrow> Loan" where
  "set_loan_status v st by l = l\<lparr>ln_previous := Some (ln_status l), ln_status := st,
     ln_updated_by := by, ln_updated := env_now v\<rparr>"

definition q_UpdateLoanStatus ::
    "env \<Rightarrow> uuid \<Rightarrow> LoanStatus \<Rightarrow> pg_uuid \<Rightarrow> ('s loan_db_scheme, error, Loan option) tx" where
  [query_defs]: "q_UpdateLoanStatus v i st by = update_loan (live_loan i) (set_loan_status v st by)"

definition q_MarkLoanDisbursed :: "env \<Rightarrow> uuid \<Rightarrow> pg_uuid \<Rightarrow> ('s loan_db_scheme, error, Loan option) tx" where
  [query_defs]: "q_MarkLoanDisbursed v i by =
     update_loan (\<lambda>l. live_loan i l \<and> ln_status l = LoanApproved)
       (\<lambda>l. (set_loan_status v LoanActive by l)\<lparr>ln_disbursed := Some (env_now v)\<rparr>)"

section \<open>Guarantors\<close>

definition guarantor_of :: "uuid \<Rightarrow> uuid \<Rightarrow> LoanGuarantor \<Rightarrow> bool" where
  "guarantor_of l g r \<longleftrightarrow> lg_loan r = l \<and> lg_guarantor r = g"

definition q_GetLoanGuarantor :: "uuid \<Rightarrow> uuid \<Rightarrow> ('s loan_db_scheme, error, LoanGuarantor option) tx" where
  [query_defs]: "q_GetLoanGuarantor l g = gets (\<lambda>s. find (guarantor_of l g) (loan_guarantors s))"

definition q_LockGuarantor :: "uuid \<Rightarrow> uuid \<Rightarrow> ('s loan_db_scheme, error, LoanGuarantor option) tx" where
  [query_defs]: "q_LockGuarantor l g = gets (\<lambda>s. find (guarantor_of l g) (loan_guarantors s))"

text \<open>\<open>ListLoanGuarantors\<close> without a cursor: newest first, at most \<open>lim\<close> rows.\<close>

definition list_guarantors :: "uuid \<Rightarrow> nat \<Rightarrow> 's loan_db_scheme \<Rightarrow> LoanGuarantor list" where
  "list_guarantors l lim s = take lim (rev (sort_key (\<lambda>g. (lg_created g, lg_guarantor g))
     (filter (\<lambda>g. lg_loan g = l \<and> (\<exists>m\<in>set (members s). mem_id m = lg_guarantor g)) (loan_guarantors s))))"

definition q_ListLoanGuarantors :: "uuid \<Rightarrow> nat \<Rightarrow> ('s loan_db_scheme, error, LoanGuarantor list) tx" where
  [query_defs]: "q_ListLoanGuarantors l lim = gets (list_guarantors l lim)"

definition new_guarantor :: "env \<Rightarrow> uuid \<Rightarrow> uuid \<Rightarrow> int \<Rightarrow> LoanGuarantor" where
  "new_guarantor v l g amt = \<lparr>lg_loan = l, lg_guarantor = g, lg_amount = amt, lg_status = GuarantorPending,
     lg_approved_at = None, lg_approved_by = None, lg_created = env_now v\<rparr>"

definition q_CreateLoanGuarantor ::
    "env \<Rightarrow> uuid \<Rightarrow> uuid \<Rightarrow> numeric \<Rightarrow> ('s loan_db_scheme, error, LoanGuarantor) tx" where
  [query_defs]: "q_CreateLoanGuarantor v l g amount = tx_bind (lift_db (store_numeric amount)) (\<lambda>amt.
     tx_bind (db_check (amt > 0)) (\<lambda>_ s.
       if \<exists>r\<in>set (loan_guarantors s). guarantor_of l g r then Inl (DbE UniqueViolation)
       else Inr (new_guarantor v l g amt, s\<lparr>loan_guarantors := loan_guarantors s @ [new_guarantor v l g amt]\<rparr>)))"

text \<open>\<open>CreateProposedLoanGuarantors\<close> inserts the proposals in order and skips known guarantors.\<close>

fun q_CreateProposedLoanGuarantors ::
    "env \<Rightarrow> uuid \<Rightarrow> (uuid \<times> numeric) list \<Rightarrow> ('s loan_db_scheme, error, unit) tx" where
  "q_CreateProposedLoanGuarantors v l [] = ret ()"
| "q_CreateProposedLoanGuarantors v l ((g, amount) # ps) =
     tx_bind (lift_db (store_numeric amount)) (\<lambda>amt.
     tx_bind (db_check (amt > 0)) (\<lambda>_.
     tx_bind (modify (\<lambda>s. if \<exists>r\<in>set (loan_guarantors s). guarantor_of l g r then s
        else s\<lparr>loan_guarantors := loan_guarantors s @ [new_guarantor v l g amt]\<rparr>)) (\<lambda>_.
     q_CreateProposedLoanGuarantors v l ps)))"

definition set_guarantor_status :: "env \<Rightarrow> GuarantorStatus \<Rightarrow> pg_uuid \<Rightarrow> LoanGuarantor \<Rightarrow> LoanGuarantor" where
  "set_guarantor_status v st by r = r\<lparr>lg_status := st,
     lg_approved_at := (if st = GuarantorApproved then Some (env_now v) else lg_approved_at r), lg_approved_by := by\<rparr>"

definition q_UpdateGuarantorStatus ::
    "env \<Rightarrow> GuarantorStatus \<Rightarrow> pg_uuid \<Rightarrow> uuid \<Rightarrow> uuid \<Rightarrow> ('s loan_db_scheme, error, LoanGuarantor option) tx" where
  [query_defs]: "q_UpdateGuarantorStatus v st by l g = tx_bind (q_LockGuarantor l g) (\<lambda>r.
     tx_bind (modify (loan_guarantors_update (map (\<lambda>r. if guarantor_of l g r
        then set_guarantor_status v st by r else r)))) (\<lambda>_.
     ret (map_option (set_guarantor_status v st by) r)))"

section \<open>Loan transactions\<close>

definition q_GetLoanDisbursement :: "uuid \<Rightarrow> ('s loan_db_scheme, error, LoanTransaction option) tx" where
  [query_defs]: "q_GetLoanDisbursement l = gets (\<lambda>s.
     find (\<lambda>t. lt_loan t = l \<and> lt_type t = Disbursement) (loan_transactions s))"

definition same_gateway :: "uuid \<Rightarrow> string \<Rightarrow> LoanTransaction \<Rightarrow> bool" where
  "same_gateway l g t \<longleftrightarrow> lt_loan t = l \<and> lt_gateway t = Some g"

definition q_GetLoanTransactionByGatewayID ::
    "uuid \<Rightarrow> string \<Rightarrow> ('s loan_db_scheme, error, LoanTransaction option) tx" where
  [query_defs]: "q_GetLoanTransactionByGatewayID l g = gets (\<lambda>s. find (same_gateway l g) (loan_transactions s))"

record InsertLoanTransactionParams =
  il_loan :: uuid
  il_type :: LoanTransactionType
  il_amount :: numeric
  il_reference :: uuid
  il_gateway :: "string option"
  il_breakdown :: allocation_json
  il_created_by :: pg_uuid

text \<open>The primary key and the unique indexes of \<open>loan_transactions\<close>.\<close>

definition transaction_conflict :: "LoanTransaction \<Rightarrow> LoanTransaction \<Rightarrow> bool" where
  "transaction_conflict t q \<longleftrightarrow> lt_id q = lt_id t
     \<or> (lt_loan q = lt_loan t \<and> lt_type q = Disbursement \<and> lt_type t = Disbursement)
     \<or> (lt_loan q = lt_loan t \<and> lt_gateway t \<noteq> None \<and> lt_gateway q = lt_gateway t)
     \<or> (lt_loan q = lt_loan t \<and> lt_reference q = lt_reference t \<and> lt_type q = lt_type t)"

definition q_InsertLoanTransaction ::
    "env \<Rightarrow> InsertLoanTransactionParams \<Rightarrow> ('s loan_db_scheme, error, LoanTransaction option) tx" where
  [query_defs]: "q_InsertLoanTransaction v p = tx_bind (lift_db (store_numeric (il_amount p))) (\<lambda>amt.
     let t = \<lparr>lt_id = env_uuid v 0, lt_loan = il_loan p, lt_type = il_type p, lt_amount = amt,
              lt_reference = il_reference p, lt_gateway = il_gateway p, lt_breakdown = il_breakdown p,
              lt_created = env_now v, lt_created_by = il_created_by p\<rparr>
     in tx_bind (db_check (amt > 0 \<and> (case il_gateway p of None \<Rightarrow> True | Some g \<Rightarrow> btrim g \<noteq> ''''))) (\<lambda>_ s.
       if \<exists>q\<in>set (loan_transactions s). transaction_conflict t q then Inr (None, s)
       else Inr (Some t, s\<lparr>loan_transactions := loan_transactions s @ [t]\<rparr>)))"

text \<open>\<open>COALESCE((allocation_breakdown->>'principal')::numeric, amount - COALESCE((\<dots>->>'credit')::numeric, 0))\<close>
  and the other parts of a repayment; \<open>None\<close> is a text that is not a number.\<close>

definition principal_part :: "LoanTransaction \<Rightarrow> int option" where
  "principal_part t = (case aj_principal (lt_breakdown t) of Some p \<Rightarrow> text_units p
     | None \<Rightarrow> (case aj_credit (lt_breakdown t) of None \<Rightarrow> Some (lt_amount t)
        | Some c \<Rightarrow> map_option (\<lambda>c. lt_amount t - c) (text_units c)))"

definition text_part :: "string option \<Rightarrow> int option" where
  "text_part x = (case x of None \<Rightarrow> Some 0 | Some p \<Rightarrow> text_units p)"

definition interest_part :: "LoanTransaction \<Rightarrow> int option" where
  "interest_part t = text_part (aj_interest (lt_breakdown t))"

definition penalty_part :: "LoanTransaction \<Rightarrow> int option" where
  "penalty_part t = text_part (aj_penalty (lt_breakdown t))"

text \<open>\<open>date_trunc('month', created_at AT TIME ZONE 'Africa/Nairobi')\<close> where no period was recorded.\<close>

definition period_of :: "LoanTransaction \<Rightarrow> date" where
  "period_of t = (case aj_period (lt_breakdown t) of Some p \<Rightarrow> p | None \<Rightarrow> month_start (eat_date (lt_created t)))"

definition repayments_of :: "uuid \<Rightarrow> 's loan_db_scheme \<Rightarrow> LoanTransaction list" where
  "repayments_of l s = filter (\<lambda>t. lt_loan t = l \<and> lt_type t = Repayment) (loan_transactions s)"

definition sum_opt :: "('r \<Rightarrow> int option) \<Rightarrow> 'r list \<Rightarrow> int option" where
  "sum_opt f xs = (if list_all (\<lambda>x. f x \<noteq> None) xs then Some (sum_list (map (the \<circ> f) xs)) else None)"

definition max_opt :: "int list \<Rightarrow> int option" where
  "max_opt xs = (case xs of [] \<Rightarrow> None | x # xs \<Rightarrow> Some (fold max xs x))"

definition lift_text :: "'a option \<Rightarrow> ('s, error, 'a) tx" where
  "lift_text x = (case x of None \<Rightarrow> throw (DbE InvalidText) | Some y \<Rightarrow> ret y)"

record GetLoanRepaymentTotalsRow =
  rt_principal :: numeric
  rt_interest :: numeric
  rt_latest :: "date option"

definition q_GetLoanRepaymentTotals :: "uuid \<Rightarrow> ('s loan_db_scheme, error, GetLoanRepaymentTotalsRow) tx" where
  [query_defs]: "q_GetLoanRepaymentTotals l = tx_bind (gets (repayments_of l)) (\<lambda>ts.
     tx_bind (lift_text (sum_opt principal_part ts)) (\<lambda>prin.
     tx_bind (lift_text (sum_opt interest_part ts)) (\<lambda>int.
     ret \<lparr>rt_principal = db_num prin, rt_interest = db_num int, rt_latest = max_opt (map period_of ts)\<rparr>)))"

definition q_GetLoanPenaltyDue :: "uuid \<Rightarrow> ('s loan_db_scheme, error, numeric) tx" where
  [query_defs]: "q_GetLoanPenaltyDue l = tx_bind (gets id) (\<lambda>s.
     tx_bind (lift_text (sum_opt penalty_part (repayments_of l s))) (\<lambda>paid.
     ret (db_num (max 0 (sum_where (\<lambda>t. lt_loan t = l \<and> lt_type t = Penalty) lt_amount (loan_transactions s) - paid)))))"

section \<open>Monthly interest\<close>

text \<open>\<open>generate_series(first, last, INTERVAL '1 month')\<close>.\<close>

lemma AddDate_months_grows: "t < AddDate_months t 1"
  using first_of_step [of "month_index t"] by (simp add: AddDate_months_eq month_start_eq)

function month_series :: "date \<Rightarrow> date \<Rightarrow> date list" where
  "month_series p stop = (if p \<le> stop then p # month_series (AddDate_months p 1) stop else [])"
  by auto
termination
proof (relation "measure (\<lambda>(p, stop). nat (stop + 1 - p))")
  fix p stop :: date
  assume "p \<le> stop"
  with AddDate_months_grows [of p]
  show "((AddDate_months p 1, stop), p, stop) \<in> measure (\<lambda>(p, stop). nat (stop + 1 - p))" by simp
qed simp

declare month_series.simps [simp del]

text \<open>The principal repaid in earlier periods, and the row that one month of assessment inserts:
  \<open>ROUND(GREATEST(principal - paid, 0) * interest_rate, 4)\<close>.\<close>

definition paid_before :: "uuid \<Rightarrow> date \<Rightarrow> 's loan_db_scheme \<Rightarrow> int option" where
  "paid_before l p s = sum_opt principal_part (filter (\<lambda>t. period_of t < p) (repayments_of l s))"

definition interest_row :: "env \<Rightarrow> Loan \<Rightarrow> date \<Rightarrow> int \<Rightarrow> LoanMonthlyInterest" where
  "interest_row v l p paid = (let prev = max 0 (ln_principal l - paid) in
     \<lparr>li_loan = ln_id l, li_period = p, li_previous = prev, li_rate = ln_rate l,
      li_amount = round_div (prev * ln_rate l) 10000, li_created = env_now v\<rparr>)"

definition interest_check :: "LoanMonthlyInterest \<Rightarrow> bool" where
  "interest_check r \<longleftrightarrow> month_start (li_period r) = li_period r \<and> li_previous r \<ge> 0 \<and> li_rate r \<ge> 0 \<and> li_amount r \<ge> 0"

text \<open>One \<open>INSERT \<dots> SELECT\<close> over the given months: rows are computed from the same snapshot, a month
  that is already assessed is skipped.\<close>

definition has_interest :: "uuid \<Rightarrow> date \<Rightarrow> LoanMonthlyInterest list \<Rightarrow> bool" where
  "has_interest l p rows \<longleftrightarrow> (\<exists>r\<in>set rows. li_loan r = l \<and> li_period r = p)"

fun insert_interest :: "env \<Rightarrow> Loan \<Rightarrow> date list \<Rightarrow> ('s loan_db_scheme, error, unit) tx" where
  "insert_interest v l [] = ret ()"
| "insert_interest v l (p # ps) = tx_bind (gets (paid_before (ln_id l) p)) (\<lambda>paid.
     tx_bind (lift_text paid) (\<lambda>paid.
     let r = interest_row v l p paid in
     tx_bind (if \<bar>li_amount r\<bar> \<ge> 10 ^ 19 then throw (DbE NumericOverflow) else ret ()) (\<lambda>_.
     tx_bind (db_check (interest_check r)) (\<lambda>_.
     tx_bind (modify (\<lambda>s. if has_interest (ln_id l) p (loan_monthly_interest s) then s
        else s\<lparr>loan_monthly_interest := loan_monthly_interest s @ [r]\<rparr>)) (\<lambda>_.
     insert_interest v l ps)))))"

definition assess :: "env \<Rightarrow> uuid \<Rightarrow> date list \<Rightarrow> ('s loan_db_scheme, error, unit) tx" where
  "assess v i ps = tx_bind (gets (\<lambda>s. find (\<lambda>l. ln_id l = i) (loans s))) (\<lambda>l.
     case l of None \<Rightarrow> ret () | Some l \<Rightarrow> insert_interest v l ps)"

definition q_AssessLoanInterest :: "env \<Rightarrow> date \<Rightarrow> uuid \<Rightarrow> ('s loan_db_scheme, error, unit) tx" where
  [query_defs]: "q_AssessLoanInterest v p i = assess v i [p]"

definition q_AssessLoanInterestPeriods :: "env \<Rightarrow> date \<Rightarrow> date \<Rightarrow> uuid \<Rightarrow> ('s loan_db_scheme, error, unit) tx" where
  [query_defs]: "q_AssessLoanInterestPeriods v p q i = assess v i (month_series p q)"

definition q_GetLoanInterestPeriod :: "uuid \<Rightarrow> ('s loan_db_scheme, error, date option) tx" where
  [query_defs]: "q_GetLoanInterestPeriod l = gets (\<lambda>s.
     max_opt (map li_period (filter (\<lambda>r. li_loan r = l) (loan_monthly_interest s))))"

definition interest_due_total :: "uuid \<Rightarrow> 's loan_db_scheme \<Rightarrow> int" where
  "interest_due_total l s = sum_where (\<lambda>r. li_loan r = l) li_amount (loan_monthly_interest s)"

definition q_SumLoanInterestDue :: "uuid \<Rightarrow> ('s loan_db_scheme, error, numeric) tx" where
  [query_defs]: "q_SumLoanInterestDue l = gets (\<lambda>s. db_num (interest_due_total l s))"

section \<open>Repayment schedules\<close>

text \<open>The rows of the JSON argument of \<open>CreateRepaymentSchedules\<close>; the amount is a decimal text.\<close>

record schedule_item =
  si_installment :: int
  si_due :: date
  si_amount :: string

definition schedule_key :: "RepaymentSchedule \<Rightarrow> uuid \<times> int \<times> RepaymentScheduleStatus" where
  "schedule_key r = (rs_loan r, rs_installment r, rs_status r)"

fun insert_schedules ::
    "env \<Rightarrow> uuid \<Rightarrow> nat \<Rightarrow> schedule_item list \<Rightarrow> ('s loan_db_scheme, error, int) tx" where
  "insert_schedules v l n [] = ret 0"
| "insert_schedules v l n (i # is) = tx_bind (lift_text (text_units (si_amount i))) (\<lambda>amt.
     tx_bind (if \<bar>amt\<bar> \<ge> 10 ^ 19 then throw (DbE NumericOverflow) else ret ()) (\<lambda>_.
     tx_bind (db_check (si_installment i > 0 \<and> amt > 0)) (\<lambda>_.
     let r = \<lparr>rs_id = env_uuid v n, rs_loan = l, rs_installment = si_installment i, rs_due = si_due i,
              rs_amount = amt, rs_status = Upcoming, rs_created = env_now v, rs_updated = env_now v\<rparr> in
     tx_bind (gets (\<lambda>s. \<exists>q\<in>set (repayment_schedules s). schedule_key q = schedule_key r \<or> rs_id q = rs_id r)) (\<lambda>known.
     tx_bind (modify (\<lambda>s. if known then s
        else s\<lparr>repayment_schedules := repayment_schedules s @ [r]\<rparr>)) (\<lambda>_.
     tx_bind (insert_schedules v l (Suc n) is) (\<lambda>k. ret (if known then k else k + 1)))))))"

definition q_CreateRepaymentSchedules ::
    "env \<Rightarrow> uuid \<Rightarrow> schedule_item list \<Rightarrow> ('s loan_db_scheme, error, int) tx" where
  [query_defs]: "q_CreateRepaymentSchedules v l is = insert_schedules v l 0 is"

definition schedules_of :: "uuid \<Rightarrow> 's loan_db_scheme \<Rightarrow> RepaymentSchedule list" where
  "schedules_of l s = sort_key rs_installment
     (filter (\<lambda>r. rs_loan r = l \<and> rs_status r \<noteq> Superseded) (repayment_schedules s))"

definition q_LockActiveRepaymentSchedulesByLoan ::
    "uuid \<Rightarrow> ('s loan_db_scheme, error, RepaymentSchedule list) tx" where
  [query_defs]: "q_LockActiveRepaymentSchedulesByLoan l = gets (schedules_of l)"

definition change_status :: "env \<Rightarrow> (uuid \<times> RepaymentScheduleStatus) list \<Rightarrow> RepaymentSchedule \<Rightarrow> RepaymentSchedule" where
  "change_status v cs r = (case map_of cs (rs_id r) of None \<Rightarrow> r
     | Some st \<Rightarrow> r\<lparr>rs_status := st, rs_updated := env_now v\<rparr>)"

definition q_UpdateRepaymentScheduleStatuses ::
    "env \<Rightarrow> (uuid \<times> RepaymentScheduleStatus) list \<Rightarrow> ('s loan_db_scheme, error, int) tx" where
  [query_defs]: "q_UpdateRepaymentScheduleStatuses v cs = (\<lambda>s.
     let rows = map (change_status v cs) (repayment_schedules s) in
     if \<not> distinct (map schedule_key rows) then Inl (DbE UniqueViolation)
     else Inr (int (length (filter (\<lambda>r. rs_id r \<in> fst ` set cs) (repayment_schedules s))),
       s\<lparr>repayment_schedules := rows\<rparr>))"

section \<open>Credits and the audit trail\<close>

definition q_CreateCreditBalance ::
    "env \<Rightarrow> uuid \<Rightarrow> pg_uuid \<Rightarrow> numeric \<Rightarrow> CreditBalanceSource \<Rightarrow> ('s loan_db_scheme, error, CreditBalance) tx" where
  [query_defs]: "q_CreateCreditBalance v m l amount src = tx_bind (lift_db (store_numeric amount)) (\<lambda>amt.
     let c = \<lparr>cb_id = env_uuid v 0, cb_member = m, cb_loan = l, cb_amount = amt, cb_source = src,
              cb_status = CreditAvailable, cb_created = env_now v, cb_last_activity = env_now v\<rparr>
     in tx_bind (db_check (amt > 0)) (\<lambda>_ s.
       if \<exists>q\<in>set (credit_balances s). cb_id q = cb_id c then Inl (DbE UniqueViolation)
       else Inr (c, s\<lparr>credit_balances := credit_balances s @ [c]\<rparr>)))"

definition q_InsertLoanAuditTrail ::
    "env \<Rightarrow> uuid \<Rightarrow> string \<Rightarrow> string option \<Rightarrow> string \<Rightarrow> pg_uuid \<Rightarrow> string \<Rightarrow> ('s loan_db_scheme, error, unit) tx" where
  [query_defs]: "q_InsertLoanAuditTrail v l field prev new by reason =
     (case by of None \<Rightarrow> throw (DbE NotNullViolation)
      | Some by \<Rightarrow> tx_bind (db_check (btrim field \<noteq> '''' \<and> btrim reason \<noteq> '''')) (\<lambda>_ s.
          let a = \<lparr>au_id = env_uuid v 0, au_loan = l, au_field = field, au_previous = prev, au_new = new,
                   au_changed_by = by, au_reason = reason, au_created = env_now v\<rparr>
          in if \<exists>q\<in>set (loan_audit_trails s). au_id q = au_id a then Inl (DbE UniqueViolation)
             else Inr ((), s\<lparr>loan_audit_trails := loan_audit_trails s @ [a]\<rparr>)))"

end
