(* ===== verification/Loan_Alloc.thy ===== *)
theory Loan_Alloc
  imports Loan_Store
begin

text \<open>
  The pure computations of \<open>internal/loan/service.go\<close>: splitting a payment into interest, principal
  and credit (\<open>allocateRepayment\<close>), the equal installments with the remainder on the last one and
  their due dates (\<open>DisburseLoan\<close>), and the walk over the installments that turns the principal
  applied so far into statuses (\<open>updateScheduleStatuses\<close>). The lemmas are the conservation and
  bounds of the split, that installments add up to the principal, and what the statuses mean.
\<close>

section \<open>Splitting a payment\<close>

record repaymentAllocation =
  ra_period :: "date option"
  ra_principal :: string
  ra_interest :: string
  ra_penalty :: string
  ra_credit :: string
  ra_loanAppliedAmount :: int
  ra_creditAmount :: int
  ra_loanClosed :: bool

definition allocateRepayment :: "numeric \<Rightarrow> numeric \<Rightarrow> numeric \<Rightarrow> numeric \<Rightarrow> repaymentAllocation" where
  "allocateRepayment amount priorApplied prin interestDue =
     (let payment = numericToScale amount (-4);
          prior = numericToScale priorApplied (-4);
          totalDue = numericToScale prin (-4);
          outstanding = totalDue - prior;
          outstanding = (if outstanding < 0 then 0 else outstanding);
          interest = minBigInt payment (numericToScale interestDue (-4));
          payment = payment - interest;
          loanApplied = minBigInt payment outstanding;
          credit = payment - loanApplied;
          totalApplied = prior + loanApplied
      in \<lparr>ra_period = None,
          ra_principal = decimalStringFromScale loanApplied (-4),
          ra_interest = decimalStringFromScale interest (-4),
          ra_penalty = ''0'',
          ra_credit = decimalStringFromScale credit (-4),
          ra_loanAppliedAmount = loanApplied,
          ra_creditAmount = credit,
          ra_loanClosed = (totalApplied \<ge> totalDue \<and> interest \<ge> numericToScale interestDue (-4))\<rparr>)"

text \<open>The part of \<open>RecordRepaymentForPeriodInTx\<close> around it: penalties come first.\<close>

definition splitRepayment :: "numeric \<Rightarrow> numeric \<Rightarrow> numeric \<Rightarrow> int \<Rightarrow> numeric \<Rightarrow> date \<Rightarrow> repaymentAllocation" where
  "splitRepayment amount priorApplied prin interestDue penaltyDue period =
     (let payment = numericToScale amount (-4);
          penalty = minBigInt payment (numericToScale penaltyDue (-4));
          payment = payment - penalty;
          allocation = allocateRepayment (numericFromScale payment) priorApplied prin (numericFromScale interestDue)
      in allocation\<lparr>ra_penalty := decimalStringFromScale penalty (-4),
           ra_loanClosed := ra_loanClosed allocation \<and> penalty \<ge> numericToScale penaltyDue (-4),
           ra_period := Some period\<rparr>)"

text \<open>\<open>json.Marshal\<close> of the allocation: the exported fields.\<close>

definition allocationJSON :: "repaymentAllocation \<Rightarrow> allocation_json" where
  "allocationJSON a = \<lparr>aj_period = ra_period a, aj_principal = Some (ra_principal a),
     aj_interest = Some (ra_interest a), aj_penalty = Some (ra_penalty a), aj_credit = Some (ra_credit a)\<rparr>"

section \<open>Installments\<close>

definition dueDate :: "int \<Rightarrow> timestamptz \<Rightarrow> int \<Rightarrow> date" where
  "dueDate offset disbursedAt installmentNo =
     (let dueSeed = AddDate_months (zone_date offset disbursedAt) installmentNo in month_end dueSeed)"

definition installmentAmount :: "int \<Rightarrow> int \<Rightarrow> int \<Rightarrow> int" where
  "installmentAmount tot months installmentNo =
     (let installment = big_quo tot months; remainder = big_mod tot months
      in if installmentNo = months then installment + remainder else installment)"

definition scheduleItems :: "int \<Rightarrow> timestamptz \<Rightarrow> int \<Rightarrow> int \<Rightarrow> schedule_item list" where
  "scheduleItems offset disbursedAt tot months =
     map (\<lambda>no. \<lparr>si_installment = no, si_due = dueDate offset disbursedAt no,
                si_amount = numericToString (numericFromScale (installmentAmount tot months no))\<rparr>) [1..months]"

section \<open>Installment statuses\<close>

text \<open>The loop of \<open>updateScheduleStatuses\<close>: the next status of each row, in order of installments.\<close>

fun nextStatuses :: "int \<Rightarrow> RepaymentSchedule list \<Rightarrow> RepaymentScheduleStatus list" where
  "nextStatuses remaining [] = []"
| "nextStatuses remaining (schedule # schedules) =
     (let due = numericToScale (db_num (rs_amount schedule)) (-4) in
      if remaining \<ge> due then Paid # nextStatuses (remaining - due) schedules
      else if remaining > 0 then Partial # nextStatuses 0 schedules
      else rs_status schedule # nextStatuses remaining schedules)"

definition statusChanges :: "int \<Rightarrow> RepaymentSchedule list \<Rightarrow> (uuid \<times> RepaymentScheduleStatus) list" where
  "statusChanges applied schedules =
     map (\<lambda>(r, st). (rs_id r, st)) (filter (\<lambda>(r, st). st \<noteq> rs_status r) (zip schedules (nextStatuses applied schedules)))"

definition updateScheduleStatuses ::
    "env \<Rightarrow> RepaymentSchedule list \<Rightarrow> int \<Rightarrow> ('s loan_db_scheme, error, unit) tx" where
  "updateScheduleStatuses v schedules applied =
     (let changes = statusChanges applied schedules in
      if changes = [] then ret ()
      else tx_bind (q_UpdateRepaymentScheduleStatuses v changes) (\<lambda>updated.
        if updated \<noteq> int (length changes) then throw (DbE RowCountMismatch) else ret ()))"

definition sumScheduleAmountDue :: "RepaymentSchedule list \<Rightarrow> int" where
  "sumScheduleAmountDue schedules = fold (\<lambda>r tot. tot + numericToScale (db_num (rs_amount r)) (-4)) schedules 0"

section \<open>Facts about the split\<close>

text \<open>The split of \<open>p\<close> with \<open>n\<close> penalty, \<open>i\<close> interest and \<open>o\<close> principal outstanding, in
  ten-thousandths.\<close>

definition split_penalty :: "int \<Rightarrow> int \<Rightarrow> int" where
  "split_penalty p n = min p n"

definition split_interest :: "int \<Rightarrow> int \<Rightarrow> int \<Rightarrow> int" where
  "split_interest p n i = min (p - split_penalty p n) i"

definition split_principal :: "int \<Rightarrow> int \<Rightarrow> int \<Rightarrow> int \<Rightarrow> int" where
  "split_principal p n i out = min (p - split_penalty p n - split_interest p n i) out"

definition split_credit :: "int \<Rightarrow> int \<Rightarrow> int \<Rightarrow> int \<Rightarrow> int" where
  "split_credit p n i out = p - split_penalty p n - split_interest p n i - split_principal p n i out"

lemmas split_defs = split_penalty_def split_interest_def split_principal_def split_credit_def

lemma splitRepayment_parts:
  assumes "p = numericToScale amount (-4)" and "n = numericToScale penaltyDue (-4)"
    and "out = max 0 (numericToScale prin (-4) - numericToScale prior (-4))"
  shows "splitRepayment amount prior prin i penaltyDue period = \<lparr>ra_period = Some period,
     ra_principal = decimalStringFromScale (split_principal p n i out) (-4),
     ra_interest = decimalStringFromScale (split_interest p n i) (-4),
     ra_penalty = decimalStringFromScale (split_penalty p n) (-4),
     ra_credit = decimalStringFromScale (split_credit p n i out) (-4),
     ra_loanAppliedAmount = split_principal p n i out,
     ra_creditAmount = split_credit p n i out,
     ra_loanClosed = ((numericToScale prior (-4) + split_principal p n i out \<ge> numericToScale prin (-4)
        \<and> split_interest p n i \<ge> i) \<and> split_penalty p n \<ge> n)\<rparr>"
proof -
  have out: "(if numericToScale prin (-4) - numericToScale prior (-4) < 0 then 0
      else numericToScale prin (-4) - numericToScale prior (-4)) = out"
    using assms(3) by (simp add: max_def)
  show ?thesis
    unfolding splitRepayment_def allocateRepayment_def Let_def out
    by (simp add: assms(1,2) split_defs)
qed

text \<open>With amounts due that are not negative every part is between 0 and what is due, the parts
  add up to the payment, and a later part is only paid when the earlier ones are settled.\<close>

lemma split_bounds:
  assumes "0 \<le> p" "0 \<le> n" "0 \<le> i" "0 \<le> out"
  shows "0 \<le> split_penalty p n" "split_penalty p n \<le> n"
    "0 \<le> split_interest p n i" "split_interest p n i \<le> i"
    "0 \<le> split_principal p n i out" "split_principal p n i out \<le> out"
    "0 \<le> split_credit p n i out"
    "split_penalty p n + split_interest p n i + split_principal p n i out + split_credit p n i out = p"
  using assms by (auto simp: split_defs min_def)

lemma split_order:
  assumes "0 \<le> p" "0 \<le> n" "0 \<le> i" "0 \<le> out"
  shows "0 < split_interest p n i \<Longrightarrow> split_penalty p n = n"
    "0 < split_principal p n i out \<Longrightarrow> split_interest p n i = i \<and> split_penalty p n = n"
    "0 < split_credit p n i out \<Longrightarrow> split_principal p n i out = out \<and> split_interest p n i = i \<and> split_penalty p n = n"
  using assms by (auto simp: split_defs min_def split: if_splits)

section \<open>Facts about installments\<close>

lemma installment_sum:
  assumes "0 < months" and "0 \<le> tot"
  shows "(\<Sum>no\<leftarrow>[1..months]. installmentAmount tot months no) = tot"
proof -
  have split: "[1..months] = [1..months - 1] @ [months]"
    using assms(1) upto_rec2 [of 1 months] by simp
  have amt: "installmentAmount tot months no = (if no = months then tot div months + tot mod months else tot div months)" for no
    using assms by (simp add: installmentAmount_def big_quo_nonneg big_mod_def Let_def)
  have "(\<Sum>no\<leftarrow>[1..months - 1]. installmentAmount tot months no) = (\<Sum>no\<leftarrow>[1..months - 1]. tot div months)"
    by (intro arg_cong [where f = sum_list] map_cong) (auto simp: amt)
  also have "\<dots> = (months - 1) * (tot div months)" using assms(1) by (simp add: sum_list_triv)
  finally have "(\<Sum>no\<leftarrow>[1..months]. installmentAmount tot months no)
      = (months - 1) * (tot div months) + (tot div months + tot mod months)"
    unfolding split by (simp add: amt)
  also have "\<dots> = months * (tot div months) + tot mod months" by (simp add: algebra_simps)
  finally show ?thesis by simp
qed

lemma installment_pos:
  assumes "0 < months" and "0 < big_quo tot months"
  shows "0 < installmentAmount tot months no"
  using assms by (simp add: installmentAmount_def big_mod_def add_pos_nonneg Let_def)

lemma numericToString_units [simp]: "text_units (numericToString (numericFromScale k)) = Some k"
  by (simp add: numericToString_def numericFromScale_def)

text \<open>Installment \<open>n\<close> falls due in the month \<open>n\<close> months after the disbursement when that month has
  the day of the disbursement.\<close>

lemma dueDate_eq:
  "dueDate offset t n = month_end (first_of (month_index (zone_date offset t) + n)
     + (zone_date offset t - month_start (zone_date offset t)))"
  by (simp add: dueDate_def AddDate_months_eq)

section \<open>Facts about statuses\<close>

lemma nextStatuses_length [simp]: "length (nextStatuses r rows) = length rows"
  by (induction r rows rule: nextStatuses.induct) (auto simp: Let_def)

text \<open>The installments before \<open>k\<close> in the list, in total.\<close>

definition due_before :: "RepaymentSchedule list \<Rightarrow> nat \<Rightarrow> int" where
  "due_before rows k = sum_list (map rs_amount (take k rows))"

lemma nextStatuses_none: "r \<le> 0 \<Longrightarrow> \<forall>x\<in>set rows. 0 < rs_amount x \<Longrightarrow> nextStatuses r rows = map rs_status rows"
  by (induction rows) auto

lemma nextStatuses_nth:
  assumes "\<forall>x\<in>set rows. 0 < rs_amount x" and "k < length rows"
  shows "nextStatuses applied rows ! k =
    (if due_before rows (Suc k) \<le> applied then Paid
     else if due_before rows k < applied then Partial else rs_status (rows ! k))"
  using assms
proof (induction rows arbitrary: applied k)
  case (Cons x rows)
  have pos: "0 < rs_amount x" "\<forall>y\<in>set rows. 0 < rs_amount y" using Cons.prems by auto
  have nonneg: "0 \<le> due_before rows j" for j
    unfolding due_before_def using pos(2) by (intro sum_list_nonneg) (auto dest: in_set_takeD intro: less_imp_le)
  show ?case
  proof (cases k)
    case 0
    then show ?thesis using pos by (simp add: due_before_def)
  next
    case (Suc j)
    then have j: "j < length rows" using Cons.prems by simp
    have db: "due_before (x # rows) (Suc i) = rs_amount x + due_before rows i" for i
      by (simp add: due_before_def)
    show ?thesis
    proof (cases "rs_amount x \<le> applied")
      case True
      then show ?thesis using Suc Cons.IH [OF pos(2) j] by (simp add: db)
    next
      case False
      then have "nextStatuses applied (x # rows) = (if 0 < applied then Partial else rs_status x) # map rs_status rows"
        using nextStatuses_none [OF _ pos(2)] by simp
      with Suc False j nonneg [of j] nonneg [of "Suc j"] show ?thesis by (simp add: db)
    qed
  qed
qed simp

section \<open>Properties\<close>

text \<open>C25. A repayment is split without loss: with obligations that are not negative, the recorded
  texts of penalty, interest, principal and credit are amounts that are not negative, each at most
  what was due, that add up to the payment; interest is only paid once penalties are settled,
  principal only after interest, and only what exceeds every obligation becomes credit. The loan
  closes exactly when nothing remains due.\<close>

theorem repayment_split:
  fixes p n i prior prin period :: int
  assumes "0 \<le> p" "0 \<le> n" "0 \<le> i" "prior \<le> prin"
  defines "a \<equiv> splitRepayment (db_num p) (db_num prior) (db_num prin) i (db_num n) period"
  shows "\<exists>pen int pri cre. text_units (ra_penalty a) = Some pen \<and> text_units (ra_interest a) = Some int
    \<and> text_units (ra_principal a) = Some pri \<and> text_units (ra_credit a) = Some cre
    \<and> ra_loanAppliedAmount a = pri \<and> ra_creditAmount a = cre
    \<and> pen + int + pri + cre = p
    \<and> 0 \<le> pen \<and> pen \<le> n \<and> 0 \<le> int \<and> int \<le> i \<and> 0 \<le> pri \<and> pri \<le> prin - prior \<and> 0 \<le> cre
    \<and> (0 < int \<longrightarrow> pen = n) \<and> (0 < pri \<longrightarrow> int = i \<and> pen = n)
    \<and> (0 < cre \<longrightarrow> pri = prin - prior \<and> int = i \<and> pen = n)
    \<and> (ra_loanClosed a \<longleftrightarrow> pen = n \<and> int = i \<and> prior + pri = prin)"
proof -
  have out: "0 \<le> prin - prior" using assms(4) by simp
  have a: "a = \<lparr>ra_period = Some period,
     ra_principal = decimalStringFromScale (split_principal p n i (prin - prior)) (-4),
     ra_interest = decimalStringFromScale (split_interest p n i) (-4),
     ra_penalty = decimalStringFromScale (split_penalty p n) (-4),
     ra_credit = decimalStringFromScale (split_credit p n i (prin - prior)) (-4),
     ra_loanAppliedAmount = split_principal p n i (prin - prior),
     ra_creditAmount = split_credit p n i (prin - prior),
     ra_loanClosed = ((prior + split_principal p n i (prin - prior) \<ge> prin \<and> split_interest p n i \<ge> i)
        \<and> split_penalty p n \<ge> n)\<rparr>"
    unfolding a_def using out by (subst splitRepayment_parts [OF refl refl refl]) simp
  note b = split_bounds [OF assms(1-3) out] and o = split_order [OF assms(1-3) out]
  have "ra_loanClosed a \<longleftrightarrow> split_penalty p n = n \<and> split_interest p n i = i
      \<and> prior + split_principal p n i (prin - prior) = prin"
    unfolding a using b(2,4,6) by auto
  with b o show ?thesis
    by (intro exI [of _ "split_penalty p n"] exI [of _ "split_interest p n i"]
        exI [of _ "split_principal p n i (prin - prior)"] exI [of _ "split_credit p n i (prin - prior)"])
      (simp add: a)
qed

theorem repayment_split_witness:
  "\<exists>pen int pri cre. text_units (ra_penalty (splitRepayment (db_num 500000) (db_num 100000) (db_num 400000) 20000 (db_num 10000) 0)) = Some pen
    \<and> pen + int + pri + cre = 500000 \<and> 0 \<le> cre"
  using repayment_split [of 500000 10000 20000 100000 400000 0] by auto

text \<open>C26. The schedule of a disbursed loan: one item per month of the repayment period, numbered
  from 1, with positive amounts that add up exactly to the principal; all but the last are the
  principal divided by the months, rounded down, and each falls due on the last day of a month.\<close>

theorem schedule_total:
  fixes offset disbursed prin months :: int
  assumes "0 < months" and "months \<le> prin"
  defines "items \<equiv> scheduleItems offset disbursed prin months"
  shows "map si_installment items = [1..months]
    \<and> (\<exists>amounts. map (text_units \<circ> si_amount) items = map Some amounts \<and> sum_list amounts = prin
         \<and> (\<forall>x\<in>set amounts. 0 < x) \<and> (\<forall>x\<in>set (butlast amounts). x = prin div months))
    \<and> (\<forall>x\<in>set items. si_due x = month_end (si_due x))"
proof -
  define amounts where "amounts = map (installmentAmount prin months) [1..months]"
  have "0 < prin div months" using assms(1,2) by (simp add: pos_imp_zdiv_pos_iff)
  then have "0 < big_quo prin months" using assms by (simp add: big_quo_nonneg)
  then have pos: "\<forall>x\<in>set amounts. 0 < x"
    using installment_pos [OF assms(1)] by (auto simp: amounts_def)
  have tot: "sum_list amounts = prin"
    using installment_sum [of months prin] assms by (simp add: amounts_def)
  have "butlast amounts = map (installmentAmount prin months) [1..months - 1]"
    using assms(1) upto_rec2 [of 1 months] by (simp add: amounts_def map_butlast)
  then have butl: "\<forall>x\<in>set (butlast amounts). x = prin div months"
    using assms by (auto simp: installmentAmount_def big_quo_nonneg Let_def)
  have texts: "map (text_units \<circ> si_amount) items = map Some amounts"
    by (simp add: items_def scheduleItems_def amounts_def)
  have "\<forall>x\<in>set items. si_due x = month_end (si_due x)"
    by (auto simp: items_def scheduleItems_def dueDate_def Let_def month_end_eq [of "month_end _"])
      (simp add: month_end_eq)
  moreover have "map si_installment items = [1..months]"
    by (simp add: items_def scheduleItems_def comp_def)
  ultimately show ?thesis using texts tot pos butl by blast
qed

theorem schedule_total_witness:
  "\<exists>amounts. map (text_units \<circ> si_amount) (scheduleItems 0 0 1000000 3) = map Some amounts \<and> sum_list amounts = 1000000"
  using schedule_total [of 3 1000000 0 0] by auto

text \<open>C27. The status of an installment after a repayment is decided by the principal applied in
  total: paid when it covers all installments up to this one, partial when it covers those before
  it and some of this one, unchanged otherwise.\<close>

theorem installment_status:
  assumes "\<forall>x\<in>set rows. 0 < rs_amount x" and "k < length rows"
  shows "nextStatuses applied rows ! k =
    (if sum_list (map rs_amount (take (Suc k) rows)) \<le> applied then Paid
     else if sum_list (map rs_amount (take k rows)) < applied then Partial else rs_status (rows ! k))"
  using nextStatuses_nth [OF assms] by (simp add: due_before_def)

definition sample_schedule :: "RepaymentSchedule list" where
  "sample_schedule = map (\<lambda>n. \<lparr>rs_id = nat n, rs_loan = 60, rs_installment = n, rs_due = 100 + n, rs_amount = 1000,
     rs_status = Upcoming, rs_created = 0, rs_updated = 0\<rparr>) [1..3]"

theorem installment_status_witness: "nextStatuses 1500 sample_schedule ! 1 = Partial"
proof -
  have rows: "\<forall>x\<in>set sample_schedule. 0 < rs_amount x" "1 < length sample_schedule" by code_simp+
  have "sum_list (map rs_amount (take (Suc 1) sample_schedule)) = 2000"
    "sum_list (map rs_amount (take 1 sample_schedule)) = 1000" by code_simp+
  then show ?thesis using installment_status [OF rows, of 1500] by simp
qed

text \<open>C28. Due dates when the disbursement is on a day that every month has: installment \<open>n\<close> falls due on
  the last day of the \<open>n\<close>-th month after the disbursement, one in every month.\<close>

theorem due_dates_monthly:
  assumes "zone_date offset disbursed - month_start (zone_date offset disbursed) < 28"
  shows "month_index (dueDate offset disbursed n) = month_index (zone_date offset disbursed) + n
    \<and> dueDate offset disbursed n = first_of (month_index (zone_date offset disbursed) + n + 1) - 1"
proof -
  let ?t = "zone_date offset disbursed"
  let ?k = "month_index ?t + n"
  have "0 \<le> ?t - month_start ?t" using month_start_le [of ?t] by simp
  moreover have "first_of ?k + 28 \<le> first_of (?k + 1)" by (rule month_length)
  ultimately have "month_index (first_of ?k + (?t - month_start ?t)) = ?k"
    using assms by (intro month_index_unique) auto
  moreover define u where "u = first_of ?k + (?t - month_start ?t)"
  ultimately have "month_index u = ?k" by simp
  moreover have "dueDate offset disbursed n = month_end u" by (simp add: dueDate_eq u_def)
  ultimately show ?thesis using month_index_end [of u] month_end_eq [of u] by simp
qed

theorem due_dates_monthly_witness:
  "dueDate 0 (days_of_civil 2027 1 28 * 86400000000) 1 = first_of (month_index (days_of_civil 2027 1 28) + 2) - 1"
proof -
  have "zone_date 0 (days_of_civil 2027 1 28 * 86400000000) = days_of_civil 2027 1 28" by code_simp
  moreover have "days_of_civil 2027 1 28 - month_start (days_of_civil 2027 1 28) < 28" by code_simp
  ultimately show ?thesis using due_dates_monthly [of 0 "days_of_civil 2027 1 28 * 86400000000" 1] by (simp add: add.commute)
qed


end
