(* ===== verification/Loan_Service.thy ===== *)
theory Loan_Service
  imports Loan_Alloc
begin

text \<open>
  The loan life cycle, \<open>internal/loan/service.go\<close>: application, guarantors, approval, rejection,
  disbursement and repayment. Each method is the body of its transaction on the joint share and
  loan tables. \<open>clock\<close> is \<open>time.Now()\<close>, which need not be the transaction's \<open>NOW()\<close>, and \<open>offset\<close>
  the server's local time zone, in which pgx returns timestamps.
\<close>

section \<open>Helpers\<close>

definition maxGuarantors :: nat where
  "maxGuarantors = 20"

definition map_error :: "('e \<Rightarrow> 'e) \<Rightarrow> ('s, 'e, 'a) tx \<Rightarrow> ('s, 'e, 'a) tx" where
  "map_error f m = (\<lambda>s. case m s of Inl e \<Rightarrow> Inl (f e) | Inr r \<Rightarrow> Inr r)"

lemma map_error_Inr [tx_simps]: "map_error f m s = Inr r \<longleftrightarrow> m s = Inr r"
  by (auto simp: map_error_def split: sum.splits)

lemma map_error_Inl [tx_simps]: "map_error f m s = Inl e \<longleftrightarrow> (\<exists>d. m s = Inl d \<and> e = f d)"
  by (auto simp: map_error_def split: sum.splits)

lemma keeps_map_error [keeps_intros]: "keeps P m \<Longrightarrow> keeps P (map_error f m)"
  by (auto simp: keeps_def tx_simps)

definition or_error :: "'e \<Rightarrow> ('s, 'e, 'a option) tx \<Rightarrow> ('s, 'e, 'a) tx" where
  "or_error e m = tx_bind m (\<lambda>x. case x of None \<Rightarrow> throw e | Some y \<Rightarrow> ret y)"

lemma or_error_Inr [tx_simps]: "or_error e m s = Inr (x, s') \<longleftrightarrow> m s = Inr (Some x, s')"
  by (auto simp: or_error_def tx_simps)

lemma keeps_or_error [keeps_intros]: "keeps P m \<Longrightarrow> keeps P (or_error e m)"
  unfolding or_error_def by (intro keeps_intros)

definition requireActiveMemberInTx :: "pg_uuid \<Rightarrow> int \<Rightarrow> loan_error \<Rightarrow> ('s member_db_scheme, error, unit) tx" where
  "requireActiveMemberInTx m branch inactiveErr =
     map_error (\<lambda>e. if e = MemberE member_error.ErrMemberNotActive then LoanE inactiveErr else e)
       (RequireActiveMemberInTx m branch)"

definition requireActiveMember :: "pg_uuid \<Rightarrow> loan_error \<Rightarrow> ('s member_db_scheme, error, unit) tx" where
  "requireActiveMember m inactiveErr = map_error (\<lambda>_. LoanE inactiveErr) (RequireActiveMember m)"

definition insertStatusAudit ::
    "env \<Rightarrow> uuid \<Rightarrow> LoanStatus \<Rightarrow> LoanStatus \<Rightarrow> pg_uuid \<Rightarrow> string \<Rightarrow> ('s loan_db_scheme, error, unit) tx" where
  "insertStatusAudit v l previous new by reason =
     q_InsertLoanAuditTrail v l ''status'' (text_of (loan_status_text previous)) (loan_status_text new) by reason"

definition normalizeLimit :: "int \<Rightarrow> int" where
  "normalizeLimit lim = (if lim \<le> 0 \<or> lim > 100 then 50 else lim)"

definition lockLoan :: "uuid \<Rightarrow> ('s loan_db_scheme, error, Loan) tx" where
  "lockLoan i = or_error (LoanE ErrLoanNotFound) (q_LockLoanByID i)"

definition GetLoan :: "uuid \<Rightarrow> ('s loan_db_scheme, error, Loan) tx" where
  "GetLoan i = or_error (LoanE ErrLoanNotFound) (q_GetLoanByID i)"

section \<open>Application\<close>

text \<open>The loop over the proposed guarantors: the guarantees in ten-thousandths, or the first error.\<close>

fun proposedTotal :: "pg_uuid \<Rightarrow> uuid list \<Rightarrow> (uuid \<times> numeric) list \<Rightarrow> loan_error + int" where
  "proposedTotal applicant seen [] = Inr 0"
| "proposedTotal applicant seen ((g, amount) # gs) =
     (if \<not> positive amount then Inl ErrInvalidGuaranteedAmount
      else if applicant = Some g then Inl ErrSelfGuarantee
      else if g \<in> set seen then Inl ErrDuplicateGuarantor
      else case proposedTotal applicant (g # seen) gs of Inl e \<Rightarrow> Inl e
        | Inr t \<Rightarrow> Inr (numericToScale amount (-4) + t))"

definition validateApplication ::
    "CreateLoanParams \<Rightarrow> numeric \<Rightarrow> (uuid \<times> numeric) list \<Rightarrow> loan_error option" where
  "validateApplication params sharePledge guarantors =
     (if \<not> positive (cl_principal params) then Some ErrInvalidLoanAmount
      else if \<not> nonNegative (cl_rate params) then Some ErrInvalidInterestRate
      else if cl_months params < 1 \<or> cl_months params > 36 then Some ErrInvalidRepaymentPeriod
      else if length guarantors > maxGuarantors then Some ErrTooManyGuarantors
      else case proposedTotal (cl_member params) [] guarantors of Inl e \<Rightarrow> Some e
        | Inr totalGuarantee \<Rightarrow>
          if numericToScale sharePledge (-4) < 0 then Some ErrInsufficientCollateral
          else if totalGuarantee + numericToScale sharePledge (-4) < numericToScale (cl_principal params) (-4)
          then Some ErrInsufficientCollateral else None)"

definition applyInTx ::
    "env \<Rightarrow> CreateLoanParams \<Rightarrow> numeric \<Rightarrow> (uuid \<times> numeric) list \<Rightarrow> ('s loan_db_scheme, error, Loan) tx" where
  "applyInTx v params sharePledge guarantors =
     (let memberIDs = cl_member params # map (Some \<circ> fst) guarantors in
      tx_bind (LockActiveMembersInTx memberIDs (cl_branch params)) (\<lambda>activeIDs.
      case cl_member params of None \<Rightarrow> throw (LoanE loan_error.ErrMemberNotActive)
      | Some memberID \<Rightarrow>
        if memberID \<notin> set activeIDs then throw (LoanE loan_error.ErrMemberNotActive)
        else if length activeIDs \<noteq> length memberIDs then throw (LoanE ErrGuarantorNotActive)
        else tx_bind (or_error NoRowsE (q_CreateLoan v params)) (\<lambda>loan.
          tx_bind (ProposeApplicantSecurity v (ln_id loan) memberID (cl_principal params) sharePledge guarantors) (\<lambda>_.
          tx_bind (if guarantors \<noteq> [] then q_CreateProposedLoanGuarantors v (ln_id loan) guarantors else ret ()) (\<lambda>_.
          tx_bind (q_InsertLoanAuditTrail v (ln_id loan) ''loan.application'' None (loan_status_text LoanPending)
             (cl_updated_by params) ''loan application submitted'') (\<lambda>_. ret loan))))))"

definition ApplyForLoan ::
    "env \<Rightarrow> CreateLoanParams \<Rightarrow> numeric \<Rightarrow> (uuid \<times> numeric) list \<Rightarrow> ('s loan_db_scheme, error, Loan) tx" where
  "ApplyForLoan v params sharePledge guarantors =
     (case validateApplication params sharePledge guarantors of Some e \<Rightarrow> throw (LoanE e)
      | None \<Rightarrow> map_error (\<lambda>e. if errors_is e (ShareE ErrLoanSecurity) then LoanWrapE ErrInsufficientCollateral e else e)
          (applyInTx v params sharePledge guarantors))"

section \<open>Guarantors\<close>

definition AddGuarantor ::
    "env \<Rightarrow> uuid \<Rightarrow> uuid \<Rightarrow> numeric \<Rightarrow> ('s loan_db_scheme, error, LoanGuarantor) tx" where
  "AddGuarantor v loanID guarantorID guaranteedAmount =
     (if \<not> positive guaranteedAmount then throw (LoanE ErrInvalidGuaranteedAmount)
      else tx_bind (requireActiveMember (Some guarantorID) ErrGuarantorNotActive) (\<lambda>_.
      tx_bind (lockLoan loanID) (\<lambda>current.
      if ln_status current \<noteq> LoanPending then throw (LoanE loan_error.ErrInvalidStatusTransition)
      else if ln_member current = guarantorID then throw (LoanE ErrSelfGuarantee)
      else tx_bind (q_GetLoanGuarantor loanID guarantorID) (\<lambda>x.
        case x of Some existing \<Rightarrow>
          if lg_status existing = GuarantorRejected
             \<or> numericToScale (db_num (lg_amount existing)) (-4) \<noteq> numericToScale guaranteedAmount (-4)
          then throw (LoanE ErrDuplicateGuarantor) else ret existing
        | None \<Rightarrow> tx_bind (q_ListLoanGuarantors loanID maxGuarantors) (\<lambda>guarantors.
            if length guarantors \<ge> maxGuarantors then throw (LoanE ErrTooManyGuarantors)
            else tx_bind (requireActiveMemberInTx (Some guarantorID) (ln_branch current) ErrGuarantorNotActive) (\<lambda>_.
              tx_bind (CheckGuarantorSecurity (Some guarantorID) guaranteedAmount) (\<lambda>_.
              q_CreateLoanGuarantor v loanID guarantorID guaranteedAmount)))))))"

definition lockGuarantor :: "uuid \<Rightarrow> uuid \<Rightarrow> ('s loan_db_scheme, error, LoanGuarantor) tx" where
  "lockGuarantor l g = or_error (LoanE ErrGuarantorNotFound) (q_LockGuarantor l g)"

definition ApproveGuarantor ::
    "env \<Rightarrow> uuid \<Rightarrow> uuid \<Rightarrow> pg_uuid \<Rightarrow> ('s loan_db_scheme, error, LoanGuarantor) tx" where
  "ApproveGuarantor v loanID guarantorID approvedBy = tx_bind (lockLoan loanID) (\<lambda>loan.
     tx_bind (lockGuarantor loanID guarantorID) (\<lambda>current.
     if lg_status current = GuarantorApproved then ret current
     else if ln_status loan \<noteq> LoanPending then throw (LoanE loan_error.ErrInvalidStatusTransition)
     else if lg_status current \<noteq> GuarantorPending then throw (LoanE ErrInvalidGuarantorStatus)
     else tx_bind (requireActiveMemberInTx (Some guarantorID) (ln_branch loan) ErrGuarantorNotActive) (\<lambda>_.
       tx_bind (ApproveGuarantorSecurity v loanID (Some guarantorID) approvedBy (db_num (lg_amount current))) (\<lambda>_.
       tx_bind (or_error NoRowsE (q_UpdateGuarantorStatus v GuarantorApproved approvedBy loanID guarantorID)) (\<lambda>guarantor.
       tx_bind (q_InsertLoanAuditTrail v loanID ''guarantor.status'' (text_of (guarantor_status_text (lg_status current)))
         (guarantor_status_text GuarantorApproved) approvedBy ''guarantor approved'') (\<lambda>_. ret guarantor))))))"

definition RemoveGuarantor :: "env \<Rightarrow> uuid \<Rightarrow> uuid \<Rightarrow> pg_uuid \<Rightarrow> ('s loan_db_scheme, error, unit) tx" where
  "RemoveGuarantor v loanID guarantorID removedBy = tx_bind (lockLoan loanID) (\<lambda>loan.
     if ln_status loan \<noteq> LoanPending then throw (LoanE loan_error.ErrInvalidStatusTransition)
     else tx_bind (lockGuarantor loanID guarantorID) (\<lambda>current.
       tx_bind (ReleaseLoanSecurity v loanID (Some guarantorID)) (\<lambda>_.
       if lg_status current = GuarantorRejected then ret ()
       else tx_bind (or_error NoRowsE (q_UpdateGuarantorStatus v GuarantorRejected (lg_approved_by current) loanID guarantorID)) (\<lambda>_.
         q_InsertLoanAuditTrail v loanID ''guarantor.status'' (text_of (guarantor_status_text (lg_status current)))
           (guarantor_status_text GuarantorRejected) removedBy ''guarantor removed''))))"

section \<open>Approval, rejection, disbursement\<close>

definition approvedGuarantors :: "LoanGuarantor list \<Rightarrow> LoanGuarantor list" where
  "approvedGuarantors gs = filter (\<lambda>g. lg_status g = GuarantorApproved) gs"

definition verifyCollateral ::
    "env \<Rightarrow> uuid \<Rightarrow> uuid \<Rightarrow> int \<Rightarrow> numeric \<Rightarrow> pg_uuid \<Rightarrow> ('s loan_db_scheme, error, unit) tx" where
  "verifyCollateral v loanID memberID branchID prin approvedBy =
     tx_bind (requireActiveMemberInTx (Some memberID) branchID loan_error.ErrMemberNotActive) (\<lambda>_.
     tx_bind (VerifyApplicantSecurity v loanID (Some memberID) approvedBy prin) (\<lambda>pledge.
     tx_bind (q_ListLoanGuarantors loanID maxGuarantors) (\<lambda>guarantors.
     let approved = approvedGuarantors guarantors;
         approvedIDs = map (Some \<circ> lg_guarantor) approved;
         approvedAmounts = map (\<lambda>g. (lg_guarantor g, db_num (lg_amount g))) approved;
         coverage = numericToScale pledge (-4) + sum_list (map (\<lambda>g. numericToScale (db_num (lg_amount g)) (-4)) approved)
     in tx_bind (if approvedIDs \<noteq> [] then
            tx_bind (LockActiveMembersInTx approvedIDs branchID) (\<lambda>active.
            if length active \<noteq> length approvedIDs then throw (LoanE ErrGuarantorNotActive)
            else VerifyGuarantorSecurities loanID approvedAmounts)
          else ret ()) (\<lambda>_.
        if coverage < numericToScale prin (-4) then throw (LoanE ErrInsufficientCollateral) else ret ()))))"

definition ApproveLoan :: "env \<Rightarrow> uuid \<Rightarrow> pg_uuid \<Rightarrow> string \<Rightarrow> ('s loan_db_scheme, error, Loan) tx" where
  "ApproveLoan v loanID approvedBy reason = tx_bind (lockLoan loanID) (\<lambda>current.
     if ln_status current \<noteq> LoanPending then throw (LoanE loan_error.ErrInvalidStatusTransition)
     else tx_bind (verifyCollateral v loanID (ln_member current) (ln_branch current) (db_num (ln_principal current)) approvedBy) (\<lambda>_.
       tx_bind (or_error NoRowsE (q_UpdateLoanStatus v loanID LoanApproved approvedBy)) (\<lambda>loan.
       tx_bind (insertStatusAudit v loanID (ln_status current) LoanApproved approvedBy reason) (\<lambda>_. ret loan))))"

definition RejectLoan :: "env \<Rightarrow> uuid \<Rightarrow> pg_uuid \<Rightarrow> string \<Rightarrow> ('s loan_db_scheme, error, Loan) tx" where
  "RejectLoan v loanID rejectedBy reason = tx_bind (lockLoan loanID) (\<lambda>current.
     if ln_status current \<noteq> LoanPending \<and> ln_status current \<noteq> LoanApproved
     then throw (LoanE loan_error.ErrInvalidStatusTransition)
     else tx_bind (or_error NoRowsE (q_UpdateLoanStatus v loanID LoanRejected rejectedBy)) (\<lambda>loan.
       tx_bind (insertStatusAudit v loanID (ln_status current) LoanRejected rejectedBy reason) (\<lambda>_.
       tx_bind (ReleaseLoanSecurity v loanID None) (\<lambda>_. ret loan))))"

definition createSchedule :: "env \<Rightarrow> int \<Rightarrow> uuid \<Rightarrow> Loan \<Rightarrow> timestamptz \<Rightarrow> ('s loan_db_scheme, error, unit) tx" where
  "createSchedule v offset loanID current disbursedAt =
     (if ln_months current \<le> 0 then throw (LoanE ErrInvalidRepaymentPeriod)
      else let tot = numericToScale (db_num (ln_principal current)) (-4) in
        if big_quo tot (ln_months current) \<le> 0 then throw (LoanE ErrInvalidLoanAmount)
        else let schedules = scheduleItems offset disbursedAt tot (ln_months current) in
          tx_bind (q_CreateRepaymentSchedules v loanID schedules) (\<lambda>inserted.
          if inserted \<noteq> int (length schedules) then throw (DbE RowCountMismatch) else ret ()))"

definition DisburseLoan ::
    "env \<Rightarrow> int \<Rightarrow> uuid \<Rightarrow> pg_uuid \<Rightarrow> string \<Rightarrow> ('s loan_db_scheme, error, LoanTransaction \<times> Loan) tx" where
  "DisburseLoan v offset loanID disbursedBy reason = tx_bind (lockLoan loanID) (\<lambda>current.
     tx_bind (q_GetLoanDisbursement loanID) (\<lambda>x.
     case x of Some existing \<Rightarrow> ret (existing, current)
     | None \<Rightarrow>
       if ln_status current \<noteq> LoanApproved then throw (LoanE loan_error.ErrInvalidStatusTransition)
       else tx_bind (verifyCollateral v loanID (ln_member current) (ln_branch current) (db_num (ln_principal current)) None) (\<lambda>_.
         tx_bind (or_error NoRowsE (q_InsertLoanTransaction v \<lparr>il_loan = loanID, il_type = Disbursement,
            il_amount = db_num (ln_principal current), il_reference = env_uuid v 1, il_gateway = None,
            il_breakdown = empty_json, il_created_by = disbursedBy\<rparr>)) (\<lambda>t.
         tx_bind (or_error NoRowsE (q_MarkLoanDisbursed v loanID disbursedBy)) (\<lambda>loan.
         tx_bind (createSchedule v offset loanID current (env_now v)) (\<lambda>_.
         tx_bind (q_AssessLoanInterest v (month_start (eat_date (env_now v))) loanID) (\<lambda>_.
         tx_bind (insertStatusAudit v loanID (ln_status current) LoanActive disbursedBy reason) (\<lambda>_.
         ret (t, loan)))))))))"

section \<open>Repayment\<close>

definition repayable :: "LoanStatus \<Rightarrow> bool" where
  "repayable st \<longleftrightarrow> st = LoanDisbursed \<or> st = LoanActive \<or> st = LoanDelinquent"

definition LoanValidateContributionTarget :: "uuid \<Rightarrow> uuid \<Rightarrow> int \<Rightarrow> ('s loan_db_scheme, error, unit) tx" where
  "LoanValidateContributionTarget loanID memberID branchID = tx_bind (lockLoan loanID) (\<lambda>current.
     if ln_member current \<noteq> memberID \<or> ln_branch current \<noteq> branchID then throw (LoanE ErrLoanNotFound)
     else if repayable (ln_status current) then ret () else throw (LoanE ErrPaymentNotAllowed))"

text \<open>The gates on the period and the assessment of the months that were missed.\<close>

definition after :: "date option \<Rightarrow> date \<Rightarrow> bool" where
  "after x p = (case x of None \<Rightarrow> False | Some d \<Rightarrow> d > p)"

definition assessMissed ::
    "env \<Rightarrow> Loan \<Rightarrow> date option \<Rightarrow> date \<Rightarrow> ('s loan_db_scheme, error, unit) tx" where
  "assessMissed v current totalsLatest period =
     tx_bind (q_GetLoanInterestPeriod (ln_id current)) (\<lambda>latest.
     if after latest period \<or> after totalsLatest period then throw (LoanE ErrInvalidRepaymentPeriod)
     else if (case ln_disbursed current of None \<Rightarrow> False | Some t \<Rightarrow> period < month_start (eat_date t))
     then throw (LoanE ErrInvalidRepaymentPeriod)
     else let first = (case latest of None \<Rightarrow> period | Some d \<Rightarrow> AddDate_months d 1) in
       if first > period then ret ()
       else q_AssessLoanInterestPeriods v first period (ln_id current))"

text \<open>What follows the insertion of the repayment: credit, installments, closing.\<close>

definition settleRepayment ::
    "env \<Rightarrow> Loan \<Rightarrow> RepaymentSchedule list \<Rightarrow> numeric \<Rightarrow> repaymentAllocation \<Rightarrow> pg_uuid \<Rightarrow> ('s loan_db_scheme, error, unit) tx" where
  "settleRepayment v current schedules priorApplied allocation createdBy =
     tx_bind (if ra_creditAmount allocation > 0 then
         tx_bind (q_CreateCreditBalance v (ln_member current) (Some (ln_id current))
           (numericFromScale (ra_creditAmount allocation)) Overpayment) (\<lambda>_. ret ())
       else ret ()) (\<lambda>_.
     tx_bind (updateScheduleStatuses v schedules (numericToScale priorApplied (-4) + ra_loanAppliedAmount allocation)) (\<lambda>_.
     if ra_loanClosed allocation then
       tx_bind (or_error NoRowsE (q_UpdateLoanStatus v (ln_id current) LoanClosed createdBy)) (\<lambda>_.
       tx_bind (insertStatusAudit v (ln_id current) (ln_status current) LoanClosed createdBy ''loan fully repaid'') (\<lambda>_.
       ReleaseLoanSecurity v (ln_id current) None))
     else ret ()))"

definition interestOutstanding :: "numeric \<Rightarrow> numeric \<Rightarrow> int" where
  "interestOutstanding assessed repaid =
     (let interestDue = numericToScale assessed (-4) - numericToScale repaid (-4)
      in if interestDue < 0 then 0 else interestDue)"

definition postRepayment ::
    "env \<Rightarrow> Loan \<Rightarrow> numeric \<Rightarrow> string \<Rightarrow> pg_uuid \<Rightarrow> date \<Rightarrow> ('s loan_db_scheme, error, LoanTransaction) tx" where
  "postRepayment v current amount gatewayTransactionID createdBy period =
     tx_bind (q_LockActiveRepaymentSchedulesByLoan (ln_id current)) (\<lambda>schedules.
     if schedules = [] then throw (LoanE ErrRepaymentScheduleMissing)
     else tx_bind (q_GetLoanRepaymentTotals (ln_id current)) (\<lambda>totals.
       tx_bind (assessMissed v current (rt_latest totals) period) (\<lambda>_.
       tx_bind (q_SumLoanInterestDue (ln_id current)) (\<lambda>assessed.
       tx_bind (q_GetLoanPenaltyDue (ln_id current)) (\<lambda>penaltyDue.
       let allocation = splitRepayment amount (rt_principal totals) (db_num (ln_principal current))
             (interestOutstanding assessed (rt_interest totals)) penaltyDue period
       in tx_bind (or_error NoRowsE (q_InsertLoanTransaction v \<lparr>il_loan = ln_id current, il_type = Repayment,
            il_amount = amount, il_reference = env_uuid v 1, il_gateway = Some gatewayTransactionID,
            il_breakdown = allocationJSON allocation, il_created_by = createdBy\<rparr>)) (\<lambda>t.
       tx_bind (settleRepayment v current schedules (rt_principal totals) allocation createdBy) (\<lambda>_. ret t)))))))"

definition RecordRepaymentForPeriodInTx ::
    "env \<Rightarrow> timestamptz \<Rightarrow> uuid \<Rightarrow> numeric \<Rightarrow> string \<Rightarrow> pg_uuid \<Rightarrow> date option \<Rightarrow> pg_uuid \<Rightarrow> int \<Rightarrow>
     ('s loan_db_scheme, error, LoanTransaction) tx" where
  "RecordRepaymentForPeriodInTx v clock loanID amount gatewayTransactionID createdBy period memberID branchID =
     (case period of None \<Rightarrow> throw (LoanE ErrInvalidRepaymentPeriod)
      | Some day \<Rightarrow>
        let period = month_start day; gatewayTransactionID = TrimSpace gatewayTransactionID in
        if period > month_start (eat_date clock) then throw (LoanE ErrInvalidRepaymentPeriod)
        else if \<not> positive amount then throw (LoanE ErrInvalidLoanAmount)
        else if gatewayTransactionID = '''' then throw (LoanE ErrGatewayTransactionID)
        else tx_bind (lockLoan loanID) (\<lambda>current.
          if memberID \<noteq> None \<and> (Some (ln_member current) \<noteq> memberID \<or> ln_branch current \<noteq> branchID)
          then throw (LoanE ErrLoanNotFound)
          else tx_bind (q_GetLoanTransactionByGatewayID loanID gatewayTransactionID) (\<lambda>x.
            case x of Some t \<Rightarrow>
              if numericToScale (db_num (lt_amount t)) (-9) \<noteq> numericToScale amount (-9)
              then throw (LoanE ErrRepaymentAmountConflict) else ret t
            | None \<Rightarrow>
              if \<not> repayable (ln_status current) then throw (LoanE ErrPaymentNotAllowed)
              else postRepayment v current amount gatewayTransactionID createdBy period)))"

definition RecordRepaymentForPeriod ::
    "env \<Rightarrow> timestamptz \<Rightarrow> uuid \<Rightarrow> numeric \<Rightarrow> string \<Rightarrow> pg_uuid \<Rightarrow> date option \<Rightarrow>
     's loan_db_scheme \<Rightarrow> (error + LoanTransaction) \<times> 's loan_db_scheme" where
  "RecordRepaymentForPeriod v clock loanID amount gatewayTransactionID createdBy period =
     execTx (RecordRepaymentForPeriodInTx v clock loanID amount gatewayTransactionID createdBy period None 0)"

definition RecordRepayment ::
    "env \<Rightarrow> timestamptz \<Rightarrow> uuid \<Rightarrow> numeric \<Rightarrow> string \<Rightarrow> pg_uuid \<Rightarrow>
     's loan_db_scheme \<Rightarrow> (error + LoanTransaction) \<times> 's loan_db_scheme" where
  "RecordRepayment v clock loanID amount gatewayTransactionID createdBy =
     RecordRepaymentForPeriod v clock loanID amount gatewayTransactionID createdBy (Some (eat_date clock))"

end
