(* ===== verification/Frames.thy ===== *)
theory Frames
  imports Loan_Service
begin

text \<open>
  Which operations leave which tables alone. A predicate that does not look at a group of tables
  is kept by every operation that only writes those tables; each group is a locale that extends the
  smaller ones, and its client lemmas are proved once, for any such predicate. The locales are interpreted on \<open>core\<close>,
  the tables that decide what is owed on a loan, and on the share side.
\<close>

text \<open>An update by a function is an update by a value.\<close>

lemma update_by_value:
  "members_update f s = s\<lparr>members := f (members s)\<rparr>"
  "member_status_history_update g s = s\<lparr>member_status_history := g (member_status_history s)\<rparr>"
  by simp_all

lemma guarantors_by_value: "loan_guarantors_update f s = s\<lparr>loan_guarantors := f (loan_guarantors s)\<rparr>"
  by simp

section \<open>Predicates that do not depend on pledges\<close>

locale pledge_stable =
  fixes P :: "'s share_db_scheme \<Rightarrow> bool"
  assumes pledges: "P (s\<lparr>share_pledges := ps\<rparr>) = P s"
begin

lemma keeps_pledge_queries [keeps_intros]:
  "keeps P (q_CreateSharePledge v a l amt ty)"
  "keeps P (q_ActivateSharePledge v i by)"
  "keeps P (q_ReleaseLoanSharePledges v l m)"
  by (auto simp: keeps_def query_defs tx_simps Let_def pledges split: option.splits if_splits)

lemma keeps_balances [keeps_intros]: "keeps P (loanSecurityBalances m)"
  unfolding loanSecurityBalances_def q_LockAccountByMemberID_def q_GetLatestBalance_def q_GetActivePledgedAmount_def
  by (intro keeps_intros)

lemma keeps_security [keeps_intros]:
  "keeps P (CheckGuarantorSecurity m amt)"
  "keeps P (ProposeApplicantSecurity v l mid prin amt gs)"
  "keeps P (ApproveGuarantorSecurity v l m by amt)"
  "keeps P (VerifyApplicantSecurity v l m by prin)"
  "keeps P (VerifyGuarantorSecurity l m amt)"
  "keeps P (VerifyGuarantorSecurities l amts)"
  "keeps P (ReleaseLoanSecurity v l m)"
proof -
  show check: "keeps P (CheckGuarantorSecurity m amt)"
    unfolding CheckGuarantorSecurity_def by (intro keeps_intros)
  show "keeps P (ProposeApplicantSecurity v l mid prin amt gs)"
    unfolding ProposeApplicantSecurity_def q_LockSecurityAccounts_def q_GetSecurityBalances_def
    by (intro keeps_intros)
  show "keeps P (ApproveGuarantorSecurity v l m by amt)"
    unfolding ApproveGuarantorSecurity_def by (intro keeps_intros check)
  show "keeps P (VerifyApplicantSecurity v l m by prin)"
    unfolding VerifyApplicantSecurity_def activate_applicant_def q_LockLoanShareAccounts_def q_GetApplicantSharePledge_def
    by (intro keeps_intros)
  show "keeps P (VerifyGuarantorSecurity l m amt)"
    unfolding VerifyGuarantorSecurity_def q_GetGuarantorSharePledge_def by (intro keeps_intros)
  show "keeps P (VerifyGuarantorSecurities l amts)"
    unfolding VerifyGuarantorSecurities_def q_GetSecurityBalances_def q_ListGuarantorSharePledges_def
    by (intro keeps_intros)
  show "keeps P (ReleaseLoanSecurity v l m)"
    unfolding ReleaseLoanSecurity_def q_LockLoanShareAccounts_def by (intro keeps_intros)
qed

end

section \<open>Predicates that do not depend on the ledger\<close>

locale ledger_stable =
  fixes P :: "'s share_db_scheme \<Rightarrow> bool"
  assumes ledger: "P (s\<lparr>share_transactions := ts\<rparr>) = P s" "P (s\<lparr>share_adjustments := js\<rparr>) = P s"
begin

lemma keeps_ledger_queries [keeps_intros]:
  "keeps P (q_InsertShareTransaction v p)"
  "keeps P (q_InsertAdjustment v a amt ref by rsn)"
  "keeps P (q_UpdateAdjustmentApproved v i t by rsn audit)"
  by (auto simp: keeps_def query_defs tx_simps Let_def ledger split: option.splits if_splits)

lemma keeps_posting [keeps_intros]: "keeps P (postTransactionInTx v a ty amt ref orig rsn m b)"
  unfolding postTransactionInTx_def post_new_def post_balance_def check_replay_def q_LockAndReadAccount_def
    q_GetTransactionByReference_def q_GetWithdrawalPosition_def q_GetLatestBalance_def
  by (intro keeps_intros)

lemma keeps_ledger_service:
  "keeps P (CreateAdjustment v a amt ref orig rsn)"
  "keeps P (ApproveShareAdjustment v i by rsn audit)"
  "keeps P (ReverseShareTransaction v i ref orig rsn)"
proof -
  show "keeps P (CreateAdjustment v a amt ref orig rsn)"
    unfolding CreateAdjustment_def q_GetAccountByID_def q_GetAdjustmentByReference_def by (intro keeps_intros)
  show "keeps P (ApproveShareAdjustment v i by rsn audit)"
    unfolding ApproveShareAdjustment_def approve_post_def q_LockAdjustmentByID_def q_LockAndReadAccount_def
      q_GetWithdrawalPosition_def q_GetTransactionByReference_def
    by (intro keeps_intros)
  show "keeps P (ReverseShareTransaction v i ref orig rsn)"
    unfolding ReverseShareTransaction_def reverse_post_def q_GetTransactionByID_def q_GetReversalTransactions_def
      q_LockAndReadAccount_def q_GetLatestBalance_def q_GetActivePledgedAmount_def q_GetTransactionByReference_def
    by (intro keeps_intros)
qed

end

section \<open>Predicates that do not depend on the members\<close>

locale member_stable =
  fixes P :: "'s member_db_scheme \<Rightarrow> bool"
  assumes member_tables: "P (s\<lparr>members := ms\<rparr>) = P s" "P (s\<lparr>member_status_history := hs\<rparr>) = P s"
begin

lemma member_updates: "P (members_update f s) = P s" "P (member_status_history_update g s) = P s"
  by (subst update_by_value, rule member_tables)+

lemma keeps_member_service:
  "keeps P (UpdateMemberStatus v i st rsn)"
  "keeps P (CloseMember v i rsn)"
proof -
  have queries: "keeps P (q_UpdateMemberStatus v i st)" "keeps P (q_DeactivateMember v i)"
    "keeps P (q_RecordMemberStatusTransition c)" "keeps P (q_GetMemberByID m)" for st c m
    by (auto simp: keeps_def query_defs tx_simps member_updates)
  show "keeps P (UpdateMemberStatus v i st rsn)"
    unfolding UpdateMemberStatus_def by (intro keeps_intros queries)
  show "keeps P (CloseMember v i rsn)"
    unfolding CloseMember_def by (intro keeps_intros queries)
qed

end

section \<open>Predicates that do not depend on the share and member tables\<close>

locale share_stable = pledge_stable P + ledger_stable P + member_stable P for P :: "'s share_db_scheme \<Rightarrow> bool" +
  assumes accounts: "P (s\<lparr>share_accounts := as\<rparr>) = P s"
begin

lemma keeps_open: "keeps P (OpenShareAccount v mem b)"
proof -
  have "keeps P (q_CreateShareAccount v m b)" for m b
    by (auto simp: keeps_def query_defs tx_simps Let_def accounts split: option.splits if_splits)
  then show ?thesis unfolding OpenShareAccount_def q_GetAccountByMemberID_def by (intro keeps_intros)
qed

end

section \<open>Predicates on what is owed\<close>

text \<open>Only the loans, the loan transactions and the assessed interest matter.\<close>

locale core_stable = share_stable P for P :: "'s loan_db_scheme \<Rightarrow> bool" +
  assumes loan_tables: "P (s\<lparr>loan_guarantors := gs\<rparr>) = P s" "P (s\<lparr>repayment_schedules := rs\<rparr>) = P s"
      "P (s\<lparr>credit_balances := cs\<rparr>) = P s" "P (s\<lparr>loan_audit_trails := us\<rparr>) = P s"
begin

lemma guarantor_update: "P (loan_guarantors_update f s) = P s"
  by (subst guarantors_by_value) (rule loan_tables)

lemma keeps_loan_queries [keeps_intros]:
  "keeps P (q_CreateLoanGuarantor v l g amt)"
  "keeps P (q_UpdateGuarantorStatus v st who l g)"
  "keeps P (q_UpdateRepaymentScheduleStatuses v cs)"
  "keeps P (q_CreateCreditBalance v mem pl amt src)"
  "keeps P (q_InsertLoanAuditTrail v l fld prev new who rsn)"
  by (cases who; auto simp: keeps_def query_defs tx_simps Let_def loan_tables guarantor_update split: if_splits)+

lemma keeps_lists [keeps_intros]:
  "keeps P (q_CreateProposedLoanGuarantors v l ps)"
  "keeps P (insert_schedules v l n is)"
proof -
  have mods: "keeps P (modify (\<lambda>s. if b s then s else s\<lparr>loan_guarantors := gs s\<rparr>))"
    "keeps P (modify (\<lambda>s. if c then s else s\<lparr>repayment_schedules := rs s\<rparr>))" for b gs c rs
    by (auto simp: keeps_def tx_simps loan_tables)
  show "keeps P (q_CreateProposedLoanGuarantors v l ps)"
    by (induction ps) (auto intro!: keeps_intros mods)
  have lift: "keeps P (lift_text x)" for x by (auto simp: lift_text_def intro!: keeps_intros)
  show "keeps P (insert_schedules v l n is)"
    by (induction v l n "is" rule: insert_schedules.induct) (auto simp: Let_def intro!: keeps_intros mods lift)
qed

lemma keeps_reads [keeps_intros]:
  "keeps P (lockLoan i)" "keeps P (lockGuarantor i g)" "keeps P (requireActiveMember m e)"
  "keeps P (requireActiveMemberInTx m b e)" "keeps P (LockActiveMembersInTx ids b)"
  unfolding lockLoan_def lockGuarantor_def requireActiveMember_def requireActiveMemberInTx_def RequireActiveMember_def
    LockActiveMembersInTx_def q_LockLoanByID_def q_LockGuarantor_def q_GetMemberByID_def q_LockActiveMembersInBranch_def
  by (intro keeps_intros)+

lemma keeps_loan_helpers [keeps_intros]:
  "keeps P (insertStatusAudit v i old new who rsn)"
  "keeps P (updateScheduleStatuses v rows applied)"
  "keeps P (createSchedule v off i l t)"
  "keeps P (verifyCollateral v i mem br prin who)"
  unfolding insertStatusAudit_def updateScheduleStatuses_def createSchedule_def verifyCollateral_def
    q_CreateRepaymentSchedules_def q_ListLoanGuarantors_def
  by (intro keeps_intros)+

lemma keeps_guarantor_service:
  "keeps P (AddGuarantor v i g amt)"
  "keeps P (ApproveGuarantor v i g who)"
  "keeps P (RemoveGuarantor v i g who)"
  unfolding AddGuarantor_def ApproveGuarantor_def RemoveGuarantor_def q_GetLoanGuarantor_def q_ListLoanGuarantors_def
  by (intro keeps_intros)+

end

section \<open>The frame of what is owed\<close>

definition core :: "'s loan_db_scheme \<Rightarrow> Loan list \<times> LoanTransaction list \<times> LoanMonthlyInterest list" where
  "core s = (loans s, loan_transactions s, loan_monthly_interest s)"

interpretation core: core_stable "\<lambda>s. core s = c" for c
  by unfold_locales (simp_all add: core_def)

lemma core_frame: "(\<And>c. keeps (\<lambda>s. core s = c) m) \<Longrightarrow> m s = Inr (x, s') \<Longrightarrow> core s' = core s"
  unfolding keeps_def by metis

end
