(* ===== verification/Loan_Owed.thy ===== *)
theory Loan_Owed
  imports Frames
begin

text \<open>
  What has been repaid on a loan never exceeds what is owed. \<open>owed_inv\<close> says of every loan: each
  recorded repayment has readable parts that are not negative, the principal repaid is at most the
  principal, the interest repaid at most the interest assessed, and both are equal on a closed
  loan. Every loan operation keeps it; the proofs follow the operations' reads and writes of
  \<open>core\<close>.
\<close>

definition parts_ok :: "LoanTransaction \<Rightarrow> bool" where
  "parts_ok t \<longleftrightarrow> (case (principal_part t, interest_part t, penalty_part t) of
     (Some p, Some i, Some n) \<Rightarrow> 0 \<le> p \<and> 0 \<le> i \<and> 0 \<le> n | _ \<Rightarrow> False)"

definition paid :: "(LoanTransaction \<Rightarrow> int option) \<Rightarrow> uuid \<Rightarrow> 's loan_db_scheme \<Rightarrow> int" where
  "paid f l s = sum_list (map (the \<circ> f) (repayments_of l s))"

definition settled :: "Loan \<Rightarrow> 's loan_db_scheme \<Rightarrow> bool" where
  "settled l s \<longleftrightarrow> paid principal_part (ln_id l) s = ln_principal l
     \<and> paid interest_part (ln_id l) s = interest_due_total (ln_id l) s"

definition repay_ok :: "'s loan_db_scheme \<Rightarrow> Loan \<Rightarrow> bool" where
  "repay_ok s l \<longleftrightarrow> list_all parts_ok (repayments_of (ln_id l) s)
     \<and> paid principal_part (ln_id l) s \<le> ln_principal l
     \<and> paid interest_part (ln_id l) s \<le> interest_due_total (ln_id l) s
     \<and> (ln_status l = LoanClosed \<longrightarrow> settled l s)"

definition refs_ok :: "'s loan_db_scheme \<Rightarrow> bool" where
  "refs_ok s \<longleftrightarrow> distinct (map ln_id (loans s))
     \<and> (\<forall>t\<in>set (loan_transactions s). lt_loan t \<in> ln_id ` set (loans s))
     \<and> (\<forall>r\<in>set (loan_monthly_interest s). li_loan r \<in> ln_id ` set (loans s))"

definition owed_inv :: "'s loan_db_scheme \<Rightarrow> bool" where
  "owed_inv s \<longleftrightarrow> refs_ok s \<and> (\<forall>l\<in>set (loans s). loan_check l \<and> repay_ok s l)"

section \<open>Sums over repayments\<close>

lemma parts_okD:
  assumes "parts_ok t"
  shows "principal_part t = Some (the (principal_part t))" "interest_part t = Some (the (interest_part t))"
    "penalty_part t = Some (the (penalty_part t))"
    "0 \<le> the (principal_part t)" "0 \<le> the (interest_part t)" "0 \<le> the (penalty_part t)"
  using assms by (auto simp: parts_ok_def split: option.splits)

lemma sum_opt_ok:
  assumes "list_all parts_ok ts"
  shows "sum_opt principal_part ts = Some (sum_list (map (the \<circ> principal_part) ts))"
    "sum_opt interest_part ts = Some (sum_list (map (the \<circ> interest_part) ts))"
    "sum_opt penalty_part ts = Some (sum_list (map (the \<circ> penalty_part) ts))"
proof -
  have "list_all (\<lambda>t. principal_part t \<noteq> None \<and> interest_part t \<noteq> None \<and> penalty_part t \<noteq> None) ts"
    using assms parts_okD(1-3) by (fastforce simp: list_all_iff)
  then show "sum_opt principal_part ts = Some (sum_list (map (the \<circ> principal_part) ts))"
    "sum_opt interest_part ts = Some (sum_list (map (the \<circ> interest_part) ts))"
    "sum_opt penalty_part ts = Some (sum_list (map (the \<circ> penalty_part) ts))"
    by (auto simp: sum_opt_def list_all_iff)
qed

lemma repayments_of_append [simp]:
  "repayments_of l (s\<lparr>loan_transactions := loan_transactions s @ [t]\<rparr>)
     = repayments_of l s @ (if lt_loan t = l \<and> lt_type t = Repayment then [t] else [])"
  by (simp add: repayments_of_def)

lemma repayments_frame [simp]:
  "repayments_of l (s\<lparr>loans := ls\<rparr>) = repayments_of l s"
  "repayments_of l (s\<lparr>loan_monthly_interest := is\<rparr>) = repayments_of l s"
  by (simp_all add: repayments_of_def)

lemma paid_frame [simp]:
  "paid f l (s\<lparr>loans := ls\<rparr>) = paid f l s"
  "paid f l (s\<lparr>loan_monthly_interest := is\<rparr>) = paid f l s"
  "paid f l (s\<lparr>loan_transactions := loan_transactions s @ [t]\<rparr>)
     = paid f l s + (if lt_loan t = l \<and> lt_type t = Repayment then the (f t) else 0)"
  by (simp_all add: paid_def)

lemma interest_frame [simp]:
  "interest_due_total l (s\<lparr>loans := ls\<rparr>) = interest_due_total l s"
  "interest_due_total l (s\<lparr>loan_transactions := ts\<rparr>) = interest_due_total l s"
  "interest_due_total l (s\<lparr>loan_monthly_interest := loan_monthly_interest s @ [r]\<rparr>)
     = interest_due_total l s + (if li_loan r = l then li_amount r else 0)"
  by (simp_all add: interest_due_total_def)

text \<open>The invariant is a property of \<open>core\<close>.\<close>

lemma owed_core:
  assumes "core s' = core s"
  shows "owed_inv s' = owed_inv s" "refs_ok s' = refs_ok s" "paid f l s' = paid f l s"
    "interest_due_total l s' = interest_due_total l s" "settled k s' = settled k s"
    "repayments_of l s' = repayments_of l s"
  using assms
  by (auto simp: owed_inv_def refs_ok_def repay_ok_def settled_def core_def paid_def repayments_of_def
      interest_due_total_def)

section \<open>The writes\<close>

lemma find_loan: "find (live_loan i) (loans s) = Some l \<Longrightarrow> l \<in> set (loans s) \<and> ln_id l = i \<and> \<not> ln_deleted l"
  by (auto dest: find_Some_set simp: live_loan_def)

lemma loan_unique:
  assumes "refs_ok s" and "l \<in> set (loans s)" and "k \<in> set (loans s)" and "ln_id l = ln_id k"
  shows "l = k"
  using assms by (auto simp: refs_ok_def distinct_map dest: inj_onD)

lemma update_loan_Some:
  assumes "update_loan P f s = Inr (Some l', s')"
  obtains l where "find P (loans s) = Some l" "l' = f l" "loan_check l'"
    "s' = s\<lparr>loans := map (\<lambda>q. if ln_id q = ln_id l then f q else q) (loans s)\<rparr>"
  using assms by (auto simp: update_loan_def split: option.splits if_splits)

text \<open>An update that keeps id and principal keeps the invariant, where a loan that becomes closed
  is settled.\<close>

lemma owed_update:
  assumes inv: "owed_inv s" and upd: "update_loan P f s = Inr (Some l', s')"
    and same: "\<And>l. ln_id (f l) = ln_id l \<and> ln_principal (f l) = ln_principal l"
    and closed: "ln_status l' = LoanClosed \<Longrightarrow> settled l' s"
  shows "owed_inv s'" "l' \<in> set (loans s')"
proof -
  from upd obtain l where l: "find P (loans s) = Some l" "l' = f l" "loan_check l'"
    and s': "s' = s\<lparr>loans := map (\<lambda>q. if ln_id q = ln_id l then f q else q) (loans s)\<rparr>"
    by (rule update_loan_Some)
  have lin: "l \<in> set (loans s)" using find_Some_set [OF l(1)] by blast
  then show "l' \<in> set (loans s')" using l(2) by (auto simp: s')
  have refs: "refs_ok s" and each: "\<And>k. k \<in> set (loans s) \<Longrightarrow> loan_check k \<and> repay_ok s k"
    using inv by (auto simp: owed_inv_def)
  have ids: "map ln_id (loans s') = map ln_id (loans s)" using same by (simp add: s')
  then have "ln_id ` set (loans s') = ln_id ` set (loans s)" by (metis list.set_map)
  then have "refs_ok s'" using refs ids by (simp add: refs_ok_def) (simp add: s')
  moreover have "loan_check k \<and> repay_ok s' k" if "k \<in> set (loans s')" for k
  proof -
    from that obtain q where q: "q \<in> set (loans s)" "k = (if ln_id q = ln_id l then f q else q)"
      by (auto simp: s')
    show ?thesis
    proof (cases "ln_id q = ln_id l")
      case True
      with loan_unique [OF refs q(1) lin] have "k = l'" "q = l" using q(2) l(2) by auto
      with each [OF q(1)] same [of l] closed l(2,3) show ?thesis
        by (auto simp: repay_ok_def settled_def s')
    next
      case False
      with each [OF q(1)] q(2) show ?thesis by (auto simp: repay_ok_def settled_def s')
    qed
  qed
  ultimately show "owed_inv s'" by (simp add: owed_inv_def)
qed

lemma owed_insert_other:
  assumes "owed_inv s" and "lt_type t \<noteq> Repayment" and "lt_loan t \<in> ln_id ` set (loans s)"
  shows "owed_inv (s\<lparr>loan_transactions := loan_transactions s @ [t]\<rparr>)"
  using assms by (auto simp: owed_inv_def refs_ok_def repay_ok_def settled_def)

lemma owed_insert_repayment:
  assumes inv: "owed_inv s" and l: "l \<in> set (loans s)" "lt_loan t = ln_id l" "ln_status l \<noteq> LoanClosed"
    and t: "parts_ok t"
    and prin: "paid principal_part (ln_id l) s + the (principal_part t) \<le> ln_principal l"
    and int: "paid interest_part (ln_id l) s + the (interest_part t) \<le> interest_due_total (ln_id l) s"
  shows "owed_inv (s\<lparr>loan_transactions := loan_transactions s @ [t]\<rparr>)"
proof -
  have refs: "refs_ok s" using inv by (simp add: owed_inv_def)
  have "repay_ok (s\<lparr>loan_transactions := loan_transactions s @ [t]\<rparr>) k" if k: "k \<in> set (loans s)" for k
  proof (cases "ln_id k = ln_id l")
    case True
    then have "k = l" using loan_unique [OF refs k l(1)] by simp
    with inv k l t prin int show ?thesis by (auto simp: owed_inv_def repay_ok_def)
  next
    case False
    with inv k l(2) show ?thesis by (auto simp: owed_inv_def repay_ok_def settled_def)
  qed
  with inv l show ?thesis by (auto simp: owed_inv_def refs_ok_def)
qed

lemma owed_insert_interest:
  assumes inv: "owed_inv s" and l: "l \<in> set (loans s)" "li_loan r = ln_id l" "ln_status l \<noteq> LoanClosed"
    and "0 \<le> li_amount r"
  shows "owed_inv (s\<lparr>loan_monthly_interest := loan_monthly_interest s @ [r]\<rparr>)"
proof -
  have refs: "refs_ok s" using inv by (simp add: owed_inv_def)
  have "repay_ok (s\<lparr>loan_monthly_interest := loan_monthly_interest s @ [r]\<rparr>) k" if k: "k \<in> set (loans s)" for k
  proof (cases "ln_id k = ln_id l")
    case True
    then have "k = l" using loan_unique [OF refs k l(1)] by simp
    with inv k l assms(5) show ?thesis by (auto simp: owed_inv_def repay_ok_def)
  next
    case False
    with inv k l(2) show ?thesis by (auto simp: owed_inv_def repay_ok_def settled_def)
  qed
  with inv l show ?thesis by (auto simp: owed_inv_def refs_ok_def)
qed

section \<open>Assessing interest\<close>

lemma lift_text_Inr [tx_simps]: "lift_text x s = Inr (y, s') \<longleftrightarrow> x = Some y \<and> s' = s"
  by (cases x) (auto simp: lift_text_def tx_simps)

lemma insert_interest_owed:
  assumes "insert_interest v l ps s = Inr (x, s')" and "owed_inv s"
    and "l0 \<in> set (loans s)" "ln_id l = ln_id l0" "ln_status l0 \<noteq> LoanClosed"
  shows "owed_inv s' \<and> loans s' = loans s \<and> loan_transactions s' = loan_transactions s"
  using assms
proof (induction ps arbitrary: s)
  case Nil
  then show ?case by (simp add: tx_simps)
next
  case (Cons p ps)
  then obtain pd where pd: "paid_before (ln_id l) p s = Some pd"
    and chk: "interest_check (interest_row v l p pd)"
    and rest: "insert_interest v l ps (if has_interest (ln_id l) p (loan_monthly_interest s) then s
        else s\<lparr>loan_monthly_interest := loan_monthly_interest s @ [interest_row v l p pd]\<rparr>) = Inr (x, s')"
    by (auto simp: tx_simps Let_def)
  have amt: "0 \<le> li_amount (interest_row v l p pd)" "li_loan (interest_row v l p pd) = ln_id l0"
    using chk Cons.prems(4) by (auto simp: interest_check_def interest_row_def Let_def)
  have "owed_inv (if has_interest (ln_id l) p (loan_monthly_interest s) then s
        else s\<lparr>loan_monthly_interest := loan_monthly_interest s @ [interest_row v l p pd]\<rparr>)"
    using owed_insert_interest [OF Cons.prems(2,3) amt(2) Cons.prems(5) amt(1)] Cons.prems(2) by simp
  from Cons.IH [OF rest this] Cons.prems(3-5) show ?case by (auto split: if_splits)
qed

lemma assess_owed:
  assumes "assess v i ps s = Inr (x, s')" and "owed_inv s"
    and "l0 \<in> set (loans s)" "ln_id l0 = i" "ln_status l0 \<noteq> LoanClosed"
  shows "owed_inv s' \<and> loans s' = loans s \<and> loan_transactions s' = loan_transactions s"
proof -
  obtain l where l: "find (\<lambda>l. ln_id l = i) (loans s) = Some l"
    using assms(3,4) find_ex [of "\<lambda>l. ln_id l = i" "loans s"] by auto
  then have "ln_id l = ln_id l0" using find_Some_set [OF l] assms(4) by simp
  moreover have "insert_interest v l ps s = Inr (x, s')" using assms(1) l by (simp add: assess_def tx_simps)
  ultimately show ?thesis using insert_interest_owed assms(2,3,5) by blast
qed

section \<open>Applications and decisions\<close>

lemma q_CreateLoan_Some:
  assumes "q_CreateLoan v p s = Inr (Some l, s')"
  shows "s' = s\<lparr>loans := loans s @ [l]\<rparr> \<and> loan_check l \<and> ln_status l = LoanPending \<and> \<not> ln_deleted l
    \<and> ln_id l = env_uuid v 0 \<and> Some (ln_member l) = cl_member p \<and> ln_branch l = cl_branch p
    \<and> store_numeric (cl_principal p) = Inr (ln_principal l) \<and> (\<forall>q\<in>set (loans s). \<not> loan_conflict l q)"
  using assms by (cases "cl_member p") (auto simp: q_CreateLoan_def tx_simps Let_def split: if_splits)

lemma owed_new_loan:
  assumes inv: "owed_inv s" and new: "\<forall>q\<in>set (loans s). ln_id q \<noteq> ln_id l" "loan_check l" "ln_status l = LoanPending"
  shows "owed_inv (s\<lparr>loans := loans s @ [l]\<rparr>)"
proof -
  have refs: "refs_ok s" using inv by (simp add: owed_inv_def)
  have "ln_id l \<notin> ln_id ` set (loans s)" using new(1) by auto
  then have "filter (\<lambda>t. lt_loan t = ln_id l \<and> lt_type t = Repayment) (loan_transactions s) = []"
    "filter (\<lambda>r. li_loan r = ln_id l) (loan_monthly_interest s) = []"
    using refs unfolding refs_ok_def filter_empty_conv by metis+
  then have none: "repayments_of (ln_id l) s = []" "interest_due_total (ln_id l) s = 0"
    by (simp_all add: repayments_of_def interest_due_total_def sum_where_def)
  have "repay_ok (s\<lparr>loans := loans s @ [l]\<rparr>) l"
    using none new(2,3) by (simp add: repay_ok_def paid_def loan_check_def)
  then show ?thesis using inv new refs by (auto simp: owed_inv_def refs_ok_def repay_ok_def settled_def)
qed

lemma keeps_owed_CreateLoan [keeps_intros]: "keeps owed_inv (q_CreateLoan v p)"
proof (rule keepsI)
  fix s x s'
  assume inv: "owed_inv s" and new: "q_CreateLoan v p s = Inr (x, s')"
  show "owed_inv s'"
  proof (cases x)
    case None
    with new inv show ?thesis
      by (cases "cl_member p") (auto simp: q_CreateLoan_def tx_simps Let_def split: if_splits)
  next
    case (Some l)
    with q_CreateLoan_Some [of v p s l s'] new owed_new_loan [OF inv, of l] show ?thesis
      by (auto simp: loan_conflict_def)
  qed
qed

interpretation owed: core_stable owed_inv
  by unfold_locales (auto intro!: owed_core(1) simp: core_def)

lemma keeps_owed_ApplyForLoan: "keeps owed_inv (ApplyForLoan v p pledge gs)"
  unfolding ApplyForLoan_def applyInTx_def by (intro keeps_intros)

lemmas keeps_owed_guarantors = owed.keeps_guarantor_service

lemma lockLoan_Inr: "lockLoan i s = Inr (l, s') \<longleftrightarrow> s' = s \<and> find (live_loan i) (loans s) = Some l"
  by (auto simp: lockLoan_def q_LockLoanByID_def tx_simps)

lemma set_loan_status_same:
  "ln_id (set_loan_status v st who l) = ln_id l" "ln_principal (set_loan_status v st who l) = ln_principal l"
  "ln_status (set_loan_status v st who l) = st" "ln_member (set_loan_status v st who l) = ln_member l"
  "ln_deleted (set_loan_status v st who l) = ln_deleted l"
  by (simp_all add: set_loan_status_def)

lemma q_UpdateLoanStatus_Some:
  assumes "q_UpdateLoanStatus v i st who s = Inr (Some l', s')"
  obtains l where "find (live_loan i) (loans s) = Some l" "l' = set_loan_status v st who l" "loan_check l'"
    "s' = s\<lparr>loans := map (\<lambda>q. if ln_id q = ln_id l then set_loan_status v st who q else q) (loans s)\<rparr>"
  using assms unfolding q_UpdateLoanStatus_def by (rule update_loan_Some)

lemma owed_status:
  assumes "owed_inv s" and upd: "q_UpdateLoanStatus v i st who s = Inr (Some l', s')"
    and "st = LoanClosed \<Longrightarrow> settled l' s"
  shows "owed_inv s'"
proof (rule owed_update [OF assms(1) upd [unfolded q_UpdateLoanStatus_def]])
  have "ln_status l' = st" using upd by (rule q_UpdateLoanStatus_Some) (simp add: set_loan_status_same)
  then show "ln_status l' = LoanClosed \<Longrightarrow> settled l' s" using assms(3) by simp
qed (simp add: set_loan_status_same)

lemma ApproveLoan_cases:
  assumes "ApproveLoan v i who rsn s = Inr (l', s')"
  obtains l s1 s2 where "find (live_loan i) (loans s) = Some l" "ln_status l = LoanPending"
    "verifyCollateral v i (ln_member l) (ln_branch l) (db_num (ln_principal l)) who s = Inr ((), s1)"
    "core s1 = core s" "q_UpdateLoanStatus v i LoanApproved who s1 = Inr (Some l', s2)"
    "insertStatusAudit v i LoanPending LoanApproved who rsn s2 = Inr ((), s')" "core s' = core s2"
proof -
  from assms obtain l s1 s2 where l: "find (live_loan i) (loans s) = Some l" "ln_status l = LoanPending"
    and ver: "verifyCollateral v i (ln_member l) (ln_branch l) (db_num (ln_principal l)) who s = Inr ((), s1)"
    and upd: "q_UpdateLoanStatus v i LoanApproved who s1 = Inr (Some l', s2)"
    and aud: "insertStatusAudit v i LoanPending LoanApproved who rsn s2 = Inr ((), s')"
    by (auto simp: ApproveLoan_def tx_simps lockLoan_Inr)
  have "core s1 = core s" using ver by (rule core_frame [rotated]) (rule core.keeps_loan_helpers)
  moreover have "core s' = core s2" using aud by (rule core_frame [rotated]) (rule core.keeps_loan_helpers)
  ultimately show thesis by (rule that [OF l ver _ upd aud])
qed

lemma keeps_owed_ApproveLoan: "keeps owed_inv (ApproveLoan v i who rsn)"
proof (rule keepsI)
  fix s l' s'
  assume inv: "owed_inv s" and "ApproveLoan v i who rsn s = Inr (l', s')"
  then show "owed_inv s'"
  proof (elim ApproveLoan_cases)
    fix s1 s2
    assume s1: "core s1 = core s" and upd: "q_UpdateLoanStatus v i LoanApproved who s1 = Inr (Some l', s2)"
      and s': "core s' = core s2"
    then have "owed_inv s1" using inv owed_core(1) [OF s1] by blast
    then have "owed_inv s2"
      using owed_status [OF _ upd] by simp
    then show ?thesis using owed_core(1) [OF s'] by blast
  qed
qed

lemma RejectLoan_cases:
  assumes "RejectLoan v i who rsn s = Inr (l', s')"
  obtains l s1 where "find (live_loan i) (loans s) = Some l" "ln_status l = LoanPending \<or> ln_status l = LoanApproved"
    "q_UpdateLoanStatus v i LoanRejected who s = Inr (Some l', s1)" "core s' = core s1"
proof -
  from assms obtain l s1 s2 s3 where "find (live_loan i) (loans s) = Some l" "ln_status l = LoanPending \<or> ln_status l = LoanApproved"
    and "q_UpdateLoanStatus v i LoanRejected who s = Inr (Some l', s1)"
    and aud: "insertStatusAudit v i (ln_status l) LoanRejected who rsn s1 = Inr ((), s2)"
    and rel: "ReleaseLoanSecurity v i None s2 = Inr ((), s')"
    by (auto simp: RejectLoan_def tx_simps lockLoan_Inr)
  moreover have "core s2 = core s1" using aud by (rule core_frame [rotated]) (rule core.keeps_loan_helpers)
  moreover have "core s' = core s2" using rel by (rule core_frame [rotated]) (rule core.keeps_security)
  ultimately show thesis by (intro that) auto
qed

lemma keeps_owed_RejectLoan: "keeps owed_inv (RejectLoan v i who rsn)"
proof (rule keepsI)
  fix s l' s'
  assume inv: "owed_inv s" and "RejectLoan v i who rsn s = Inr (l', s')"
  then show "owed_inv s'"
  proof (elim RejectLoan_cases)
    fix s1
    assume upd: "q_UpdateLoanStatus v i LoanRejected who s = Inr (Some l', s1)" and s': "core s' = core s1"
    have "owed_inv s1" using owed_status [OF inv upd] by simp
    then show ?thesis using owed_core(1) [OF s'] by blast
  qed
qed

section \<open>Disbursement\<close>

lemma q_InsertLoanTransaction_Some:
  assumes "q_InsertLoanTransaction v p s = Inr (Some t, s')"
  shows "s' = s\<lparr>loan_transactions := loan_transactions s @ [t]\<rparr> \<and> store_numeric (il_amount p) = Inr (lt_amount t)
    \<and> 0 < lt_amount t \<and> lt_loan t = il_loan p \<and> lt_type t = il_type p \<and> lt_gateway t = il_gateway p
    \<and> lt_breakdown t = il_breakdown p \<and> lt_id t = env_uuid v 0 \<and> lt_created t = env_now v
    \<and> (\<forall>q\<in>set (loan_transactions s). \<not> transaction_conflict t q)"
  using assms by (auto simp: q_InsertLoanTransaction_def tx_simps Let_def split: if_splits)

lemma DisburseLoan_cases:
  assumes "DisburseLoan v off i who rsn s = Inr ((t, l'), s')"
  obtains (existing) "find (live_loan i) (loans s) = Some l'" "s' = s"
      "find (\<lambda>t. lt_loan t = i \<and> lt_type t = Disbursement) (loan_transactions s) = Some t"
  | (fresh) l s1 s2 s3 s4 s5 where "find (live_loan i) (loans s) = Some l" "ln_status l = LoanApproved"
      "find (\<lambda>t. lt_loan t = i \<and> lt_type t = Disbursement) (loan_transactions s) = None"
      "verifyCollateral v i (ln_member l) (ln_branch l) (db_num (ln_principal l)) None s = Inr ((), s1)" "core s1 = core s"
      "q_InsertLoanTransaction v \<lparr>il_loan = i, il_type = Disbursement, il_amount = db_num (ln_principal l),
         il_reference = env_uuid v 1, il_gateway = None, il_breakdown = empty_json, il_created_by = who\<rparr> s1 = Inr (Some t, s2)"
      "q_MarkLoanDisbursed v i who s2 = Inr (Some l', s3)"
      "createSchedule v off i l (env_now v) s3 = Inr ((), s4)" "core s4 = core s3"
      "q_AssessLoanInterest v (month_start (eat_date (env_now v))) i s4 = Inr ((), s5)"
      "insertStatusAudit v i LoanApproved LoanActive who rsn s5 = Inr ((), s')" "core s' = core s5"
proof (cases "find (\<lambda>t. lt_loan t = i \<and> lt_type t = Disbursement) (loan_transactions s)")
  case (Some t0)
  with assms show thesis
    by (auto simp: DisburseLoan_def tx_simps lockLoan_Inr q_GetLoanDisbursement_def intro: existing)
next
  case None
  with assms obtain l s1 s2 s3 s4 s5 where l: "find (live_loan i) (loans s) = Some l" "ln_status l = LoanApproved"
    and ver: "verifyCollateral v i (ln_member l) (ln_branch l) (db_num (ln_principal l)) None s = Inr ((), s1)"
    and ins: "q_InsertLoanTransaction v \<lparr>il_loan = i, il_type = Disbursement, il_amount = db_num (ln_principal l),
         il_reference = env_uuid v 1, il_gateway = None, il_breakdown = empty_json, il_created_by = who\<rparr> s1 = Inr (Some t, s2)"
    and mark: "q_MarkLoanDisbursed v i who s2 = Inr (Some l', s3)"
    and sched: "createSchedule v off i l (env_now v) s3 = Inr ((), s4)"
    and ass: "q_AssessLoanInterest v (month_start (eat_date (env_now v))) i s4 = Inr ((), s5)"
    and aud: "insertStatusAudit v i LoanApproved LoanActive who rsn s5 = Inr ((), s')"
    by (auto simp: DisburseLoan_def tx_simps lockLoan_Inr q_GetLoanDisbursement_def)
  have "core s1 = core s" using ver by (rule core_frame [rotated]) (rule core.keeps_loan_helpers)
  moreover have "core s4 = core s3" using sched by (rule core_frame [rotated]) (rule core.keeps_loan_helpers)
  moreover have "core s' = core s5" using aud by (rule core_frame [rotated]) (rule core.keeps_loan_helpers)
  ultimately show thesis by (rule fresh [OF l None ver _ ins mark sched _ ass aud])
qed

lemma q_MarkLoanDisbursed_Some:
  assumes "q_MarkLoanDisbursed v i who s = Inr (Some l', s')"
  obtains l where "find (\<lambda>l. live_loan i l \<and> ln_status l = LoanApproved) (loans s) = Some l"
    "l' = (set_loan_status v LoanActive who l)\<lparr>ln_disbursed := Some (env_now v)\<rparr>" "loan_check l'"
    "s' = s\<lparr>loans := map (\<lambda>q. if ln_id q = ln_id l
        then (set_loan_status v LoanActive who q)\<lparr>ln_disbursed := Some (env_now v)\<rparr> else q) (loans s)\<rparr>"
  using assms unfolding q_MarkLoanDisbursed_def by (rule update_loan_Some)

lemma keeps_owed_DisburseLoan: "keeps owed_inv (DisburseLoan v off i who rsn)"
proof (rule keepsI)
  fix s x s'
  assume inv: "owed_inv s" and run: "DisburseLoan v off i who rsn s = Inr (x, s')"
  obtain t l' where x: "x = (t, l')" by (cases x)
  from run [unfolded x] show "owed_inv s'"
  proof (cases rule: DisburseLoan_cases)
    case existing
    with inv show ?thesis by simp
  next
    case (fresh l s1 s2 s3 s4 s5)
    have inv1: "owed_inv s1" using inv owed_core(1) [OF fresh(5)] by blast
    have "i \<in> ln_id ` set (loans s1)"
      using find_loan [OF fresh(1)] fresh(5) by (auto simp: core_def)
    then have inv2: "owed_inv s2"
      using q_InsertLoanTransaction_Some [OF fresh(6)] owed_insert_other [OF inv1] by auto
    from fresh(7) obtain l0 where l0: "find (\<lambda>l. live_loan i l \<and> ln_status l = LoanApproved) (loans s2) = Some l0"
      "l' = (set_loan_status v LoanActive who l0)\<lparr>ln_disbursed := Some (env_now v)\<rparr>"
      by (rule q_MarkLoanDisbursed_Some)
    have l': "ln_id l' = i" "ln_status l' = LoanActive"
      using find_Some_set [OF l0(1)] l0(2) by (auto simp: set_loan_status_same live_loan_def)
    have inv3: "owed_inv s3" and in3: "l' \<in> set (loans s3)"
      using owed_update [OF inv2 fresh(7) [unfolded q_MarkLoanDisbursed_def]] l'
      by (auto simp: set_loan_status_same)
    have inv4: "owed_inv s4" using inv3 owed_core(1) [OF fresh(9)] by blast
    have in4: "l' \<in> set (loans s4)" using in3 fresh(9) by (simp add: core_def)
    have "owed_inv s5"
      using assess_owed [OF fresh(10) [unfolded q_AssessLoanInterest_def] inv4 in4] l' by simp
    then show ?thesis using owed_core(1) [OF fresh(12)] by blast
  qed
qed

section \<open>Repayment\<close>

lemma assessMissed_owed:
  assumes "assessMissed v l tlat p s = Inr (x, s')" and "owed_inv s"
    and "l \<in> set (loans s)" "ln_status l \<noteq> LoanClosed"
  shows "owed_inv s' \<and> loans s' = loans s \<and> loan_transactions s' = loan_transactions s"
  using assms(1,2)
  by (auto simp: assessMissed_def tx_simps Let_def q_GetLoanInterestPeriod_def q_AssessLoanInterestPeriods_def
      dest!: assess_owed [OF _ assms(2,3) refl assms(4)] split: if_splits)

lemma q_GetLoanRepaymentTotals_Inr:
  assumes "list_all parts_ok (repayments_of i s)"
  shows "q_GetLoanRepaymentTotals i s = Inr (\<lparr>rt_principal = db_num (paid principal_part i s),
     rt_interest = db_num (paid interest_part i s), rt_latest = max_opt (map period_of (repayments_of i s))\<rparr>, s)"
  using sum_opt_ok [OF assms] by (simp add: q_GetLoanRepaymentTotals_def tx_run lift_text_def paid_def)

definition penalty_due :: "uuid \<Rightarrow> 's loan_db_scheme \<Rightarrow> int" where
  "penalty_due i s = max 0 (sum_where (\<lambda>t. lt_loan t = i \<and> lt_type t = Penalty) lt_amount (loan_transactions s)
     - paid penalty_part i s)"

lemma q_GetLoanPenaltyDue_Inr:
  assumes "list_all parts_ok (repayments_of i s)"
  shows "q_GetLoanPenaltyDue i s = Inr (db_num (penalty_due i s), s)"
  using sum_opt_ok [OF assms] by (simp add: q_GetLoanPenaltyDue_def tx_run lift_text_def paid_def penalty_due_def)

text \<open>The state of a loan's obligations that a repayment is split over.\<close>

definition repayment_split_of :: "Loan \<Rightarrow> numeric \<Rightarrow> date \<Rightarrow> 's loan_db_scheme \<Rightarrow> repaymentAllocation" where
  "repayment_split_of l amount p s = splitRepayment amount (db_num (paid principal_part (ln_id l) s)) (db_num (ln_principal l))
     (max 0 (interest_due_total (ln_id l) s - paid interest_part (ln_id l) s)) (db_num (penalty_due (ln_id l) s)) p"

lemma interestOutstanding_db: "interestOutstanding (db_num a) (db_num b) = max 0 (a - b)"
  by (simp add: interestOutstanding_def Let_def max_def)

lemma postRepayment_cases:
  fixes s s' :: "'s loan_db_scheme"
  assumes run: "postRepayment v l amount g who p s = Inr (t, s')" and inv: "owed_inv s"
    and l: "l \<in> set (loans s)" "ln_status l \<noteq> LoanClosed"
  obtains s1 s2 :: "'s loan_db_scheme" where "schedules_of (ln_id l) s \<noteq> []"
    "assessMissed v l (max_opt (map period_of (repayments_of (ln_id l) s))) p s = Inr ((), s1)"
    "owed_inv s1" "loans s1 = loans s" "loan_transactions s1 = loan_transactions s"
    "q_InsertLoanTransaction v \<lparr>il_loan = ln_id l, il_type = Repayment, il_amount = amount, il_reference = env_uuid v 1,
       il_gateway = Some g, il_breakdown = allocationJSON (repayment_split_of l amount p s1), il_created_by = who\<rparr> s1
       = Inr (Some t, s2)"
    "settleRepayment v l (schedules_of (ln_id l) s) (db_num (paid principal_part (ln_id l) s1))
       (repayment_split_of l amount p s1) who s2 = Inr ((), s')"
proof -
  have ok: "list_all parts_ok (repayments_of (ln_id l) s)"
    using inv l(1) by (auto simp: owed_inv_def repay_ok_def)
  from run obtain s1 where sched: "schedules_of (ln_id l) s \<noteq> []"
    and miss: "assessMissed v l (max_opt (map period_of (repayments_of (ln_id l) s))) p s = Inr ((), s1)"
    by (auto simp: postRepayment_def tx_simps q_LockActiveRepaymentSchedulesByLoan_def
        q_GetLoanRepaymentTotals_Inr [OF ok])
  note s1 = assessMissed_owed [OF miss inv l]
  then have same: "repayments_of (ln_id l) s1 = repayments_of (ln_id l) s" by (simp add: repayments_of_def)
  then have ok1: "list_all parts_ok (repayments_of (ln_id l) s1)" using ok by simp
  have paid: "paid f (ln_id l) s1 = paid f (ln_id l) s" for f by (simp add: paid_def same)
  from run sched obtain s2 where
    "q_InsertLoanTransaction v \<lparr>il_loan = ln_id l, il_type = Repayment, il_amount = amount, il_reference = env_uuid v 1,
       il_gateway = Some g, il_breakdown = allocationJSON (repayment_split_of l amount p s1), il_created_by = who\<rparr> s1
       = Inr (Some t, s2)"
    "settleRepayment v l (schedules_of (ln_id l) s) (db_num (paid principal_part (ln_id l) s1))
       (repayment_split_of l amount p s1) who s2 = Inr ((), s')"
    unfolding postRepayment_def q_LockActiveRepaymentSchedulesByLoan_def q_SumLoanInterestDue_def
    by (auto simp: tx_simps Let_def q_GetLoanRepaymentTotals_Inr [OF ok] miss q_GetLoanPenaltyDue_Inr [OF ok1]
        interestOutstanding_db repayment_split_of_def paid)
  with sched miss s1 show thesis by (intro that) auto
qed

text \<open>The parts that a new repayment records, as amounts.\<close>

lemma repayment_split_eq:
  fixes l :: Loan and s :: "'s loan_db_scheme" and p :: date
  assumes "owed_inv s" and "l \<in> set (loans s)"
  defines "n \<equiv> penalty_due (ln_id l) s" and "i \<equiv> interest_due_total (ln_id l) s - paid interest_part (ln_id l) s"
    and "out \<equiv> ln_principal l - paid principal_part (ln_id l) s"
  shows "repayment_split_of l amount p s = (let q = numericToScale amount (-4) in
     \<lparr>ra_period = Some p, ra_principal = decimalStringFromScale (split_principal q n i out) (-4),
     ra_interest = decimalStringFromScale (split_interest q n i) (-4),
     ra_penalty = decimalStringFromScale (split_penalty q n) (-4),
     ra_credit = decimalStringFromScale (split_credit q n i out) (-4),
     ra_loanAppliedAmount = split_principal q n i out, ra_creditAmount = split_credit q n i out,
     ra_loanClosed = ((paid principal_part (ln_id l) s + split_principal q n i out \<ge> ln_principal l
        \<and> split_interest q n i \<ge> i) \<and> split_penalty q n \<ge> n)\<rparr>)"
    and "0 \<le> n" "0 \<le> i" "0 \<le> out"
proof -
  show nn: "0 \<le> n" "0 \<le> i" "0 \<le> out"
    using assms(1,2) by (auto simp: n_def i_def out_def penalty_due_def owed_inv_def repay_ok_def)
  show "repayment_split_of l amount p s = (let q = numericToScale amount (-4) in
     \<lparr>ra_period = Some p, ra_principal = decimalStringFromScale (split_principal q n i out) (-4),
     ra_interest = decimalStringFromScale (split_interest q n i) (-4),
     ra_penalty = decimalStringFromScale (split_penalty q n) (-4),
     ra_credit = decimalStringFromScale (split_credit q n i out) (-4),
     ra_loanAppliedAmount = split_principal q n i out, ra_creditAmount = split_credit q n i out,
     ra_loanClosed = ((paid principal_part (ln_id l) s + split_principal q n i out \<ge> ln_principal l
        \<and> split_interest q n i \<ge> i) \<and> split_penalty q n \<ge> n)\<rparr>)"
    unfolding repayment_split_of_def
    using splitRepayment_parts [of "numericToScale amount (-4)" amount n "db_num n" out "db_num (ln_principal l)" "db_num (paid principal_part (ln_id l) s)" i p] nn
    by (simp add: n_def i_def out_def Let_def)
qed

lemma repayment_split_facts:
  fixes l :: Loan and s :: "'s loan_db_scheme" and p :: date
  assumes "owed_inv s" and "l \<in> set (loans s)" and "0 \<le> numericToScale amount (-4)"
  defines "a \<equiv> repayment_split_of l amount p s"
  shows "\<exists>pen int pri cre. text_units (ra_penalty a) = Some pen \<and> text_units (ra_interest a) = Some int
    \<and> text_units (ra_principal a) = Some pri \<and> text_units (ra_credit a) = Some cre
    \<and> ra_loanAppliedAmount a = pri \<and> ra_creditAmount a = cre
    \<and> pen + int + pri + cre = numericToScale amount (-4)
    \<and> 0 \<le> pen \<and> pen \<le> penalty_due (ln_id l) s \<and> 0 \<le> int
    \<and> int \<le> interest_due_total (ln_id l) s - paid interest_part (ln_id l) s
    \<and> 0 \<le> pri \<and> pri \<le> ln_principal l - paid principal_part (ln_id l) s \<and> 0 \<le> cre
    \<and> (ra_loanClosed a \<longleftrightarrow> pen = penalty_due (ln_id l) s
        \<and> int = interest_due_total (ln_id l) s - paid interest_part (ln_id l) s
        \<and> paid principal_part (ln_id l) s + pri = ln_principal l)"
proof -
  define q n i out where "q = numericToScale amount (-4)" and "n = penalty_due (ln_id l) s"
    and "i = interest_due_total (ln_id l) s - paid interest_part (ln_id l) s"
    and "out = ln_principal l - paid principal_part (ln_id l) s"
  note eqs = repayment_split_eq [OF assms(1,2), folded n_def i_def out_def]
  have a: "a = \<lparr>ra_period = Some p, ra_principal = decimalStringFromScale (split_principal q n i out) (-4),
     ra_interest = decimalStringFromScale (split_interest q n i) (-4),
     ra_penalty = decimalStringFromScale (split_penalty q n) (-4),
     ra_credit = decimalStringFromScale (split_credit q n i out) (-4),
     ra_loanAppliedAmount = split_principal q n i out, ra_creditAmount = split_credit q n i out,
     ra_loanClosed = ((paid principal_part (ln_id l) s + split_principal q n i out \<ge> ln_principal l
        \<and> split_interest q n i \<ge> i) \<and> split_penalty q n \<ge> n)\<rparr>"
    unfolding a_def by (simp add: eqs(1) Let_def q_def)
  note b = split_bounds [OF assms(3) [folded q_def] eqs(2-4)]
  show ?thesis
    unfolding q_def [symmetric] n_def [symmetric] i_def [symmetric] out_def [symmetric]
    by (intro exI [of _ "split_penalty q n"] exI [of _ "split_interest q n i"]
        exI [of _ "split_principal q n i out"] exI [of _ "split_credit q n i out"])
      (use b in \<open>simp add: a out_def; linarith?\<close>)
qed

lemma settleRepayment_cases:
  fixes s s' :: "'s loan_db_scheme"
  assumes "settleRepayment v l rows prior a who s = Inr (x, s')"
  obtains (stays) "\<not> ra_loanClosed a" "core s' = core s"
  | (closes) s1 s2 :: "'s loan_db_scheme" and l' where "ra_loanClosed a" "core s1 = core s"
      "q_UpdateLoanStatus v (ln_id l) LoanClosed who s1 = Inr (Some l', s2)" "core s' = core s2"
proof -
  from assms obtain y s0 s1 where
      cred: "(if ra_creditAmount a > 0 then tx_bind (q_CreateCreditBalance v (ln_member l) (Some (ln_id l))
           (numericFromScale (ra_creditAmount a)) Overpayment) (\<lambda>_. ret ()) else ret ()) s = Inr (y, s0)"
    and upd: "updateScheduleStatuses v rows (numericToScale prior (-4) + ra_loanAppliedAmount a) s0 = Inr ((), s1)"
    and fin: "(if ra_loanClosed a then
       tx_bind (or_error NoRowsE (q_UpdateLoanStatus v (ln_id l) LoanClosed who)) (\<lambda>_.
       tx_bind (insertStatusAudit v (ln_id l) (ln_status l) LoanClosed who ''loan fully repaid'') (\<lambda>_.
       ReleaseLoanSecurity v (ln_id l) None)) else ret ()) s1 = Inr (x, s')"
    unfolding settleRepayment_def by (auto elim!: tx_bindE)
  have "core s0 = core s"
    using cred by (rule core_frame [rotated]) (intro keeps_intros core.keeps_loan_queries)
  moreover have "core s1 = core s0"
    using upd by (rule core_frame [rotated]) (rule core.keeps_loan_helpers)
  ultimately have s1: "core s1 = core s" by simp
  show thesis
  proof (cases "ra_loanClosed a")
    case False
    with fin s1 show thesis by (intro stays) (auto simp: tx_simps)
  next
    case True
    with fin obtain l' s2 s3 where st: "q_UpdateLoanStatus v (ln_id l) LoanClosed who s1 = Inr (Some l', s2)"
      and aud: "insertStatusAudit v (ln_id l) (ln_status l) LoanClosed who ''loan fully repaid'' s2 = Inr ((), s3)"
      and rel: "ReleaseLoanSecurity v (ln_id l) None s3 = Inr (x, s')"
      by (auto simp: tx_simps)
    have "core s3 = core s2" using aud by (rule core_frame [rotated]) (rule core.keeps_loan_helpers)
    moreover have "core s' = core s3" using rel by (rule core_frame [rotated]) (rule core.keeps_security)
    ultimately show thesis by (intro closes [OF True s1 st]) simp
  qed
qed

lemma positive_scale: "positive n \<Longrightarrow> 0 \<le> numericToScale n (-4)"
  by (auto simp: positive_def numericToScale_def Let_def big_quo_nonneg pos_imp_zdiv_nonneg_iff split: option.splits)

text \<open>A new repayment: what is recorded, and what it does to the loan.\<close>

lemma repayment_row_parts:
  assumes t: "lt_breakdown t = allocationJSON a"
    and "text_units (ra_principal a) = Some pri" "text_units (ra_interest a) = Some it" "text_units (ra_penalty a) = Some pen"
  shows "principal_part t = Some pri" "interest_part t = Some it" "penalty_part t = Some pen"
  using assms by (simp_all add: principal_part_def interest_part_def penalty_part_def text_part_def allocationJSON_def)

lemma postRepayment_owed:
  fixes s s' :: "'s loan_db_scheme"
  assumes run: "postRepayment v l amount g who p s = Inr (t, s')" and inv: "owed_inv s"
    and l: "l \<in> set (loans s)" "ln_status l \<noteq> LoanClosed" and pos: "0 \<le> numericToScale amount (-4)"
  shows "owed_inv s'"
  using run inv l
proof (rule postRepayment_cases)
  fix s1 s2 :: "'s loan_db_scheme"
  let ?a = "repayment_split_of l amount p s1"
  assume inv1: "owed_inv s1" and same: "loans s1 = loans s"
    and ins: "q_InsertLoanTransaction v \<lparr>il_loan = ln_id l, il_type = Repayment, il_amount = amount, il_reference = env_uuid v 1,
       il_gateway = Some g, il_breakdown = allocationJSON ?a, il_created_by = who\<rparr> s1 = Inr (Some t, s2)"
    and settle: "settleRepayment v l (schedules_of (ln_id l) s) (db_num (paid principal_part (ln_id l) s1)) ?a who s2 = Inr ((), s')"
  have l1: "l \<in> set (loans s1)" using l(1) same by simp
  obtain pen int pri cre where parts: "text_units (ra_penalty ?a) = Some pen" "text_units (ra_interest ?a) = Some int"
      "text_units (ra_principal ?a) = Some pri"
    and b: "0 \<le> pen" "0 \<le> int" "0 \<le> pri"
      "int \<le> interest_due_total (ln_id l) s1 - paid interest_part (ln_id l) s1"
      "pri \<le> ln_principal l - paid principal_part (ln_id l) s1"
    and cl: "ra_loanClosed ?a \<longleftrightarrow> pen = penalty_due (ln_id l) s1
        \<and> int = interest_due_total (ln_id l) s1 - paid interest_part (ln_id l) s1
        \<and> paid principal_part (ln_id l) s1 + pri = ln_principal l"
    using repayment_split_facts [OF inv1 l1 pos, of p] by blast
  note row = q_InsertLoanTransaction_Some [OF ins]
  have t: "lt_breakdown t = allocationJSON ?a" "lt_loan t = ln_id l" "lt_type t = Repayment"
    and s2: "s2 = s1\<lparr>loan_transactions := loan_transactions s1 @ [t]\<rparr>" using row by simp_all
  note tp = repayment_row_parts [OF t(1) parts(3,2,1)]
  have ok: "parts_ok t" using tp b by (simp add: parts_ok_def)
  have inv2: "owed_inv s2"
    unfolding s2 by (rule owed_insert_repayment [OF inv1 l1 t(2) l(2) ok]) (use tp b in simp_all)
  from settle show "owed_inv s'"
  proof (cases rule: settleRepayment_cases)
    case stays
    with inv2 owed_core(1) [OF stays(2)] show ?thesis by blast
  next
    case (closes s3 s4 l')
    have inv3: "owed_inv s3" using inv2 owed_core(1) [OF closes(2)] by blast
    have l3: "l \<in> set (loans s3)" using closes(2) l1 by (simp add: core_def s2)
    have "settled l s2" using closes(1) cl tp t by (simp add: settled_def s2)
    then have st: "settled l s3" using owed_core(5) [OF closes(2)] by blast
    from closes(3) have "settled l' s3"
    proof (rule q_UpdateLoanStatus_Some)
      fix l0
      assume l0: "find (live_loan (ln_id l)) (loans s3) = Some l0" "l' = set_loan_status v LoanClosed who l0"
      have "l0 = l" using find_loan [OF l0(1)] l3 inv3 loan_unique by (auto simp: owed_inv_def)
      then show ?thesis using st l0(2) by (simp add: settled_def set_loan_status_same)
    qed
    then have "owed_inv s4" using owed_status [OF inv3 closes(3)] by blast
    then show ?thesis using owed_core(1) [OF closes(4)] by blast
  qed
qed

lemma RecordRepayment_cases:
  assumes "RecordRepaymentForPeriodInTx v clock i amount g who day m b s = Inr (t, s')"
  obtains (replay) "s' = s" "find (same_gateway i (TrimSpace g)) (loan_transactions s) = Some t"
      "lt_amount t * 100000 = numericToScale amount (-9)"
  | (new) l d where "day = Some d" "month_start d \<le> month_start (eat_date clock)" "positive amount" "TrimSpace g \<noteq> ''''"
      "find (live_loan i) (loans s) = Some l" "repayable (ln_status l)"
      "m \<noteq> None \<longrightarrow> Some (ln_member l) = m \<and> ln_branch l = b"
      "find (same_gateway i (TrimSpace g)) (loan_transactions s) = None"
      "postRepayment v l amount (TrimSpace g) who (month_start d) s = Inr (t, s')"
proof (cases "find (same_gateway i (TrimSpace g)) (loan_transactions s)")
  case None
  with assms show thesis
    by (cases day) (auto simp: RecordRepaymentForPeriodInTx_def tx_simps Let_def lockLoan_Inr
        q_GetLoanTransactionByGatewayID_def split: if_splits intro: new)
next
  case (Some t0)
  with assms show thesis
    by (cases day) (auto simp: RecordRepaymentForPeriodInTx_def tx_simps Let_def lockLoan_Inr
        q_GetLoanTransactionByGatewayID_def split: if_splits intro: replay)
qed

lemma keeps_owed_repayment: "keeps owed_inv (RecordRepaymentForPeriodInTx v clock i amount g who day m b)"
proof (rule keepsI)
  fix s t s'
  assume inv: "owed_inv s" and run: "RecordRepaymentForPeriodInTx v clock i amount g who day m b s = Inr (t, s')"
  from run show "owed_inv s'"
  proof (cases rule: RecordRepayment_cases)
    case replay
    with inv show ?thesis by simp
  next
    case (new l d)
    have "l \<in> set (loans s)" "ln_status l \<noteq> LoanClosed"
      using find_loan [OF new(5)] new(6) by (auto simp: repayable_def)
    then show ?thesis
      using postRepayment_owed [OF new(9) inv] positive_scale [OF new(3)] by blast
  qed
qed

end
