(* ===== verification/Loan_Secured.thy ===== *)
theory Loan_Secured
  imports Loan_Owed
begin

text \<open>
  The interface between the loan package and the share package. \<open>loan_security\<close> lists what the loan
  operations rely on: a property of the share side that does not look at the loan tables and that
  the security functions of \<open>internal/share/loan_security.go\<close> keep, where the member they are
  called with is the loan's borrower. Inside the locale every loan operation is shown to keep it.
  Overpayments only have to keep it. The locale is interpreted on \<open>secure\<close>: active pledges are covered by shares, and a borrower's
  pledge lies on the borrower's own account.
\<close>

lemma ApplyForLoan_cases:
  fixes s s' :: "'s loan_db_scheme"
  assumes "ApplyForLoan v p pledge gs s = Inr (l, s')"
  obtains s1 s2 s3 :: "'s loan_db_scheme" where "validateApplication p pledge gs = None" "q_CreateLoan v p s = Inr (Some l, s1)"
    "ProposeApplicantSecurity v (ln_id l) (ln_member l) (cl_principal p) pledge gs s1 = Inr ((), s2)"
    "(if gs \<noteq> [] then q_CreateProposedLoanGuarantors v (ln_id l) gs else ret ()) s2 = Inr ((), s3)"
    "q_InsertLoanAuditTrail v (ln_id l) ''loan.application'' None (loan_status_text LoanPending)
       (cl_updated_by p) ''loan application submitted'' s3 = Inr ((), s')"
proof -
  have val: "validateApplication p pledge gs = None"
    using assms by (cases "validateApplication p pledge gs") (auto simp: ApplyForLoan_def tx_simps)
  with assms have "applyInTx v p pledge gs s = Inr (l, s')" by (simp add: ApplyForLoan_def tx_simps)
  then obtain m s1 s2 s3 where m: "cl_member p = Some m" and new: "q_CreateLoan v p s = Inr (Some l, s1)"
    and prp: "ProposeApplicantSecurity v (ln_id l) m (cl_principal p) pledge gs s1 = Inr ((), s2)"
    and rest: "(if gs \<noteq> [] then q_CreateProposedLoanGuarantors v (ln_id l) gs else ret ()) s2 = Inr ((), s3)"
      "q_InsertLoanAuditTrail v (ln_id l) ''loan.application'' None (loan_status_text LoanPending)
       (cl_updated_by p) ''loan application submitted'' s3 = Inr ((), s')"
    by (auto simp: applyInTx_def tx_simps LockActiveMembersInTx_Inr Let_def)
  have "ln_member l = m" using q_CreateLoan_Some [OF new] m by simp
  with prp show thesis by (intro that [OF val new _ rest]) simp
qed

section \<open>The interface\<close>

locale loan_frame =
  fixes P :: "'s loan_db_scheme \<Rightarrow> bool" and L :: "uuid \<Rightarrow> uuid option"
  assumes loan_tables: "P (s\<lparr>loan_guarantors := gs\<rparr>) = P s" "P (s\<lparr>repayment_schedules := rs\<rparr>) = P s"
      "P (s\<lparr>loan_transactions := ts\<rparr>) = P s" "P (s\<lparr>loan_monthly_interest := is\<rparr>) = P s"
      "P (s\<lparr>loan_audit_trails := us\<rparr>) = P s"
    and status: "keeps P (update_loan Q (set_loan_status v st who))"
    and marked: "keeps P (update_loan Q (\<lambda>l. (set_loan_status v st who l)\<lparr>ln_disbursed := t\<rparr>))"
    and overpaid: "keeps P (q_CreateCreditBalance v mem pl amt src)"
    and approve: "keeps P (ApproveGuarantorSecurity v i m by amt)"
    and release: "keeps P (ReleaseLoanSecurity v i m)"
    and verify: "L i = Some b \<Longrightarrow> keeps P (VerifyApplicantSecurity v i (Some b) by prin)"
begin

lemma guarantor_update: "P (loan_guarantors_update f s) = P s"
  by (subst guarantors_by_value) (rule loan_tables)

lemma keeps_queries [keeps_intros]:
  "keeps P (q_CreateLoanGuarantor v l g amt)"
  "keeps P (q_UpdateGuarantorStatus v st who l g)"
  "keeps P (q_UpdateRepaymentScheduleStatuses v ch)"
  "keeps P (q_InsertLoanTransaction v tp)"
  "keeps P (q_InsertLoanAuditTrail v l fld prev new who rsn)"
  by (cases who; auto simp: keeps_def query_defs tx_simps Let_def loan_tables guarantor_update split: if_splits option.splits)+

lemma keeps_status [keeps_intros]: "keeps P (q_UpdateLoanStatus v i st who)" "keeps P (q_MarkLoanDisbursed v i who)"
  unfolding q_UpdateLoanStatus_def q_MarkLoanDisbursed_def by (rule status marked)+

lemma keeps_lift_text [keeps_intros]: "keeps P (lift_text x)"
  by (cases x) (auto simp: lift_text_def intro: keeps_intros)

lemma keeps_rows [keeps_intros]:
  "keeps P (q_CreateProposedLoanGuarantors v l ps)"
  "keeps P (insert_schedules v l n is)"
  "keeps P (insert_interest v loan ds)"
proof -
  have mods: "keeps P (modify (\<lambda>s. if b s then s else s\<lparr>loan_guarantors := gs s\<rparr>))"
    "keeps P (modify (\<lambda>s. if c then s else s\<lparr>repayment_schedules := rs s\<rparr>))"
    "keeps P (modify (\<lambda>s. if b s then s else s\<lparr>loan_monthly_interest := is s\<rparr>))" for b gs c rs "is"
    by (auto simp: keeps_def tx_simps loan_tables)
  show "keeps P (q_CreateProposedLoanGuarantors v l ps)"
    by (induction ps) (auto intro!: keeps_intros mods)
  show "keeps P (insert_schedules v l n is)"
    by (induction v l n "is" rule: insert_schedules.induct) (auto simp: Let_def intro!: keeps_intros mods)
  show "keeps P (insert_interest v loan ds)"
    by (induction ds) (auto simp: Let_def intro!: keeps_intros mods)
qed

lemma keeps_reads [keeps_intros]:
  "keeps P (lockLoan i)" "keeps P (lockGuarantor i g)" "keeps P (requireActiveMember m e)"
  "keeps P (requireActiveMemberInTx m b e)" "keeps P (LockActiveMembersInTx ids b)"
  "keeps P (CheckGuarantorSecurity m amt)" "keeps P (VerifyGuarantorSecurities i amts)"
  unfolding lockLoan_def lockGuarantor_def requireActiveMember_def requireActiveMemberInTx_def RequireActiveMember_def
    LockActiveMembersInTx_def q_LockLoanByID_def q_LockGuarantor_def q_GetMemberByID_def q_LockActiveMembersInBranch_def
    CheckGuarantorSecurity_def loanSecurityBalances_def q_LockAccountByMemberID_def q_GetLatestBalance_def
    q_GetActivePledgedAmount_def VerifyGuarantorSecurities_def q_GetSecurityBalances_def q_ListGuarantorSharePledges_def
  by (intro keeps_intros)+

lemma keeps_helpers [keeps_intros]:
  "keeps P (insertStatusAudit v i old new who rsn)"
  "keeps P (updateScheduleStatuses v rows applied)"
  "keeps P (createSchedule v off i loan t)"
  "keeps P (assess v i ds)"
  "keeps P (settleRepayment v loan rows prior al who)"
  unfolding insertStatusAudit_def updateScheduleStatuses_def createSchedule_def assess_def settleRepayment_def
    q_CreateRepaymentSchedules_def
  by (intro keeps_intros release overpaid)+

lemma keeps_guarantor_operations:
  "keeps P (AddGuarantor v i g amt)"
  "keeps P (ApproveGuarantor v i g who)"
  "keeps P (RemoveGuarantor v i g who)"
  unfolding AddGuarantor_def ApproveGuarantor_def RemoveGuarantor_def q_GetLoanGuarantor_def q_ListLoanGuarantors_def
  by (intro keeps_intros approve release)+

lemma keeps_reject: "keeps P (RejectLoan v i who rsn)"
  unfolding RejectLoan_def by (intro keeps_intros release)

lemma keeps_repay: "keeps P (RecordRepaymentForPeriodInTx v clock i amount g who day m b)"
  unfolding RecordRepaymentForPeriodInTx_def postRepayment_def assessMissed_def q_GetLoanTransactionByGatewayID_def
    q_LockActiveRepaymentSchedulesByLoan_def q_GetLoanRepaymentTotals_def q_GetLoanInterestPeriod_def
    q_AssessLoanInterestPeriods_def q_SumLoanInterestDue_def q_GetLoanPenaltyDue_def
  by (intro keeps_intros)

lemma verify_collateral:
  assumes "L i = Some m"
  shows "keeps P (verifyCollateral v i m br prin who)"
  unfolding verifyCollateral_def q_ListLoanGuarantors_def by (intro keeps_intros verify [OF assms])

lemma approve_keeps:
  assumes "P s" and "ApproveLoan v i who rsn s = Inr (l', s')"
    and "\<And>l. find (live_loan i) (loans s) = Some l \<Longrightarrow> L i = Some (ln_member l)"
  shows "P s'"
  using assms(2)
proof (rule ApproveLoan_cases)
  fix l s1 s2
  assume l: "find (live_loan i) (loans s) = Some l"
    and ver: "verifyCollateral v i (ln_member l) (ln_branch l) (db_num (ln_principal l)) who s = Inr ((), s1)"
    and upd: "q_UpdateLoanStatus v i LoanApproved who s1 = Inr (Some l', s2)"
    and aud: "insertStatusAudit v i LoanPending LoanApproved who rsn s2 = Inr ((), s')"
  have "P s1" by (rule keepsD [OF verify_collateral [OF assms(3) [OF l]] assms(1) ver])
  then have "P s2" using upd by (rule keepsD [OF keeps_status(1)])
  then show "P s'" using aud by (rule keepsD [OF keeps_helpers(1)])
qed

lemma disburse_keeps:
  assumes "P s" and "DisburseLoan v off i who rsn s = Inr ((t, l'), s')"
    and "\<And>l. find (live_loan i) (loans s) = Some l \<Longrightarrow> L i = Some (ln_member l)"
  shows "P s'"
  using assms(2)
proof (cases rule: DisburseLoan_cases)
  case existing
  with assms(1) show ?thesis by simp
next
  case (fresh l s1 s2 s3 s4 s5)
  have "P s1" by (rule keepsD [OF verify_collateral [OF assms(3) [OF fresh(1)]] assms(1) fresh(4)])
  then have "P s2" using fresh(6) by (rule keepsD [OF keeps_queries(4)])
  then have "P s3" using fresh(7) by (rule keepsD [OF keeps_status(2)])
  then have "P s4" using fresh(8) by (rule keepsD [OF keeps_helpers(3)])
  then have "P s5" using fresh(10) unfolding q_AssessLoanInterest_def by (rule keepsD [OF keeps_helpers(4)])
  then show ?thesis using fresh(11) by (rule keepsD [OF keeps_helpers(1)])
qed

end

text \<open>An application adds a loan and the borrower's pledge.\<close>

locale loan_security = loan_frame P L for P :: "'s loan_db_scheme \<Rightarrow> bool" and L +
  assumes created: "keeps P (q_CreateLoan v p)"
    and propose: "L i = Some b \<Longrightarrow> keeps P (ProposeApplicantSecurity v i b prin amt proposals)"
begin

lemma apply_keeps:
  assumes "P s" and run: "ApplyForLoan v p pledge gs s = Inr (l, s')" and L: "L (ln_id l) = Some (ln_member l)"
  shows "P s'"
  using run
proof (rule ApplyForLoan_cases)
  fix s1 s2 s3
  assume new: "q_CreateLoan v p s = Inr (Some l, s1)"
    and prp: "ProposeApplicantSecurity v (ln_id l) (ln_member l) (cl_principal p) pledge gs s1 = Inr ((), s2)"
    and guar: "(if gs \<noteq> [] then q_CreateProposedLoanGuarantors v (ln_id l) gs else ret ()) s2 = Inr ((), s3)"
    and aud: "q_InsertLoanAuditTrail v (ln_id l) ''loan.application'' None (loan_status_text LoanPending)
             (cl_updated_by p) ''loan application submitted'' s3 = Inr ((), s')"
  have "P s1" using keepsD [OF created assms(1) new] .
  then have "P s2" using prp by (rule keepsD [OF propose [OF L]])
  then have "P s3" using guar by (rule keepsD [rotated]) (intro keeps_intros)
  then show "P s'" using aud by (rule keepsD [OF keeps_queries(5)])
qed

end

text \<open>A predicate that does not look at the loans is kept when loans are inserted or updated.\<close>

lemma keeps_loans_free:
  fixes P :: "'s loan_db_scheme \<Rightarrow> bool"
  assumes "\<And>s ls. P (s\<lparr>loans := ls\<rparr>) = P s"
  shows "keeps P (update_loan Q f)" "keeps P (q_CreateLoan v p)"
  using assms by (cases "cl_member p"; auto simp: keeps_def update_loan_def q_CreateLoan_def tx_simps Let_def
      split: if_splits option.splits)+

section \<open>What the share package provides\<close>

definition accounts_ok :: "'s share_db_scheme \<Rightarrow> bool" where
  "accounts_ok s \<longleftrightarrow> (\<forall>a\<in>set (share_accounts s). \<forall>b\<in>set (share_accounts s).
     \<not> sa_deleted a \<and> \<not> sa_deleted b \<and> sa_member a = sa_member b \<longrightarrow> a = b)"

definition applicant_pledge_ok :: "(uuid \<Rightarrow> uuid option) \<Rightarrow> 's share_db_scheme \<Rightarrow> SharePledge \<Rightarrow> bool" where
  "applicant_pledge_ok L s p \<longleftrightarrow> (sp_type p = ApplicantSecurity \<longrightarrow>
     (\<exists>a\<in>set (share_accounts s). sa_id a = sp_account p \<and> \<not> sa_deleted a \<and> L (sp_loan p) = Some (sa_member a)))"

definition applicants_ok :: "(uuid \<Rightarrow> uuid option) \<Rightarrow> 's share_db_scheme \<Rightarrow> bool" where
  "applicants_ok L s \<longleftrightarrow> (\<forall>p\<in>set (share_pledges s). applicant_pledge_ok L s p)"

definition secure :: "(uuid \<Rightarrow> uuid option) \<Rightarrow> 's share_db_scheme \<Rightarrow> bool" where
  "secure L s \<longleftrightarrow> share_inv s \<and> accounts_ok s \<and> applicants_ok L s"

lemma live_account_Some:
  "live_account Q s = Some a \<Longrightarrow> a \<in> set (share_accounts s) \<and> Q a \<and> \<not> sa_deleted a"
  by (auto simp: live_account_def dest: find_Some_set)

lemma secure_applicant_account:
  assumes "accounts_ok s" and "applicants_ok L s" and "L i = Some m"
  shows "applicant_account i (Some m) s"
  unfolding applicant_account_def
proof (intro ballI impI)
  fix p
  assume "p \<in> set (share_pledges s)" and p: "sp_loan p = i \<and> sp_type p = ApplicantSecurity"
  with assms(2,3) obtain a where a: "a \<in> set (share_accounts s)" "sa_id a = sp_account p" "\<not> sa_deleted a" "sa_member a = m"
    by (auto simp: applicants_ok_def applicant_pledge_ok_def)
  then obtain b where b: "live_account (\<lambda>a. Some (sa_member a) = Some m) s = Some b"
    using find_ex [of "\<lambda>a. Some (sa_member a) = Some m \<and> \<not> sa_deleted a" "share_accounts s"]
    by (auto simp: live_account_def)
  then have "b = a" using live_account_Some [OF b] a assms(1) by (auto simp: accounts_ok_def)
  with a b show "\<exists>a. live_account (\<lambda>a. Some (sa_member a) = Some m) s = Some a \<and> sp_account p = sa_id a" by auto
qed

lemma pledge_key_same:
  "sp_type (activate_pledge v by p) = sp_type p" "sp_loan (activate_pledge v by p) = sp_loan p"
  "sp_account (activate_pledge v by p) = sp_account p" "sp_type (release_pledge v p) = sp_type p"
  "sp_loan (release_pledge v p) = sp_loan p" "sp_account (release_pledge v p) = sp_account p"
  by (simp_all add: activate_pledge_def release_pledge_def)

lemma keeps_applicants_queries [keeps_intros]:
  "keeps (applicants_ok L) (q_ActivateSharePledge v i by)"
  "keeps (applicants_ok L) (q_ReleaseLoanSharePledges v l m)"
  "keeps (applicants_ok L) (q_CreateSharePledge v a l amt GuarantorSecurity)"
  by (auto simp: keeps_def query_defs tx_simps Let_def applicants_ok_def applicant_pledge_ok_def pledge_key_same
      split: option.splits if_splits)

lemma keeps_applicants_reads [keeps_intros]:
  "keeps (applicants_ok L) (loanSecurityBalances m)" "keeps (applicants_ok L) (CheckGuarantorSecurity m amt)"
  unfolding CheckGuarantorSecurity_def loanSecurityBalances_def q_LockAccountByMemberID_def q_GetLatestBalance_def
    q_GetActivePledgedAmount_def
  by (intro keeps_intros)+

lemma keeps_applicants_security:
  "keeps (applicants_ok L) (ApproveGuarantorSecurity v i m by amt)"
  "keeps (applicants_ok L) (ReleaseLoanSecurity v i m)"
  "keeps (applicants_ok L) (VerifyApplicantSecurity v i m by prin)"
  unfolding ApproveGuarantorSecurity_def ReleaseLoanSecurity_def VerifyApplicantSecurity_def activate_applicant_def
    q_LockLoanShareAccounts_def q_GetApplicantSharePledge_def
  by (intro keeps_intros)+

interpretation accounts: pledge_stable accounts_ok
  by unfold_locales (simp add: accounts_ok_def)

lemma security_row_account:
  assumes "q_GetSecurityBalances ms s = Inr (rows, s')" and "security_row m rows = Some r"
  obtains a where "a \<in> set (share_accounts s)" "\<not> sa_deleted a" "sa_member a = m" "sa_id a = sb_id r" "s' = s"
proof -
  have rows: "rows = map (\<lambda>a. \<lparr>sb_id = sa_id a, sb_member = sa_member a, sb_status = sa_status a,
       sb_balance = db_num (security_balance (sa_id a) s), sb_pledged = db_num (pledged_of (sa_id a) s)\<rparr>)
      (filter (\<lambda>a. Some (sa_member a) \<in> set ms \<and> \<not> sa_deleted a) (share_accounts s))" and "s' = s"
    using assms(1) by (auto simp: q_GetSecurityBalances_def tx_simps)
  have "r \<in> set rows" and "sb_member r = m"
    using find_Some_set [OF assms(2) [unfolded security_row_def]] by simp_all
  with rows \<open>s' = s\<close> show thesis by (auto intro: that)
qed

lemma ProposeApplicantSecurity_cases:
  assumes "ProposeApplicantSecurity v i m prin amt gs s = Inr (x, s')"
  obtains (none) "s' = s"
  | (pledged) a p where "a \<in> set (share_accounts s)" "\<not> sa_deleted a" "sa_member a = m"
      "q_CreateSharePledge v (sa_id a) i amt ApplicantSecurity s = Inr (Some p, s')"
proof -
  obtain rows where rows: "q_GetSecurityBalances (map Some (m # map fst gs)) s = Inr (rows, s)"
    by (auto simp: q_GetSecurityBalances_def tx_simps)
  with assms obtain r where r: "security_row m rows = Some r"
    and res: "s' = s \<or> (\<exists>p. q_CreateSharePledge v (sb_id r) i amt ApplicantSecurity s = Inr (Some p, s'))"
    by (auto simp: ProposeApplicantSecurity_def tx_simps Let_def q_LockSecurityAccounts_def)
  from rows r obtain a where "a \<in> set (share_accounts s)" "\<not> sa_deleted a" "sa_member a = m" "sa_id a = sb_id r"
    by (rule security_row_account)
  with res show thesis by (metis none pledged)
qed

lemma propose_applicants:
  assumes "L i = Some m"
  shows "keeps (applicants_ok L) (ProposeApplicantSecurity v i m prin amt gs)"
proof (rule keepsI)
  fix s x s'
  assume ok: "applicants_ok L s" and run: "ProposeApplicantSecurity v i m prin amt gs s = Inr (x, s')"
  from run show "applicants_ok L s'"
  proof (cases rule: ProposeApplicantSecurity_cases)
    case none
    with ok show ?thesis by simp
  next
    case (pledged a p)
    note p = q_CreateSharePledge_Some [OF pledged(4)]
    have "applicant_pledge_ok L s' p"
      using p pledged(1-3) assms by (auto simp: applicant_pledge_ok_def)
    moreover have "applicant_pledge_ok L s' q" if "q \<in> set (share_pledges s)" for q
      using ok that p by (auto simp: applicants_ok_def applicant_pledge_ok_def)
    ultimately show ?thesis using p by (auto simp: applicants_ok_def)
  qed
qed

lemma keeps_secure:
  assumes "keeps share_inv m" and "keeps accounts_ok m" and "keeps (applicants_ok L) m"
  shows "keeps (secure L) m"
  using assms unfolding keeps_def secure_def by blast

lemma share_inv_loan_tables:
  "share_inv (s\<lparr>loans := ls\<rparr>) = share_inv s" "share_inv (s\<lparr>loan_guarantors := gs\<rparr>) = share_inv s"
  "share_inv (s\<lparr>repayment_schedules := rs\<rparr>) = share_inv s" "share_inv (s\<lparr>loan_transactions := ts\<rparr>) = share_inv s"
  "share_inv (s\<lparr>loan_monthly_interest := is\<rparr>) = share_inv s" "share_inv (s\<lparr>credit_balances := cs\<rparr>) = share_inv s"
  "share_inv (s\<lparr>credit_operations := os\<rparr>) = share_inv s" "share_inv (s\<lparr>loan_audit_trails := us\<rparr>) = share_inv s"
  by (simp_all add: share_inv_def backed_def pledges_ok_def pledged_of_def balance_of_def latest_balance_def rows_of_def)

lemma keeps_secure_verify:
  assumes "L i = Some b"
  shows "keeps (secure L) (VerifyApplicantSecurity v i (Some b) who prin)"
proof (rule keepsI)
  fix s x s'
  assume sec: "secure L s" and run: "VerifyApplicantSecurity v i (Some b) who prin s = Inr (x, s')"
  have "share_inv s'"
    using sec secure_applicant_account [of s L i b] assms
    by (intro VerifyApplicantSecurity_keeps [OF _ _ run]) (auto simp: secure_def)
  moreover have "accounts_ok s'" "applicants_ok L s'"
    using sec keepsD [OF accounts.keeps_security(4) _ run] keepsD [OF keeps_applicants_security(3) _ run]
    by (auto simp: secure_def)
  ultimately show "secure L s'" by (simp add: secure_def)
qed

lemma secure_loan_tables:
  "secure L (s\<lparr>loans := ls\<rparr>) = secure L s" "secure L (s\<lparr>loan_guarantors := gs\<rparr>) = secure L s"
  "secure L (s\<lparr>repayment_schedules := rs\<rparr>) = secure L s" "secure L (s\<lparr>loan_transactions := ts\<rparr>) = secure L s"
  "secure L (s\<lparr>loan_monthly_interest := is\<rparr>) = secure L s" "secure L (s\<lparr>credit_balances := cs\<rparr>) = secure L s"
  "secure L (s\<lparr>credit_operations := os\<rparr>) = secure L s" "secure L (s\<lparr>loan_audit_trails := us\<rparr>) = secure L s"
  by (simp_all add: secure_def share_inv_loan_tables accounts_ok_def applicants_ok_def applicant_pledge_ok_def)

interpretation secured: loan_security "secure L" L for L
proof
  show "keeps (secure L) (ApproveGuarantorSecurity v i m who amt)" for v i m who amt
    by (intro keeps_secure keeps_ApproveGuarantorSecurity accounts.keeps_security keeps_applicants_security)
  show "keeps (secure L) (ReleaseLoanSecurity v i m)" for v i m
    by (intro keeps_secure keeps_ReleaseLoanSecurity accounts.keeps_security keeps_applicants_security)
  show "keeps (secure L) (ProposeApplicantSecurity v i b prin amt gs)" if "L i = Some b" for v i b prin amt gs
    using that by (intro keeps_secure keeps_ProposeApplicantSecurity accounts.keeps_security propose_applicants)
  show "keeps (secure L) (q_CreateCreditBalance v m pl amt src)" for v m pl amt src
    by (auto simp: keeps_def query_defs tx_simps Let_def secure_loan_tables split: if_splits)
  show "keeps (secure L) (VerifyApplicantSecurity v i (Some b) who prin)" if "L i = Some b" for v i b who prin
    using that by (rule keeps_secure_verify)
qed (simp_all add: secure_loan_tables keeps_loans_free)

end
