(* ===== verification/Auth.thy ===== *)
theory Auth
  imports Errors Texts
begin

text \<open>
  Package \<open>auth\<close>: the staff table, the role matrix and the interceptor every RPC passes
  (\<open>internal/auth/interceptor.go\<close>), and the two handlers that manage staff. Verification of the
  signed token is the parameter \<open>parse_token\<close>: it returns the subject claim of a token that carries
  a valid signature, issuer, audience and time (\<open>jwt.Parse\<close>), where a token without a subject has
  none. The request id the interceptor puts in the response header is left out.
\<close>

section \<open>Staff\<close>

record StaffUser =
  su_id :: uuid
  su_branch :: int
  su_email :: string
  su_password_hash :: "string option"
  su_role :: string
  su_active :: bool
  su_created :: timestamptz
  su_updated :: timestamptz
  su_name :: string
  su_auth_user :: "string option"

record auth_db =
  staff_users :: "StaffUser list"

definition staff_roles :: "string list" where
  "staff_roles = [''system_admin'', ''manager'', ''loan_officer'', ''cashier'', ''auditor'', ''chairperson'', ''secretary'']"

text \<open>The unique keys: the primary key, the email, and the authentication user where there is one.\<close>

definition staff_conflict :: "StaffUser \<Rightarrow> StaffUser \<Rightarrow> bool" where
  "staff_conflict u q \<longleftrightarrow> su_id q = su_id u \<or> su_email q = su_email u
     \<or> (su_auth_user u \<noteq> None \<and> su_auth_user q = su_auth_user u)"

definition q_CreateStaffUser ::
    "env \<Rightarrow> string \<Rightarrow> string \<Rightarrow> int \<Rightarrow> string \<Rightarrow> string \<Rightarrow> ('s auth_db_scheme, error, StaffUser option) tx" where
  [query_defs]: "q_CreateStaffUser v authUserID name branch email role =
     (let u = \<lparr>su_id = env_uuid v 0, su_branch = branch, su_email = ToLower email, su_password_hash = None,
               su_role = role, su_active = True, su_created = env_now v, su_updated = env_now v, su_name = name,
               su_auth_user = Some authUserID\<rparr>
      in tx_bind (db_check (role \<in> set staff_roles)) (\<lambda>_ s.
        if \<exists>q\<in>set (staff_users s). staff_conflict u q then Inr (None, s)
        else Inr (Some u, s\<lparr>staff_users := staff_users s @ [u]\<rparr>)))"

definition deactivate :: "env \<Rightarrow> StaffUser \<Rightarrow> StaffUser" where
  "deactivate v u = u\<lparr>su_active := False, su_updated := env_now v\<rparr>"

definition q_DeactivateStaffUser :: "env \<Rightarrow> uuid \<Rightarrow> ('s auth_db_scheme, error, StaffUser option) tx" where
  [query_defs]: "q_DeactivateStaffUser v i = (\<lambda>s.
     case find (\<lambda>u. su_id u = i \<and> su_active u) (staff_users s) of None \<Rightarrow> Inr (None, s)
     | Some u \<Rightarrow> Inr (Some (deactivate v u), s\<lparr>staff_users := map (\<lambda>u. if su_id u = i \<and> su_active u
          then deactivate v u else u) (staff_users s)\<rparr>))"

definition q_GetActiveStaffByAuthUserID :: "string \<Rightarrow> ('s auth_db_scheme, error, StaffUser option) tx" where
  [query_defs]: "q_GetActiveStaffByAuthUserID subject = gets (\<lambda>s.
     find (\<lambda>u. su_auth_user u = Some subject \<and> su_active u) (staff_users s))"

definition q_GetActiveStaffByID :: "uuid \<Rightarrow> ('s auth_db_scheme, error, StaffUser option) tx" where
  [query_defs]: "q_GetActiveStaffByID i = gets (\<lambda>s. find (\<lambda>u. su_id u = i \<and> su_active u) (staff_users s))"

definition q_CountStaffUsers :: "('s auth_db_scheme, error, int) tx" where
  [query_defs]: "q_CountStaffUsers = gets (\<lambda>s. int (length (staff_users s)))"

section \<open>Roles\<close>

definition permissionForMethod :: "string \<Rightarrow> string" where
  "permissionForMethod m =
     (if m \<in> set [''/contribution.v1.ContributionService/ApproveDividends'',
         ''/contribution.v1.ContributionService/RecordDividendChoice'', ''/contribution.v1.ContributionService/SettleDividend'']
      then ''cash.approve''
      else if m \<in> set [''/auth.v1.AuthService/CreateStaffUser'', ''/auth.v1.AuthService/DeactivateStaffUser'']
      then ''staff.manage''
      else if m \<in> set [''/member.v1.MemberService/RegisterMember'', ''/member.v1.MemberService/UpdateMemberProfile'',
         ''/member.v1.MemberService/UpdateMemberStatus'', ''/member.v1.MemberService/CloseMember'']
      then ''member.write''
      else if m \<in> set [''/share.v1.ShareService/OpenShareAccount'', ''/share.v1.ShareService/PurchaseShares'',
         ''/share.v1.ShareService/WithdrawShares'', ''/share.v1.ShareService/CreateAdjustment'']
      then ''share.write''
      else if m \<in> set [''/share.v1.ShareService/ApproveShareAdjustment'', ''/share.v1.ShareService/ReverseShareTransaction'']
      then ''share.approve''
      else if m \<in> set [''/loan.v1.LoanService/ApplyForLoan'', ''/loan.v1.LoanService/AddGuarantor'',
         ''/loan.v1.LoanService/RemoveGuarantor'']
      then ''loan.write''
      else if m \<in> set [''/loan.v1.LoanService/ApproveLoan'', ''/loan.v1.LoanService/RejectLoan'',
         ''/loan.v1.LoanService/ApproveGuarantor'']
      then ''loan.approve''
      else if m = ''/loan.v1.LoanService/DisburseLoan''
      then ''loan.disburse''
      else if m \<in> set [''/loan.v1.RepaymentService/RecordRepayment'',
         ''/contribution.v1.ContributionService/InitiateDarajaSTKContribution'',
         ''/contribution.v1.ContributionService/GetContributionPaymentRequest'',
         ''/contribution.v1.ContributionService/GetContributionQuote'']
      then ''repayment.record''
      else if m \<in> set [''/contribution.v1.ContributionService/ListDarajaPayments'',
         ''/contribution.v1.ContributionService/RecoverDarajaPayment'']
      then ''repayment.record''
      else if m = ''/loan.v1.CreditService/RequestCreditWithdrawal''
      then ''repayment.record''
      else if m = ''/loan.v1.CreditService/ManageCredit''
      then ''''
      else if m \<in> set [''/contribution.v1.ContributionService/CreateContributionCharge'',
         ''/contribution.v1.ContributionService/OpenCashierSession'', ''/contribution.v1.ContributionService/CreateCashContribution'',
         ''/contribution.v1.ContributionService/CloseCashierSession'']
      then ''cash.record''
      else if m \<in> set [''/contribution.v1.ContributionService/FinalizeCEEPReport'',
         ''/contribution.v1.ContributionService/AcceptCashHandover'', ''/contribution.v1.ContributionService/RecordCashDeposit'',
         ''/contribution.v1.ContributionService/VerifyCashDeposit'']
      then ''cash.approve''
      else '''')"

definition roleHasPermission :: "string \<Rightarrow> string \<Rightarrow> bool" where
  "roleHasPermission role permission =
     (if role = ''system_admin'' then True
      else if role = ''manager'' then permission \<noteq> ''staff.manage''
      else if role = ''loan_officer'' then permission = ''member.write'' \<or> permission = ''loan.write''
      else if role = ''cashier'' then permission = ''share.write'' \<or> permission = ''repayment.record'' \<or> permission = ''cash.record''
      else if role = ''chairperson'' then permission = ''loan.approve'' \<or> permission = ''share.approve'' \<or> permission = ''credit.withdraw''
      else if role = ''secretary'' then permission = ''member.write''
      else if role = ''auditor'' then False
      else False)"

definition CashPermissions :: "string \<Rightarrow> bool \<times> bool" where
  "CashPermissions role = (roleHasPermission role ''cash.record'', roleHasPermission role ''cash.approve'')"

definition CreditApprovalAllowed :: "string \<Rightarrow> bool" where
  "CreditApprovalAllowed role = roleHasPermission role ''credit.withdraw''"

section \<open>The interceptor\<close>

record Principal =
  pr_id :: uuid
  pr_auth_user :: string
  pr_role :: string
  pr_branch :: int

text \<open>The incoming metadata maps lower-case keys to the values sent for them.\<close>

type_synonym metadata = "string \<Rightarrow> string list"

definition UnaryServerInterceptor ::
    "(string \<Rightarrow> string option option) \<Rightarrow> 's auth_db_scheme \<Rightarrow> metadata option \<Rightarrow> string
     \<Rightarrow> (Principal option \<Rightarrow> grpc_code + 'r) \<Rightarrow> grpc_code + 'r" where
  "UnaryServerInterceptor parse_token s md fullMethod handler =
     (if fullMethod = ''/grpc.health.v1.Health/Check'' then handler None
      else case md of None \<Rightarrow> Inl Unauthenticated
      | Some md \<Rightarrow>
        (case md ''authorization'' of [authorization] \<Rightarrow>
          (case Fields authorization of [scheme, credential] \<Rightarrow>
            if \<not> EqualFold scheme ''Bearer'' then Inl Unauthenticated
            else (case parse_token credential of None \<Rightarrow> Inl Unauthenticated
              | Some subject \<Rightarrow>
                (case subject of None \<Rightarrow> Inl Unauthenticated
                 | Some sub \<Rightarrow>
                   if sub = '''' then Inl Unauthenticated
                   else (case find (\<lambda>u. su_auth_user u = Some sub \<and> su_active u) (staff_users s) of
                       None \<Rightarrow> Inl Unauthenticated
                     | Some staff \<Rightarrow>
                       let permission = permissionForMethod fullMethod in
                       if permission \<noteq> '''' \<and> \<not> roleHasPermission (su_role staff) permission
                       then Inl PermissionDenied
                       else handler (Some \<lparr>pr_id = su_id staff, pr_auth_user = sub, pr_role = su_role staff,
                              pr_branch = su_branch staff\<rparr>))))
           | _ \<Rightarrow> Inl Unauthenticated)
         | _ \<Rightarrow> Inl Unauthenticated))"

section \<open>Staff handlers\<close>

definition validRole :: "string \<Rightarrow> bool" where
  "validRole role \<longleftrightarrow> role \<in> set staff_roles"

record CreateStaffUserRequest =
  cs_email :: string
  cs_name :: string
  cs_role :: string
  cs_auth_user :: string
  cs_branch :: int

definition CreateStaffUser ::
    "env \<Rightarrow> CreateStaffUserRequest \<Rightarrow> 's auth_db_scheme \<Rightarrow> (grpc_code + StaffUser) \<times> 's auth_db_scheme" where
  "CreateStaffUser v req s =
     (let email = ToLower (TrimSpace (cs_email req)); name = TrimSpace (cs_name req);
          role = TrimSpace (cs_role req); authUserID = TrimSpace (cs_auth_user req)
      in if cs_branch req \<le> 0 \<or> email = '''' \<or> name = '''' \<or> authUserID = '''' \<or> \<not> validRole role
         then (Inl InvalidArgument, s)
         else case execTx (q_CreateStaffUser v authUserID name (cs_branch req) email role) s of
             (Inl e, s') \<Rightarrow> (Inl Internal, s')
           | (Inr None, s') \<Rightarrow> (Inl AlreadyExists, s')
           | (Inr (Some staff), s') \<Rightarrow> (Inr staff, s'))"

text \<open>The UUID parser of \<open>github.com/google/uuid\<close> is the parameter \<open>parse_uuid\<close>.\<close>

definition DeactivateStaffUser ::
    "(string \<Rightarrow> uuid option) \<Rightarrow> env \<Rightarrow> string \<Rightarrow> 's auth_db_scheme \<Rightarrow> (grpc_code + StaffUser) \<times> 's auth_db_scheme" where
  "DeactivateStaffUser parse_uuid v staffUserID s =
     (case parse_uuid staffUserID of None \<Rightarrow> (Inl InvalidArgument, s)
      | Some i \<Rightarrow> (case execTx (q_DeactivateStaffUser v i) s of
            (Inl e, s') \<Rightarrow> (Inl Internal, s')
          | (Inr None, s') \<Rightarrow> (Inl NotFound, s')
          | (Inr (Some staff), s') \<Rightarrow> (Inr staff, s')))"

section \<open>What the interceptor and the staff table guarantee\<close>

definition staff_ok :: "'s auth_db_scheme \<Rightarrow> bool" where
  "staff_ok s \<longleftrightarrow> (\<forall>u\<in>set (staff_users s). su_role u \<in> set staff_roles \<and> su_email u = ToLower (su_email u))
     \<and> (\<forall>u\<in>set (staff_users s). \<forall>q\<in>set (staff_users s). staff_conflict u q \<longrightarrow> u = q)"

lemma lower_char_idem: "lower_char (lower_char c) = lower_char c"
  by (simp add: lower_char_def of_char_of)

lemma ToLower_idem: "ToLower (ToLower t) = ToLower t"
  by (simp add: ToLower_def comp_def lower_char_idem)

lemma conflict_sym: "staff_conflict u q \<longleftrightarrow> staff_conflict q u"
  by (auto simp: staff_conflict_def)

lemma keeps_create: "keeps staff_ok (q_CreateStaffUser v au n b em r)"
proof (rule keepsI)
  fix s x s'
  assume ok: "staff_ok s" and run: "q_CreateStaffUser v au n b em r s = Inr (x, s')"
  show "staff_ok s'"
  proof (cases x)
    case (Some u)
    with run have u: "s' = s\<lparr>staff_users := staff_users s @ [u]\<rparr>" "\<forall>q\<in>set (staff_users s). \<not> staff_conflict u q"
      "su_role u \<in> set staff_roles" "su_email u = ToLower em"
      by (auto simp: q_CreateStaffUser_def Let_def tx_simps split: if_splits)
    then have "\<forall>q\<in>set (staff_users s). \<not> staff_conflict q u" using conflict_sym by blast
    with ok u show ?thesis by (simp add: staff_ok_def ToLower_idem)
  qed (use run ok in \<open>auto simp: q_CreateStaffUser_def Let_def tx_simps split: if_splits\<close>)
qed

lemma deactivate_same: "staff_conflict (deactivate v u) q = staff_conflict u q" "staff_conflict q (deactivate v u) = staff_conflict q u"
  "su_role (deactivate v u) = su_role u" "su_email (deactivate v u) = su_email u" "su_id (deactivate v u) = su_id u"
  "su_auth_user (deactivate v u) = su_auth_user u"
  by (simp_all add: deactivate_def staff_conflict_def)

lemma staff_ok_map:
  assumes "staff_ok s" and "\<And>u. f u = u \<or> f u = deactivate v u"
  shows "staff_ok (s\<lparr>staff_users := map f (staff_users s)\<rparr>)"
proof -
  have f: "su_role (f u) = su_role u" "su_email (f u) = su_email u" "staff_conflict (f u) (f q) = staff_conflict u q" for u q
    using assms(2) [of u] assms(2) [of q] by (auto simp: deactivate_same)
  have "f u = f q" if "u \<in> set (staff_users s)" "q \<in> set (staff_users s)" "staff_conflict (f u) (f q)" for u q
    using assms(1) that f(3) by (auto simp: staff_ok_def)
  with assms(1) f(1,2) show ?thesis by (auto simp: staff_ok_def)
qed

lemma keeps_deactivate: "keeps staff_ok (q_DeactivateStaffUser v i)"
proof (rule keepsI)
  fix s x s'
  assume ok: "staff_ok s" and run: "q_DeactivateStaffUser v i s = Inr (x, s')"
  then have "s' = s \<or> s' = s\<lparr>staff_users := map (\<lambda>u. if su_id u = i \<and> su_active u then deactivate v u else u) (staff_users s)\<rparr>"
    by (auto simp: q_DeactivateStaffUser_def split: option.splits)
  with ok staff_ok_map [OF ok, of "\<lambda>u. if su_id u = i \<and> su_active u then deactivate v u else u" v]
  show "staff_ok s'" by auto
qed

text \<open>Deactivation reaches every row of that authentication user.\<close>

lemma deactivated_absent:
  assumes ok: "staff_ok s" and run: "q_DeactivateStaffUser v i s = Inr (Some u, s')" and sub: "su_auth_user u = Some sub"
  shows "find (\<lambda>u. su_auth_user u = Some sub \<and> su_active u) (staff_users s') = None"
proof -
  obtain w where w: "find (\<lambda>u. su_id u = i \<and> su_active u) (staff_users s) = Some w" "u = deactivate v w"
    "staff_users s' = map (\<lambda>u. if su_id u = i \<and> su_active u then deactivate v u else u) (staff_users s)"
    using run by (auto simp: q_DeactivateStaffUser_def split: option.splits)
  note wi = find_Some_set [OF w(1)]
  have id: "su_id q = i" if q: "q \<in> set (staff_users s)" "su_auth_user q = Some sub" for q
  proof -
    have "staff_conflict w q" using q(2) sub w(2) by (simp add: staff_conflict_def deactivate_same)
    then have "w = q" using ok q(1) wi unfolding staff_ok_def by blast
    with wi show ?thesis by simp
  qed
  have "\<not> su_active q" if q: "q \<in> set (staff_users s')" "su_auth_user q = Some sub" for q
  proof -
    obtain p where p: "p \<in> set (staff_users s)" "q = (if su_id p = i \<and> su_active p then deactivate v p else p)"
      using q(1) unfolding w(3) by auto
    then have "su_auth_user p = Some sub" using q(2) by (simp add: deactivate_same split: if_splits)
    with p id [OF p(1)] show ?thesis by (simp add: deactivate_def split: if_splits)
  qed
  then show ?thesis by (auto simp: find_None_iff)
qed

text \<open>The credential of a request: the part after \<open>Bearer\<close> in its only authorization header.\<close>

definition credential_of :: "metadata option \<Rightarrow> string option" where
  "credential_of md = (case md of None \<Rightarrow> None | Some hs \<Rightarrow>
     (case hs ''authorization'' of [a] \<Rightarrow>
        (case Fields a of [scheme, credential] \<Rightarrow> if EqualFold scheme ''Bearer'' then Some credential else None
         | _ \<Rightarrow> None)
      | _ \<Rightarrow> None))"

lemma credential_of_Some: "credential_of md = Some c \<longleftrightarrow>
   (\<exists>hs a scheme. md = Some hs \<and> hs ''authorization'' = [a] \<and> Fields a = [scheme, c] \<and> EqualFold scheme ''Bearer'')"
  by (auto simp: credential_of_def split: option.splits list.splits)

definition actor_of :: "(string \<Rightarrow> string option option) \<Rightarrow> 's auth_db_scheme \<Rightarrow> metadata option \<Rightarrow> (string \<times> StaffUser) option" where
  "actor_of parse_token s md = (case credential_of md of None \<Rightarrow> None
     | Some c \<Rightarrow> (case parse_token c of Some (Some sub) \<Rightarrow> if sub = [] then None
         else map_option (Pair sub) (find (\<lambda>u. su_auth_user u = Some sub \<and> su_active u) (staff_users s))
       | _ \<Rightarrow> None))"

lemma actor_of_Some: "actor_of parse_token s md = Some (sub, staff) \<longleftrightarrow>
   (\<exists>c. credential_of md = Some c \<and> parse_token c = Some (Some sub) \<and> sub \<noteq> []
      \<and> find (\<lambda>u. su_auth_user u = Some sub \<and> su_active u) (staff_users s) = Some staff)"
  by (auto simp: actor_of_def split: option.splits)

lemma interceptor_actor:
  assumes "m \<noteq> ''/grpc.health.v1.Health/Check''"
  shows "UnaryServerInterceptor parse_token s md m handler = (case actor_of parse_token s md of None \<Rightarrow> Inl Unauthenticated
     | Some (sub, staff) \<Rightarrow> if permissionForMethod m \<noteq> [] \<and> \<not> roleHasPermission (su_role staff) (permissionForMethod m)
         then Inl PermissionDenied
         else handler (Some \<lparr>pr_id = su_id staff, pr_auth_user = sub, pr_role = su_role staff, pr_branch = su_branch staff\<rparr>))"
proof (cases "credential_of md")
  case None
  then show ?thesis using assms
    by (auto simp: UnaryServerInterceptor_def actor_of_def credential_of_def split: option.splits list.splits)
next
  case (Some c)
  then obtain hs a scheme where c: "md = Some hs" "hs ''authorization'' = [a]" "Fields a = [scheme, c]" "EqualFold scheme ''Bearer''"
    by (auto simp: credential_of_Some)
  have cred: "credential_of (Some hs) = Some c" using Some c(1) by simp
  show ?thesis unfolding UnaryServerInterceptor_def actor_of_def c(1) cred
    by (cases "parse_token c") (auto simp: assms c(2-4) Let_def split: option.splits)
qed

text \<open>C33. No RPC other than the health check reaches its handler without an authenticated staff member
  whose role carries the method's permission: the call succeeds exactly when the request has one
  \<open>Bearer\<close> credential, that token verifies with a non-empty subject, an active staff row is bound to
  the subject, the role matrix allows the method, and the handler succeeds for that very principal.\<close>

theorem interceptor_guards:
  assumes "m \<noteq> ''/grpc.health.v1.Health/Check''"
  shows "UnaryServerInterceptor parse_token s md m handler = Inr r \<longleftrightarrow>
    (\<exists>hs authorization scheme credential sub staff.
       md = Some hs \<and> hs ''authorization'' = [authorization] \<and> Fields authorization = [scheme, credential]
       \<and> EqualFold scheme ''Bearer'' \<and> parse_token credential = Some (Some sub) \<and> sub \<noteq> ''''
       \<and> find (\<lambda>u. su_auth_user u = Some sub \<and> su_active u) (staff_users s) = Some staff
       \<and> (permissionForMethod m = '''' \<or> roleHasPermission (su_role staff) (permissionForMethod m))
       \<and> handler (Some \<lparr>pr_id = su_id staff, pr_auth_user = sub, pr_role = su_role staff, pr_branch = su_branch staff\<rparr>) = Inr r)"
proof -
  have "UnaryServerInterceptor parse_token s md m handler = Inr r \<longleftrightarrow>
      (\<exists>sub staff. actor_of parse_token s md = Some (sub, staff)
         \<and> (permissionForMethod m = [] \<or> roleHasPermission (su_role staff) (permissionForMethod m))
         \<and> handler (Some \<lparr>pr_id = su_id staff, pr_auth_user = sub, pr_role = su_role staff, pr_branch = su_branch staff\<rparr>) = Inr r)"
    by (cases "actor_of parse_token s md") (auto simp: interceptor_actor [OF assms] split: if_splits)
  then show ?thesis by (simp only: actor_of_Some credential_of_Some) blast
qed

definition sample_staff :: StaffUser where
  "sample_staff = \<lparr>su_id = 7, su_branch = 1, su_email = ''a@b'', su_password_hash = None, su_role = ''cashier'',
     su_active = True, su_created = 0, su_updated = 0, su_name = ''A'', su_auth_user = Some ''u7''\<rparr>"

definition sample_auth :: auth_db where
  "sample_auth = \<lparr>staff_users = [sample_staff]\<rparr>"

definition sample_headers :: metadata where
  "sample_headers k = (if k = ''authorization'' then [''bearer tok''] else [])"

theorem interceptor_guards_witness:
  "UnaryServerInterceptor (\<lambda>t. if t = ''tok'' then Some (Some ''u7'') else None) sample_auth (Some sample_headers)
     ''/share.v1.ShareService/PurchaseShares'' (\<lambda>p. Inr (map_option pr_id p)) = Inr (Some 7)"
proof -
  have "permissionForMethod ''/share.v1.ShareService/PurchaseShares'' = ''share.write''" by code_simp
  moreover have "roleHasPermission ''cashier'' ''share.write''" by code_simp
  moreover have "Fields ''bearer tok'' = [''bearer'', ''tok'']" by code_simp
  moreover have "EqualFold ''bearer'' ''Bearer''" by code_simp
  ultimately show ?thesis
    by (subst interceptor_guards) (simp_all add: sample_auth_def sample_staff_def sample_headers_def)
qed




definition auth_env :: env where
  "auth_env = \<lparr>env_now = 5, env_uuid = (\<lambda>n. n)\<rparr>"


end
