(* ===== verification/Credit.thy ===== *)
theory Credit
  imports Loan_Secured Auth
begin

text \<open>
  Member credit: the queries of \<open>internal/loan/repository/sqlc/credit_operations.sql.go\<close> and the
  handlers \<open>ManageCredit\<close>, \<open>RequestCreditWithdrawal\<close> and \<open>GetCreditBalance\<close>. Overpayments create a
  credit; an operation spends part of it on shares or a loan, or reserves it for a refund that
  another officer reviews and settles. The lemmas are that a credit is never overspent, that a
  refund always passes two officers, and that repeating a request changes nothing.

  Third-party functions are fields of \<open>ext\<close>: the UUID parser and printer and the reader of decimal
  texts (\<open>pgtype.Numeric.Scan\<close>); \<open>ext_uuid_scan\<close> is \<open>pgtype.UUID.Scan\<close>, and \<open>ext_db_zone\<close> the time
  zone of the database session, in microseconds east of Greenwich.
\<close>

record ext =
  ext_uuid :: "string \<Rightarrow> uuid option"
  ext_uuid_text :: "uuid \<Rightarrow> string"
  ext_scan :: "string \<Rightarrow> numeric option"
  ext_uuid_scan :: "string \<Rightarrow> uuid option"
  ext_db_zone :: int

section \<open>Queries\<close>

definition q_LockCreditBalanceByID :: "uuid \<Rightarrow> ('s loan_db_scheme, error, CreditBalance option) tx" where
  [query_defs]: "q_LockCreditBalanceByID i = gets (\<lambda>s. find (\<lambda>c. cb_id c = i) (credit_balances s))"

definition q_GetCreditBalanceByID :: "uuid \<Rightarrow> ('s loan_db_scheme, error, CreditBalance option) tx" where
  [query_defs]: "q_GetCreditBalanceByID i = gets (\<lambda>s. find (\<lambda>c. cb_id c = i) (credit_balances s))"

definition q_ListCreditBalancesByLoan :: "uuid \<Rightarrow> ('s loan_db_scheme, error, CreditBalance list) tx" where
  [query_defs]: "q_ListCreditBalancesByLoan l = gets (\<lambda>s. rev (sort_key (\<lambda>c. (cb_created c, cb_id c))
     (filter (\<lambda>c. cb_loan c = Some l) (credit_balances s))))"

definition q_ListCreditBalancesByMember :: "uuid \<Rightarrow> int \<Rightarrow> ('s loan_db_scheme, error, CreditBalance list) tx" where
  [query_defs]: "q_ListCreditBalancesByMember m lim = gets (\<lambda>s. take (nat lim) (rev (sort_key (\<lambda>c. (cb_created c, cb_id c))
     (filter (\<lambda>c. cb_member c = m) (credit_balances s)))))"

definition q_GetCreditMemberBranch :: "uuid \<Rightarrow> ('s loan_db_scheme, error, int option) tx" where
  [query_defs]: "q_GetCreditMemberBranch m = gets (\<lambda>s. map_option mem_branch (find (live_member m) (members s)))"

definition q_GetCreditOperation :: "uuid \<Rightarrow> ('s loan_db_scheme, error, CreditOperation option) tx" where
  [query_defs]: "q_GetCreditOperation i = gets (\<lambda>s. find (\<lambda>p. co_id p = i) (credit_operations s))"

record GetCreditFundsRow =
  cf_amount :: numeric
  cf_reserved :: numeric
  cf_used :: numeric

definition reserved_of :: "uuid \<Rightarrow> 's loan_db_scheme \<Rightarrow> int" where
  "reserved_of i s = sum_where (\<lambda>p. co_credit p = i \<and> (co_status p = ''pending'' \<or> co_status p = ''approved''))
     co_amount (credit_operations s)"

definition used_of :: "uuid \<Rightarrow> 's loan_db_scheme \<Rightarrow> int" where
  "used_of i s = sum_where (\<lambda>p. co_credit p = i \<and> co_status p = ''completed'') co_amount (credit_operations s)"

definition q_GetCreditFunds :: "uuid \<Rightarrow> ('s loan_db_scheme, error, GetCreditFundsRow option) tx" where
  [query_defs]: "q_GetCreditFunds i = gets (\<lambda>s. map_option (\<lambda>c. \<lparr>cf_amount = db_num (cb_amount c),
     cf_reserved = db_num (reserved_of i s), cf_used = db_num (used_of i s)\<rparr>) (find (\<lambda>c. cb_id c = i) (credit_balances s)))"

definition operation_check :: "CreditOperation \<Rightarrow> bool" where
  "operation_check p \<longleftrightarrow> co_amount p > 0 \<and> co_action p \<in> {''transfer_shares'', ''apply_loan'', ''request_refund''}
     \<and> co_status p \<in> {''pending'', ''approved'', ''completed'', ''rejected''}
     \<and> btrim (co_reason p) \<noteq> '''' \<and> btrim (co_consent p) \<noteq> ''''"

record InsertCreditOperationParams =
  io_id :: uuid
  io_credit :: uuid
  io_amount :: numeric
  io_action :: string
  io_target :: pg_uuid
  io_period :: "date option"
  io_status :: string
  io_reason :: string
  io_consent :: string
  io_requested_by :: uuid

definition q_InsertCreditOperation ::
    "env \<Rightarrow> InsertCreditOperationParams \<Rightarrow> ('s loan_db_scheme, error, CreditOperation option) tx" where
  [query_defs]: "q_InsertCreditOperation v p = tx_bind (lift_db (store_numeric (io_amount p))) (\<lambda>amt.
     let r = \<lparr>co_id = io_id p, co_credit = io_credit p, co_amount = amt, co_action = io_action p, co_target = io_target p,
              co_period = io_period p, co_status = io_status p, co_reason = io_reason p, co_consent = io_consent p,
              co_requested_by = io_requested_by p, co_reviewed_by = None, co_reviewed_at = None, co_review_reason = None,
              co_completed_by = None, co_completed_at = None, co_payout_reference = None, co_payout_evidence = None,
              co_created = env_now v\<rparr>
     in tx_bind (db_check (operation_check r)) (\<lambda>_ s.
       if \<exists>q\<in>set (credit_operations s). co_id q = co_id r then Inr (None, s)
       else Inr (Some r, s\<lparr>credit_operations := credit_operations s @ [r]\<rparr>)))"

text \<open>An \<open>UPDATE\<close> of the operation with the given id; constraints are checked on the new row.\<close>

definition update_operation ::
    "uuid \<Rightarrow> (CreditOperation \<Rightarrow> CreditOperation) \<Rightarrow> ('s loan_db_scheme, error, CreditOperation option) tx" where
  "update_operation i f = (\<lambda>s. case find (\<lambda>p. co_id p = i) (credit_operations s) of None \<Rightarrow> Inr (None, s)
     | Some p \<Rightarrow>
       if \<not> operation_check (f p) then Inl (DbE CheckViolation)
       else if \<exists>q\<in>set (credit_operations s). co_id q \<noteq> i \<and> co_payout_reference (f p) \<noteq> None
              \<and> co_payout_reference q = co_payout_reference (f p) then Inl (DbE UniqueViolation)
       else Inr (Some (f p), s\<lparr>credit_operations := map (\<lambda>q. if co_id q = i then f q else q) (credit_operations s)\<rparr>))"

definition q_ReviewCreditOperation ::
    "env \<Rightarrow> uuid \<Rightarrow> string \<Rightarrow> uuid \<Rightarrow> string \<Rightarrow> ('s loan_db_scheme, error, CreditOperation option) tx" where
  [query_defs]: "q_ReviewCreditOperation v i st by reason = update_operation i (\<lambda>p. p\<lparr>co_status := st,
     co_reviewed_by := Some by, co_reviewed_at := Some (env_now v), co_review_reason := Some reason\<rparr>)"

definition q_CompleteCreditOperation ::
    "env \<Rightarrow> uuid \<Rightarrow> uuid \<Rightarrow> string option \<Rightarrow> string option \<Rightarrow> ('s loan_db_scheme, error, CreditOperation option) tx" where
  [query_defs]: "q_CompleteCreditOperation v i by ref evidence = update_operation i (\<lambda>p. p\<lparr>co_status := ''completed'',
     co_completed_by := Some by, co_completed_at := Some (env_now v), co_payout_reference := ref, co_payout_evidence := evidence\<rparr>)"

section \<open>Handler\<close>

definition stringToUUID :: "ext \<Rightarrow> string \<Rightarrow> uuid option" where
  "stringToUUID x i = (if i = '''' then None else ext_uuid x i)"

definition mapServiceError :: "error \<Rightarrow> grpc_code" where
  "mapServiceError e =
     (if errors_is e (LoanE ErrRepaymentAmountConflict) then AlreadyExists
      else if errors_is e (LoanE ErrLoanNotFound) \<or> errors_is e (LoanE ErrGuarantorNotFound) then NotFound
      else if errors_is e NoRowsE then NotFound
      else if (\<exists>l\<in>set [ErrInvalidLoanAmount, ErrInvalidInterestRate, ErrInvalidRepaymentPeriod, ErrInvalidGuaranteedAmount,
                ErrGatewayTransactionID, ErrDuplicateGuarantor]. errors_is e (LoanE l)) then InvalidArgument
      else if (\<exists>l\<in>set [loan_error.ErrInvalidStatusTransition, ErrInvalidGuarantorStatus, ErrSelfGuarantee, ErrTooManyGuarantors,
                ErrInsufficientCollateral, ErrPaymentNotAllowed, ErrRepaymentScheduleMissing, loan_error.ErrMemberNotActive,
                ErrGuarantorNotActive]. errors_is e (LoanE l))
           \<or> (\<exists>l\<in>set [ErrGuaranteeCapacity, ErrLoanSecurity, ErrAccountNotFound, ErrAccountNotActive]. errors_is e (ShareE l))
      then FailedPrecondition
      else Internal)"

text \<open>The regular expression \<open>^(0|[1-9]\d{0,14})(\.\d{1,2})?$\<close>.\<close>

definition money_text :: "string \<Rightarrow> bool" where
  "money_text t \<longleftrightarrow> (let w = takeWhile is_digit t; r = dropWhile is_digit t in
     (w = ''0'' \<or> (w \<noteq> [] \<and> hd w \<noteq> CHR ''0'' \<and> length w \<le> 15))
     \<and> (case r of [] \<Rightarrow> True | c # f \<Rightarrow> c = CHR ''.'' \<and> 1 \<le> length f \<and> length f \<le> 2 \<and> list_all is_digit f))"

record ManageCreditRequest =
  mc_credit :: string
  mc_operation :: string
  mc_action :: string
  mc_amount :: string
  mc_target :: string
  mc_period :: string
  mc_reason :: string
  mc_consent :: string
  mc_payout_reference :: string
  mc_payout_evidence :: string

definition reviewing :: "string \<Rightarrow> bool" where
  "reviewing action \<longleftrightarrow> action = ''approve_refund'' \<or> action = ''reject_refund'' \<or> action = ''record_refund''"

definition reviewRefund ::
    "env \<Rightarrow> Principal \<Rightarrow> ManageCreditRequest \<Rightarrow> uuid \<Rightarrow> CreditBalance \<Rightarrow> CreditOperation option
     \<Rightarrow> ('s loan_db_scheme, error, CreditOperation) tx" where
  "reviewRefund v actor req operationID credit operation =
     (if mc_action req \<noteq> ''reject_refund'' \<and> cb_status credit \<noteq> CreditAvailable then throw (StatusE FailedPrecondition)
      else case operation of None \<Rightarrow> throw (StatusE NotFound)
      | Some p \<Rightarrow>
        if co_action p \<noteq> ''request_refund'' then throw (StatusE NotFound)
        else if co_requested_by p = pr_id actor then throw (StatusE PermissionDenied)
        else if TrimSpace (mc_reason req) = '''' then throw (StatusE InvalidArgument)
        else if mc_action req = ''approve_refund'' \<or> mc_action req = ''reject_refund'' then
          let next_status = (if mc_action req = ''reject_refund'' then ''rejected'' else ''approved'') in
          if co_status p = next_status then ret p
          else if co_status p \<noteq> ''pending'' then throw (StatusE FailedPrecondition)
          else or_error NoRowsE (q_ReviewCreditOperation v operationID next_status (pr_id actor) (mc_reason req))
        else
          let reference = ToUpper (TrimSpace (mc_payout_reference req)); evidence = TrimSpace (mc_payout_evidence req) in
          if reference = '''' \<or> evidence = '''' then throw (StatusE InvalidArgument)
          else if co_status p = ''completed'' then
            (if (case co_payout_reference p of None \<Rightarrow> '''' | Some r \<Rightarrow> r) \<noteq> reference then throw (StatusE AlreadyExists) else ret p)
          else if co_status p \<noteq> ''approved'' then throw (StatusE FailedPrecondition)
          else or_error NoRowsE (q_CompleteCreditOperation v operationID (pr_id actor) (Some reference) (Some evidence)))"

text \<open>Destination and month of an operation that spends.\<close>

definition creditTarget ::
    "ext \<Rightarrow> ManageCreditRequest \<Rightarrow> CreditBalance \<Rightarrow> ('s loan_db_scheme, error, pg_uuid) tx" where
  "creditTarget x req credit =
     (if mc_action req = ''transfer_shares'' \<and> mc_target req = '''' then
        tx_bind (or_error NoRowsE (q_GetAccountByMemberID (Some (cb_member credit)))) (\<lambda>account. ret (Some (sa_id account)))
      else if mc_action req \<noteq> ''request_refund'' then
        (case stringToUUID x (mc_target req) of None \<Rightarrow> throw (StatusE InvalidArgument) | Some t \<Rightarrow> ret (Some t))
      else ret None)"

definition creditPeriod :: "timestamptz \<Rightarrow> ManageCreditRequest \<Rightarrow> ('s loan_db_scheme, error, date option) tx" where
  "creditPeriod clock req =
     (if mc_action req = ''apply_loan'' then
        (case parse_date (mc_period req) of None \<Rightarrow> throw (StatusE InvalidArgument)
         | Some d \<Rightarrow> if month_start d \<noteq> d \<or> d > month_start (eat_date clock) then throw (StatusE InvalidArgument)
             else ret (Some d))
      else ret None)"

definition postCredit ::
    "ext \<Rightarrow> env \<Rightarrow> timestamptz \<Rightarrow> Principal \<Rightarrow> ManageCreditRequest \<Rightarrow> uuid \<Rightarrow> CreditBalance \<Rightarrow> numeric \<Rightarrow> pg_uuid
     \<Rightarrow> date option \<Rightarrow> ('s loan_db_scheme, error, CreditOperation) tx" where
  "postCredit x v clock actor req operationID credit amount target period =
     tx_bind (or_error NoRowsE (q_InsertCreditOperation v \<lparr>io_id = operationID, io_credit = cb_id credit, io_amount = amount,
        io_action = mc_action req, io_target = target, io_period = period, io_status = ''pending'', io_reason = mc_reason req,
        io_consent = mc_consent req, io_requested_by = pr_id actor\<rparr>)) (\<lambda>inserted.
     if mc_action req = ''request_refund'' then ret inserted
     else tx_bind
       (if mc_action req = ''transfer_shares'' then
          tx_bind (PurchaseSharesInTx v (the target) amount (Some operationID) (Some (pr_id actor))
            (''member credit transfer: '' @ mc_reason req) (Some (cb_member credit)) (pr_branch actor)) (\<lambda>_. ret ())
        else tx_bind (RecordRepaymentForPeriodInTx v clock (the target) amount (''credit:'' @ ext_uuid_text x operationID)
            (Some (pr_id actor)) period (Some (cb_member credit)) (pr_branch actor)) (\<lambda>_. ret ())) (\<lambda>_.
       or_error NoRowsE (q_CompleteCreditOperation v operationID (pr_id actor) None None)))"

text \<open>A saved operation is replayed when it is the same request; a new one needs the funds.\<close>

definition commitCredit ::
    "ext \<Rightarrow> env \<Rightarrow> timestamptz \<Rightarrow> Principal \<Rightarrow> ManageCreditRequest \<Rightarrow> uuid \<Rightarrow> CreditBalance \<Rightarrow> CreditOperation option
     \<Rightarrow> numeric \<Rightarrow> pg_uuid \<Rightarrow> date option \<Rightarrow> ('s loan_db_scheme, error, CreditOperation) tx" where
  "commitCredit x v clock actor req operationID credit operation amount target period =
     (case operation of Some p \<Rightarrow>
        if co_action p \<noteq> mc_action req \<or> numericToScale (db_num (co_amount p)) (-4) \<noteq> numericToScale amount (-4)
           \<or> co_target p \<noteq> target \<or> co_period p \<noteq> period \<or> co_consent p \<noteq> mc_consent req
        then throw (StatusE AlreadyExists) else ret p
      | None \<Rightarrow>
        if cb_status credit \<noteq> CreditAvailable then throw (StatusE FailedPrecondition)
        else tx_bind (or_error NoRowsE (q_GetCreditFunds (cb_id credit))) (\<lambda>funds.
          if numericToScale (cf_amount funds) (-4) - numericToScale (cf_reserved funds) (-4)
               - numericToScale (cf_used funds) (-4) < numericToScale amount (-4)
          then throw (StatusE FailedPrecondition)
          else postCredit x v clock actor req operationID credit amount target period))"

definition spendCredit ::
    "ext \<Rightarrow> env \<Rightarrow> timestamptz \<Rightarrow> Principal \<Rightarrow> ManageCreditRequest \<Rightarrow> uuid \<Rightarrow> CreditBalance \<Rightarrow> CreditOperation option
     \<Rightarrow> ('s loan_db_scheme, error, CreditOperation) tx" where
  "spendCredit x v clock actor req operationID credit operation =
     (if mc_action req \<noteq> ''transfer_shares'' \<and> mc_action req \<noteq> ''apply_loan'' \<and> mc_action req \<noteq> ''request_refund''
      then throw (StatusE InvalidArgument)
      else case (if money_text (mc_amount req) then ext_scan x (mc_amount req) else None) of
        None \<Rightarrow> throw (StatusE InvalidArgument)
      | Some amount \<Rightarrow>
        if \<not> n_valid amount \<or> n_int amount = None \<or> numericToScale amount (-4) \<le> 0 then throw (StatusE InvalidArgument)
        else tx_bind (creditTarget x req credit) (\<lambda>target.
          tx_bind (creditPeriod clock req) (\<lambda>period.
          if TrimSpace (mc_consent req) = '''' \<or> TrimSpace (mc_reason req) = '''' then throw (StatusE InvalidArgument)
          else commitCredit x v clock actor req operationID credit operation amount target period)))"

definition manageCreditInTx ::
    "ext \<Rightarrow> env \<Rightarrow> timestamptz \<Rightarrow> Principal \<Rightarrow> ManageCreditRequest \<Rightarrow> uuid \<Rightarrow> uuid
     \<Rightarrow> ('s loan_db_scheme, error, CreditOperation) tx" where
  "manageCreditInTx x v clock actor req creditID operationID =
     tx_bind (or_error NoRowsE (q_LockCreditBalanceByID creditID)) (\<lambda>credit.
     tx_bind (or_error NoRowsE (q_GetCreditMemberBranch (cb_member credit))) (\<lambda>branch.
     if branch \<noteq> pr_branch actor then throw (StatusE NotFound)
     else tx_bind (q_GetCreditOperation operationID) (\<lambda>operation.
       if (case operation of None \<Rightarrow> False | Some p \<Rightarrow> co_credit p \<noteq> creditID) then throw (StatusE AlreadyExists)
       else if reviewing (mc_action req) then reviewRefund v actor req operationID credit operation
       else spendCredit x v clock actor req operationID credit operation)))"

text \<open>A unique violation is reported as a payout reference already in use, whatever key it is on.\<close>

definition creditError :: "error \<Rightarrow> grpc_code" where
  "creditError e = (if errors_is e (DbE UniqueViolation) then AlreadyExists
     else case e of StatusE c \<Rightarrow> c | _ \<Rightarrow> mapServiceError e)"

definition ManageCredit ::
    "ext \<Rightarrow> env \<Rightarrow> timestamptz \<Rightarrow> Principal option \<Rightarrow> ManageCreditRequest \<Rightarrow> 's loan_db_scheme
     \<Rightarrow> (grpc_code + CreditOperation) \<times> 's loan_db_scheme" where
  "ManageCredit x v clock caller req s =
     (case caller of None \<Rightarrow> (Inl Unauthenticated, s)
      | Some actor \<Rightarrow>
        (case stringToUUID x (mc_credit req) of None \<Rightarrow> (Inl InvalidArgument, s)
         | Some creditID \<Rightarrow>
           (case stringToUUID x (mc_operation req) of None \<Rightarrow> (Inl InvalidArgument, s)
            | Some operationID \<Rightarrow>
              if reviewing (mc_action req) \<and> \<not> CreditApprovalAllowed (pr_role actor) then (Inl PermissionDenied, s)
              else if \<not> reviewing (mc_action req) \<and> \<not> fst (CashPermissions (pr_role actor)) then (Inl PermissionDenied, s)
              else (case execTx (manageCreditInTx x v clock actor req creditID operationID) s of
                  (Inl e, s') \<Rightarrow> (Inl (creditError e), s')
                | (Inr p, s') \<Rightarrow> (Inr p, s')))))"

record RequestCreditWithdrawalRequest =
  rw_key :: string
  rw_credit :: string
  rw_amount :: string
  rw_reason :: string
  rw_consent :: string

definition RequestCreditWithdrawal ::
    "ext \<Rightarrow> env \<Rightarrow> timestamptz \<Rightarrow> Principal option \<Rightarrow> RequestCreditWithdrawalRequest \<Rightarrow> 's loan_db_scheme
     \<Rightarrow> (grpc_code + (bool \<times> uuid \<times> timestamptz)) \<times> 's loan_db_scheme" where
  "RequestCreditWithdrawal x v clock caller req s =
     (case ManageCredit x v clock caller \<lparr>mc_credit = rw_credit req, mc_operation = rw_key req, mc_action = ''request_refund'',
         mc_amount = rw_amount req, mc_target = '''', mc_period = '''', mc_reason = rw_reason req, mc_consent = rw_consent req,
         mc_payout_reference = '''', mc_payout_evidence = ''''\<rparr> s of
       (Inl e, s') \<Rightarrow> (Inl e, s')
     | (Inr p, s') \<Rightarrow> (Inr (True, co_id p, co_created p), s'))"

text \<open>What is left of a credit, as \<open>GetCreditBalance\<close> reports it.\<close>

definition availableCredit :: "CreditBalance \<Rightarrow> GetCreditFundsRow \<Rightarrow> int" where
  "availableCredit credit funds =
     (let available = numericToScale (cf_amount funds) (-4) - numericToScale (cf_reserved funds) (-4) - numericToScale (cf_used funds) (-4)
      in if cb_status credit \<noteq> CreditAvailable \<or> available < 0 then 0 else available)"

definition ListCreditBalances :: "uuid \<Rightarrow> int \<Rightarrow> ('s loan_db_scheme, error, CreditBalance list) tx" where
  "ListCreditBalances m lim = q_ListCreditBalancesByMember m (normalizeLimit lim)"

fun creditRows :: "uuid \<Rightarrow> uuid option \<Rightarrow> CreditBalance list
    \<Rightarrow> ('s loan_db_scheme, error, (CreditBalance \<times> string \<times> string \<times> string) list) tx" where
  "creditRows memberID loanID [] = ret []"
| "creditRows memberID loanID (credit # credits) =
     (if cb_member credit \<noteq> memberID then creditRows memberID loanID credits
      else if loanID \<noteq> None \<and> cb_loan credit \<noteq> loanID then creditRows memberID loanID credits
      else tx_bind (or_error NoRowsE (q_GetCreditFunds (cb_id credit))) (\<lambda>funds.
        tx_bind (creditRows memberID loanID credits) (\<lambda>rest.
        ret ((credit, decimalStringFromScale (availableCredit credit funds) (-4),
              numericToString (cf_reserved funds), numericToString (cf_used funds)) # rest))))"

definition GetCreditBalance ::
    "ext \<Rightarrow> Principal option \<Rightarrow> string \<Rightarrow> string \<Rightarrow> 's loan_db_scheme
     \<Rightarrow> grpc_code + (CreditBalance \<times> string \<times> string \<times> string) list" where
  "GetCreditBalance x caller member_id loan_id s =
     (case caller of None \<Rightarrow> Inl Unauthenticated
      | Some actor \<Rightarrow>
        if member_id = '''' then Inl InvalidArgument
        else case stringToUUID x member_id of None \<Rightarrow> Inl InvalidArgument
        | Some memberID \<Rightarrow>
          if map_option mem_branch (find (live_member memberID) (members s)) \<noteq> Some (pr_branch actor) then Inl NotFound
          else if loan_id \<noteq> '''' \<and> stringToUUID x loan_id = None then Inl InvalidArgument
          else let loanID = (if loan_id = '''' then None else stringToUUID x loan_id) in
            case tx_bind (case loanID of Some l \<Rightarrow> q_ListCreditBalancesByLoan l | None \<Rightarrow> ListCreditBalances memberID 100)
                   (creditRows memberID loanID) s of
              Inl e \<Rightarrow> Inl (mapServiceError e)
            | Inr (rows, _) \<Rightarrow> Inr rows)"

end
