(* ===== verification/Samples.thy ===== *)
theory Samples
  imports Loan_Service "HOL-Library.Code_Target_Nat"
begin

text \<open>
  Concrete states for the witnesses: a borrower (member 7) and a guarantor (member 8), both with
  1000 shillings of shares, an application of 1200 shillings over three months, and the database
  before and after it is disbursed.
\<close>

definition sample_guarantor :: member_row where
  "sample_guarantor = sample_member\<lparr>mem_id := 8, mem_number := 101\<rparr>"

definition sample_bank :: loan_db where
  "sample_bank = \<lparr>members = [sample_member, sample_guarantor], member_status_history = [],
     share_accounts = [sample_account, sample_account\<lparr>sa_id := 2, sa_member := 8\<rparr>],
     share_transactions = [sample_purchase, sample_purchase\<lparr>st_id := 21, st_account := 2\<rparr>],
     share_adjustments = [], share_pledges = [], loans = [], loan_guarantors = [], repayment_schedules = [],
     loan_transactions = [], loan_monthly_interest = [], credit_balances = [], credit_operations = [], loan_audit_trails = []\<rparr>"

definition sample_application :: CreateLoanParams where
  "sample_application = \<lparr>cl_member = Some 7, cl_branch = 1, cl_principal = db_num 12000000, cl_rate = db_num 100,
     cl_months = 3, cl_updated_by = Some 9, cl_key = None, cl_hash = None\<rparr>"

definition sample_loan :: Loan where
  "sample_loan = \<lparr>ln_id = 60, ln_member = 7, ln_branch = 1, ln_principal = 12000000, ln_rate = 100, ln_months = 3,
     ln_status = LoanPending, ln_disbursed = None, ln_updated_by = Some 9, ln_previous = None, ln_deleted = False,
     ln_created = 1000, ln_updated = 1000, ln_key = None, ln_hash = None\<rparr>"

definition sample_pledges :: "SharePledge list" where
  "sample_pledges = [\<lparr>sp_id = 60, sp_account = 1, sp_loan = 60, sp_amount = 8000000, sp_type = ApplicantSecurity,
     sp_status = PledgePending, sp_approved_by = None, sp_approved_at = None, sp_released_at = None, sp_created = 1000,
     sp_updated = 1000\<rparr>]"

definition sample_audit :: "uuid \<Rightarrow> string \<Rightarrow> string option \<Rightarrow> string \<Rightarrow> string \<Rightarrow> timestamptz \<Rightarrow> LoanAuditTrail" where
  "sample_audit i fld prev new rsn t = \<lparr>au_id = i, au_loan = 60, au_field = fld, au_previous = prev, au_new = new,
     au_changed_by = 9, au_reason = rsn, au_created = t\<rparr>"

definition sample_pending :: loan_db where
  "sample_pending = sample_bank\<lparr>loans := [sample_loan], share_pledges := sample_pledges,
     loan_guarantors := [new_guarantor (sample_env 1000 60) 60 8 4000000],
     loan_audit_trails := [sample_audit 60 ''loan.application'' None ''pending'' ''loan application submitted'' 1000]\<rparr>"

lemmas sample_bank_defs = sample_defs sample_guarantor_def sample_bank_def sample_application_def sample_loan_def
  sample_pledges_def sample_audit_def sample_pending_def

lemma sample_apply:
  "ApplyForLoan (sample_env 1000 60) sample_application (db_num 8000000) [(8, db_num 4000000)] sample_bank
     = Inr (sample_loan, sample_pending)"
  by code_simp

text \<open>After the guarantor's approval, the loan's approval, its disbursement, and a first repayment.\<close>

definition guarantor_pledge :: SharePledge where
  "guarantor_pledge = \<lparr>sp_id = 70, sp_account = 2, sp_loan = 60, sp_amount = 4000000, sp_type = GuarantorSecurity,
     sp_status = PledgeActive, sp_approved_by = Some 9, sp_approved_at = Some 2000, sp_released_at = None, sp_created = 2000,
     sp_updated = 2000\<rparr>"

definition sample_secured :: loan_db where
  "sample_secured = sample_pending\<lparr>share_pledges := sample_pledges @ [guarantor_pledge],
     loan_guarantors := [set_guarantor_status (sample_env 2000 70) GuarantorApproved (Some 9)
        (new_guarantor (sample_env 1000 60) 60 8 4000000)],
     loan_audit_trails := loan_audit_trails sample_pending
        @ [sample_audit 70 ''guarantor.status'' (Some ''pending'') ''approved'' ''guarantor approved'' 2000]\<rparr>"

definition sample_approved :: loan_db where
  "sample_approved = sample_secured\<lparr>loans := [set_loan_status (sample_env 3000 80) LoanApproved (Some 9) sample_loan],
     share_pledges := map (activate_pledge (sample_env 3000 80) (Some 9)) sample_pledges @ [guarantor_pledge],
     loan_audit_trails := loan_audit_trails sample_secured
        @ [sample_audit 80 ''status'' (Some ''pending'') ''approved'' ''ok'' 3000]\<rparr>"

definition active_loan :: Loan where
  "active_loan = (set_loan_status (sample_env 4000 90) LoanActive (Some 9)
     (set_loan_status (sample_env 3000 80) LoanApproved (Some 9) sample_loan))\<lparr>ln_disbursed := Some 4000\<rparr>"

definition sample_disbursement :: LoanTransaction where
  "sample_disbursement = \<lparr>lt_id = 90, lt_loan = 60, lt_type = Disbursement, lt_amount = 12000000, lt_reference = 91,
     lt_gateway = None, lt_breakdown = empty_json, lt_created = 4000, lt_created_by = Some 9\<rparr>"

definition sample_installment :: "uuid \<Rightarrow> int \<Rightarrow> date \<Rightarrow> RepaymentSchedule" where
  "sample_installment i n d = \<lparr>rs_id = i, rs_loan = 60, rs_installment = n, rs_due = d, rs_amount = 4000000,
     rs_status = Upcoming, rs_created = 4000, rs_updated = 4000\<rparr>"

definition sample_active :: loan_db where
  "sample_active = sample_approved\<lparr>loans := [active_loan], loan_transactions := [sample_disbursement],
     repayment_schedules := [sample_installment 90 1 58, sample_installment 91 2 89, sample_installment 92 3 119],
     loan_monthly_interest := [\<lparr>li_loan = 60, li_period = 0, li_previous = 12000000, li_rate = 100, li_amount = 120000,
        li_created = 4000\<rparr>],
     loan_audit_trails := loan_audit_trails sample_approved
        @ [sample_audit 90 ''status'' (Some ''approved'') ''active'' ''ok'' 4000]\<rparr>"

definition sample_repayment :: LoanTransaction where
  "sample_repayment = \<lparr>lt_id = 100, lt_loan = 60, lt_type = Repayment, lt_amount = 5000000, lt_reference = 101,
     lt_gateway = Some ''G1'', lt_breakdown = \<lparr>aj_period = Some 0, aj_principal = Some ''488'', aj_interest = Some ''12'',
     aj_penalty = Some ''0'', aj_credit = Some ''0''\<rparr>, lt_created = 5000, lt_created_by = Some 9\<rparr>"

definition sample_repaid :: loan_db where
  "sample_repaid = sample_active\<lparr>loan_transactions := [sample_disbursement, sample_repayment],
     repayment_schedules := [(sample_installment 90 1 58)\<lparr>rs_status := Paid, rs_updated := 5000\<rparr>,
       (sample_installment 91 2 89)\<lparr>rs_status := Partial, rs_updated := 5000\<rparr>, sample_installment 92 3 119]\<rparr>"

lemma sample_guarantee: "ApproveGuarantor (sample_env 2000 70) 60 8 (Some 9) sample_pending
    = Inr (hd (loan_guarantors sample_secured), sample_secured)"
  by code_simp

lemma sample_approval: "ApproveLoan (sample_env 3000 80) 60 (Some 9) ''ok'' sample_secured
    = Inr (hd (loans sample_approved), sample_approved)"
  by code_simp

lemma sample_schedule_items: "scheduleItems 10800000000 4000 12000000 3 =
   [\<lparr>si_installment = 1, si_due = 58, si_amount = ''400''\<rparr>, \<lparr>si_installment = 2, si_due = 89, si_amount = ''400''\<rparr>,
    \<lparr>si_installment = 3, si_due = 119, si_amount = ''400''\<rparr>]"
proof -
  have "dueDate 10800000000 4000 1 = 58" "dueDate 10800000000 4000 2 = 89" "dueDate 10800000000 4000 3 = 119" by code_simp+
  moreover have "installmentAmount 12000000 3 1 = 4000000" "installmentAmount 12000000 3 2 = 4000000"
    "installmentAmount 12000000 3 3 = 4000000" by code_simp+
  moreover have "numericToString (numericFromScale 4000000) = ''400''" by code_simp
  moreover have "[1..3] = [1, 2, 3 :: int]" by code_simp
  ultimately show ?thesis by (simp add: scheduleItems_def)
qed

lemma sample_disburse: "DisburseLoan (sample_env 4000 90) 10800000000 60 (Some 9) ''ok'' sample_approved
    = Inr ((sample_disbursement, active_loan), sample_active)"
proof -
  let ?v = "sample_env 4000 90" and ?l = "hd (loans sample_approved)"
  let ?s2 = "sample_approved\<lparr>loan_transactions := [sample_disbursement]\<rparr>"
  let ?s3 = "?s2\<lparr>loans := [active_loan]\<rparr>"
  let ?s4 = "?s3\<lparr>repayment_schedules := repayment_schedules sample_active\<rparr>"
  let ?s5 = "?s4\<lparr>loan_monthly_interest := loan_monthly_interest sample_active\<rparr>"
  have "lockLoan 60 sample_approved = Inr (?l, sample_approved)" by code_simp
  moreover have "q_GetLoanDisbursement 60 sample_approved = Inr (None, sample_approved)" by code_simp
  moreover have "ln_status ?l = LoanApproved" by code_simp
  moreover have "verifyCollateral ?v 60 (ln_member ?l) (ln_branch ?l) (db_num (ln_principal ?l)) None sample_approved
      = Inr ((), sample_approved)" by code_simp
  moreover have "or_error NoRowsE (q_InsertLoanTransaction ?v \<lparr>il_loan = 60, il_type = Disbursement,
      il_amount = db_num (ln_principal ?l), il_reference = env_uuid ?v 1, il_gateway = None, il_breakdown = empty_json,
      il_created_by = Some 9\<rparr>) sample_approved = Inr (sample_disbursement, ?s2)" by code_simp
  moreover have "or_error NoRowsE (q_MarkLoanDisbursed ?v 60 (Some 9)) ?s2 = Inr (active_loan, ?s3)" by code_simp
  moreover have "createSchedule ?v 10800000000 60 ?l (env_now ?v) ?s3 = Inr ((), ?s4)"
  proof -
    have l: "ln_months ?l = 3" "ln_principal ?l = 12000000" "env_now ?v = 4000" "big_quo 12000000 3 = 4000000" by code_simp+
    have "q_CreateRepaymentSchedules ?v 60 [\<lparr>si_installment = 1, si_due = 58, si_amount = ''400''\<rparr>,
        \<lparr>si_installment = 2, si_due = 89, si_amount = ''400''\<rparr>, \<lparr>si_installment = 3, si_due = 119, si_amount = ''400''\<rparr>] ?s3
        = Inr (3, ?s4)" by code_simp
    then show ?thesis unfolding createSchedule_def by (simp add: l sample_schedule_items Let_def ret_def)
  qed
  moreover have "month_start (eat_date (env_now ?v)) = 0" by code_simp
  moreover have "q_AssessLoanInterest ?v 0 60 ?s4 = Inr ((), ?s5)" by code_simp
  moreover have "insertStatusAudit ?v 60 LoanApproved LoanActive (Some 9) ''ok'' ?s5 = Inr ((), sample_active)" by code_simp
  ultimately show ?thesis unfolding DisburseLoan_def by (simp add: ret_def)
qed

lemma sample_repay: "RecordRepaymentForPeriodInTx (sample_env 5000 100) 5000 60 (db_num 5000000) '' G1 '' (Some 9) (Some 0) None 0 sample_active
    = Inr (sample_repayment, sample_repaid)"
proof -
  let ?v = "sample_env 5000 100" and ?rows = "repayment_schedules sample_active"
  let ?t = "\<lparr>rt_principal = db_num 0, rt_interest = db_num 0, rt_latest = None\<rparr>"
  let ?a = "splitRepayment (db_num 5000000) (db_num 0) (db_num 12000000) 120000 (db_num 0) 0"
  have "q_LockActiveRepaymentSchedulesByLoan 60 sample_active = Inr (?rows, sample_active)" by code_simp
  moreover have "?rows \<noteq> []" by code_simp
  moreover have "q_GetLoanRepaymentTotals 60 sample_active = Inr (?t, sample_active)" by code_simp
  moreover have "assessMissed ?v active_loan None 0 sample_active = Inr ((), sample_active)" by code_simp
  moreover have "q_SumLoanInterestDue 60 sample_active = Inr (db_num 120000, sample_active)" by code_simp
  moreover have "q_GetLoanPenaltyDue 60 sample_active = Inr (db_num 0, sample_active)" by code_simp
  moreover have "interestOutstanding (db_num 120000) (db_num 0) = 120000" by code_simp
  moreover have json: "allocationJSON ?a = lt_breakdown sample_repayment" by code_simp
  moreover have "or_error NoRowsE (q_InsertLoanTransaction ?v \<lparr>il_loan = 60, il_type = Repayment, il_amount = db_num 5000000,
      il_reference = env_uuid ?v 1, il_gateway = Some ''G1'', il_breakdown = lt_breakdown sample_repayment,
      il_created_by = Some 9\<rparr>) sample_active
      = Inr (sample_repayment, sample_active\<lparr>loan_transactions := [sample_disbursement, sample_repayment]\<rparr>)" by code_simp
  moreover have "settleRepayment ?v active_loan ?rows (db_num 0) ?a (Some 9)
      (sample_active\<lparr>loan_transactions := [sample_disbursement, sample_repayment]\<rparr>) = Inr ((), sample_repaid)" by code_simp
  moreover have "ln_id active_loan = 60" "ln_principal active_loan = 12000000" by code_simp+
  ultimately have post: "postRepayment ?v active_loan (db_num 5000000) ''G1'' (Some 9) 0 sample_active = Inr (sample_repayment, sample_repaid)"
    unfolding postRepayment_def by (simp add: ret_def Let_def)
  have "month_start 0 = 0" "month_start (eat_date 5000) = 0" by code_simp+
  moreover have "TrimSpace '' G1 '' = ''G1''" by code_simp
  moreover have "lockLoan 60 sample_active = Inr (active_loan, sample_active)" by code_simp
  moreover have "q_GetLoanTransactionByGatewayID 60 ''G1'' sample_active = Inr (None, sample_active)" by code_simp
  moreover have "repayable (ln_status active_loan)" by code_simp
  ultimately show ?thesis unfolding RecordRepaymentForPeriodInTx_def by (simp add: post Let_def)
qed

end
