(* ===== verification/Credit_Inv.thy ===== *)
theory Credit_Inv
  imports Credit Samples
begin

text \<open>
  The invariant of member credit: what is reserved and spent of a credit never exceeds it, and a
  refund carries the marks of two different officers. Every loan operation keeps it, since only an
  overpayment writes to these tables, and so does \<open>ManageCredit\<close>, provided \<open>pgtype.Numeric.Scan\<close>
  reads the amounts the handler accepts (\<open>scan_ok\<close>). The interfaces \<open>share_stable\<close> and
  \<open>loan_security\<close> carry the operations that only pass through.
\<close>

section \<open>Amounts\<close>

definition scan_ok :: "ext \<Rightarrow> bool" where
  "scan_ok x \<longleftrightarrow> (\<forall>t. money_text t \<longrightarrow> ext_scan x t = numeric_in t)"

lemma money_text_two_decimals:
  assumes "money_text t" and "numeric_in t = Some n"
  shows "-2 \<le> n_exp n"
proof -
  define w r where "w = takeWhile is_digit t" and "r = dropWhile is_digit t"
  have t: "t = w @ r" by (simp add: w_def r_def)
  have w: "w \<noteq> []" and r: "length r \<le> 3"
    using assms(1) by (auto simp: money_text_def Let_def w_def [symmetric] r_def [symmetric] split: list.splits)
  have "is_digit (hd w)" using w set_takeWhileD [of "hd w" is_digit t] by (simp add: w_def)
  then have "hd t \<noteq> CHR ''-''" "t \<noteq> []" using w t by auto
  then have "map_option (\<lambda>(v, f). \<lparr>n_int = Some v, n_exp = - int f, n_valid = True\<rparr>) (read_unsigned t) = Some n"
    using assms(2) by (cases t) (auto simp: numeric_in_def)
  with w r show ?thesis
    by (auto simp: read_unsigned_def Let_def w_def [symmetric] r_def [symmetric] split: list.splits if_splits)
qed

lemma store_exact: "store_numeric n = Inr k \<Longrightarrow> -4 \<le> n_exp n \<Longrightarrow> k = numericToScale n (-4)"
  by (auto simp: store_numeric_def numericToScale_def round4_def Let_def split: if_splits option.splits)

lemma scanned_exact:
  assumes "scan_ok x" and "money_text t" and "ext_scan x t = Some n" and "store_numeric n = Inr k"
  shows "k = numericToScale n (-4)"
proof (rule store_exact [OF assms(4)])
  have "numeric_in t = Some n" using assms(1-3) by (simp add: scan_ok_def)
  from money_text_two_decimals [OF assms(2) this] show "-4 \<le> n_exp n" by simp
qed

section \<open>The invariant\<close>

definition holds_funds :: "CreditOperation \<Rightarrow> bool" where
  "holds_funds p \<longleftrightarrow> co_status p = ''pending'' \<or> co_status p = ''approved'' \<or> co_status p = ''completed''"

definition spent_of :: "uuid \<Rightarrow> 's loan_db_scheme \<Rightarrow> int" where
  "spent_of i s = sum_where (\<lambda>p. co_credit p = i \<and> holds_funds p) co_amount (credit_operations s)"

lemma spent_split: "reserved_of i s + used_of i s = spent_of i s"
proof -
  have "sum_where (\<lambda>p. co_credit p = i \<and> (co_status p = ''pending'' \<or> co_status p = ''approved'')) co_amount ps
      + sum_where (\<lambda>p. co_credit p = i \<and> co_status p = ''completed'') co_amount ps
      = sum_where (\<lambda>p. co_credit p = i \<and> holds_funds p) co_amount ps" for ps
    by (induction ps) (auto simp: holds_funds_def)
  then show ?thesis by (simp add: reserved_of_def used_of_def spent_of_def)
qed

text \<open>A refund that has left \<open>pending\<close> was reviewed, and one that was paid was paid, by someone other
  than the officer who requested it.\<close>

definition two_officers :: "CreditOperation \<Rightarrow> bool" where
  "two_officers p \<longleftrightarrow> (co_action p = ''request_refund'' \<longrightarrow>
     (co_status p \<noteq> ''pending'' \<longrightarrow> (\<exists>r. co_reviewed_by p = Some r \<and> r \<noteq> co_requested_by p))
   \<and> (co_status p = ''completed'' \<longrightarrow> (\<exists>c. co_completed_by p = Some c \<and> c \<noteq> co_requested_by p) \<and> co_payout_reference p \<noteq> None))"

definition credit_ok :: "'s loan_db_scheme \<Rightarrow> bool" where
  "credit_ok s \<longleftrightarrow> distinct (map cb_id (credit_balances s)) \<and> distinct (map co_id (credit_operations s))
     \<and> (\<forall>p\<in>set (credit_operations s). operation_check p \<and> two_officers p \<and> co_credit p \<in> cb_id ` set (credit_balances s))
     \<and> (\<forall>c\<in>set (credit_balances s). spent_of (cb_id c) s \<le> cb_amount c)"

lemma credit_frame:
  "credit_balances s' = credit_balances s \<Longrightarrow> credit_operations s' = credit_operations s \<Longrightarrow> credit_ok s' = credit_ok s"
  by (simp add: credit_ok_def spent_of_def)

lemma keeps_new_credit: "keeps credit_ok (q_CreateCreditBalance v m l amt src)"
proof (rule keepsI)
  fix s c s'
  assume ok: "credit_ok s" and run: "q_CreateCreditBalance v m l amt src s = Inr (c, s')"
  then have c: "s' = s\<lparr>credit_balances := credit_balances s @ [c]\<rparr>" "0 < cb_amount c"
    and new: "cb_id c \<notin> cb_id ` set (credit_balances s)"
    by (auto simp: q_CreateCreditBalance_def tx_simps Let_def split: if_splits)
  have "sum_where (\<lambda>p. co_credit p = cb_id c \<and> holds_funds p) co_amount ps = 0"
    if "\<forall>p\<in>set ps. co_credit p \<in> cb_id ` set (credit_balances s)" for ps
    using that new by (induction ps) auto
  then have "spent_of (cb_id c) s = 0" using ok by (simp add: credit_ok_def spent_of_def)
  moreover have "spent_of i s' = spent_of i s" for i by (simp add: spent_of_def c(1))
  ultimately show "credit_ok s'" using ok new c by (auto simp: credit_ok_def)
qed

interpretation credits: share_stable "credit_ok :: 's loan_db_scheme \<Rightarrow> bool"
  by unfold_locales (rule credit_frame; simp)+

interpretation credits: loan_security credit_ok L for L
  by unfold_locales ((rule credit_frame; simp) | rule keeps_new_credit credits.keeps_security keeps_loans_free)+

text \<open>The operations table is written by the credit handler only.\<close>

interpretation ops: share_stable "\<lambda>s :: 's loan_db_scheme. credit_operations s = c" for c
  by unfold_locales simp_all

interpretation ops: loan_security "\<lambda>s. credit_operations s = c" L for c L
  by unfold_locales
    (simp_all add: ops.keeps_security keeps_loans_free, auto simp: keeps_def query_defs tx_simps Let_def split: if_splits)

section \<open>Operations\<close>

lemma credit_insert:
  assumes ok: "credit_ok s" and c: "c \<in> set (credit_balances s)" "co_credit p = cb_id c"
    and p: "operation_check p" "co_id p \<notin> co_id ` set (credit_operations s)" "two_officers p"
    and room: "spent_of (cb_id c) s + co_amount p \<le> cb_amount c"
  shows "credit_ok (s\<lparr>credit_operations := credit_operations s @ [p]\<rparr>)"
proof -
  have "spent_of (cb_id b) s + (if co_credit p = cb_id b \<and> holds_funds p then co_amount p else 0) \<le> cb_amount b"
    if b: "b \<in> set (credit_balances s)" for b
  proof (cases "cb_id b = cb_id c")
    case True
    with ok b c(1) have "b = c" by (auto simp: credit_ok_def distinct_map dest: inj_onD)
    moreover have "spent_of (cb_id c) s \<le> cb_amount c" using ok c(1) by (simp add: credit_ok_def)
    ultimately show ?thesis using room c(2) by simp
  next
    case False
    with ok b c show ?thesis by (auto simp: credit_ok_def)
  qed
  with ok c p show ?thesis by (auto simp: credit_ok_def spent_of_def)
qed

lemma update_operation_Some:
  assumes "update_operation i f s = Inr (Some q, s')"
  obtains p where "find (\<lambda>p. co_id p = i) (credit_operations s) = Some p" "q = f p" "operation_check q"
    "s' = s\<lparr>credit_operations := map (\<lambda>q. if co_id q = i then f q else q) (credit_operations s)\<rparr>"
  using assms by (auto simp: update_operation_def split: option.splits if_splits)

lemma credit_update:
  assumes ok: "credit_ok s" and upd: "update_operation i f s = Inr (Some q, s')"
    and same: "\<And>p. co_id (f p) = co_id p \<and> co_credit (f p) = co_credit p \<and> co_amount (f p) = co_amount p"
    and live: "\<And>p. find (\<lambda>p. co_id p = i) (credit_operations s) = Some p \<Longrightarrow> holds_funds p \<and> two_officers (f p)"
  shows "credit_ok s'"
proof -
  from upd obtain p where p: "find (\<lambda>p. co_id p = i) (credit_operations s) = Some p" "q = f p" "operation_check q"
    and s': "s' = s\<lparr>credit_operations := map (\<lambda>q. if co_id q = i then f q else q) (credit_operations s)\<rparr>"
    by (rule update_operation_Some)
  note pi = find_Some_set [OF p(1)]
  have dist: "distinct (map co_id (credit_operations s))" using ok by (simp add: credit_ok_def)
  have only: "r = p" if "r \<in> set (credit_operations s)" "co_id r = i" for r
    using dist that pi by (auto simp: distinct_map dest: inj_onD)
  have ids: "map co_id (credit_operations s') = map co_id (credit_operations s)" using same by (simp add: s')
  have rows: "operation_check r \<and> two_officers r \<and> co_credit r \<in> cb_id ` set (credit_balances s')"
    if r: "r \<in> set (credit_operations s')" for r
  proof -
    obtain r0 where r0: "r0 \<in> set (credit_operations s)" "r = (if co_id r0 = i then f r0 else r0)" using r by (auto simp: s')
    show ?thesis
    proof (cases "co_id r0 = i")
      case True
      with only [OF r0(1)] r0(2) p live [OF p(1)] same [of p] ok pi show ?thesis by (auto simp: credit_ok_def s')
    next
      case False
      with r0 ok show ?thesis by (auto simp: credit_ok_def s')
    qed
  qed
  have "spent_of j s' \<le> spent_of j s" for j
    unfolding spent_of_def s'
    by simp (rule sum_where_map_le, use same only live [OF p(1)] rows pi ok in
      \<open>auto simp: credit_ok_def operation_check_def\<close>)
  moreover have "credit_balances s' = credit_balances s" by (simp add: s')
  moreover have "\<forall>c\<in>set (credit_balances s). spent_of (cb_id c) s \<le> cb_amount c" using ok by (simp add: credit_ok_def)
  ultimately have "\<forall>c\<in>set (credit_balances s'). spent_of (cb_id c) s' \<le> cb_amount c" by (metis order_trans)
  moreover have "distinct (map cb_id (credit_balances s'))" using ok by (simp add: credit_ok_def s')
  ultimately show ?thesis using dist ids rows unfolding credit_ok_def by metis
qed

section \<open>The handler\<close>

abbreviation saved_operation :: "uuid \<Rightarrow> 's loan_db_scheme \<Rightarrow> CreditOperation option" where
  "saved_operation i s \<equiv> find (\<lambda>p. co_id p = i) (credit_operations s)"

lemma reviewRefund_cases:
  assumes "reviewRefund v actor req i credit (saved_operation i s) s = Inr (q, s')"
  obtains (same) p where "saved_operation i s = Some p" "q = p" "s' = s"
  | (reviewed) p st where "saved_operation i s = Some p" "co_requested_by p \<noteq> pr_id actor" "co_action p = ''request_refund''"
      "co_status p = ''pending''" "st = ''approved'' \<or> st = ''rejected''"
      "q_ReviewCreditOperation v i st (pr_id actor) (mc_reason req) s = Inr (Some q, s')"
  | (paid) p ref ev where "saved_operation i s = Some p" "co_requested_by p \<noteq> pr_id actor" "co_action p = ''request_refund''"
      "co_status p = ''approved''" "q_CompleteCreditOperation v i (pr_id actor) (Some ref) (Some ev) s = Inr (Some q, s')"
proof (cases "saved_operation i s")
  case None
  with assms show thesis by (auto simp: reviewRefund_def tx_simps split: if_splits)
next
  case (Some p)
  with assms show thesis
    by (auto simp: reviewRefund_def tx_simps Let_def split: if_splits intro: same reviewed paid)
qed

lemma reviewRefund_ok:
  assumes ok: "credit_ok s" and run: "reviewRefund v actor req i credit (saved_operation i s) s = Inr (q, s')"
  shows "credit_ok s'"
  using run
proof (cases rule: reviewRefund_cases)
  case (same p)
  with ok show ?thesis by simp
next
  case (reviewed p st)
  show ?thesis
    by (rule credit_update [OF ok reviewed(6) [unfolded q_ReviewCreditOperation_def]])
      (use reviewed in \<open>auto simp: holds_funds_def two_officers_def\<close>)
next
  case (paid p ref ev)
  have "two_officers p" using ok find_Some_set [OF paid(1)] by (simp add: credit_ok_def)
  then show ?thesis
    by (intro credit_update [OF ok paid(5) [unfolded q_CompleteCreditOperation_def]])
      (use paid in \<open>auto simp: holds_funds_def two_officers_def\<close>)
qed

lemma q_InsertCreditOperation_Some:
  assumes "q_InsertCreditOperation v p s = Inr (Some r, s')"
  shows "s' = s\<lparr>credit_operations := credit_operations s @ [r]\<rparr> \<and> operation_check r \<and> store_numeric (io_amount p) = Inr (co_amount r)
    \<and> co_id r = io_id p \<and> co_credit r = io_credit p \<and> co_action r = io_action p \<and> co_status r = io_status p
    \<and> co_target r = io_target p \<and> co_period r = io_period p \<and> co_consent r = io_consent p \<and> co_requested_by r = io_requested_by p
    \<and> co_id r \<notin> co_id ` set (credit_operations s)"
  using assms by (auto simp: q_InsertCreditOperation_def tx_simps Let_def split: if_splits)

text \<open>What follows the insertion of a new operation: a refund request waits, the others post to the
  share ledger or to a loan and complete.\<close>

lemma postCredit_cases:
  fixes s s' :: "'s loan_db_scheme"
  assumes "postCredit x v clock actor req i credit amount target period s = Inr (q, s')"
    and act: "mc_action req = ''transfer_shares'' \<or> mc_action req = ''apply_loan'' \<or> mc_action req = ''request_refund''"
  obtains s1 s2 :: "'s loan_db_scheme" and r where
    "q_InsertCreditOperation v \<lparr>io_id = i, io_credit = cb_id credit, io_amount = amount, io_action = mc_action req,
       io_target = target, io_period = period, io_status = ''pending'', io_reason = mc_reason req, io_consent = mc_consent req,
       io_requested_by = pr_id actor\<rparr> s = Inr (Some r, s1)"
    "\<And>P. (\<And>L. loan_frame P (L :: uuid \<Rightarrow> uuid option)) \<Longrightarrow> ledger_stable P \<Longrightarrow> P s1 \<Longrightarrow> P (s2 :: 's loan_db_scheme)"
    "(mc_action req = ''request_refund'' \<and> q = r \<and> s' = s1)
     \<or> (mc_action req \<noteq> ''request_refund'' \<and> q_CompleteCreditOperation v i (pr_id actor) None None s2 = Inr (Some q, s'))"
proof -
  let ?post = "if mc_action req = ''transfer_shares'' then
          tx_bind (PurchaseSharesInTx v (the target) amount (Some i) (Some (pr_id actor))
            (''member credit transfer: '' @ mc_reason req) (Some (cb_member credit)) (pr_branch actor)) (\<lambda>_. ret ())
        else tx_bind (RecordRepaymentForPeriodInTx v clock (the target) amount (''credit:'' @ ext_uuid_text x i)
            (Some (pr_id actor)) period (Some (cb_member credit)) (pr_branch actor)) (\<lambda>_. ret ())"
  from assms(1) obtain r s1 where ins: "q_InsertCreditOperation v \<lparr>io_id = i, io_credit = cb_id credit, io_amount = amount, io_action = mc_action req,
       io_target = target, io_period = period, io_status = ''pending'', io_reason = mc_reason req, io_consent = mc_consent req,
       io_requested_by = pr_id actor\<rparr> s = Inr (Some r, s1)"
    and rest: "(if mc_action req = ''request_refund'' then ret r
      else tx_bind ?post (\<lambda>_. or_error NoRowsE (q_CompleteCreditOperation v i (pr_id actor) None None))) s1 = Inr (q, s')"
    unfolding postCredit_def by (auto elim!: tx_bindE simp: or_error_Inr)
  show thesis
  proof (cases "mc_action req = ''request_refund''")
    case True
    with rest show thesis by (intro that [OF ins, of s1]) (auto simp: tx_simps)
  next
    case False
    with rest obtain u s2 where post: "?post s1 = Inr (u, s2)"
      and fin: "q_CompleteCreditOperation v i (pr_id actor) None None s2 = Inr (Some q, s')"
      by (auto elim!: tx_bindE simp: or_error_Inr)
    have "P s2" if "\<And>L. loan_frame P (L :: uuid \<Rightarrow> uuid option)" "ledger_stable P" "P s1" for P :: "'s loan_db_scheme \<Rightarrow> bool"
    proof -
      have "keeps P ?post"
        unfolding PurchaseSharesInTx_def
        by (intro keeps_intros ledger_stable.keeps_posting [OF that(2)] loan_frame.keeps_repay [OF that(1)])
      from this that(3) post show ?thesis by (rule keepsD [of P ?post])
    qed
    with False fin show thesis by (intro that [OF ins, of s2]) auto
  qed
qed

lemma update_operation_saved:
  assumes "update_operation i f s = Inr (Some q, s')" and "\<And>p. co_id (f p) = co_id p"
  shows "\<exists>p. saved_operation i s = Some p \<and> q = f p \<and> saved_operation i s' = Some q"
  using assms(1)
proof (rule update_operation_Some)
  fix p
  assume p: "saved_operation i s = Some p" "q = f p"
    and s': "s' = s\<lparr>credit_operations := map (\<lambda>q. if co_id q = i then f q else q) (credit_operations s)\<rparr>"
  have "saved_operation i s' = Some (f p)" unfolding s' using find_map_update [OF p(1) assms(2)] by simp
  with p show ?thesis by auto
qed

lemma postCredit_ok:
  fixes s s' :: "'s loan_db_scheme"
  assumes ok: "credit_ok s" and run: "postCredit x v clock actor req i credit amount target period s = Inr (q, s')"
    and act: "mc_action req = ''transfer_shares'' \<or> mc_action req = ''apply_loan'' \<or> mc_action req = ''request_refund''"
    and credit: "credit \<in> set (credit_balances s)"
    and exact: "\<And>k. store_numeric amount = Inr k \<Longrightarrow> k = numericToScale amount (-4)"
    and room: "spent_of (cb_id credit) s + numericToScale amount (-4) \<le> cb_amount credit"
  shows "credit_ok s' \<and> saved_operation i s' = Some q \<and> co_action q = mc_action req \<and> co_credit q = cb_id credit
    \<and> co_amount q = numericToScale amount (-4) \<and> co_target q = target \<and> co_period q = period \<and> co_consent q = mc_consent req"
  using run act
proof (rule postCredit_cases)
  fix s1 s2 :: "'s loan_db_scheme" and r
  assume ins: "q_InsertCreditOperation v \<lparr>io_id = i, io_credit = cb_id credit, io_amount = amount, io_action = mc_action req,
       io_target = target, io_period = period, io_status = ''pending'', io_reason = mc_reason req, io_consent = mc_consent req,
       io_requested_by = pr_id actor\<rparr> s = Inr (Some r, s1)"
    and pres: "\<And>P. (\<And>L. loan_frame P (L :: uuid \<Rightarrow> uuid option)) \<Longrightarrow> ledger_stable P \<Longrightarrow> P s1 \<Longrightarrow> P (s2 :: 's loan_db_scheme)"
    and fin: "(mc_action req = ''request_refund'' \<and> q = r \<and> s' = s1)
     \<or> (mc_action req \<noteq> ''request_refund'' \<and> q_CompleteCreditOperation v i (pr_id actor) None None s2 = Inr (Some q, s'))"
  note r = q_InsertCreditOperation_Some [OF ins]
  have amt: "co_amount r = numericToScale amount (-4)" using r exact by simp
  have ok1: "credit_ok s1"
    using r amt room credit_insert [OF ok credit, of r] by (auto simp: two_officers_def)
  have new: "saved_operation i s = None" using r by (force simp: find_None_iff image_iff)
  have saved: "saved_operation i s1 = Some r" using r new by (simp add: find_append)
  have ok2: "credit_ok s2" and ops: "credit_operations s2 = credit_operations s1"
    using pres [OF credits.loan_frame_axioms credits.ledger_stable_axioms ok1]
      pres [OF ops.loan_frame_axioms ops.ledger_stable_axioms, of "credit_operations s1"] by auto
  from fin show ?thesis
  proof (elim disjE conjE)
    assume "q = r" "s' = s1"
    with ok1 saved r amt show ?thesis by simp
  next
    assume nr: "mc_action req \<noteq> ''request_refund''"
      and c: "q_CompleteCreditOperation v i (pr_id actor) None None s2 = Inr (Some q, s')"
    have "credit_ok s'"
      by (rule credit_update [OF ok2 c [unfolded q_CompleteCreditOperation_def]])
        (use saved r nr ops in \<open>auto simp: two_officers_def holds_funds_def\<close>)
    moreover obtain p where "saved_operation i s2 = Some p" "saved_operation i s' = Some q"
      "q = p\<lparr>co_status := ''completed'', co_completed_by := Some (pr_id actor), co_completed_at := Some (env_now v),
         co_payout_reference := None, co_payout_evidence := None\<rparr>"
      using update_operation_saved [OF c [unfolded q_CompleteCreditOperation_def]] by auto
    moreover from this have "p = r" using saved ops by simp
    ultimately show ?thesis using amt r by simp
  qed
qed

lemma creditTarget_state: "creditTarget x req credit s = Inr (t, s1) \<Longrightarrow> s1 = s"
  by (auto simp: creditTarget_def tx_simps q_GetAccountByMemberID_def split: if_splits option.splits)

lemma creditPeriod_state: "creditPeriod clock req s = Inr (d, s1) \<Longrightarrow> s1 = s"
  by (auto simp: creditPeriod_def tx_simps split: if_splits option.splits)

definition matches_request :: "ManageCreditRequest \<Rightarrow> numeric \<Rightarrow> pg_uuid \<Rightarrow> date option \<Rightarrow> CreditOperation \<Rightarrow> bool" where
  "matches_request req amount target period p \<longleftrightarrow> co_action p = mc_action req \<and> co_amount p = numericToScale amount (-4)
     \<and> co_target p = target \<and> co_period p = period \<and> co_consent p = mc_consent req"

lemma commitCredit_cases:
  assumes "commitCredit x v clock actor req i credit operation amount target period s = Inr (q, s')"
  obtains (replayed) "operation = Some q" "s' = s" "matches_request req amount target period q"
  | (fresh) c where "operation = None" "cb_status credit = CreditAvailable"
      "find (\<lambda>c. cb_id c = cb_id credit) (credit_balances s) = Some c"
      "spent_of (cb_id credit) s + numericToScale amount (-4) \<le> cb_amount c"
      "postCredit x v clock actor req i credit amount target period s = Inr (q, s')"
proof (cases operation)
  case (Some p)
  with assms show thesis
    by (auto simp: commitCredit_def tx_run matches_request_def split: if_splits intro: replayed)
next
  case None
  with assms have avail: "cb_status credit = CreditAvailable"
    by (auto simp: commitCredit_def tx_run split: if_splits)
  with assms None obtain c where "find (\<lambda>c. cb_id c = cb_id credit) (credit_balances s) = Some c"
    "\<not> cb_amount c - reserved_of (cb_id credit) s - used_of (cb_id credit) s < numericToScale amount (-4)"
    "postCredit x v clock actor req i credit amount target period s = Inr (q, s')"
    by (auto simp: commitCredit_def tx_run tx_bind_Inr_iff or_error_Inr q_GetCreditFunds_def split: if_splits)
  with None avail spent_split [of "cb_id credit" s] show thesis by (intro fresh [of c]) auto
qed

lemma spendCredit_cases:
  assumes "spendCredit x v clock actor req i credit operation s = Inr (q, s')"
  obtains amount target period where
    "mc_action req = ''transfer_shares'' \<or> mc_action req = ''apply_loan'' \<or> mc_action req = ''request_refund''"
    "money_text (mc_amount req)" "ext_scan x (mc_amount req) = Some amount" "n_valid amount" "n_int amount \<noteq> None"
    "0 < numericToScale amount (-4)" "creditTarget x req credit s = Inr (target, s)" "creditPeriod clock req s = Inr (period, s)"
    "TrimSpace (mc_consent req) \<noteq> []" "TrimSpace (mc_reason req) \<noteq> []"
    "commitCredit x v clock actor req i credit operation amount target period s = Inr (q, s')"
proof -
  have act: "mc_action req = ''transfer_shares'' \<or> mc_action req = ''apply_loan'' \<or> mc_action req = ''request_refund''"
    by (rule ccontr) (use assms in \<open>simp add: spendCredit_def tx_run\<close>)
  then have na: "(mc_action req \<noteq> ''transfer_shares'' \<and> mc_action req \<noteq> ''apply_loan'' \<and> mc_action req \<noteq> ''request_refund'') = False"
    by blast
  note run = assms [unfolded spendCredit_def na if_False]
  have money: "money_text (mc_amount req)"
    by (rule ccontr) (use run in \<open>simp add: tx_run\<close>)
  obtain amount where amount: "ext_scan x (mc_amount req) = Some amount"
    by (cases "ext_scan x (mc_amount req)") (use run money in \<open>simp_all add: tx_run\<close>)
  note run = run [unfolded if_P [OF money] amount option.case]
  have valid: "\<not> (\<not> n_valid amount \<or> n_int amount = None \<or> numericToScale amount (-4) \<le> 0)"
    by (rule notI) (use run in \<open>simp add: tx_run\<close>)
  then have a: "n_valid amount" "n_int amount \<noteq> None" "0 < numericToScale amount (-4)" by auto
  from run [unfolded if_not_P [OF valid]] obtain target s1 period s2 where
    t: "creditTarget x req credit s = Inr (target, s1)" and p: "creditPeriod clock req s1 = Inr (period, s2)"
    and go: "(if TrimSpace (mc_consent req) = [] \<or> TrimSpace (mc_reason req) = [] then throw (StatusE InvalidArgument)
        else commitCredit x v clock actor req i credit operation amount target period) s2 = Inr (q, s')"
    by (elim tx_bindE) blast
  note st = creditTarget_state [OF t] creditPeriod_state [OF p]
  from go have c: "TrimSpace (mc_consent req) \<noteq> []" "TrimSpace (mc_reason req) \<noteq> []"
    "commitCredit x v clock actor req i credit operation amount target period s2 = Inr (q, s')"
    by (auto simp: tx_run split: if_splits)
  with act money amount a t p st show thesis by (intro that [of amount target period]) simp_all
qed

lemma manageCredit_cases:
  assumes "manageCreditInTx x v clock actor req c i s = Inr (q, s')"
  obtains credit where "find (\<lambda>b. cb_id b = c) (credit_balances s) = Some credit"
    "map_option mem_branch (find (live_member (cb_member credit)) (members s)) = Some (pr_branch actor)"
    "\<And>p. saved_operation i s = Some p \<Longrightarrow> co_credit p = c"
    "if reviewing (mc_action req) then reviewRefund v actor req i credit (saved_operation i s) s = Inr (q, s')
     else spendCredit x v clock actor req i credit (saved_operation i s) s = Inr (q, s')"
  using assms
  by (auto simp: manageCreditInTx_def tx_bind_Inr_iff tx_run or_error_Inr q_LockCreditBalanceByID_def
      q_GetCreditMemberBranch_def q_GetCreditOperation_def split: if_splits option.splits)

lemma keeps_manageCredit:
  assumes "scan_ok x"
  shows "keeps credit_ok (manageCreditInTx x v clock actor req c i)"
proof (rule keepsI)
  fix s :: "'s loan_db_scheme" and q s'
  assume ok: "credit_ok s" and run: "manageCreditInTx x v clock actor req c i s = Inr (q, s')"
  from run show "credit_ok s'"
  proof (rule manageCredit_cases)
    fix credit
    assume credit: "find (\<lambda>b. cb_id b = c) (credit_balances s) = Some credit"
      and act: "if reviewing (mc_action req) then reviewRefund v actor req i credit (saved_operation i s) s = Inr (q, s')
        else spendCredit x v clock actor req i credit (saved_operation i s) s = Inr (q, s')"
    note ci = find_Some_set [OF credit]
    show ?thesis
    proof (cases "reviewing (mc_action req)")
      case True
      with act reviewRefund_ok [OF ok] show ?thesis by simp
    next
      case False
      with act have "spendCredit x v clock actor req i credit (saved_operation i s) s = Inr (q, s')" by simp
      then show ?thesis
      proof (rule spendCredit_cases)
        fix amount target period
        assume a: "mc_action req = ''transfer_shares'' \<or> mc_action req = ''apply_loan'' \<or> mc_action req = ''request_refund''"
            "money_text (mc_amount req)" "ext_scan x (mc_amount req) = Some amount"
          and commit: "commitCredit x v clock actor req i credit (saved_operation i s) amount target period s = Inr (q, s')"
        from commit show ?thesis
        proof (cases rule: commitCredit_cases)
          case replayed
          with ok show ?thesis by simp
        next
          case (fresh b)
          with credit ci have "b = credit" by simp
          with fresh postCredit_ok [OF ok fresh(5) a(1)] ci scanned_exact [OF assms a(2,3)] show ?thesis by simp
        qed
      qed
    qed
  qed
qed

section \<open>Repeating a request\<close>

interpretation people: ledger_stable "\<lambda>s :: 's loan_db_scheme. (members s, share_accounts s) = c" for c
  by unfold_locales simp_all

interpretation people: pledge_stable "\<lambda>s :: 's loan_db_scheme. (members s, share_accounts s) = c" for c
  by unfold_locales simp

interpretation people: loan_security "\<lambda>s. (members s, share_accounts s) = c" L for c L
  by unfold_locales
    (simp_all add: people.keeps_security keeps_loans_free, auto simp: keeps_def query_defs tx_simps Let_def split: if_splits)

interpretation credit_row: ledger_stable "\<lambda>s :: 's loan_db_scheme. find (\<lambda>b. cb_id b = i) (credit_balances s) = Some c" for i c
  by unfold_locales simp_all

interpretation credit_row: pledge_stable "\<lambda>s :: 's loan_db_scheme. find (\<lambda>b. cb_id b = i) (credit_balances s) = Some c" for i c
  by unfold_locales simp

interpretation credit_row: loan_security "\<lambda>s. find (\<lambda>b. cb_id b = i) (credit_balances s) = Some c" L for i c L
  by unfold_locales
    (simp_all add: credit_row.keeps_security keeps_loans_free, auto simp: keeps_def query_defs tx_simps Let_def find_append split: if_splits)

lemma creditTarget_same:
  "share_accounts s' = share_accounts s \<Longrightarrow> creditTarget x req credit s = Inr (t, s) \<Longrightarrow> creditTarget x req credit s' = Inr (t, s')"
  by (cases "stringToUUID x (mc_target req)")
    (auto simp: creditTarget_def tx_bind_Inr_iff tx_run or_error_Inr q_GetAccountByMemberID_def live_account_def
      split: if_splits)

lemma month_start_mono: "t \<le> u \<Longrightarrow> month_start t \<le> month_start u"
  by (simp add: month_start_eq first_of_mono month_index_mono)

lemma creditPeriod_later:
  assumes "creditPeriod clock req s = Inr (d, s)" and "clock \<le> clock'"
  shows "creditPeriod clock' req s' = Inr (d, s')"
proof -
  have "eat_date clock \<le> eat_date clock'" using assms(2) by (simp add: eat_date_def zone_date_def zdiv_mono1)
  then have "month_start (eat_date clock) \<le> month_start (eat_date clock')" by (rule month_start_mono)
  with assms(1) show ?thesis by (auto simp: creditPeriod_def tx_run split: if_splits option.splits)
qed

text \<open>After a request that spends or reserves credit the operation is saved, and nothing that decides
  the destination has changed.\<close>

lemma postCredit_keeps_rows:
  fixes s s' :: "'s loan_db_scheme"
  assumes run: "postCredit x v clock actor req i credit amount target period s = Inr (q, s')"
    and act: "mc_action req = ''transfer_shares'' \<or> mc_action req = ''apply_loan'' \<or> mc_action req = ''request_refund''"
    and row: "find (\<lambda>b. cb_id b = c) (credit_balances s) = Some credit"
  shows "members s' = members s \<and> share_accounts s' = share_accounts s \<and> find (\<lambda>b. cb_id b = c) (credit_balances s') = Some credit"
  using run act
proof (rule postCredit_cases)
  fix s1 s2 :: "'s loan_db_scheme" and r
  assume ins: "q_InsertCreditOperation v \<lparr>io_id = i, io_credit = cb_id credit, io_amount = amount, io_action = mc_action req,
       io_target = target, io_period = period, io_status = ''pending'', io_reason = mc_reason req, io_consent = mc_consent req,
       io_requested_by = pr_id actor\<rparr> s = Inr (Some r, s1)"
    and pres: "\<And>P. (\<And>L. loan_frame P (L :: uuid \<Rightarrow> uuid option)) \<Longrightarrow> ledger_stable P \<Longrightarrow> P s1 \<Longrightarrow> P (s2 :: 's loan_db_scheme)"
    and fin: "(mc_action req = ''request_refund'' \<and> q = r \<and> s' = s1)
     \<or> (mc_action req \<noteq> ''request_refund'' \<and> q_CompleteCreditOperation v i (pr_id actor) None None s2 = Inr (Some q, s'))"
  have s1: "members s1 = members s" "share_accounts s1 = share_accounts s" "credit_balances s1 = credit_balances s"
    using q_InsertCreditOperation_Some [OF ins] by simp_all
  have p2: "(members s2, share_accounts s2) = (members s1, share_accounts s1)"
    by (rule pres [OF people.loan_frame_axioms people.ledger_stable_axioms refl])
  have c2: "find (\<lambda>b. cb_id b = c) (credit_balances s2) = Some credit"
    by (rule pres [OF credit_row.loan_frame_axioms credit_row.ledger_stable_axioms]) (simp add: s1 row)
  from fin show ?thesis
    using p2 c2 s1 row by (auto simp: q_CompleteCreditOperation_def elim!: update_operation_Some)
qed

lemma manageCredit_replay:
  assumes "find (\<lambda>b. cb_id b = c) (credit_balances s) = Some credit"
    and "map_option mem_branch (find (live_member (cb_member credit)) (members s)) = Some (pr_branch actor)"
    and "saved_operation i s = Some p" "co_credit p = c" "\<not> reviewing (mc_action req)"
    and "mc_action req = ''transfer_shares'' \<or> mc_action req = ''apply_loan'' \<or> mc_action req = ''request_refund''"
    and "money_text (mc_amount req)" "ext_scan x (mc_amount req) = Some amount" "n_valid amount" "n_int amount \<noteq> None"
    and "0 < numericToScale amount (-4)" "creditTarget x req credit s = Inr (target, s)" "creditPeriod clock req s = Inr (period, s)"
    and "TrimSpace (mc_consent req) \<noteq> []" "TrimSpace (mc_reason req) \<noteq> []" "matches_request req amount target period p"
  shows "manageCreditInTx x v clock actor req c i s = Inr (p, s)"
proof -
  have "commitCredit x v clock actor req i credit (Some p) amount target period s = Inr (p, s)"
    using assms(16) by (simp add: commitCredit_def matches_request_def tx_run)
  then have "spendCredit x v clock actor req i credit (Some p) s = Inr (p, s)"
    using assms(6-15) by (auto simp: spendCredit_def tx_bind_run(1) tx_run)
  moreover obtain m where "find (live_member (cb_member credit)) (members s) = Some m" "mem_branch m = pr_branch actor"
    using assms(2) by auto
  ultimately show ?thesis
    using assms(1,3-5) by (simp add: manageCreditInTx_def tx_bind_def tx_run or_error_def q_LockCreditBalanceByID_def
        q_GetCreditMemberBranch_def q_GetCreditOperation_def)
qed

text \<open>C32. Repeating a credit request is safe: after a transfer, loan payment or refund request that
  succeeded, the same request at any later time returns the saved operation and changes nothing, so
  the credit is spent once.\<close>

theorem manage_credit_retry:
  fixes s s' :: "'s loan_db_scheme"
  assumes scan: "scan_ok x" and ok: "credit_ok s" and spend: "\<not> reviewing (mc_action req)"
    and run: "ManageCredit x v clock caller req s = (Inr p, s')" and later: "clock \<le> clock'"
  shows "ManageCredit x v' clock' caller req s' = (Inr p, s')"
proof -
  from run spend obtain actor c i where caller: "caller = Some actor" "stringToUUID x (mc_credit req) = Some c"
      "stringToUUID x (mc_operation req) = Some i" "fst (CashPermissions (pr_role actor))"
    and tx: "manageCreditInTx x v clock actor req c i s = Inr (p, s')"
    by (auto simp: ManageCredit_def execTx_def split: option.splits if_splits sum.splits)
  have "manageCreditInTx x v' clock' actor req c i s' = Inr (p, s')"
    using tx
  proof (rule manageCredit_cases)
    fix credit
    assume credit: "find (\<lambda>b. cb_id b = c) (credit_balances s) = Some credit"
      and branch: "map_option mem_branch (find (live_member (cb_member credit)) (members s)) = Some (pr_branch actor)"
      and own: "\<And>p. saved_operation i s = Some p \<Longrightarrow> co_credit p = c"
      and "if reviewing (mc_action req) then reviewRefund v actor req i credit (saved_operation i s) s = Inr (p, s')
        else spendCredit x v clock actor req i credit (saved_operation i s) s = Inr (p, s')"
    with spend have "spendCredit x v clock actor req i credit (saved_operation i s) s = Inr (p, s')" by simp
    then show ?thesis
    proof (rule spendCredit_cases)
      fix amount target period
      assume a: "mc_action req = ''transfer_shares'' \<or> mc_action req = ''apply_loan'' \<or> mc_action req = ''request_refund''"
          "money_text (mc_amount req)" "ext_scan x (mc_amount req) = Some amount" "n_valid amount" "n_int amount \<noteq> None"
          "0 < numericToScale amount (-4)"
        and t: "creditTarget x req credit s = Inr (target, s)" and d: "creditPeriod clock req s = Inr (period, s)"
        and c: "TrimSpace (mc_consent req) \<noteq> []" "TrimSpace (mc_reason req) \<noteq> []"
        and commit: "commitCredit x v clock actor req i credit (saved_operation i s) amount target period s = Inr (p, s')"
      have "members s' = members s \<and> share_accounts s' = share_accounts s \<and> find (\<lambda>b. cb_id b = c) (credit_balances s') = Some credit
        \<and> saved_operation i s' = Some p \<and> co_credit p = c \<and> matches_request req amount target period p"
        using commit
      proof (cases rule: commitCredit_cases)
        case replayed
        with credit own show ?thesis by simp
      next
        case (fresh b)
        note ci = find_Some_set [OF credit]
        with credit fresh have "b = credit" by simp
        with fresh postCredit_ok [OF ok fresh(5) a(1)] ci scanned_exact [OF scan a(2,3)]
          postCredit_keeps_rows [OF fresh(5) a(1) credit] show ?thesis by (simp add: matches_request_def)
      qed
      then show ?thesis
        using branch creditTarget_same [OF _ t] creditPeriod_later [OF d later]
        by (intro manageCredit_replay [OF _ _ _ _ spend a _ _ c]) auto
    qed
  qed
  with caller spend show ?thesis by (simp add: ManageCredit_def execTx_def)
qed

definition sample_ext :: ext where
  "sample_ext = \<lparr>ext_uuid = (\<lambda>t. if t = ''c'' then Some 200 else if t = ''o'' then Some 300 else None),
     ext_uuid_text = (\<lambda>i. ''o''), ext_scan = numeric_in, ext_uuid_scan = (\<lambda>t. None), ext_db_zone = 0\<rparr>"

definition sample_credit :: CreditBalance where
  "sample_credit = \<lparr>cb_id = 200, cb_member = 7, cb_loan = Some 60, cb_amount = 1880000, cb_source = Overpayment,
     cb_status = CreditAvailable, cb_created = 6000, cb_last_activity = 6000\<rparr>"

definition sample_credited :: loan_db where
  "sample_credited = sample_bank\<lparr>credit_balances := [sample_credit]\<rparr>"

definition sample_cashier :: Principal where
  "sample_cashier = \<lparr>pr_id = 11, pr_auth_user = ''u'', pr_role = ''cashier'', pr_branch = 1\<rparr>"

definition sample_refund :: ManageCreditRequest where
  "sample_refund = \<lparr>mc_credit = ''c'', mc_operation = ''o'', mc_action = ''request_refund'', mc_amount = ''100.50'', mc_target = '''',
     mc_period = '''', mc_reason = ''left'', mc_consent = ''form 3'', mc_payout_reference = '''', mc_payout_evidence = ''''\<rparr>"

definition sample_operation :: CreditOperation where
  "sample_operation = \<lparr>co_id = 300, co_credit = 200, co_amount = 1005000, co_action = ''request_refund'', co_target = None,
     co_period = None, co_status = ''pending'', co_reason = ''left'', co_consent = ''form 3'', co_requested_by = 11,
     co_reviewed_by = None, co_reviewed_at = None, co_review_reason = None, co_completed_by = None, co_completed_at = None,
     co_payout_reference = None, co_payout_evidence = None, co_created = 7000\<rparr>"

lemma sample_ext_ok: "scan_ok sample_ext"
  by (simp add: scan_ok_def sample_ext_def)

lemma sample_credited_ok: "credit_ok sample_credited"
  by (simp add: credit_ok_def spent_of_def sample_credited_def sample_bank_def sample_credit_def)

lemma sample_refund_run: "ManageCredit sample_ext (sample_env 7000 400) 7000 (Some sample_cashier) sample_refund sample_credited
    = (Inr sample_operation, sample_credited\<lparr>credit_operations := [sample_operation]\<rparr>)"
  by code_simp

theorem manage_credit_retry_witness:
  "ManageCredit sample_ext (sample_env 8000 500) 8000 (Some sample_cashier) sample_refund
       (sample_credited\<lparr>credit_operations := [sample_operation]\<rparr>)
     = (Inr sample_operation, sample_credited\<lparr>credit_operations := [sample_operation]\<rparr>)"
  by (rule manage_credit_retry [OF sample_ext_ok sample_credited_ok _ sample_refund_run])
    (simp_all add: reviewing_def sample_refund_def)

end
