(* ===== verification/System.thy ===== *)
theory System
  imports Credit_Inv
begin

text \<open>
  The program as one transition system. A step is a transaction that commits: any method of the
  member, share and loan services or of the credit handler, with any arguments, at any time, by any
  caller; a method that fails leaves the database as it was. The loan domain is described by the life
  cycle of a loan (\<open>loan_edge\<close>), and \<open>sys_inv\<close> joins the invariants of the components. Both are
  shown for every step, and from there for every reachable database.
\<close>

section \<open>Steps\<close>

inductive sys_step :: "ext \<Rightarrow> 's loan_db_scheme \<Rightarrow> 's loan_db_scheme \<Rightarrow> bool" for x where
  open_account: "OpenShareAccount v mem br s = Inr (a, s') \<Longrightarrow> sys_step x s s'"
| purchase: "PurchaseSharesInTx v acc amt ref orig rsn m br s = Inr (r, s') \<Longrightarrow> sys_step x s s'"
| withdraw: "WithdrawShares v acc amt ref orig rsn s = (Inr r, s') \<Longrightarrow> sys_step x s s'"
| dividend: "PostDividendInTx v acc m br amt ref orig s = Inr (r, s') \<Longrightarrow> sys_step x s s'"
| adjust: "CreateAdjustment v acc amt ref orig rsn s = Inr (j, s') \<Longrightarrow> sys_step x s s'"
| approve_adjustment: "ApproveShareAdjustment v i who rsn audit s = Inr (j, s') \<Longrightarrow> sys_step x s s'"
| reverse: "ReverseShareTransaction v i ref orig rsn s = Inr (r, s') \<Longrightarrow> sys_step x s s'"
| member_status: "UpdateMemberStatus v i st rsn s = Inr (m, s') \<Longrightarrow> sys_step x s s'"
| close_member: "CloseMember v i rsn s = Inr (m, s') \<Longrightarrow> sys_step x s s'"
| apply_loan: "ApplyForLoan v p pledge gs s = Inr (l, s') \<Longrightarrow> sys_step x s s'"
| add_guarantor: "AddGuarantor v i g amt s = Inr (r, s') \<Longrightarrow> sys_step x s s'"
| approve_guarantor: "ApproveGuarantor v i g who s = Inr (r, s') \<Longrightarrow> sys_step x s s'"
| remove_guarantor: "RemoveGuarantor v i g who s = Inr (u, s') \<Longrightarrow> sys_step x s s'"
| approve: "ApproveLoan v i who rsn s = Inr (l, s') \<Longrightarrow> sys_step x s s'"
| reject: "RejectLoan v i who rsn s = Inr (l, s') \<Longrightarrow> sys_step x s s'"
| disburse: "DisburseLoan v off i who rsn s = Inr (ev, s') \<Longrightarrow> sys_step x s s'"
| repay: "RecordRepaymentForPeriodInTx v clock i amt g who day m br s = Inr (t, s') \<Longrightarrow> sys_step x s s'"
| credit: "ManageCredit x v clock caller req s = (Inr p, s') \<Longrightarrow> sys_step x s s'"

inductive_cases sys_stepE: "sys_step x s s'"

text \<open>The database before any business was done: members may be there.\<close>

definition genesis :: "'s loan_db_scheme \<Rightarrow> bool" where
  "genesis s \<longleftrightarrow> share_accounts s = [] \<and> share_transactions s = [] \<and> share_adjustments s = [] \<and> share_pledges s = []
     \<and> loans s = [] \<and> loan_guarantors s = [] \<and> repayment_schedules s = [] \<and> loan_transactions s = []
     \<and> loan_monthly_interest s = [] \<and> credit_balances s = [] \<and> credit_operations s = [] \<and> loan_audit_trails s = []"

definition reachable :: "ext \<Rightarrow> 's loan_db_scheme \<Rightarrow> bool" where
  "reachable x s \<longleftrightarrow> (\<exists>s0. genesis s0 \<and> (sys_step x)\<^sup>*\<^sup>* s0 s)"

section \<open>Invariants of a transition system\<close>

locale invariant_of =
  fixes init :: "'a \<Rightarrow> bool" and step :: "'a \<Rightarrow> 'a \<Rightarrow> bool" and inv :: "'a \<Rightarrow> bool"
  assumes init: "init s \<Longrightarrow> inv s"
    and step: "inv s \<Longrightarrow> step s s' \<Longrightarrow> inv s'"
begin

lemma steps: "step\<^sup>*\<^sup>* s s' \<Longrightarrow> inv s \<Longrightarrow> inv s'"
  by (induction rule: rtranclp_induct) (auto intro: step)

lemma always: "init s0 \<Longrightarrow> step\<^sup>*\<^sup>* s0 s \<Longrightarrow> inv s"
  using steps init by blast

end

section \<open>The joint invariant\<close>

definition loan_member :: "'s loan_db_scheme \<Rightarrow> uuid \<Rightarrow> uuid option" where
  "loan_member s = map_of (map (\<lambda>l. (ln_id l, ln_member l)) (loans s))"

definition sys_inv :: "'s loan_db_scheme \<Rightarrow> bool" where
  "sys_inv s \<longleftrightarrow> owed_inv s \<and> secure (loan_member s) s \<and> credit_ok s"

text \<open>A step that keeps each part, and the borrower of every loan.\<close>

lemma sys_inv_step:
  assumes "sys_inv s" and "owed_inv s'" and "secure (loan_member s) s'" and "credit_ok s'"
    and "map (\<lambda>l. (ln_id l, ln_member l)) (loans s') = map (\<lambda>l. (ln_id l, ln_member l)) (loans s)"
  shows "sys_inv s'"
  using assms by (simp add: sys_inv_def loan_member_def)

definition borrowers :: "'s loan_db_scheme \<Rightarrow> (uuid \<times> uuid) list" where
  "borrowers s = map (\<lambda>l. (ln_id l, ln_member l)) (loans s)"

interpretation borrowers: share_stable "\<lambda>s :: 's loan_db_scheme. borrowers s = c" for c
  by unfold_locales (simp_all add: borrowers_def)

lemma keeps_borrowers:
  assumes "\<And>l. ln_id (f l) = ln_id l \<and> ln_member (f l) = ln_member l"
  shows "keeps (\<lambda>s :: 's loan_db_scheme. borrowers s = c) (update_loan Q f)"
proof -
  have "borrowers (s\<lparr>loans := map (\<lambda>q. if ln_id q = i then f q else q) (loans s)\<rparr>) = borrowers s"
    for s :: "'s loan_db_scheme" and i
    using assms by (simp add: borrowers_def)
  then show ?thesis by (auto simp: keeps_def update_loan_def split: option.splits if_splits)
qed

interpretation borrowers: loan_frame "\<lambda>s. borrowers s = c" L for c L
proof
  show "keeps (\<lambda>s. borrowers s = c) (q_CreateCreditBalance v mem pl amt src)" for v mem pl amt src
    by (auto simp: keeps_def query_defs tx_simps Let_def borrowers_def split: if_splits)
qed (simp_all add: keeps_borrowers set_loan_status_same borrowers.keeps_security, simp_all add: borrowers_def)

lemma borrowersD: "keeps (\<lambda>s. borrowers s = borrowers s0) m \<Longrightarrow> m s0 = Inr (y, s') \<Longrightarrow> borrowers s' = borrowers s0"
  unfolding keeps_def by metis

lemma sys_inv_keeps:
  fixes m :: "('s loan_db_scheme, error, 'a) tx"
  assumes "keeps owed_inv m" and "\<And>L. keeps (secure L) m" and "keeps credit_ok m" and "\<And>c. keeps (\<lambda>s. borrowers s = c) m"
    and inv: "sys_inv s" and run: "m s = Inr (y, s')"
  shows "sys_inv s'"
proof (rule sys_inv_step [OF inv])
  show "map (\<lambda>l. (ln_id l, ln_member l)) (loans s') = map (\<lambda>l. (ln_id l, ln_member l)) (loans s)"
    using borrowersD [OF assms(4) run] by (simp add: borrowers_def)
  from inv have parts: "owed_inv s" "secure (loan_member s) s" "credit_ok s" by (simp_all add: sys_inv_def)
  show "owed_inv s'" by (rule keepsD [OF assms(1) parts(1) run])
  show "secure (loan_member s) s'" by (rule keepsD [OF assms(2) parts(2) run])
  show "credit_ok s'" by (rule keepsD [OF assms(3) parts(3) run])
qed

section \<open>Share and member operations\<close>

interpretation books: ledger_stable accounts_ok
  by unfold_locales (simp_all add: accounts_ok_def)

interpretation pledged: ledger_stable "applicants_ok L" for L
  by unfold_locales (simp_all add: applicants_ok_def applicant_pledge_ok_def)

interpretation secured: member_stable "secure L" for L
  by unfold_locales (simp_all add: secure_def share_inv_def backed_def pledges_ok_def pledged_of_def balance_of_def
      latest_balance_def rows_of_def accounts_ok_def applicants_ok_def applicant_pledge_ok_def)

lemma OpenShareAccount_Inr:
  assumes "OpenShareAccount v mem br s = Inr (a, s')"
  shows "s' = s\<lparr>share_accounts := share_accounts s @ [a]\<rparr> \<and> sa_member a = mem
    \<and> live_account (\<lambda>a. Some (sa_member a) = Some mem) s = None"
  using assms by (auto simp: OpenShareAccount_def tx_simps RequireActiveMemberInTx_Inr q_GetAccountByMemberID_def
      q_CreateShareAccount_def Let_def split: if_splits)

lemma keeps_secure_open: "keeps (secure L) (OpenShareAccount v mem br)"
proof (rule keeps_secure [OF keeps_OpenShareAccount])
  show "keeps accounts_ok (OpenShareAccount v mem br)"
  proof (rule keepsI)
    fix s a s'
    assume ok: "accounts_ok s" and run: "OpenShareAccount v mem br s = Inr (a, s')"
    note r = OpenShareAccount_Inr [OF run]
    then have "\<not> (sa_member b = sa_member a \<and> \<not> sa_deleted b)" if "b \<in> set (share_accounts s)" for b
      using that by (auto simp: live_account_def find_None_iff)
    with ok r show "accounts_ok s'" by (auto simp: accounts_ok_def)
  qed
  show "keeps (applicants_ok L) (OpenShareAccount v mem br)"
  proof (rule keepsI)
    fix s a s'
    assume "applicants_ok L s" and run: "OpenShareAccount v mem br s = Inr (a, s')"
    with OpenShareAccount_Inr [OF run] show "applicants_ok L s'"
      by (fastforce simp: applicants_ok_def applicant_pledge_ok_def)
  qed
qed

lemma keeps_secure_ledger:
  "ty = Purchase \<or> ty = Withdrawal \<or> ty = Dividend \<Longrightarrow> keeps (secure L) (postTransactionInTx v a ty amt ref orig rsn m b)"
  "keeps (secure L) (CreateAdjustment v a amt ref orig rsn)"
  "keeps (secure L) (ApproveShareAdjustment v i who rsn audit)"
  "keeps (secure L) (ReverseShareTransaction v i ref orig rsn)"
  by (rule keeps_secure; (rule keeps_post keeps_CreateAdjustment keeps_ApproveShareAdjustment keeps_ReverseShareTransaction
      books.keeps_posting books.keeps_ledger_service pledged.keeps_posting pledged.keeps_ledger_service; assumption?))+

lemma share_steps:
  fixes s s' :: "'s loan_db_scheme"
  assumes inv: "sys_inv s"
  shows "OpenShareAccount v mem br s = Inr (a, s') \<Longrightarrow> sys_inv s'"
    "ty = Purchase \<or> ty = Withdrawal \<or> ty = Dividend \<Longrightarrow> postTransactionInTx v acc ty amt ref orig rsn m br s = Inr (r, s') \<Longrightarrow> sys_inv s'"
    "CreateAdjustment v acc amt ref orig rsn s = Inr (j, s') \<Longrightarrow> sys_inv s'"
    "ApproveShareAdjustment v i who rsn audit s = Inr (j, s') \<Longrightarrow> sys_inv s'"
    "ReverseShareTransaction v i ref orig rsn s = Inr (r, s') \<Longrightarrow> sys_inv s'"
    "UpdateMemberStatus v i st rsn s = Inr (mr, s') \<Longrightarrow> sys_inv s'"
    "CloseMember v i rsn s = Inr (mr, s') \<Longrightarrow> sys_inv s'"
  using inv
  by (erule_tac [!] sys_inv_keeps [rotated -1])
    (rule owed.keeps_open owed.keeps_posting owed.keeps_ledger_service owed.keeps_member_service
      credits.keeps_open credits.keeps_posting credits.keeps_ledger_service credits.keeps_member_service
      borrowers.keeps_open borrowers.keeps_posting borrowers.keeps_ledger_service borrowers.keeps_member_service
      keeps_secure_open keeps_secure_ledger secured.keeps_member_service | assumption)+

section \<open>Loan operations\<close>

lemma guarantor_steps:
  fixes s s' :: "'s loan_db_scheme"
  assumes inv: "sys_inv s"
  shows "AddGuarantor v i g amt s = Inr (r, s') \<Longrightarrow> sys_inv s'"
    "ApproveGuarantor v i g who s = Inr (r, s') \<Longrightarrow> sys_inv s'"
    "RemoveGuarantor v i g who s = Inr (u, s') \<Longrightarrow> sys_inv s'"
    "RejectLoan v i who rsn s = Inr (l, s') \<Longrightarrow> sys_inv s'"
    "RecordRepaymentForPeriodInTx v clock i amt gw who day m br s = Inr (t, s') \<Longrightarrow> sys_inv s'"
  using inv
  by (erule_tac [!] sys_inv_keeps [rotated -1])
    (rule keeps_owed_guarantors keeps_owed_RejectLoan keeps_owed_repayment
      secured.keeps_guarantor_operations secured.keeps_reject secured.keeps_repay
      credits.keeps_guarantor_operations credits.keeps_reject credits.keeps_repay
      borrowers.keeps_guarantor_operations borrowers.keeps_reject borrowers.keeps_repay | assumption)+

lemma loan_member_live:
  assumes "sys_inv s" and "find (live_loan i) (loans s) = Some l"
  shows "loan_member s i = Some (ln_member l)"
proof -
  have "distinct (map fst (map (\<lambda>l. (ln_id l, ln_member l)) (loans s)))"
    using assms(1) by (simp add: sys_inv_def owed_inv_def refs_ok_def comp_def)
  moreover have "(i, ln_member l) \<in> set (map (\<lambda>l. (ln_id l, ln_member l)) (loans s))"
    using find_loan [OF assms(2)] by force
  ultimately show ?thesis unfolding loan_member_def by (rule map_of_is_SomeI)
qed

lemma approval_steps:
  fixes s s' :: "'s loan_db_scheme"
  assumes inv: "sys_inv s"
  shows "ApproveLoan v i who rsn s = Inr (l, s') \<Longrightarrow> sys_inv s'"
    and "DisburseLoan v off i who rsn s = Inr (ev, s') \<Longrightarrow> sys_inv s'"
proof -
  note parts = inv [unfolded sys_inv_def]
  have L: "find (live_loan i) (loans s) = Some l \<Longrightarrow> loan_member s i = Some (ln_member l)" for l
    using loan_member_live [OF inv] .
  show "sys_inv s'" if run: "ApproveLoan v i who rsn s = Inr (l, s')"
    using sys_inv_step [OF inv, of s'] keepsD [OF keeps_owed_ApproveLoan _ run] parts L
      secured.approve_keeps [OF _ run, of "loan_member s"] credits.approve_keeps [OF _ run, of "loan_member s"]
      borrowers.approve_keeps [OF refl run, of "loan_member s"]
    by (simp add: borrowers_def)
  show "sys_inv s'" if run: "DisburseLoan v off i who rsn s = Inr (ev, s')"
  proof -
    obtain t l where ev: "ev = (t, l)" by (cases ev)
    note run = run [unfolded ev]
    show ?thesis
      using sys_inv_step [OF inv, of s'] keepsD [OF keeps_owed_DisburseLoan _ run] parts L
        secured.disburse_keeps [OF _ run, of "loan_member s"] credits.disburse_keeps [OF _ run, of "loan_member s"]
        borrowers.disburse_keeps [OF refl run, of "loan_member s"]
      by (simp add: borrowers_def)
  qed
qed

lemma ApplyForLoan_loans:
  fixes s s' :: "'s loan_db_scheme"
  assumes "ApplyForLoan v p pledge gs s = Inr (l, s')"
  shows "loans s' = loans s @ [l] \<and> loan_transactions s' = loan_transactions s \<and> loan_monthly_interest s' = loan_monthly_interest s
    \<and> ln_status l = LoanPending \<and> (\<forall>q\<in>set (loans s). \<not> loan_conflict l q) \<and> loan_check l"
  using assms
proof (rule ApplyForLoan_cases)
  fix s1 s2 s3 :: "'s loan_db_scheme"
  assume new: "q_CreateLoan v p s = Inr (Some l, s1)"
    and prp: "ProposeApplicantSecurity v (ln_id l) (ln_member l) (cl_principal p) pledge gs s1 = Inr ((), s2)"
    and guar: "(if gs \<noteq> [] then q_CreateProposedLoanGuarantors v (ln_id l) gs else ret ()) s2 = Inr ((), s3)"
    and aud: "q_InsertLoanAuditTrail v (ln_id l) ''loan.application'' None (loan_status_text LoanPending)
       (cl_updated_by p) ''loan application submitted'' s3 = Inr ((), s')"
  have "core s2 = core s1" by (rule core_frame [OF core.keeps_security(2) prp])
  moreover have "keeps (\<lambda>s. core s = c) (if gs \<noteq> [] then q_CreateProposedLoanGuarantors v (ln_id l) gs else ret ())" for c
    by (intro keeps_intros core.keeps_lists)
  from core_frame [OF this guar] have "core s3 = core s2" .
  moreover have "core s' = core s3" by (rule core_frame [OF core.keeps_loan_queries(5) aud])
  ultimately have "core s' = core s1" by simp
  with q_CreateLoan_Some [OF new] show ?thesis by (simp add: core_def)
qed

lemma applicants_mono: "applicants_ok L s \<Longrightarrow> L \<subseteq>\<^sub>m L' \<Longrightarrow> applicants_ok L' s"
  by (fastforce simp: applicants_ok_def applicant_pledge_ok_def map_le_def dom_def)

lemma apply_step:
  fixes s s' :: "'s loan_db_scheme"
  assumes inv: "sys_inv s" and run: "ApplyForLoan v p pledge gs s = Inr (l, s')"
  shows "sys_inv s'"
proof -
  note parts = inv [unfolded sys_inv_def]
  have new: "loans s' = loans s @ [l]" "\<forall>q\<in>set (loans s). ln_id q \<noteq> ln_id l"
    using ApplyForLoan_loans [OF run] by (auto simp: loan_conflict_def)
  have L: "loan_member s' = [ln_id l \<mapsto> ln_member l] ++ loan_member s" by (simp add: loan_member_def new(1))
  moreover have none: "loan_member s (ln_id l) = None"
    using new(2) by (auto simp: loan_member_def map_of_eq_None_iff)
  ultimately have own: "loan_member s' (ln_id l) = Some (ln_member l)" by (simp add: map_add_def)
  have "loan_member s \<subseteq>\<^sub>m loan_member s'" unfolding L by simp
  then have "secure (loan_member s') s" using parts applicants_mono by (auto simp: secure_def)
  from secured.apply_keeps [OF this run own] have "secure (loan_member s') s'" .
  moreover have "credit_ok s'" using credits.apply_keeps [where L = "loan_member s'", OF _ run own] parts by simp
  moreover have "owed_inv s'" using keepsD [OF keeps_owed_ApplyForLoan _ run] parts by simp
  ultimately show ?thesis by (simp add: sys_inv_def)
qed

section \<open>Credit\<close>

text \<open>The credit handler does to the other tables what a purchase of shares or a repayment does.\<close>

lemma keeps_credit:
  fixes P :: "'s loan_db_scheme \<Rightarrow> bool"
  assumes free: "\<And>s ps. P (s\<lparr>credit_operations := ps\<rparr>) = P s"
    and buy: "\<And>v a amt ref orig rsn m b. keeps P (postTransactionInTx v a Purchase amt ref orig rsn m b)"
    and pay: "\<And>v clock i amt g who day m b. keeps P (RecordRepaymentForPeriodInTx v clock i amt g who day m b)"
  shows "keeps P (manageCreditInTx x v clock actor req c i)"
proof -
  have upd: "keeps P (update_operation j f)" for j f
    using free by (auto simp: keeps_def update_operation_def split: option.splits if_splits)
  have ins: "keeps P (q_InsertCreditOperation v p)" for v p
    using free by (auto simp: keeps_def q_InsertCreditOperation_def tx_simps Let_def split: if_splits)
  show ?thesis
    unfolding manageCreditInTx_def reviewRefund_def spendCredit_def commitCredit_def postCredit_def creditTarget_def
      creditPeriod_def PurchaseSharesInTx_def q_LockCreditBalanceByID_def q_GetCreditMemberBranch_def q_GetCreditOperation_def
      q_GetCreditFunds_def q_GetAccountByMemberID_def q_ReviewCreditOperation_def q_CompleteCreditOperation_def
    by (intro keeps_intros upd ins buy pay)
qed

lemma ManageCredit_tx:
  assumes "ManageCredit x v clock caller req s = (Inr p, s')"
  obtains actor c i where "manageCreditInTx x v clock actor req c i s = Inr (p, s')"
  using assms by (auto simp: ManageCredit_def execTx_def split: option.splits if_splits sum.splits)

lemma credit_step:
  fixes s s' :: "'s loan_db_scheme"
  assumes "scan_ok x" and inv: "sys_inv s" and run: "ManageCredit x v clock caller req s = (Inr p, s')"
  shows "sys_inv s'"
  using run
proof (rule ManageCredit_tx)
  fix actor c i
  assume tx: "manageCreditInTx x v clock actor req c i s = Inr (p, s')"
  have owed: "owed_inv (s\<lparr>credit_operations := ps\<rparr>) = owed_inv s" for s :: "'s loan_db_scheme" and ps
    by (rule owed_core) (simp add: core_def)
  show ?thesis
  proof (rule sys_inv_keeps [where m = "manageCreditInTx x v clock actor req c i", OF _ _ _ _ inv tx])
    show "keeps owed_inv (manageCreditInTx x v clock actor req c i :: ('s loan_db_scheme, error, CreditOperation) tx)"
      by (rule keeps_credit [OF owed owed.keeps_posting keeps_owed_repayment])
    show "keeps (secure L) (manageCreditInTx x v clock actor req c i :: ('s loan_db_scheme, error, CreditOperation) tx)" for L
      by (rule keeps_credit [OF secure_loan_tables(7) keeps_secure_ledger(1) secured.keeps_repay]) simp
    show "keeps (\<lambda>s :: 's loan_db_scheme. borrowers s = b) (manageCreditInTx x v clock actor req c i)" for b
      by (rule keeps_credit [OF _ borrowers.keeps_posting borrowers.keeps_repay]) (simp add: borrowers_def)
  qed (rule keeps_manageCredit [OF assms(1)])
qed

lemma sys_step_inv:
  assumes "scan_ok x" and "sys_inv s" and "sys_step x s s'"
  shows "sys_inv s'"
  using assms(3)
  by cases
    (unfold PurchaseSharesInTx_def PostDividendInTx_def WithdrawShares_def postTransaction_def execTx_ok,
     (erule share_steps(1,3-7) [OF assms(2)] guarantor_steps [OF assms(2)] approval_steps [OF assms(2)] apply_step [OF assms(2)]
        credit_step [OF assms(1,2)] | erule share_steps(2) [OF assms(2), rotated], simp)+)

end
