(* ===== verification/Life_Cycle.thy ===== *)
theory Life_Cycle
  imports System
begin

text \<open>
  The life of a loan across steps of the system: its terms never change, no loan disappears, and
  its status only follows the edges of \<open>loan_edge\<close>.
\<close>

inductive loan_edge :: "LoanStatus \<Rightarrow> LoanStatus \<Rightarrow> bool" where
  "loan_edge LoanPending LoanApproved"
| "loan_edge LoanPending LoanRejected"
| "loan_edge LoanApproved LoanRejected"
| "loan_edge LoanApproved LoanActive"
| "repayable st \<Longrightarrow> loan_edge st LoanClosed"

inductive_cases final_edgeE: "loan_edge LoanRejected st" "loan_edge LoanClosed st"

definition loan_later :: "Loan \<Rightarrow> Loan \<Rightarrow> bool" where
  "loan_later l l' \<longleftrightarrow> ln_id l' = ln_id l \<and> ln_member l' = ln_member l \<and> ln_branch l' = ln_branch l
     \<and> ln_principal l' = ln_principal l \<and> ln_rate l' = ln_rate l \<and> ln_months l' = ln_months l
     \<and> ln_deleted l' = ln_deleted l \<and> ln_created l' = ln_created l \<and> loan_edge\<^sup>*\<^sup>* (ln_status l) (ln_status l')"

lemma loan_later_refl: "loan_later l l"
  by (simp add: loan_later_def)

lemma loan_later_trans: "loan_later a b \<Longrightarrow> loan_later b c \<Longrightarrow> loan_later a c"
  by (auto simp: loan_later_def)

lemma loan_later_status: "loan_edge (ln_status l) st \<Longrightarrow> loan_later l (set_loan_status v st who l)"
  by (auto simp: loan_later_def set_loan_status_def)

lemma final_status:
  assumes "loan_edge\<^sup>*\<^sup>* st st'" and "st = LoanRejected \<or> st = LoanClosed"
  shows "st' = st"
  using assms by (induction rule: rtranclp_induct) (auto simp: repayable_def elim!: final_edgeE)

text \<open>A list of loans and what became of it: the old ones in place, new ones behind.\<close>

definition evolves :: "Loan list \<Rightarrow> Loan list \<Rightarrow> bool" where
  "evolves ls ls' \<longleftrightarrow> (\<exists>old new. ls' = old @ new \<and> list_all2 loan_later ls old)"

lemma evolves_refl: "evolves ls ls"
  unfolding evolves_def by (intro exI [of _ ls] exI [of _ "[]"]) (simp add: list.rel_refl loan_later_refl)

lemma evolves_append: "evolves ls (ls @ new)"
  unfolding evolves_def by (intro exI [of _ ls] exI [of _ new]) (simp add: list.rel_refl loan_later_refl)

lemma evolves_trans:
  assumes "evolves as bs" and "evolves bs cs"
  shows "evolves as cs"
proof -
  from assms obtain b1 b2 c1 c2 where b: "bs = b1 @ b2" "list_all2 loan_later as b1"
    and c: "cs = c1 @ c2" "list_all2 loan_later bs c1" by (auto simp: evolves_def)
  from c(2) b(1) obtain d1 d2 where d: "c1 = d1 @ d2" "list_all2 loan_later b1 d1"
    by (auto simp: list_all2_append1)
  have "list_all2 loan_later as d1" by (rule list_all2_trans [OF loan_later_trans b(2) d(2)])
  with c(1) d(1) show ?thesis unfolding evolves_def by auto
qed

lemma evolves_member:
  assumes "evolves ls ls'" and "l \<in> set ls"
  shows "\<exists>l'\<in>set ls'. loan_later l l'"
proof -
  from assms(1) obtain old new where o: "ls' = old @ new" "list_all2 loan_later ls old" by (auto simp: evolves_def)
  from assms(2) obtain i where i: "i < length ls" "ls ! i = l" by (auto simp: in_set_conv_nth)
  then have "loan_later l (old ! i)" "old ! i \<in> set old"
    using o(2) list_all2_nthD [OF o(2) i(1)] list_all2_lengthD [OF o(2)] by auto
  with o(1) show ?thesis by auto
qed

lemma update_evolves:
  assumes "distinct (map ln_id ls)" and "find Q ls = Some l" and "loan_later l (f l)"
  shows "evolves ls (map (\<lambda>q. if ln_id q = ln_id l then f q else q) ls)"
proof -
  have "loan_later q (if ln_id q = ln_id l then f q else q)" if "q \<in> set ls" for q
    using assms that find_Some_set [OF assms(2)] by (auto simp: loan_later_refl distinct_map dest: inj_onD)
  then have "list_all2 loan_later ls (map (\<lambda>q. if ln_id q = ln_id l then f q else q) ls)"
    by (simp add: list.rel_map list.rel_refl_strong)
  then show ?thesis unfolding evolves_def by (intro exI [of _ "[]"] exI) simp
qed

lemma owed_distinct: "owed_inv s \<Longrightarrow> distinct (map ln_id (loans s))"
  by (simp add: owed_inv_def refs_ok_def)

lemma status_evolves:
  assumes "distinct (map ln_id (loans s))" and upd: "q_UpdateLoanStatus v i st who s = Inr (Some l', s')"
    and "\<And>l. find (live_loan i) (loans s) = Some l \<Longrightarrow> loan_edge (ln_status l) st"
  shows "evolves (loans s) (loans s')"
  using upd
proof (rule q_UpdateLoanStatus_Some)
  fix l
  assume l: "find (live_loan i) (loans s) = Some l"
    and s': "s' = s\<lparr>loans := map (\<lambda>q. if ln_id q = ln_id l then set_loan_status v st who q else q) (loans s)\<rparr>"
  then show ?thesis
    using update_evolves [where f = "set_loan_status v st who", OF assms(1) l loan_later_status [OF assms(3) [OF l]]]
    by simp
qed

section \<open>Operations that move a loan\<close>

lemma assess_loans: "assess v i ps s = Inr (x, s') \<Longrightarrow> loans s' = loans s"
proof -
  have "insert_interest v l ps s = Inr (y, s') \<Longrightarrow> loans s' = loans s" for l y s
    by (induction ps arbitrary: s) (auto simp: tx_simps Let_def split: if_splits)
  then show "assess v i ps s = Inr (x, s') \<Longrightarrow> loans s' = loans s"
    by (auto simp: assess_def tx_simps split: option.splits)
qed

lemma approve_evolves:
  assumes inv: "owed_inv s" and run: "ApproveLoan v i who rsn s = Inr (l', s')"
  shows "evolves (loans s) (loans s')"
  using run
proof (rule ApproveLoan_cases)
  fix l s1 s2
  assume l: "find (live_loan i) (loans s) = Some l" "ln_status l = LoanPending" and s1: "core s1 = core s"
    and upd: "q_UpdateLoanStatus v i LoanApproved who s1 = Inr (Some l', s2)" and s': "core s' = core s2"
  have "evolves (loans s1) (loans s2)"
    using owed_distinct [OF inv] l s1 by (intro status_evolves [OF _ upd]) (auto simp: core_def intro: loan_edge.intros)
  with s1 s' show ?thesis by (simp add: core_def)
qed

lemma reject_evolves:
  assumes inv: "owed_inv s" and run: "RejectLoan v i who rsn s = Inr (l', s')"
  shows "evolves (loans s) (loans s')"
  using run
proof (rule RejectLoan_cases)
  fix l s1
  assume l: "find (live_loan i) (loans s) = Some l" "ln_status l = LoanPending \<or> ln_status l = LoanApproved"
    and upd: "q_UpdateLoanStatus v i LoanRejected who s = Inr (Some l', s1)" and s': "core s' = core s1"
  have "evolves (loans s) (loans s1)"
    using l by (intro status_evolves [OF owed_distinct [OF inv] upd]) (auto intro: loan_edge.intros)
  with s' show ?thesis by (simp add: core_def)
qed

lemma disburse_evolves:
  assumes inv: "owed_inv s" and run: "DisburseLoan v off i who rsn s = Inr ((t, l'), s')"
  shows "evolves (loans s) (loans s')"
  using run
proof (cases rule: DisburseLoan_cases)
  case existing
  then show ?thesis by (simp add: evolves_refl)
next
  case (fresh l s1 s2 s3 s4 s5)
  note t = q_InsertLoanTransaction_Some [OF fresh(6)]
  have s2: "loans s2 = loans s" using t fresh(5) by (simp add: core_def)
  have s3: "evolves (loans s2) (loans s3)"
    using fresh(7)
  proof (rule q_MarkLoanDisbursed_Some)
    fix k
    assume k: "find (\<lambda>l. live_loan i l \<and> ln_status l = LoanApproved) (loans s2) = Some k"
      and s3: "s3 = s2\<lparr>loans := map (\<lambda>q. if ln_id q = ln_id k
        then (set_loan_status v LoanActive who q)\<lparr>ln_disbursed := Some (env_now v)\<rparr> else q) (loans s2)\<rparr>"
    have "loan_later k ((set_loan_status v LoanActive who k)\<lparr>ln_disbursed := Some (env_now v)\<rparr>)"
      using find_Some_set [OF k] by (auto simp: loan_later_def set_loan_status_def intro: loan_edge.intros)
    from update_evolves [of "loans s2", OF _ k, of "\<lambda>q. (set_loan_status v LoanActive who q)\<lparr>ln_disbursed := Some (env_now v)\<rparr>", OF _ this]
    show ?thesis using owed_distinct [OF inv] s2 s3 by simp
  qed
  have "loans s5 = loans s4"
    by (rule assess_loans [OF fresh(10) [unfolded q_AssessLoanInterest_def]])
  then have "loans s' = loans s3" using fresh(9,12) by (simp add: core_def)
  with s2 s3 show ?thesis by simp
qed

lemma repay_evolves:
  assumes inv: "owed_inv s" and run: "RecordRepaymentForPeriodInTx v clock i amount g who day m b s = Inr (t, s')"
  shows "evolves (loans s) (loans s')"
  using run
proof (cases rule: RecordRepayment_cases)
  case replay
  then show ?thesis by (simp add: evolves_refl)
next
  case (new l d)
  have l: "l \<in> set (loans s)" "ln_status l \<noteq> LoanClosed" "ln_id l = i"
    using find_loan [OF new(5)] new(6) by (auto simp: repayable_def)
  from new(9) inv l(1,2) show ?thesis
  proof (cases rule: postRepayment_cases)
    case (1 s1 s2)
    have s2: "loans s2 = loans s" using q_InsertLoanTransaction_Some [OF 1(6)] 1(4) by simp
    from 1(7) show ?thesis
    proof (cases rule: settleRepayment_cases)
      case stays
      then show ?thesis using s2 by (simp add: core_def evolves_refl)
    next
      case (closes s3 s4 l')
      then have s3: "loans s3 = loans s" using s2 by (simp add: core_def)
      have "evolves (loans s3) (loans s4)"
        by (rule status_evolves [OF _ closes(3)]) (use owed_distinct [OF inv] new(5,6) s3 l(3) in \<open>auto intro: loan_edge.intros\<close>)
      then show ?thesis using s3 closes(4) by (simp add: core_def)
    qed
  qed
qed

section \<open>Every step\<close>

definition alive :: "Loan list \<Rightarrow> 's loan_db_scheme \<Rightarrow> bool" where
  "alive ls s \<longleftrightarrow> owed_inv s \<and> evolves ls (loans s)"

lemma keeps_alive:
  assumes "keeps owed_inv m" and "\<And>s x s'. owed_inv s \<Longrightarrow> m s = Inr (x, s') \<Longrightarrow> evolves (loans s) (loans s')"
  shows "keeps (alive ls) m"
  using assms evolves_trans by (fastforce simp: keeps_def alive_def)

lemma keeps_alive_core:
  assumes "keeps owed_inv m" and "\<And>c. keeps (\<lambda>s. core s = c) m"
  shows "keeps (alive ls) m"
proof (rule keeps_alive [OF assms(1)])
  fix s x s'
  assume "m s = Inr (x, s')"
  from core_frame [OF assms(2) this] show "evolves (loans s) (loans s')" by (simp add: core_def evolves_refl)
qed

lemmas keeps_alive_shares [keeps_intros] =
  keeps_alive_core [OF owed.keeps_open core.keeps_open]
  keeps_alive_core [OF owed.keeps_posting core.keeps_posting]
  keeps_alive_core [OF owed.keeps_ledger_service(1) core.keeps_ledger_service(1)]
  keeps_alive_core [OF owed.keeps_ledger_service(2) core.keeps_ledger_service(2)]
  keeps_alive_core [OF owed.keeps_ledger_service(3) core.keeps_ledger_service(3)]
  keeps_alive_core [OF owed.keeps_member_service(1) core.keeps_member_service(1)]
  keeps_alive_core [OF owed.keeps_member_service(2) core.keeps_member_service(2)]
  keeps_alive_core [OF owed.keeps_guarantor_service(1) core.keeps_guarantor_service(1)]
  keeps_alive_core [OF owed.keeps_guarantor_service(2) core.keeps_guarantor_service(2)]
  keeps_alive_core [OF owed.keeps_guarantor_service(3) core.keeps_guarantor_service(3)]

lemma keeps_alive_loans [keeps_intros]:
  "keeps (alive ls) (ApplyForLoan v p pledge gs)" "keeps (alive ls) (ApproveLoan v i who rsn)"
  "keeps (alive ls) (RejectLoan v i who rsn)" "keeps (alive ls) (DisburseLoan v off i who rsn)"
  "keeps (alive ls) (RecordRepaymentForPeriodInTx v clock i amt g who day m b)"
proof -
  show "keeps (alive ls) (ApplyForLoan v p pledge gs)"
    by (rule keeps_alive [OF keeps_owed_ApplyForLoan]) (use ApplyForLoan_loans evolves_append in \<open>metis\<close>)
  show "keeps (alive ls) (DisburseLoan v off i who rsn)"
    by (rule keeps_alive [OF keeps_owed_DisburseLoan]) (auto intro: disburse_evolves)
qed (rule keeps_alive [OF keeps_owed_ApproveLoan approve_evolves] keeps_alive [OF keeps_owed_RejectLoan reject_evolves]
    keeps_alive [OF keeps_owed_repayment repay_evolves]; assumption)+

lemma keeps_alive_credit [keeps_intros]: "keeps (alive ls) (manageCreditInTx x v clock actor req c i)"
proof (rule keeps_credit [OF _ keeps_alive_shares(2) keeps_alive_loans(5)])
  fix s :: "'s loan_db_scheme" and ps
  show "alive ls (s\<lparr>credit_operations := ps\<rparr>) = alive ls s"
    unfolding alive_def using owed_core(1) [of "s\<lparr>credit_operations := ps\<rparr>" s] by (simp add: core_def)
qed

lemma step_alive:
  assumes "alive ls s" and "sys_step x s s'"
  shows "alive ls s'"
  using assms(2)
  by cases
    (unfold PurchaseSharesInTx_def PostDividendInTx_def WithdrawShares_def postTransaction_def execTx_ok,
     (erule keepsD [where P = "alive ls", OF _ assms(1), rotated], intro keeps_alive_shares keeps_alive_loans
       | erule ManageCredit_tx, erule keepsD [where P = "alive ls", OF keeps_alive_credit assms(1)])+)

interpretation life: invariant_of "alive ls" "sys_step x" "alive ls" for ls x
  by unfold_locales (auto intro: step_alive)

lemma genesis_owed: "genesis s \<Longrightarrow> owed_inv s"
  by (simp add: genesis_def owed_inv_def refs_ok_def)

lemma reachable_owed:
  assumes "reachable x s"
  shows "owed_inv s"
  using assms life.steps [of x _ s "[]"] genesis_owed
  by (auto simp: reachable_def alive_def genesis_def evolves_def)

end
