(* ===== verification/Reachable.thy ===== *)
theory Reachable
  imports Life_Cycle Samples
begin

text \<open>
  What holds in every database the services can produce: the claims on reachable states, with a run
  of the sample bank from the empty tables to its first repayment as the concrete state.
\<close>

section \<open>The joint invariant in every reachable state\<close>

lemma genesis_inv: "genesis s \<Longrightarrow> sys_inv s"
  using genesis_owed [of s]
  by (simp add: genesis_def sys_inv_def secure_def share_inv_def backed_def pledges_ok_def pledged_of_def balance_of_def
      latest_balance_def rows_of_def accounts_ok_def applicants_ok_def credit_ok_def)

interpretation joint: invariant_of genesis "sys_step x" "\<lambda>s. scan_ok x \<longrightarrow> sys_inv s" for x
  by unfold_locales (auto intro: genesis_inv sys_step_inv)

lemma reachable_inv: "scan_ok x \<Longrightarrow> reachable x s \<Longrightarrow> sys_inv s"
  using joint.always by (auto simp: reachable_def)

section \<open>A run of the sample bank\<close>

definition sample_genesis :: loan_db where
  "sample_genesis = sample_bank\<lparr>share_accounts := [], share_transactions := []\<rparr>"

definition sample_opened :: loan_db where
  "sample_opened = sample_bank\<lparr>share_transactions := []\<rparr>"

lemma sample_open:
  "OpenShareAccount (sample_env 2 1) 7 1 sample_genesis
     = Inr (sample_account, sample_genesis\<lparr>share_accounts := [sample_account]\<rparr>)"
  "OpenShareAccount (sample_env 2 2) 8 1 (sample_genesis\<lparr>share_accounts := [sample_account]\<rparr>)
     = Inr (sample_account\<lparr>sa_id := 2, sa_member := 8\<rparr>, sample_opened)"
  by code_simp+

lemma sample_buy:
  "PurchaseSharesInTx (sample_env 100 20) 1 (db_num 10000000) (Some 30) None [] None 0 sample_opened
     = Inr (sample_purchase, sample_opened\<lparr>share_transactions := [sample_purchase]\<rparr>)"
  "PurchaseSharesInTx (sample_env 100 21) 2 (db_num 10000000) (Some 30) None [] None 0
     (sample_opened\<lparr>share_transactions := [sample_purchase]\<rparr>)
     = Inr (sample_purchase\<lparr>st_id := 21, st_account := 2\<rparr>, sample_bank)"
  by code_simp+

text \<open>The last payment: it closes the loan, releases its pledges and leaves 188 shillings of credit.\<close>

definition sample_settlement :: LoanTransaction where
  "sample_settlement = \<lparr>lt_id = 200, lt_loan = 60, lt_type = Repayment, lt_amount = 9000000, lt_reference = 201,
     lt_gateway = Some ''G2'', lt_breakdown = \<lparr>aj_period = Some 0, aj_principal = Some ''712'', aj_interest = Some ''0'',
     aj_penalty = Some ''0'', aj_credit = Some ''188''\<rparr>, lt_created = 6000, lt_created_by = Some 9\<rparr>"

definition sample_closed :: loan_db where
  "sample_closed = sample_repaid\<lparr>loans := [set_loan_status (sample_env 6000 200) LoanClosed (Some 9) active_loan],
     loan_transactions := [sample_disbursement, sample_repayment, sample_settlement],
     repayment_schedules := [(sample_installment 90 1 58)\<lparr>rs_status := Paid, rs_updated := 5000\<rparr>,
       (sample_installment 91 2 89)\<lparr>rs_status := Paid, rs_updated := 6000\<rparr>,
       (sample_installment 92 3 119)\<lparr>rs_status := Paid, rs_updated := 6000\<rparr>],
     share_pledges := map (release_pledge (sample_env 6000 200)) (share_pledges sample_repaid),
     credit_balances := [sample_credit],
     loan_audit_trails := loan_audit_trails sample_repaid
        @ [sample_audit 200 ''status'' (Some ''active'') ''closed'' ''loan fully repaid'' 6000]\<rparr>"

lemma sample_settle: "RecordRepaymentForPeriodInTx (sample_env 6000 200) 6000 60 (db_num 9000000) ''G2'' (Some 9) (Some 0) None 0 sample_repaid
    = Inr (sample_settlement, sample_closed)"
proof -
  let ?v = "sample_env 6000 200" and ?rows = "repayment_schedules sample_repaid"
  let ?t = "\<lparr>rt_principal = db_num 4880000, rt_interest = db_num 120000, rt_latest = Some 0\<rparr>"
  let ?a = "splitRepayment (db_num 9000000) (db_num 4880000) (db_num 12000000) 0 (db_num 0) 0"
  let ?s = "sample_repaid\<lparr>loan_transactions := [sample_disbursement, sample_repayment, sample_settlement]\<rparr>"
  have "q_LockActiveRepaymentSchedulesByLoan 60 sample_repaid = Inr (?rows, sample_repaid)" by code_simp
  moreover have "?rows \<noteq> []" by code_simp
  moreover have "q_GetLoanRepaymentTotals 60 sample_repaid = Inr (?t, sample_repaid)" by code_simp
  moreover have "assessMissed ?v active_loan (Some 0) 0 sample_repaid = Inr ((), sample_repaid)" by code_simp
  moreover have "q_SumLoanInterestDue 60 sample_repaid = Inr (db_num 120000, sample_repaid)" by code_simp
  moreover have "q_GetLoanPenaltyDue 60 sample_repaid = Inr (db_num 0, sample_repaid)" by code_simp
  moreover have "interestOutstanding (db_num 120000) (db_num 120000) = 0" by code_simp
  moreover have "allocationJSON ?a = lt_breakdown sample_settlement" by code_simp
  moreover have "or_error NoRowsE (q_InsertLoanTransaction ?v \<lparr>il_loan = 60, il_type = Repayment, il_amount = db_num 9000000,
      il_reference = env_uuid ?v 1, il_gateway = Some ''G2'', il_breakdown = lt_breakdown sample_settlement,
      il_created_by = Some 9\<rparr>) sample_repaid = Inr (sample_settlement, ?s)" by code_simp
  moreover have "settleRepayment ?v active_loan ?rows (db_num 4880000) ?a (Some 9) ?s = Inr ((), sample_closed)" by code_simp
  moreover have "ln_id active_loan = 60" "ln_principal active_loan = 12000000" by code_simp+
  ultimately have post: "postRepayment ?v active_loan (db_num 9000000) ''G2'' (Some 9) 0 sample_repaid = Inr (sample_settlement, sample_closed)"
    unfolding postRepayment_def by (simp add: ret_def Let_def)
  have "month_start 0 = 0" "month_start (eat_date 6000) = 0" by code_simp+
  moreover have "TrimSpace ''G2'' = ''G2''" by code_simp
  moreover have "lockLoan 60 sample_repaid = Inr (active_loan, sample_repaid)" by code_simp
  moreover have "q_GetLoanTransactionByGatewayID 60 ''G2'' sample_repaid = Inr (None, sample_repaid)" by code_simp
  moreover have "repayable (ln_status active_loan)" by code_simp
  ultimately show ?thesis unfolding RecordRepaymentForPeriodInTx_def by (simp add: post Let_def)
qed

definition sample_refunding :: loan_db where
  "sample_refunding = sample_closed\<lparr>credit_operations := [sample_operation]\<rparr>"

lemma sample_request: "ManageCredit sample_ext (sample_env 7000 400) 7000 (Some sample_cashier) sample_refund sample_closed
    = (Inr sample_operation, sample_refunding)"
  by code_simp

lemmas sample_steps =
  sys_step.open_account [OF sample_open(1)] sys_step.open_account [OF sample_open(2)]
  sys_step.purchase [OF sample_buy(1)] sys_step.purchase [OF sample_buy(2)]
  sys_step.apply_loan [OF sample_apply] sys_step.approve_guarantor [OF sample_guarantee]
  sys_step.approve [OF sample_approval] sys_step.disburse [OF sample_disburse] sys_step.repay [OF sample_repay]
  sys_step.repay [OF sample_settle] sys_step.credit [where x = sample_ext, OF sample_request]

lemma sample_run: "(sys_step x)\<^sup>*\<^sup>* sample_genesis sample_pending" "(sys_step x)\<^sup>*\<^sup>* sample_pending sample_repaid"
  "(sys_step sample_ext)\<^sup>*\<^sup>* sample_repaid sample_refunding"
proof -
  note step = converse_rtranclp_into_rtranclp [where r = "sys_step x"]
  show "(sys_step x)\<^sup>*\<^sup>* sample_genesis sample_pending"
    by (rule step, rule sample_steps(1), rule step, rule sample_steps(2), rule step, rule sample_steps(3),
        rule step, rule sample_steps(4), rule step, rule sample_steps(5), rule rtranclp.rtrancl_refl)
  show "(sys_step x)\<^sup>*\<^sup>* sample_pending sample_repaid"
    by (rule step, rule sample_steps(6), rule step, rule sample_steps(7), rule step, rule sample_steps(8),
        rule step, rule sample_steps(9), rule rtranclp.rtrancl_refl)
  show "(sys_step sample_ext)\<^sup>*\<^sup>* sample_repaid sample_refunding"
    by (rule converse_rtranclp_into_rtranclp [where r = "sys_step sample_ext"], rule sample_steps(10),
        rule r_into_rtranclp, rule sample_steps(11))
qed

lemma reachableI: "genesis s0 \<Longrightarrow> (sys_step x)\<^sup>*\<^sup>* s0 s \<Longrightarrow> reachable x s"
  by (auto simp: reachable_def)

lemma sample_reachable: "reachable x sample_pending" "reachable x sample_repaid" "reachable sample_ext sample_refunding"
proof -
  have g: "genesis sample_genesis" by (simp add: genesis_def sample_genesis_def sample_bank_def)
  show "reachable x sample_pending" by (rule reachableI [OF g sample_run(1)])
  show "reachable x sample_repaid" by (rule reachableI [OF g rtranclp_trans [OF sample_run(1,2)]])
  show "reachable sample_ext sample_refunding"
    by (rule reachableI [OF g rtranclp_trans [OF rtranclp_trans [OF sample_run(1,2)] sample_run(3)]])
qed

section \<open>Claims\<close>

text \<open>C1. In every reachable database the loans stay within what was lent: on every loan the principal
  repaid is between zero and the principal, the interest repaid between zero and the interest
  assessed, and a closed loan has both repaid in full.
\<close>
theorem repaid_within_owed:
  assumes "reachable x s" and "l \<in> set (loans s)"
  shows "0 \<le> paid principal_part (ln_id l) s \<and> paid principal_part (ln_id l) s \<le> ln_principal l
    \<and> 0 \<le> paid interest_part (ln_id l) s \<and> paid interest_part (ln_id l) s \<le> interest_due_total (ln_id l) s
    \<and> (ln_status l = LoanClosed \<longrightarrow> paid principal_part (ln_id l) s = ln_principal l
        \<and> paid interest_part (ln_id l) s = interest_due_total (ln_id l) s)"
proof -
  have ok: "repay_ok s l" using reachable_owed [OF assms(1)] assms(2) by (simp add: owed_inv_def)
  then have "\<forall>t\<in>set (repayments_of (ln_id l) s). parts_ok t" by (simp add: repay_ok_def list_all_iff)
  then have "0 \<le> paid principal_part (ln_id l) s" "0 \<le> paid interest_part (ln_id l) s"
    unfolding paid_def using parts_okD by (fastforce intro!: sum_list_nonneg)+
  with ok show ?thesis by (simp add: repay_ok_def settled_def)
qed

theorem repaid_within_owed_witness:
  "reachable sample_ext sample_repaid \<and> active_loan \<in> set (loans sample_repaid)
    \<and> paid principal_part (ln_id active_loan) sample_repaid = 4880000 \<and> paid principal_part (ln_id active_loan) sample_repaid \<le> 12000000"
proof -
  have l: "active_loan \<in> set (loans sample_repaid)" "ln_principal active_loan = 12000000" by code_simp+
  have "paid principal_part (ln_id active_loan) sample_repaid = 4880000" by code_simp
  with l repaid_within_owed [OF sample_reachable(2) l(1)] sample_reachable(2) show ?thesis by simp
qed

text \<open>C2. In every reachable database the active pledges on a share account are covered by the balance of
  the account: no order of purchases, withdrawals, adjustments, reversals, applications, approvals,
  repayments and credit operations lends against shares that are not there.
\<close>
theorem pledges_backed:
  assumes "scan_ok x" and "reachable x s"
  shows "pledged_of a s \<le> balance_of a s"
  using reachable_inv [OF assms] by (simp add: sys_inv_def secure_def share_inv_def backed_def)

theorem pledges_backed_witness:
  "reachable sample_ext sample_repaid \<and> pledged_of 1 sample_repaid = 8000000 \<and> pledged_of 1 sample_repaid \<le> balance_of 1 sample_repaid"
proof -
  have "pledged_of 1 sample_repaid = 8000000" by code_simp
  with pledges_backed [OF sample_ext_ok sample_reachable(2), of 1] sample_reachable(2) show ?thesis by simp
qed

text \<open>C3. In every reachable database the operations on a member's credit, pending, approved and
  completed, never exceed the credit, and a refund that left the pending state was reviewed, and one
  that was completed was paid out, by somebody other than the officer who requested it.
\<close>
theorem credit_conserved:
  assumes "scan_ok x" and "reachable x s"
  shows "(\<forall>c\<in>set (credit_balances s). reserved_of (cb_id c) s + used_of (cb_id c) s \<le> cb_amount c)
    \<and> (\<forall>p\<in>set (credit_operations s). co_action p = ''request_refund'' \<and> co_status p \<noteq> ''pending''
         \<longrightarrow> (\<exists>r. co_reviewed_by p = Some r \<and> r \<noteq> co_requested_by p)
           \<and> (co_status p = ''completed'' \<longrightarrow> (\<exists>c. co_completed_by p = Some c \<and> c \<noteq> co_requested_by p)))"
  using reachable_inv [OF assms] by (auto simp: sys_inv_def credit_ok_def spent_split two_officers_def)

theorem credit_conserved_witness:
  "scan_ok sample_ext \<and> reachable sample_ext sample_refunding \<and> cb_amount sample_credit = 1880000
    \<and> reserved_of 200 sample_refunding = 1005000 \<and> reserved_of 200 sample_refunding + used_of 200 sample_refunding \<le> cb_amount sample_credit"
proof -
  have "cb_amount sample_credit = 1880000" "reserved_of 200 sample_refunding = 1005000" "cb_id sample_credit = 200"
    "sample_credit \<in> set (credit_balances sample_refunding)" by code_simp+
  then show ?thesis using credit_conserved [OF sample_ext_ok sample_reachable(3)] sample_ext_ok sample_reachable(3) by auto
qed

text \<open>C4. Across any sequence of steps no loan disappears and its borrower, branch, principal, rate and
  term stay what they were; its status only follows the edges pending to approved or rejected,
  approved to rejected or active, disbursed, active or delinquent to closed; a rejected or closed
  loan stays so for ever.
\<close>
theorem loan_life_cycle:
  assumes "reachable x s" and "(sys_step x)\<^sup>*\<^sup>* s s'" and "l \<in> set (loans s)"
  shows "\<exists>l'\<in>set (loans s'). ln_id l' = ln_id l \<and> ln_member l' = ln_member l \<and> ln_branch l' = ln_branch l
     \<and> ln_principal l' = ln_principal l \<and> ln_rate l' = ln_rate l \<and> ln_months l' = ln_months l
     \<and> loan_edge\<^sup>*\<^sup>* (ln_status l) (ln_status l')
     \<and> (ln_status l = LoanRejected \<or> ln_status l = LoanClosed \<longrightarrow> ln_status l' = ln_status l)"
proof -
  have "alive (loans s) s" using reachable_owed [OF assms(1)] by (simp add: alive_def evolves_refl)
  then have "alive (loans s) s'" by (rule life.steps [OF assms(2)])
  then obtain l' where "l' \<in> set (loans s')" "loan_later l l'" using evolves_member [OF _ assms(3)] by (auto simp: alive_def)
  then show ?thesis using final_status by (intro bexI [of _ l']) (auto simp: loan_later_def)
qed

theorem loan_life_cycle_witness:
  "(sys_step sample_ext)\<^sup>*\<^sup>* sample_pending sample_repaid
    \<and> (\<exists>l'\<in>set (loans sample_repaid). ln_id l' = 60 \<and> loan_edge\<^sup>*\<^sup>* LoanPending (ln_status l'))"
proof -
  have l: "sample_loan \<in> set (loans sample_pending)" "ln_id sample_loan = 60" "ln_status sample_loan = LoanPending" by code_simp+
  show ?thesis using loan_life_cycle [OF sample_reachable(1) sample_run(2) l(1)] l(2,3) sample_run(2) by auto
qed

end
