(* ===== verification/Loan_Account.thy ===== *)
theory Loan_Account
  imports Loan_Secured Samples
begin

text \<open>
  The abstract account of a loan, what is owed on it and what is held as credit, with two operations:
  interest accrues, and a payment settles penalties, interest and principal in this order and leaves
  the rest as credit. Recording a repayment over the tables is shown to be exactly these two.
\<close>

section \<open>The abstract account\<close>

record account =
  owes_principal :: int
  owes_interest :: int
  owes_penalty :: int
  has_credit :: int

definition accrue :: "int \<Rightarrow> account \<Rightarrow> account" where
  "accrue x a = a\<lparr>owes_interest := owes_interest a + x\<rparr>"

definition pay :: "int \<Rightarrow> account \<Rightarrow> account" where
  "pay q a = (let pen = min q (owes_penalty a); it = min (q - pen) (owes_interest a);
       pri = min (q - pen - it) (owes_principal a)
     in \<lparr>owes_principal = owes_principal a - pri, owes_interest = owes_interest a - it,
         owes_penalty = owes_penalty a - pen, has_credit = has_credit a + (q - pen - it - pri)\<rparr>)"

text \<open>The account that the tables represent.\<close>

definition account_of :: "Loan \<Rightarrow> 's loan_db_scheme \<Rightarrow> account" where
  "account_of l s = \<lparr>owes_principal = ln_principal l - paid principal_part (ln_id l) s,
     owes_interest = interest_due_total (ln_id l) s - paid interest_part (ln_id l) s,
     owes_penalty = penalty_due (ln_id l) s,
     has_credit = sum_where (\<lambda>c. cb_loan c = Some (ln_id l)) cb_amount (credit_balances s)\<rparr>"

section \<open>The months that are assessed\<close>

lemma month_series_first:
  "month_series (first_of j) (first_of k) = map first_of [j..k]"
proof (induction "nat (k + 1 - j)" arbitrary: j)
  case 0
  then have "k < j" by simp
  with first_of_less [of k j] show ?case by (simp add: month_series.simps)
next
  case (Suc n)
  then have "j \<le> k" "n = nat (k + 1 - (j + 1))" by auto
  with Suc(1) [of "j + 1"] first_of_mono [of j k] show ?case
    by (subst month_series.simps) (simp add: upto_rec1)
qed

definition last_assessed :: "uuid \<Rightarrow> 's loan_db_scheme \<Rightarrow> date option" where
  "last_assessed i s = max_opt (map li_period (filter (\<lambda>r. li_loan r = i) (loan_monthly_interest s)))"

definition missed_months :: "uuid \<Rightarrow> date \<Rightarrow> 's loan_db_scheme \<Rightarrow> date list" where
  "missed_months i p s = (case last_assessed i s of None \<Rightarrow> [p]
     | Some d \<Rightarrow> month_series (AddDate_months d 1) p)"

text \<open>Interest of one month: on the principal not repaid in earlier months, never on interest.\<close>

definition month_interest :: "Loan \<Rightarrow> date \<Rightarrow> 's loan_db_scheme \<Rightarrow> int" where
  "month_interest l p s = round_div (max 0 (ln_principal l - the (paid_before (ln_id l) p s)) * ln_rate l) 10000"

definition missed_interest :: "Loan \<Rightarrow> date \<Rightarrow> 's loan_db_scheme \<Rightarrow> int" where
  "missed_interest l p s = sum_list (map (\<lambda>m. month_interest l m s) (missed_months (ln_id l) p s))"

lemma fold_max: "fold max xs (x :: int) \<ge> x \<and> (\<forall>y\<in>set xs. y \<le> fold max xs x)"
  by (induction xs arbitrary: x) (auto, (metis max.cobounded1 max.cobounded2 order_trans)+)

lemma max_opt_le:
  assumes "y \<in> set xs"
  shows "\<exists>d. max_opt xs = Some d \<and> y \<le> d"
  using assms fold_max [of "hd xs" "tl xs"] by (cases xs) (auto simp: max_opt_def fold_max)

lemma month_series_mono: "p \<in> set (month_series a b) \<Longrightarrow> a \<le> p"
proof (induction a b rule: month_series.induct)
  case (1 a b)
  then show ?case using AddDate_months_grows [of a] by (subst (asm) month_series.simps) (auto split: if_splits)
qed

lemma distinct_month_series: "distinct (month_series a b)"
proof (induction a b rule: month_series.induct)
  case (1 a b)
  then show ?case using AddDate_months_grows [of a] month_series_mono [of a "AddDate_months a 1" b]
    by (subst month_series.simps) auto
qed

lemma missed_unassessed:
  assumes "m \<in> set (missed_months i p s)"
  shows "\<not> has_interest i m (loan_monthly_interest s)"
proof
  assume "has_interest i m (loan_monthly_interest s)"
  then have "m \<in> set (map li_period (filter (\<lambda>r. li_loan r = i) (loan_monthly_interest s)))"
    by (auto simp: has_interest_def)
  from max_opt_le [OF this] obtain d where d: "last_assessed i s = Some d" "m \<le> d" by (auto simp: last_assessed_def)
  with assms have "AddDate_months d 1 \<le> m" by (auto simp: missed_months_def dest: month_series_mono)
  with d(2) AddDate_months_grows [of d] show False by simp
qed

lemma distinct_missed: "distinct (missed_months i p s)"
  by (auto simp: missed_months_def distinct_month_series split: option.splits)

lemma insert_interest_total:
  assumes "insert_interest v l ms s = Inr (x, s')" and "distinct ms"
    and "\<And>m. m \<in> set ms \<Longrightarrow> \<not> has_interest (ln_id l) m (loan_monthly_interest s)"
  shows "interest_due_total k s' = interest_due_total k s
     + (if k = ln_id l then sum_list (map (\<lambda>m. month_interest l m s) ms) else 0)
    \<and> loan_transactions s' = loan_transactions s \<and> credit_balances s' = credit_balances s"
  using assms
proof (induction ms arbitrary: s)
  case Nil
  then show ?case by (simp add: tx_simps)
next
  case (Cons m ms)
  let ?s = "s\<lparr>loan_monthly_interest := loan_monthly_interest s @ [interest_row v l m (the (paid_before (ln_id l) m s))]\<rparr>"
  have run: "insert_interest v l ms ?s = Inr (x, s')"
    using Cons.prems(1) Cons.prems(3) [of m] by (auto simp: tx_simps Let_def split: if_splits)
  have row: "li_period (interest_row v l m q) = m" "li_loan (interest_row v l m q) = ln_id l" for q
    by (simp_all add: interest_row_def Let_def)
  have same: "month_interest l n ?s = month_interest l n s" for n
    by (simp add: month_interest_def paid_before_def)
  have amt: "li_amount (interest_row v l m (the (paid_before (ln_id l) m s))) = month_interest l m s"
    by (simp add: interest_row_def month_interest_def Let_def)
  have "\<not> has_interest (ln_id l) n (loan_monthly_interest ?s)" if "n \<in> set ms" for n
    using Cons.prems(2) Cons.prems(3) [of n] that row by (auto simp: has_interest_def)
  from Cons.IH [OF run _ this] Cons.prems(2) show ?case by (simp add: same amt row)
qed

lemma month_series_single: "month_series p p = [p]" "p < q \<Longrightarrow> month_series q p = []"
  using AddDate_months_grows [of p] by (simp_all add: month_series.simps)

lemma assessMissed_missed:
  assumes run: "assessMissed v l latest p s = Inr (x, s')" and l: "find (\<lambda>q. ln_id q = ln_id l) (loans s) = Some l"
  shows "insert_interest v l (missed_months (ln_id l) p s) s = Inr ((), s')"
proof (cases "last_assessed (ln_id l) s")
  case None
  with run show ?thesis
    by (auto simp: assessMissed_def tx_simps Let_def q_GetLoanInterestPeriod_def q_AssessLoanInterestPeriods_def assess_def l
        missed_months_def last_assessed_def [symmetric] month_series_single split: if_splits)
next
  case (Some d)
  with run show ?thesis
    by (auto simp: assessMissed_def tx_simps Let_def q_GetLoanInterestPeriod_def q_AssessLoanInterestPeriods_def assess_def l
        missed_months_def last_assessed_def [symmetric] month_series_single split: if_splits)
qed

lemma assessMissed_total:
  assumes run: "assessMissed v l latest p s = Inr (x, s')" and l: "find (\<lambda>q. ln_id q = ln_id l) (loans s) = Some l"
  shows "interest_due_total k s' = interest_due_total k s + (if k = ln_id l then missed_interest l p s else 0)
    \<and> loan_transactions s' = loan_transactions s \<and> credit_balances s' = credit_balances s"
  using insert_interest_total [OF assessMissed_missed [OF assms] distinct_missed missed_unassessed]
  by (simp add: missed_interest_def)

section \<open>What settling does to the credits\<close>

interpretation credit_rows: pledge_stable "\<lambda>s :: 's loan_db_scheme. credit_balances s = c" for c
  by unfold_locales simp

lemma credit_total_settle:
  fixes s s' :: "'s loan_db_scheme"
  assumes run: "settleRepayment v l rows prior a who s = Inr (x, s')" and "0 \<le> ra_creditAmount a"
  shows "sum_where (\<lambda>c. cb_loan c = Some k) cb_amount (credit_balances s')
    = sum_where (\<lambda>c. cb_loan c = Some k) cb_amount (credit_balances s) + (if k = ln_id l then ra_creditAmount a else 0)"
proof -
  let ?keep = "\<lambda>m :: ('s loan_db_scheme, error, unit) tx. \<forall>c. keeps (\<lambda>s. credit_balances s = c) m"
  have rest: "?keep (updateScheduleStatuses v rows t)" "?keep (insertStatusAudit v i st1 st2 who rsn)" "?keep (ReleaseLoanSecurity v i m)"
    for t i st1 st2 rsn m
  proof -
    show "?keep (updateScheduleStatuses v rows t)"
      by (auto simp: keeps_def updateScheduleStatuses_def q_UpdateRepaymentScheduleStatuses_def tx_simps Let_def split: if_splits)
    show "?keep (insertStatusAudit v i st1 st2 who rsn)"
      by (cases who) (auto simp: keeps_def insertStatusAudit_def query_defs tx_simps Let_def split: if_splits)
    show "?keep (ReleaseLoanSecurity v i m)" by (intro allI credit_rows.keeps_security)
  qed
  have upd: "keeps (\<lambda>s :: 's loan_db_scheme. credit_balances s = c) (q_UpdateLoanStatus v i st who)" for i st c
    by (auto simp: keeps_def q_UpdateLoanStatus_def update_loan_def split: option.splits if_splits)
  from run obtain y s0 where
      cred: "(if ra_creditAmount a > 0 then tx_bind (q_CreateCreditBalance v (ln_member l) (Some (ln_id l))
           (numericFromScale (ra_creditAmount a)) Overpayment) (\<lambda>_. ret ()) else ret ()) s = Inr (y, s0)"
    and fin: "tx_bind (updateScheduleStatuses v rows (numericToScale prior (-4) + ra_loanAppliedAmount a)) (\<lambda>_.
       if ra_loanClosed a then
       tx_bind (or_error NoRowsE (q_UpdateLoanStatus v (ln_id l) LoanClosed who)) (\<lambda>_.
       tx_bind (insertStatusAudit v (ln_id l) (ln_status l) LoanClosed who ''loan fully repaid'') (\<lambda>_.
       ReleaseLoanSecurity v (ln_id l) None)) else ret ()) s0 = Inr (x, s')"
    unfolding settleRepayment_def by (elim tx_bindE) (auto simp: tx_bind_def)
  have "credit_balances s' = credit_balances s0"
    using fin by (rule keepsD [rotated 2]) (intro keeps_intros upd rest [rule_format] | rule refl)+
  moreover have "numericFromScale n = db_num n" for n by (simp add: numericFromScale_def db_num_def)
  ultimately show ?thesis
    using cred assms(2) by (auto simp: q_CreateCreditBalance_def tx_simps Let_def store_db_Inr split: if_splits)
qed

section \<open>Refinement\<close>

lemma settle_rows:
  assumes "settleRepayment v l rows prior a who s = Inr (x, s')"
  shows "loan_transactions s' = loan_transactions s \<and> loan_monthly_interest s' = loan_monthly_interest s"
  using assms
proof (cases rule: settleRepayment_cases)
  case stays
  then show ?thesis by (simp add: core_def)
next
  case (closes s1 s2 l')
  from closes(3) have "loan_transactions s2 = loan_transactions s1 \<and> loan_monthly_interest s2 = loan_monthly_interest s1"
    by (rule q_UpdateLoanStatus_Some) simp
  with closes(2,4) show ?thesis by (simp add: core_def)
qed

lemma account_rows:
  assumes "loan_transactions s' = loan_transactions s"
  shows "paid f k s' = paid f k s" "penalty_due k s' = penalty_due k s" "repayments_of k s' = repayments_of k s"
  using assms by (simp_all add: paid_def penalty_due_def repayments_of_def)

lemma postRepayment_account:
  fixes s s' :: "'s loan_db_scheme"
  assumes run: "postRepayment v l amount g who p s = Inr (t, s')" and inv: "owed_inv s"
    and l: "l \<in> set (loans s)" "ln_status l \<noteq> LoanClosed" and pos: "0 \<le> numericToScale amount (-4)" and k: "k \<in> set (loans s)"
  shows "account_of k s' = (if k = l then pay (numericToScale amount (-4)) (accrue (missed_interest l p s) (account_of l s)) else account_of k s)"
  using run inv l
proof (rule postRepayment_cases)
  fix s1 s2 :: "'s loan_db_scheme"
  let ?a = "repayment_split_of l amount p s1" and ?q = "numericToScale amount (-4)"
  assume miss: "assessMissed v l (max_opt (map period_of (repayments_of (ln_id l) s))) p s = Inr ((), s1)"
    and inv1: "owed_inv s1" and same: "loans s1 = loans s" and rows1: "loan_transactions s1 = loan_transactions s"
    and ins: "q_InsertLoanTransaction v \<lparr>il_loan = ln_id l, il_type = Repayment, il_amount = amount, il_reference = env_uuid v 1,
       il_gateway = Some g, il_breakdown = allocationJSON ?a, il_created_by = who\<rparr> s1 = Inr (Some t, s2)"
    and settle: "settleRepayment v l (schedules_of (ln_id l) s) (db_num (paid principal_part (ln_id l) s1)) ?a who s2 = Inr ((), s')"
  have refs: "refs_ok s" using inv by (simp add: owed_inv_def)
  have "find (\<lambda>q. ln_id q = ln_id l) (loans s) = Some l"
    using l(1) find_ex [of "\<lambda>q. ln_id q = ln_id l" "loans s"] loan_unique [OF refs _ l(1)] by (auto dest: find_Some_set)
  note tot = assessMissed_total [OF miss this]
  have t: "lt_breakdown t = allocationJSON ?a" "lt_loan t = ln_id l" "lt_type t = Repayment"
    and s2: "s2 = s1\<lparr>loan_transactions := loan_transactions s1 @ [t]\<rparr>"
    using q_InsertLoanTransaction_Some [OF ins] by simp_all
  have l1: "l \<in> set (loans s1)" using l(1) same by simp
  define n i out where "n = penalty_due (ln_id l) s1" and "i = interest_due_total (ln_id l) s1 - paid interest_part (ln_id l) s1"
    and "out = ln_principal l - paid principal_part (ln_id l) s1"
  note eqs = repayment_split_eq [OF inv1 l1, folded n_def i_def out_def]
  note tp = repayment_row_parts [OF t(1), of "split_principal ?q n i out" "split_interest ?q n i" "split_penalty ?q n"]
  have parts: "the (principal_part t) = split_principal ?q n i out" "the (interest_part t) = split_interest ?q n i"
    "the (penalty_part t) = split_penalty ?q n" "ra_creditAmount ?a = split_credit ?q n i out"
    using tp by (simp_all add: eqs(1) Let_def)
  note b = split_bounds [OF pos eqs(2-4)] and end_rows = settle_rows [OF settle]
  have uniq: "ln_id k = ln_id l \<longleftrightarrow> k = l" "ln_id l = ln_id k \<longleftrightarrow> k = l" using loan_unique [OF refs k l(1)] by auto
  have cred: "sum_where (\<lambda>c. cb_loan c = Some (ln_id k)) cb_amount (credit_balances s')
      = sum_where (\<lambda>c. cb_loan c = Some (ln_id k)) cb_amount (credit_balances s) + (if k = l then split_credit ?q n i out else 0)"
    using credit_total_settle [OF settle, of "ln_id k"] parts(4) b(7) tot uniq by (simp add: s2)
  have int: "interest_due_total (ln_id k) s' = interest_due_total (ln_id k) s + (if k = l then missed_interest l p s else 0)"
    using end_rows tot [of "ln_id k"] uniq by (simp add: interest_due_total_def s2)
  have paid: "paid f (ln_id k) s' = paid f (ln_id k) s + (if k = l then the (f t) else 0)" for f
    using account_rows(1) [of s' s2 f "ln_id k"] account_rows(1) [OF rows1, of f "ln_id k"] end_rows t uniq by (simp add: s2)
  have pen: "penalty_due (ln_id k) s' = (if k = l then penalty_due (ln_id k) s - split_penalty ?q n else penalty_due (ln_id k) s)"
  proof -
    have "loan_transactions s' = loan_transactions s @ [t]" using end_rows rows1 by (simp add: s2)
    then have "penalty_due (ln_id k) s' = max 0 (sum_where (\<lambda>t. lt_loan t = ln_id k \<and> lt_type t = Penalty) lt_amount (loan_transactions s)
        - paid penalty_part (ln_id k) s - (if k = l then split_penalty ?q n else 0))"
      using t(3) paid [of penalty_part] parts(3) by (simp add: penalty_due_def algebra_simps)
    moreover have "max 0 (z - x) = max 0 z - x" if "0 \<le> x" "x \<le> max 0 z" for x z :: int using that by (auto simp: max_def)
    from this [OF b(1,2) [unfolded n_def account_rows(2) [OF rows1] penalty_due_def]]
    have "max 0 (sum_where (\<lambda>t. lt_loan t = ln_id l \<and> lt_type t = Penalty) lt_amount (loan_transactions s)
        - paid penalty_part (ln_id l) s - split_penalty ?q n) = penalty_due (ln_id l) s - split_penalty ?q n"
      by (simp add: n_def penalty_due_def rows1 account_rows(1) [OF rows1])
    ultimately show ?thesis by (simp add: penalty_due_def)
  qed
  have old: "n = penalty_due (ln_id l) s" "i = interest_due_total (ln_id l) s + missed_interest l p s - paid interest_part (ln_id l) s"
    "out = ln_principal l - paid principal_part (ln_id l) s"
    using tot [of "ln_id l"] account_rows [OF rows1] by (simp_all add: n_def i_def out_def)
  show ?thesis
  proof (cases "k = l")
    case False
    then show ?thesis using cred int paid pen by (simp add: account_of_def)
  next
    case True
    have "account_of l s' = \<lparr>owes_principal = out - split_principal ?q n i out, owes_interest = i - split_interest ?q n i,
        owes_penalty = n - split_penalty ?q n, has_credit = has_credit (account_of l s) + split_credit ?q n i out\<rparr>"
      using True cred int paid pen parts old by (simp add: account_of_def)
    also have "\<dots> = pay ?q (accrue (missed_interest l p s) (account_of l s))"
      by (simp add: pay_def accrue_def account_of_def split_defs old Let_def algebra_simps)
    finally show ?thesis using True by simp
  qed
qed

section \<open>Repeating a repayment\<close>

text \<open>What identifies a loan does not change.\<close>

definition loan_keys :: "'s loan_db_scheme \<Rightarrow> (uuid \<times> uuid \<times> int \<times> bool) list" where
  "loan_keys s = map (\<lambda>l. (ln_id l, ln_member l, ln_branch l, ln_deleted l)) (loans s)"

lemma keeps_loan_keys:
  assumes "\<And>l. ln_id (f l) = ln_id l \<and> ln_member (f l) = ln_member l \<and> ln_branch (f l) = ln_branch l \<and> ln_deleted (f l) = ln_deleted l"
  shows "keeps (\<lambda>s :: 's loan_db_scheme. loan_keys s = c) (update_loan Q f)"
proof -
  have "loan_keys (s\<lparr>loans := map (\<lambda>q. if ln_id q = i then f q else q) (loans s)\<rparr>) = loan_keys s"
    for s :: "'s loan_db_scheme" and i
    using assms by (simp add: loan_keys_def)
  then show ?thesis by (auto simp: keeps_def update_loan_def split: option.splits if_splits)
qed

interpretation loan_keys: pledge_stable "\<lambda>s :: 's loan_db_scheme. loan_keys s = c" for c
  by unfold_locales (simp add: loan_keys_def)

interpretation loan_keys: loan_frame "\<lambda>s. loan_keys s = c" L for c L
proof
  show "keeps (\<lambda>s. loan_keys s = c) (q_CreateCreditBalance v mem pl amt src)" for v mem pl amt src
    by (auto simp: keeps_def query_defs tx_simps Let_def loan_keys_def split: if_splits)
qed (simp_all add: keeps_loan_keys set_loan_status_def loan_keys.keeps_security, simp_all add: loan_keys_def)

lemma loan_keys_live:
  assumes "loan_keys s' = loan_keys s" and "find (live_loan i) (loans s) = Some l"
  shows "\<exists>l'. find (live_loan i) (loans s') = Some l' \<and> ln_member l' = ln_member l \<and> ln_branch l' = ln_branch l"
proof -
  have "find (\<lambda>(j, m, b, d). j = i \<and> \<not> d) (map (\<lambda>l. (ln_id l, ln_member l, ln_branch l, ln_deleted l)) ls)
      = map_option (\<lambda>l. (ln_id l, ln_member l, ln_branch l, ln_deleted l)) (find (live_loan i) ls)" for ls
    by (induction ls) (auto simp: live_loan_def)
  from this [of "loans s"] this [of "loans s'"] assms show ?thesis
    by (cases "find (live_loan i) (loans s')") (auto simp: loan_keys_def)
qed

lemma nanos_scale: "n_valid n \<Longrightarrow> numericToNanos n = numericToScale n (-9)"
  by (auto simp: numericToNanos_def numericToScale_def Let_def split: option.splits)

lemma RecordRepayment_recorded:
  fixes s s' :: "'s loan_db_scheme"
  assumes run: "RecordRepaymentForPeriodInTx v clock i amount g who day m b s = Inr (t, s')" and inv: "owed_inv s" and "exact4 amount"
  shows "find (same_gateway i (TrimSpace g)) (loan_transactions s') = Some t \<and> lt_amount t * 100000 = numericToScale amount (-9)"
  using run
proof (cases rule: RecordRepayment_cases)
  case replay
  then show ?thesis by simp
next
  case (new l d)
  have st: "l \<in> set (loans s)" "ln_status l \<noteq> LoanClosed" "ln_id l = i" using find_loan [OF new(5)] new(6) by (auto simp: repayable_def)
  from new(9) inv st(1,2) show ?thesis
  proof (cases rule: postRepayment_cases)
    case (1 s1 s2)
    note row = q_InsertLoanTransaction_Some [OF 1(6)]
    have "loan_transactions s' = loan_transactions s @ [t]" using settle_rows [OF 1(7)] row 1(5) by simp
    moreover have "same_gateway i (TrimSpace g) t" using row st(3) by (simp add: same_gateway_def)
    moreover have "lt_amount t * 100000 = numericToScale amount (-9)"
      using row assms(3) new(3) nanos_scale [of amount] by (simp add: exact4_def positive_def)
    ultimately show ?thesis using new(8) by (simp add: find_append)
  qed
qed

section \<open>Claims\<close>

lemma repayment_account:
  fixes s s' :: "'s loan_db_scheme"
  assumes inv: "owed_inv s" and run: "RecordRepaymentForPeriodInTx v clock i amount g who (Some day) m b s = Inr (t, s')"
    and new: "find (same_gateway i (TrimSpace g)) (loan_transactions s) = None" and l: "find (live_loan i) (loans s) = Some l"
  shows "account_of l s' = pay (numericToScale amount (-4)) (accrue (missed_interest l (month_start day) s) (account_of l s))
    \<and> (\<forall>k\<in>set (loans s). k \<noteq> l \<longrightarrow> account_of k s' = account_of k s)"
  using run
proof (cases rule: RecordRepayment_cases)
  case replay
  with new show ?thesis by simp
next
  case (new l' d)
  with l have "l' = l" "d = day" by simp_all
  note facts = new [unfolded this]
  have st: "l \<in> set (loans s)" "ln_status l \<noteq> LoanClosed" using find_loan [OF l] facts(6) by (auto simp: repayable_def)
  show ?thesis using postRepayment_account [OF facts(9) inv st positive_scale [OF facts(3)]] st(1) by auto
qed

lemmas repayment_refines_l = repayment_account [THEN conjunct1]

text \<open>C17. A repayment refines the abstract account: when one is recorded under a new gateway reference,
  the account of its loan first accrues the interest of every month since the last assessed one, each
  on the principal not repaid before that month, and then takes the payment, penalty before interest
  before principal, with the rest as credit; the account of every other loan is as before.\<close>

theorem repayment_refines:
  fixes s s' :: "'s loan_db_scheme"
  assumes inv: "owed_inv s" and run: "RecordRepaymentForPeriodInTx v clock i amount g who (Some day) m b s = Inr (t, s')"
    and new: "find (same_gateway i (TrimSpace g)) (loan_transactions s) = None" and l: "find (live_loan i) (loans s) = Some l"
  shows "account_of l s' = pay (numericToScale amount (-4)) (accrue (missed_interest l (month_start day) s) (account_of l s))
    \<and> (\<forall>k\<in>set (loans s). k \<noteq> l \<longrightarrow> account_of k s' = account_of k s)"
  by (rule repayment_account [OF assms])



lemma sample_owed: "owed_inv sample_active"
proof -
  have "owed_inv sample_bank" by (simp add: owed_inv_def refs_ok_def sample_bank_def)
  from keepsD [OF keeps_owed_ApplyForLoan this sample_apply] have "owed_inv sample_pending" .
  from keepsD [OF keeps_owed_guarantors(2) this sample_guarantee] have "owed_inv sample_secured" .
  from keepsD [OF keeps_owed_ApproveLoan this sample_approval] have "owed_inv sample_approved" .
  from keepsD [OF keeps_owed_DisburseLoan this sample_disburse] show ?thesis .
qed

theorem repayment_refines_witness:
  "account_of active_loan sample_repaid = pay 5000000 (accrue (missed_interest active_loan (month_start 0) sample_active) (account_of active_loan sample_active))
    \<and> account_of active_loan sample_repaid = \<lparr>owes_principal = 7120000, owes_interest = 0, owes_penalty = 0, has_credit = 0\<rparr>"
proof -
  have "find (same_gateway 60 (TrimSpace '' G1 '')) (loan_transactions sample_active) = None"
    "find (live_loan 60) (loans sample_active) = Some active_loan" "numericToScale (db_num 5000000) (-4) = 5000000"
    "account_of active_loan sample_repaid = \<lparr>owes_principal = 7120000, owes_interest = 0, owes_penalty = 0, has_credit = 0\<rparr>"
    by code_simp+
  with repayment_refines [OF sample_owed sample_repay] show ?thesis by simp
qed


end
