(* ===== verification/Loan_Position.thy ===== *)
theory Loan_Position
  imports Loan_Account Credit
begin

text \<open>
  \<open>internal/loan/contribution_position.go\<close>: the quote of what is due on a member's loans in a month,
  read before a contribution is accepted, and the snapshot of it that a receipt keeps. The main claim
  is that the quote, one SQL query that changes nothing, agrees with what \<open>RecordRepaymentForPeriodInTx\<close>
  assesses and settles in several statements.
\<close>

section \<open>The query\<close>

record ListContributionLoanPositionsRow =
  po_id :: uuid
  po_interest_rate :: numeric
  po_opening_principal :: numeric
  po_principal_due :: numeric
  po_period_interest :: numeric
  po_penalty_due :: numeric
  po_installment_due :: numeric
  po_interest_due :: numeric
  po_earlier_interest_due :: numeric
  po_payable :: bool

definition payable_status :: "LoanStatus \<Rightarrow> bool" where
  "payable_status st \<longleftrightarrow> st = LoanActive \<or> st = LoanDisbursed \<or> st = LoanDelinquent"

definition member_loans :: "uuid \<Rightarrow> int \<Rightarrow> 's loan_db_scheme \<Rightarrow> Loan list" where
  "member_loans m b s = sort_key ln_id (filter (\<lambda>l. ln_member l = m \<and> ln_branch l = b \<and> \<not> ln_deleted l
     \<and> payable_status (ln_status l)) (loans s))"

definition q_LockMemberContributionLoans :: "uuid \<Rightarrow> int \<Rightarrow> ('s loan_db_scheme, error, uuid list) tx" where
  [query_defs]: "q_LockMemberContributionLoans m b = gets (\<lambda>s. map ln_id (member_loans m b s))"

text \<open>\<open>SUM(amount_due) OVER (\<dots> UNBOUNDED PRECEDING AND 1 PRECEDING)\<close>.\<close>

fun with_earlier_due :: "int \<Rightarrow> RepaymentSchedule list \<Rightarrow> (RepaymentSchedule \<times> int) list" where
  "with_earlier_due earlier [] = []"
| "with_earlier_due earlier (r # rs) = (r, earlier) # with_earlier_due (earlier + rs_amount r) rs"

definition installment_due :: "date \<Rightarrow> int \<Rightarrow> RepaymentSchedule list \<Rightarrow> int" where
  "installment_due p applied rows = sum_list (map (\<lambda>(r, earlier). max 0 (rs_amount r - max 0 (applied - earlier)))
     (filter (\<lambda>(r, earlier). p \<le> rs_due r \<and> rs_due r < AddDate_months p 1 \<and> rs_status r \<noteq> Paid) (with_earlier_due 0 rows)))"

text \<open>\<open>CEIL(x * 100) / 100\<close>, as a number of cents.\<close>

definition ceil_cents :: "int \<Rightarrow> numeric" where
  "ceil_cents x = \<lparr>n_int = Some (- ((- x) div 100)), n_exp = -2, n_valid = True\<rparr>"

text \<open>A loan without assessed interest counts as assessed up to the month before.\<close>

definition latest_assessment :: "date \<Rightarrow> uuid \<Rightarrow> 's loan_db_scheme \<Rightarrow> date" where
  "latest_assessment p i s = (case max_opt (map li_period (filter (\<lambda>r. li_loan r = i) (loan_monthly_interest s))) of
     None \<Rightarrow> AddDate_months p (-1) | Some d \<Rightarrow> d)"

definition payable_in :: "date \<Rightarrow> Loan \<Rightarrow> 's loan_db_scheme \<Rightarrow> bool" where
  "payable_in p l s \<longleftrightarrow> latest_assessment p (ln_id l) s \<le> p
     \<and> (case max_opt (map period_of (repayments_of (ln_id l) s)) of None \<Rightarrow> True | Some d \<Rightarrow> d \<le> p)
     \<and> (case ln_disbursed l of None \<Rightarrow> True | Some t \<Rightarrow> month_start (eat_date t) \<le> p)"

text \<open>One row; the query fails when a recorded part of a repayment is not a number.\<close>

definition loan_position :: "date \<Rightarrow> Loan \<Rightarrow> 's loan_db_scheme \<Rightarrow> ListContributionLoanPositionsRow option" where
  "loan_position p l s = (let rs = repayments_of (ln_id l) s;
       assessments = filter (\<lambda>r. li_loan r = ln_id l) (loan_monthly_interest s);
       this = find (\<lambda>r. li_period r = p) assessments in
     case (sum_opt principal_part rs, sum_opt principal_part (filter (\<lambda>t. period_of t < p) rs),
           sum_opt interest_part rs, sum_opt penalty_part rs) of
       (Some principal_paid, Some prior_paid, Some interest_paid, Some penalty_paid) \<Rightarrow>
         let latest = max_opt (map li_period assessments);
             principal_due = max 0 (ln_principal l - principal_paid);
             opening = (case this of Some r \<Rightarrow> li_previous r | None \<Rightarrow> max 0 (ln_principal l - prior_paid));
             period_interest = (case this of Some r \<Rightarrow> li_amount r
               | None \<Rightarrow> round_div (max 0 (ln_principal l - prior_paid) * ln_rate l) 10000);
             unposted = sum_list (map (\<lambda>m. round_div (max 0 (ln_principal l
                 - sum_list (map (the \<circ> principal_part) (filter (\<lambda>t. period_of t < m) rs))) * ln_rate l) 10000)
               (month_series (case latest of None \<Rightarrow> p | Some d \<Rightarrow> AddDate_months d 1) p));
             assessed = sum_list (map li_amount assessments);
             earlier_assessed = sum_list (map li_amount (filter (\<lambda>r. li_period r < p) assessments));
             penalties = sum_where (\<lambda>t. lt_loan t = ln_id l \<and> lt_type t = Penalty) lt_amount (loan_transactions s)
         in Some \<lparr>po_id = ln_id l,
              po_interest_rate = db_num (case this of Some r \<Rightarrow> li_rate r | None \<Rightarrow> ln_rate l),
              po_opening_principal = db_num opening, po_principal_due = db_num principal_due,
              po_period_interest = db_num period_interest, po_penalty_due = db_num (max 0 (penalties - penalty_paid)),
              po_installment_due = ceil_cents (installment_due p (ln_principal l - principal_due) (schedules_of (ln_id l) s)),
              po_interest_due = db_num (max 0 (assessed + unposted - interest_paid)),
              po_earlier_interest_due = db_num (max 0 (earlier_assessed + unposted
                 - (if latest_assessment p (ln_id l) s < p then period_interest else 0) - interest_paid)),
              po_payable = payable_in p l s\<rparr>
     | _ \<Rightarrow> None)"

fun map_opt :: "('a \<Rightarrow> 'b option) \<Rightarrow> 'a list \<Rightarrow> 'b list option" where
  "map_opt f [] = Some []"
| "map_opt f (x # xs) = (case f x of None \<Rightarrow> None | Some y \<Rightarrow> map_option (Cons y) (map_opt f xs))"

definition q_ListContributionLoanPositions ::
    "uuid \<Rightarrow> int \<Rightarrow> date \<Rightarrow> ('s loan_db_scheme, error, ListContributionLoanPositionsRow list) tx" where
  [query_defs]: "q_ListContributionLoanPositions m b p = tx_bind (gets id) (\<lambda>s.
     lift_text (map_opt (\<lambda>l. loan_position p l s) (member_loans m b s)))"

definition q_ListContributionLoanRepayments ::
    "string list \<Rightarrow> ('s loan_db_scheme, error, LoanTransaction list) tx" where
  [query_defs]: "q_ListContributionLoanRepayments ids = gets (\<lambda>s.
     filter (\<lambda>t. lt_type t = Repayment \<and> (case lt_gateway t of None \<Rightarrow> False | Some g \<Rightarrow> g \<in> set ids)) (loan_transactions s))"

section \<open>Quote and snapshot\<close>

record ContributionLoanSummary =
  ls_LoanID :: string
  ls_Period :: string
  ls_OpeningPrincipal :: string
  ls_InterestRate :: string
  ls_PeriodInterest :: string
  ls_EarlierInterestDue :: string
  ls_InterestDue :: string
  ls_PenaltyDue :: string
  ls_PrincipalDue :: string
  ls_InstallmentDue :: string
  ls_Payment :: string
  ls_PenaltyPaid :: string
  ls_InterestPaid :: string
  ls_PrincipalPaid :: string
  ls_Credit :: string
  ls_InterestRemaining :: string
  ls_PrincipalRemaining :: string
  ls_Payable :: bool

definition loan_summary :: "ext \<Rightarrow> date \<Rightarrow> ListContributionLoanPositionsRow \<Rightarrow> ContributionLoanSummary" where
  "loan_summary x p row = \<lparr>ls_LoanID = ext_uuid_text x (po_id row), ls_Period = format_date p,
     ls_OpeningPrincipal = numericToString (po_opening_principal row), ls_InterestRate = numericToString (po_interest_rate row),
     ls_PeriodInterest = numericToString (po_period_interest row),
     ls_EarlierInterestDue = numericToString (po_earlier_interest_due row),
     ls_InterestDue = numericToString (po_interest_due row), ls_PenaltyDue = numericToString (po_penalty_due row),
     ls_PrincipalDue = numericToString (po_principal_due row), ls_InstallmentDue = numericToString (po_installment_due row),
     ls_Payment = ''0'', ls_PenaltyPaid = ''0'', ls_InterestPaid = ''0'', ls_PrincipalPaid = ''0'', ls_Credit = ''0'',
     ls_InterestRemaining = numericToString (po_interest_due row),
     ls_PrincipalRemaining = numericToString (po_principal_due row), ls_Payable = po_payable row\<rparr>"

definition QuoteContributionLoans ::
    "ext \<Rightarrow> uuid \<Rightarrow> int \<Rightarrow> date \<Rightarrow> ('s loan_db_scheme, error, ContributionLoanSummary list) tx" where
  "QuoteContributionLoans x memberID branchID period =
     tx_bind (q_ListContributionLoanPositions memberID branchID period) (\<lambda>rows. ret (map (loan_summary x period) rows))"

text \<open>What is left after a payment; fails on a text that does not scan, or when more was paid than quoted.\<close>

definition remaining_text :: "ext \<Rightarrow> string \<Rightarrow> string \<Rightarrow> ('s, error, string) tx" where
  "remaining_text x due pd = (case ext_scan x due of None \<Rightarrow> throw PlainE
     | Some d \<Rightarrow> (case ext_scan x pd of None \<Rightarrow> throw PlainE
        | Some p \<Rightarrow> let remaining = numericToScale d (-4) - numericToScale p (-4) in
            if remaining < 0 then throw (PlainE) else ret (decimalStringFromScale remaining (-4))))"

text \<open>A part that the JSON object does not have is decoded as the empty text.\<close>

definition json_text :: "string option \<Rightarrow> string" where
  "json_text t = (case t of None \<Rightarrow> '''' | Some v \<Rightarrow> v)"

fun applyPayment :: "ext \<Rightarrow> LoanTransaction \<Rightarrow> ContributionLoanSummary list
    \<Rightarrow> ('s, error, bool \<times> ContributionLoanSummary list) tx" where
  "applyPayment x payment [] = ret (False, [])"
| "applyPayment x payment (item # items) =
     (if ls_LoanID item \<noteq> ext_uuid_text x (lt_loan payment) then
        tx_bind (applyPayment x payment items) (\<lambda>(found, rest). ret (found, item # rest))
      else let split = lt_breakdown payment in
        tx_bind (remaining_text x (ls_InterestRemaining item) (json_text (aj_interest split))) (\<lambda>interest.
        tx_bind (remaining_text x (ls_PrincipalRemaining item) (json_text (aj_principal split))) (\<lambda>prin.
        tx_bind (applyPayment x payment items) (\<lambda>(found, rest).
        ret (True, item\<lparr>ls_Payment := numericToString (db_num (lt_amount payment)),
          ls_PenaltyPaid := json_text (aj_penalty split), ls_InterestPaid := json_text (aj_interest split),
          ls_PrincipalPaid := json_text (aj_principal split), ls_Credit := json_text (aj_credit split),
          ls_InterestRemaining := interest, ls_PrincipalRemaining := prin\<rparr> # rest)))))"

fun applyPayments :: "ext \<Rightarrow> LoanTransaction list \<Rightarrow> ContributionLoanSummary list
    \<Rightarrow> ('s, error, ContributionLoanSummary list) tx" where
  "applyPayments x [] summaries = ret summaries"
| "applyPayments x (payment # payments) summaries =
     tx_bind (applyPayment x payment summaries) (\<lambda>(found, summaries).
       if found then applyPayments x payments summaries else throw (PlainE))"

definition CompleteContributionLoanSnapshot ::
    "ext \<Rightarrow> ContributionLoanSummary list \<Rightarrow> string list \<Rightarrow> ('s loan_db_scheme, error, ContributionLoanSummary list) tx" where
  "CompleteContributionLoanSnapshot x summaries allocationIDs =
     (if allocationIDs \<noteq> [] then
        tx_bind (q_ListContributionLoanRepayments allocationIDs) (\<lambda>payments.
        if length payments \<noteq> length allocationIDs then throw (PlainE)
        else applyPayments x payments summaries)
      else ret summaries)"

section \<open>The quote and the posting agree\<close>

lemma round_div_pos: "0 \<le> a \<Longrightarrow> 0 \<le> round_div a 10000"
  by (simp add: round_div_nonneg)

lemma missed_interest_nonneg: "0 \<le> ln_rate l \<Longrightarrow> 0 \<le> missed_interest l p s"
  by (auto simp: missed_interest_def month_interest_def intro!: sum_list_nonneg round_div_pos)

lemma sum_opt_filter: "sum_opt f xs = Some y \<Longrightarrow> sum_opt f (filter P xs) = Some (sum_list (map (the \<circ> f) (filter P xs)))"
  by (auto simp: sum_opt_def list_all_iff split: if_splits)

lemma missed_months_series:
  "missed_months i p s = month_series (case last_assessed i s of None \<Rightarrow> p | Some d \<Rightarrow> AddDate_months d 1) p"
  by (simp add: missed_months_def month_series_single split: option.splits)

definition in_order :: "date \<Rightarrow> Loan \<Rightarrow> 's loan_db_scheme \<Rightarrow> bool" where
  "in_order p l s \<longleftrightarrow> \<not> after (last_assessed (ln_id l) s) p \<and> \<not> after (max_opt (map period_of (repayments_of (ln_id l) s))) p
     \<and> (case ln_disbursed l of None \<Rightarrow> True | Some t \<Rightarrow> month_start (eat_date t) \<le> p)"

lemma AddDate_before: "AddDate_months p (-1) < p"
  using first_of_less [of "month_index p - 1" "month_index p"] by (simp add: AddDate_months_eq month_start_eq)

lemma payable_in_order: "payable_in p l s = in_order p l s"
  using AddDate_before [of p]
  by (auto simp: payable_in_def in_order_def latest_assessment_def last_assessed_def after_def split: option.splits)

lemma assessMissed_in_order:
  "assessMissed v l (max_opt (map period_of (repayments_of (ln_id l) s))) p s = Inr (x, s') \<Longrightarrow> in_order p l s"
  by (auto simp: assessMissed_def tx_simps q_GetLoanInterestPeriod_def last_assessed_def [symmetric] in_order_def split: if_splits option.splits)

lemma loan_position_account:
  fixes p :: date and l :: Loan
  assumes inv: "owed_inv s" and l: "l \<in> set (loans s)"
  defines "a \<equiv> accrue (missed_interest l p s) (account_of l s)"
  shows "\<exists>row. loan_position p l s = Some row \<and> po_id row = ln_id l \<and> po_principal_due row = db_num (owes_principal a)
    \<and> po_interest_due row = db_num (owes_interest a) \<and> po_penalty_due row = db_num (owes_penalty a)
    \<and> po_payable row = in_order p l s"
proof -
  have ok: "list_all parts_ok (repayments_of (ln_id l) s)" and b: "0 \<le> ln_rate l"
      "paid principal_part (ln_id l) s \<le> ln_principal l" "paid interest_part (ln_id l) s \<le> interest_due_total (ln_id l) s"
    using inv l by (auto simp: owed_inv_def repay_ok_def loan_check_def)
  note sums = sum_opt_ok [OF ok]
  have before: "paid_before (ln_id l) m s
      = Some (sum_list (map (the \<circ> principal_part) (filter (\<lambda>t. period_of t < m) (repayments_of (ln_id l) s))))" for m
    unfolding paid_before_def by (rule sum_opt_filter [OF sums(1)])
  have tot: "interest_due_total (ln_id l) s = sum_list (map li_amount (filter (\<lambda>r. li_loan r = ln_id l) (loan_monthly_interest s)))"
    by (simp add: interest_due_total_def sum_where_def)
  have miss: "missed_interest l p s = sum_list (map (\<lambda>m. round_div (max 0 (ln_principal l
       - sum_list (map (the \<circ> principal_part) (filter (\<lambda>t. period_of t < m) (repayments_of (ln_id l) s)))) * ln_rate l) 10000)
     (month_series (case last_assessed (ln_id l) s of None \<Rightarrow> p | Some d \<Rightarrow> AddDate_months d 1) p))"
    by (simp add: missed_interest_def month_interest_def missed_months_series before)
  show ?thesis
    using b missed_interest_nonneg [OF b(1), of p s] before [of p, unfolded paid_before_def]
    by (simp add: loan_position_def Let_def sums a_def accrue_def account_of_def paid_def [symmetric] tot [symmetric]
        last_assessed_def [symmetric] miss [symmetric] penalty_due_def payable_in_order) (simp add: algebra_simps)
qed

section \<open>Claims\<close>

text \<open>C18. The quote is what is posted: when a repayment is recorded, the position quoted for its month just
  before is payable, and the payment settles exactly the quoted penalty, interest and principal, in
  this order, with the rest as credit.\<close>

theorem quote_is_posted:
  fixes s s' :: "'s loan_db_scheme"
  assumes inv: "owed_inv s" and run: "RecordRepaymentForPeriodInTx v clock i amount g who (Some day) m b s = Inr (t, s')"
    and new: "find (same_gateway i (TrimSpace g)) (loan_transactions s) = None" and l: "find (live_loan i) (loans s) = Some l"
  shows "\<exists>row. loan_position (month_start day) l s = Some row \<and> po_payable row
    \<and> account_of l s' = pay (numericToScale amount (-4)) \<lparr>owes_principal = numericToScale (po_principal_due row) (-4),
        owes_interest = numericToScale (po_interest_due row) (-4), owes_penalty = numericToScale (po_penalty_due row) (-4),
        has_credit = has_credit (account_of l s)\<rparr>"
proof -
  let ?p = "month_start day" and ?a = "accrue (missed_interest l (month_start day) s) (account_of l s)"
  have lin: "l \<in> set (loans s)" using find_loan [OF l] by simp
  obtain row where row: "loan_position ?p l s = Some row" "po_principal_due row = db_num (owes_principal ?a)"
      "po_interest_due row = db_num (owes_interest ?a)" "po_penalty_due row = db_num (owes_penalty ?a)" "po_payable row = in_order ?p l s"
    using loan_position_account [OF inv lin] by blast
  have "in_order ?p l s"
    using run
  proof (cases rule: RecordRepayment_cases)
    case replay
    with new show ?thesis by simp
  next
    case (new l' d)
    with l have "l' = l" "d = day" by simp_all
    note facts = new [unfolded this]
    have "ln_status l \<noteq> LoanClosed" using facts(6) by (auto simp: repayable_def)
    from facts(9) inv lin this show ?thesis by (rule postRepayment_cases) (rule assessMissed_in_order)
  qed
  moreover have "?a = \<lparr>owes_principal = owes_principal ?a, owes_interest = owes_interest ?a, owes_penalty = owes_penalty ?a,
      has_credit = has_credit (account_of l s)\<rparr>" by (simp add: accrue_def)
  moreover have "account_of l s' = pay (numericToScale amount (-4)) ?a" using repayment_refines_l [OF inv run new l] .
  ultimately show ?thesis using row by simp
qed

theorem quote_is_posted_witness:
  "\<exists>row. loan_position (month_start 0) active_loan sample_active = Some row \<and> po_payable row
    \<and> account_of active_loan sample_repaid = pay 5000000 \<lparr>owes_principal = numericToScale (po_principal_due row) (-4),
        owes_interest = numericToScale (po_interest_due row) (-4), owes_penalty = numericToScale (po_penalty_due row) (-4),
        has_credit = 0\<rparr>"
proof -
  have "find (same_gateway 60 (TrimSpace '' G1 '')) (loan_transactions sample_active) = None"
    "find (live_loan 60) (loans sample_active) = Some active_loan" "numericToScale (db_num 5000000) (-4) = 5000000"
    "has_credit (account_of active_loan sample_active) = 0"
    by code_simp+
  with quote_is_posted [OF sample_owed sample_repay] show ?thesis by simp
qed

end
