(* ===== verification/Contribution_Store.thy ===== *)
theory Contribution_Store
  imports Loan_Position "HOL-Library.Option_ord" "HOL-Library.List_Lexorder" "HOL-Library.Char_ord"
begin

text \<open>
  The tables of the contribution domain and the SQL queries of
  \<open>internal/contribution/repository/sqlc\<close> on receipts, allocations, monthly fees and charges. They
  extend the loan tables, since processing a receipt posts to the share and loan ledgers in the same
  transaction. The JSON columns are the values they encode: an allocation plan is its list of items,
  a loan snapshot the list of summaries. A failure reason is the error whose text is stored.
\<close>

section \<open>Tables\<close>

datatype ContributionSourceChannel = DarajaStk | CashChannel | ManualChannel

datatype ContributionReceiptStatus = ReceiptPending | ReceiptProcessing | ReceiptCompleted | ReceiptFailed | ReceiptManualReview

datatype ContributionAllocationType = Com | Lgom | SharePurchase | LoanPrincipal | LoanInterest | PenaltyCharge | OtherCharge
  | OverpaymentCredit

datatype ContributionAllocationStatus = AllocationPending | AllocationCompleted | AllocationFailed

datatype CashierSessionStatus = SessionOpen | SessionClosed | SessionHandedOver | SessionDeposited

datatype CashDepositStatus = DepositRecorded | DepositVerified

fun allocation_type_text :: "ContributionAllocationType \<Rightarrow> string" where
  "allocation_type_text Com = ''com''"
| "allocation_type_text Lgom = ''lgom''"
| "allocation_type_text SharePurchase = ''share_purchase''"
| "allocation_type_text LoanPrincipal = ''loan_principal''"
| "allocation_type_text LoanInterest = ''loan_interest''"
| "allocation_type_text PenaltyCharge = ''penalty''"
| "allocation_type_text OtherCharge = ''other_charge''"
| "allocation_type_text OverpaymentCredit = ''overpayment_credit''"

record allocationPlanItem =
  pi_type :: ContributionAllocationType
  pi_label :: string
  pi_target :: string
  pi_amount :: string

record ContributionReceipt =
  cr_id :: uuid
  cr_channel :: ContributionSourceChannel
  cr_external :: "string option"
  cr_checkout :: "string option"
  cr_internal :: "string option"
  cr_key :: "string option"
  cr_session :: pg_uuid
  cr_member :: uuid
  cr_branch :: int
  cr_period :: date
  cr_amount :: int
  cr_plan :: "allocationPlanItem list"
  cr_status :: ContributionReceiptStatus
  cr_failure :: "error option"
  cr_received_by :: pg_uuid
  cr_received_at :: timestamptz
  cr_deleted :: bool
  cr_created :: timestamptz
  cr_updated :: timestamptz
  cr_snapshot :: "ContributionLoanSummary list option"

record ContributionAllocation =
  al_id :: uuid
  al_receipt :: uuid
  al_type :: ContributionAllocationType
  al_target :: pg_uuid
  al_amount :: int
  al_status :: ContributionAllocationStatus
  al_reference :: pg_uuid
  al_external :: "string option"
  al_created :: timestamptz
  al_updated :: timestamptz

record ContributionMonthlyFee =
  mf_member :: uuid
  mf_period :: date
  mf_type :: ContributionAllocationType
  mf_amount :: int
  mf_created :: timestamptz

record ContributionCharge =
  ch_id :: uuid
  ch_key :: string
  ch_member :: uuid
  ch_branch :: int
  ch_category :: string
  ch_amount :: int
  ch_reason :: string
  ch_created_by :: uuid
  ch_created :: timestamptz

record CashierSession =
  ses_id :: uuid
  ses_branch :: int
  ses_cashier :: uuid
  ses_status :: CashierSessionStatus
  ses_expected :: "int option"
  ses_counted :: "int option"
  ses_variance :: "int option"
  ses_reason :: "string option"
  ses_opened :: timestamptz
  ses_closed_at :: "timestamptz option"
  ses_closed_by :: pg_uuid
  ses_handed_at :: "timestamptz option"
  ses_handed_to :: pg_uuid
  ses_deposited :: "timestamptz option"
  ses_updated :: timestamptz

record CashDeposit =
  cd_id :: uuid
  cd_branch :: int
  cd_amount :: int
  cd_bank_reference :: string
  cd_status :: CashDepositStatus
  cd_recorded_by :: uuid
  cd_recorded_at :: timestamptz
  cd_verified_by :: pg_uuid
  cd_verified_at :: "timestamptz option"
  cd_updated :: timestamptz

record contribution_db = loan_db +
  contribution_receipts :: "ContributionReceipt list"
  contribution_allocations :: "ContributionAllocation list"
  contribution_monthly_fees :: "ContributionMonthlyFee list"
  contribution_charges :: "ContributionCharge list"
  cashier_sessions :: "CashierSession list"
  cash_deposits :: "CashDeposit list"
  cash_deposit_sessions :: "(uuid \<times> uuid) list"

section \<open>Receipts\<close>

record InsertContributionReceiptParams =
  ir_channel :: ContributionSourceChannel
  ir_external :: "string option"
  ir_checkout :: "string option"
  ir_internal :: "string option"
  ir_key :: "string option"
  ir_session :: pg_uuid
  ir_member :: pg_uuid
  ir_branch :: int
  ir_period :: "date option"
  ir_amount :: numeric
  ir_plan :: "allocationPlanItem list"
  ir_received_by :: pg_uuid
  ir_received_at :: "timestamptz option"

definition not_blank :: "string option \<Rightarrow> bool" where
  "not_blank t \<longleftrightarrow> (case t of None \<Rightarrow> True | Some v \<Rightarrow> btrim v \<noteq> [])"

definition receipt_check :: "ContributionReceipt \<Rightarrow> bool" where
  "receipt_check r \<longleftrightarrow> cr_amount r > 0 \<and> not_blank (cr_external r) \<and> not_blank (cr_checkout r) \<and> not_blank (cr_internal r)
     \<and> not_blank (cr_key r) \<and> (cr_channel r = CashChannel \<longrightarrow> cr_internal r \<noteq> None \<and> cr_key r \<noteq> None \<and> cr_session r \<noteq> None
        \<and> cr_received_by r \<noteq> None \<and> cr_external r = None \<and> cr_checkout r = None)"

definition same_key :: "'a option \<Rightarrow> 'a option \<Rightarrow> bool" where
  "same_key a b \<longleftrightarrow> a \<noteq> None \<and> a = b"

definition receipt_conflict :: "ContributionReceipt \<Rightarrow> ContributionReceipt \<Rightarrow> bool" where
  "receipt_conflict r q \<longleftrightarrow> cr_id q = cr_id r \<or> same_key (cr_external r) (cr_external q) \<or> same_key (cr_checkout r) (cr_checkout q)
     \<or> same_key (cr_internal r) (cr_internal q) \<or> same_key (cr_key r) (cr_key q)"

definition q_InsertContributionReceipt ::
    "env \<Rightarrow> InsertContributionReceiptParams \<Rightarrow> ('s contribution_db_scheme, error, ContributionReceipt option) tx" where
  [query_defs]: "q_InsertContributionReceipt v p = tx_bind (lift_db (store_numeric (ir_amount p))) (\<lambda>amt.
     case (ir_member p, ir_period p, ir_received_at p) of (Some m, Some d, Some at) \<Rightarrow>
       let r = \<lparr>cr_id = env_uuid v 0, cr_channel = ir_channel p, cr_external = ir_external p, cr_checkout = ir_checkout p,
                cr_internal = ir_internal p, cr_key = ir_key p, cr_session = ir_session p, cr_member = m, cr_branch = ir_branch p,
                cr_period = d, cr_amount = amt, cr_plan = ir_plan p, cr_status = ReceiptPending, cr_failure = None,
                cr_received_by = ir_received_by p, cr_received_at = at, cr_deleted = False, cr_created = env_now v,
                cr_updated = env_now v, cr_snapshot = None\<rparr>
       in tx_bind (db_check (receipt_check r)) (\<lambda>_ s.
         if \<exists>q\<in>set (contribution_receipts s). receipt_conflict r q then Inr (None, s)
         else Inr (Some r, s\<lparr>contribution_receipts := contribution_receipts s @ [r]\<rparr>))
     | _ \<Rightarrow> throw (DbE NotNullViolation))"

definition live_receipt :: "(ContributionReceipt \<Rightarrow> bool) \<Rightarrow> 's contribution_db_scheme \<Rightarrow> ContributionReceipt option" where
  "live_receipt P s = find (\<lambda>r. P r \<and> \<not> cr_deleted r) (contribution_receipts s)"

definition q_GetContributionReceiptByID :: "uuid \<Rightarrow> ('s contribution_db_scheme, error, ContributionReceipt option) tx" where
  [query_defs]: "q_GetContributionReceiptByID i = gets (live_receipt (\<lambda>r. cr_id r = i))"

definition q_GetContributionReceiptByExternalTransactionID ::
    "string \<Rightarrow> ('s contribution_db_scheme, error, ContributionReceipt option) tx" where
  [query_defs]: "q_GetContributionReceiptByExternalTransactionID t = gets (live_receipt (\<lambda>r. cr_external r = Some t))"

definition q_GetContributionReceiptByCheckoutRequestID ::
    "string \<Rightarrow> ('s contribution_db_scheme, error, ContributionReceipt option) tx" where
  [query_defs]: "q_GetContributionReceiptByCheckoutRequestID t = gets (live_receipt (\<lambda>r. cr_checkout r = Some t))"

definition q_GetContributionReceiptByIdempotencyKey ::
    "string \<Rightarrow> ('s contribution_db_scheme, error, ContributionReceipt option) tx" where
  [query_defs]: "q_GetContributionReceiptByIdempotencyKey t = gets (live_receipt (\<lambda>r. cr_key r = Some t))"

definition q_LockContributionReceiptByID :: "uuid \<Rightarrow> ('s contribution_db_scheme, error, ContributionReceipt option) tx" where
  [query_defs]: "q_LockContributionReceiptByID i = gets (live_receipt (\<lambda>r. cr_id r = i))"

definition update_receipt ::
    "(ContributionReceipt \<Rightarrow> bool) \<Rightarrow> (ContributionReceipt \<Rightarrow> ContributionReceipt)
     \<Rightarrow> ('s contribution_db_scheme, error, ContributionReceipt option) tx" where
  "update_receipt P f = (\<lambda>s. case find P (contribution_receipts s) of None \<Rightarrow> Inr (None, s)
     | Some r \<Rightarrow> Inr (Some (f r), s\<lparr>contribution_receipts := map (\<lambda>q. if cr_id q = cr_id r then f q else q) (contribution_receipts s)\<rparr>))"

definition q_UpdateContributionReceiptStatus ::
    "env \<Rightarrow> uuid \<Rightarrow> ContributionReceiptStatus \<Rightarrow> error option \<Rightarrow> ('s contribution_db_scheme, error, ContributionReceipt option) tx" where
  [query_defs]: "q_UpdateContributionReceiptStatus v i st failure = update_receipt (\<lambda>r. cr_id r = i \<and> \<not> cr_deleted r)
     (\<lambda>r. r\<lparr>cr_status := st, cr_failure := failure, cr_updated := env_now v\<rparr>)"

definition q_SaveContributionLoanSnapshot ::
    "uuid \<Rightarrow> ContributionLoanSummary list \<Rightarrow> ('s contribution_db_scheme, error, ContributionReceipt option) tx" where
  [query_defs]: "q_SaveContributionLoanSnapshot i snapshot = update_receipt
     (\<lambda>r. cr_id r = i \<and> cr_snapshot r = None \<and> cr_status r = ReceiptProcessing) (\<lambda>r. r\<lparr>cr_snapshot := Some snapshot\<rparr>)"

section \<open>Allocations\<close>

definition allocation_conflict :: "ContributionAllocation \<Rightarrow> ContributionAllocation \<Rightarrow> bool" where
  "allocation_conflict a q \<longleftrightarrow> al_id q = al_id a \<or> (al_receipt q = al_receipt a \<and> al_type q = al_type a \<and> al_target q = al_target a)"

text \<open>\<open>n\<close> numbers the identifiers that the transaction has drawn.\<close>

definition q_InsertContributionAllocation ::
    "env \<Rightarrow> nat \<Rightarrow> uuid \<Rightarrow> ContributionAllocationType \<Rightarrow> pg_uuid \<Rightarrow> numeric
     \<Rightarrow> ('s contribution_db_scheme, error, ContributionAllocation option) tx" where
  [query_defs]: "q_InsertContributionAllocation v n receipt ty target amount = tx_bind (lift_db (store_numeric amount)) (\<lambda>amt.
     let a = \<lparr>al_id = env_uuid v n, al_receipt = receipt, al_type = ty, al_target = target, al_amount = amt,
              al_status = AllocationPending, al_reference = None, al_external = None, al_created = env_now v, al_updated = env_now v\<rparr>
     in tx_bind (db_check (amt > 0)) (\<lambda>_ s.
       if \<exists>q\<in>set (contribution_allocations s). allocation_conflict a q then Inr (None, s)
       else Inr (Some a, s\<lparr>contribution_allocations := contribution_allocations s @ [a]\<rparr>)))"

definition allocations_of :: "uuid \<Rightarrow> 's contribution_db_scheme \<Rightarrow> ContributionAllocation list" where
  "allocations_of i s = sort_key (\<lambda>a. (al_created a, al_id a)) (filter (\<lambda>a. al_receipt a = i) (contribution_allocations s))"

definition q_ListContributionAllocationsByReceipt ::
    "uuid \<Rightarrow> ('s contribution_db_scheme, error, ContributionAllocation list) tx" where
  [query_defs]: "q_ListContributionAllocationsByReceipt i = gets (allocations_of i)"

definition q_LockContributionAllocationsByReceipt ::
    "uuid \<Rightarrow> ('s contribution_db_scheme, error, ContributionAllocation list) tx" where
  [query_defs]: "q_LockContributionAllocationsByReceipt i = gets (allocations_of i)"

definition complete_allocation :: "env \<Rightarrow> pg_uuid \<Rightarrow> string option \<Rightarrow> ContributionAllocation \<Rightarrow> ContributionAllocation" where
  "complete_allocation v ref ext a = a\<lparr>al_status := AllocationCompleted, al_reference := ref, al_external := ext, al_updated := env_now v\<rparr>"

definition q_UpdateContributionAllocationCompleted ::
    "env \<Rightarrow> uuid \<Rightarrow> pg_uuid \<Rightarrow> string option \<Rightarrow> ('s contribution_db_scheme, error, ContributionAllocation option) tx" where
  [query_defs]: "q_UpdateContributionAllocationCompleted v i ref ext = (\<lambda>s.
     case find (\<lambda>a. al_id a = i) (contribution_allocations s) of None \<Rightarrow> Inr (None, s)
     | Some a \<Rightarrow> if \<not> not_blank ext then Inl (DbE CheckViolation)
         else Inr (Some (complete_allocation v ref ext a), s\<lparr>contribution_allocations :=
           map (\<lambda>q. if al_id q = i then complete_allocation v ref ext q else q) (contribution_allocations s)\<rparr>))"

section \<open>Monthly fees\<close>

text \<open>\<open>period::timestamp AT TIME ZONE 'Africa/Nairobi'\<close>.\<close>

definition eat_midnight :: "date \<Rightarrow> timestamptz" where
  "eat_midnight d = d * 86400000000 - 10800000000"

definition later_change :: "status_change \<Rightarrow> status_change option \<Rightarrow> status_change option" where
  "later_change c best = (case best of None \<Rightarrow> Some c | Some d \<Rightarrow> if sc_created d \<le> sc_created c then Some c else Some d)"

definition earlier_change :: "status_change \<Rightarrow> status_change option \<Rightarrow> status_change option" where
  "earlier_change c best = (case best of None \<Rightarrow> Some c | Some d \<Rightarrow> if sc_created c < sc_created d then Some c else Some d)"

text \<open>The status that a member had at the start of a month, from the recorded changes; without one,
  from the first change after it, and without any the present one.\<close>

definition status_at :: "timestamptz \<Rightarrow> member_row \<Rightarrow> status_change list \<Rightarrow> string" where
  "status_at t m h = (case fold later_change (filter (\<lambda>c. sc_created c \<le> t) h) None of Some c \<Rightarrow> sc_to c
     | None \<Rightarrow> (case (case fold earlier_change (filter (\<lambda>c. sc_created c > t) h) None of None \<Rightarrow> None | Some c \<Rightarrow> sc_from c) of
         Some st \<Rightarrow> st | None \<Rightarrow> mem_status m))"

definition fee_eligible :: "ext \<Rightarrow> date \<Rightarrow> member_row \<Rightarrow> status_change list \<Rightarrow> bool" where
  "fee_eligible x p m hist \<longleftrightarrow> (let h = filter (\<lambda>c. sc_member c = mem_id m) hist in
     \<not> mem_deleted m \<and> mem_created m < AddDate_months p 1 * 86400000000 - ext_db_zone x
     \<and> (status_at (eat_midnight p) m h = ''active''
        \<or> (\<exists>c\<in>set h. sc_to c = ''active'' \<and> eat_midnight p \<le> sc_created c \<and> sc_created c < eat_midnight (AddDate_months p 1))))"

definition insert_fee :: "env \<Rightarrow> uuid \<Rightarrow> date \<Rightarrow> ContributionAllocationType \<Rightarrow> ContributionMonthlyFee list \<Rightarrow> ContributionMonthlyFee list" where
  "insert_fee v m p ty fees = (if \<exists>f\<in>set fees. mf_member f = m \<and> mf_period f = p \<and> mf_type f = ty then fees
     else fees @ [\<lparr>mf_member = m, mf_period = p, mf_type = ty, mf_amount = 300000, mf_created = env_now v\<rparr>])"

definition q_AssessMonthlyFees :: "ext \<Rightarrow> env \<Rightarrow> pg_uuid \<Rightarrow> date \<Rightarrow> ('s contribution_db_scheme, error, unit) tx" where
  [query_defs]: "q_AssessMonthlyFees x v m p = modify (\<lambda>s.
     case find (\<lambda>r. Some (mem_id r) = m) (members s) of None \<Rightarrow> s
     | Some r \<Rightarrow> if fee_eligible x p r (member_status_history s)
         then s\<lparr>contribution_monthly_fees := insert_fee v (mem_id r) p Lgom (insert_fee v (mem_id r) p Com (contribution_monthly_fees s))\<rparr>
         else s)"

definition q_LockMonthlyFees :: "pg_uuid \<Rightarrow> date \<Rightarrow> ('s contribution_db_scheme, error, ContributionMonthlyFee list) tx" where
  [query_defs]: "q_LockMonthlyFees m p = gets (\<lambda>s.
     let fees = filter (\<lambda>f. Some (mf_member f) = m \<and> mf_period f = p) (contribution_monthly_fees s)
     in filter (\<lambda>f. mf_type f = Com) fees @ filter (\<lambda>f. mf_type f = Lgom) fees)"

definition fee_payment :: "pg_uuid \<Rightarrow> date \<Rightarrow> pg_uuid \<Rightarrow> ContributionReceipt list \<Rightarrow> ContributionAllocation \<Rightarrow> bool" where
  "fee_payment m p excluded receipts a \<longleftrightarrow> al_status a = AllocationCompleted \<and> (\<exists>r\<in>set receipts. cr_id r = al_receipt a
     \<and> Some (cr_member r) = m \<and> p \<le> cr_period r \<and> cr_period r < AddDate_months p 1 \<and> Some (cr_id r) \<noteq> excluded)"

definition fee_paid :: "pg_uuid \<Rightarrow> date \<Rightarrow> pg_uuid \<Rightarrow> ContributionAllocationType \<Rightarrow> 's contribution_db_scheme \<Rightarrow> int" where
  "fee_paid m p excluded ty s = sum_where (\<lambda>a. al_type a = ty \<and> fee_payment m p excluded (contribution_receipts s) a) al_amount
     (contribution_allocations s)"

definition q_SumMonthlyFeePaymentsByType ::
    "pg_uuid \<Rightarrow> date \<Rightarrow> pg_uuid \<Rightarrow> ('s contribution_db_scheme, error, (ContributionAllocationType \<times> numeric) list) tx" where
  [query_defs]: "q_SumMonthlyFeePaymentsByType m p excluded = gets (\<lambda>s.
     map (\<lambda>ty. (ty, db_num (fee_paid m p excluded ty s)))
       (filter (\<lambda>ty. \<exists>a\<in>set (contribution_allocations s). al_type a = ty \<and> fee_payment m p excluded (contribution_receipts s) a) [Com, Lgom]))"

section \<open>Charges\<close>

record CreateContributionChargeParams =
  cc_key :: string
  cc_member :: pg_uuid
  cc_branch :: int
  cc_category :: string
  cc_amount :: numeric
  cc_reason :: string
  cc_created_by :: pg_uuid

definition charge_categories :: "string list" where
  "charge_categories = [''literature'', ''caritas_registration'', ''lsf'', ''laptop'', ''penalty'', ''other'']"

definition q_CreateContributionCharge ::
    "env \<Rightarrow> CreateContributionChargeParams \<Rightarrow> ('s contribution_db_scheme, error, ContributionCharge option) tx" where
  [query_defs]: "q_CreateContributionCharge v p = tx_bind (gets (\<lambda>s.
       find (\<lambda>r. Some (mem_id r) = cc_member p \<and> mem_branch r = cc_branch p \<and> \<not> mem_deleted r) (members s))) (\<lambda>m.
     case m of None \<Rightarrow> ret None
     | Some m \<Rightarrow> tx_bind (lift_db (store_numeric (cc_amount p))) (\<lambda>amt.
       case cc_created_by p of None \<Rightarrow> throw (DbE NotNullViolation)
       | Some by \<Rightarrow>
         let c = \<lparr>ch_id = env_uuid v 0, ch_key = cc_key p, ch_member = mem_id m, ch_branch = mem_branch m, ch_category = cc_category p,
                  ch_amount = amt, ch_reason = cc_reason p, ch_created_by = by, ch_created = env_now v\<rparr>
         in tx_bind (db_check (btrim (ch_key c) \<noteq> [] \<and> ch_category c \<in> set charge_categories \<and> amt > 0 \<and> btrim (ch_reason c) \<noteq> [])) (\<lambda>_ s.
           if \<exists>q\<in>set (contribution_charges s). ch_id q = ch_id c \<or> ch_key q = ch_key c then Inr (None, s)
           else Inr (Some c, s\<lparr>contribution_charges := contribution_charges s @ [c]\<rparr>))))"

definition q_GetContributionChargeByKey :: "string \<Rightarrow> ('s contribution_db_scheme, error, ContributionCharge option) tx" where
  [query_defs]: "q_GetContributionChargeByKey k = gets (\<lambda>s. find (\<lambda>c. ch_key c = k) (contribution_charges s))"

definition q_LockContributionCharges :: "uuid list \<Rightarrow> ('s contribution_db_scheme, error, ContributionCharge list) tx" where
  [query_defs]: "q_LockContributionCharges ids = gets (\<lambda>s. sort_key ch_id (filter (\<lambda>c. ch_id c \<in> set ids) (contribution_charges s)))"

definition charge_payment :: "uuid \<Rightarrow> pg_uuid \<Rightarrow> ContributionAllocation \<Rightarrow> bool" where
  "charge_payment i excluded a \<longleftrightarrow> al_target a = Some i \<and> (al_type a = OtherCharge \<or> al_type a = PenaltyCharge)
     \<and> al_status a = AllocationCompleted \<and> Some (al_receipt a) \<noteq> excluded"

definition charge_paid :: "uuid \<Rightarrow> pg_uuid \<Rightarrow> 's contribution_db_scheme \<Rightarrow> int" where
  "charge_paid i excluded s = sum_where (charge_payment i excluded) al_amount (contribution_allocations s)"

definition q_SumContributionChargePaymentsByID ::
    "uuid list \<Rightarrow> pg_uuid \<Rightarrow> ('s contribution_db_scheme, error, (uuid \<times> numeric) list) tx" where
  [query_defs]: "q_SumContributionChargePaymentsByID ids excluded = gets (\<lambda>s.
     map (\<lambda>i. (i, db_num (charge_paid i excluded s)))
       (filter (\<lambda>i. \<exists>a\<in>set (contribution_allocations s). charge_payment i excluded a) (remdups ids)))"

end
