(* ===== verification/Contribution.thy ===== *)
theory Contribution
  imports Contribution_Store
begin

text \<open>
  Package \<open>contribution\<close>: a receipt records money received from a member with the plan of what it is
  for, membership fees, charges, shares and loan payments; processing it posts every part to its
  ledger in one transaction, or none of them. \<open>fees.go\<close>, \<open>charges.go\<close>, the plan functions of
  \<open>daraja.go\<close>, and \<open>service.go\<close>.

  Two allocations have the same key (\<open>allocationKey\<close>, a text) when type and target agree, so the pair
  stands for the text. The owning services are configured.
\<close>

record AllocationInput =
  ai_type :: ContributionAllocationType
  ai_target :: pg_uuid
  ai_amount :: numeric
  ai_label :: string

definition units :: "AllocationInput \<Rightarrow> int" where
  "units a = numericToScale (ai_amount a) (-4)"

definition throw_ce :: "contribution_error \<Rightarrow> ('s, error, 'a) tx" where
  "throw_ce e = throw (ContributionE e)"

definition lift_ce :: "contribution_error + 'a \<Rightarrow> ('s, error, 'a) tx" where
  "lift_ce r = (case r of Inl e \<Rightarrow> throw_ce e | Inr y \<Rightarrow> ret y)"

definition check_ce :: "contribution_error option \<Rightarrow> ('s, error, unit) tx" where
  "check_ce r = (case r of Some e \<Rightarrow> throw_ce e | None \<Rightarrow> ret ())"

section \<open>Allocation plans\<close>

text \<open>\<open>big.Rat.SetFrac(n, 10000).FloatString(4)\<close>.\<close>

definition FloatString4 :: "int \<Rightarrow> string" where
  "FloatString4 n = (if n < 0 then ''-'' else []) @ show_nat (nat (\<bar>n\<bar> div 10000)) @ ''.''
     @ pad_left 4 (show_nat (nat (\<bar>n\<bar> mod 10000)))"

definition buildAllocationPlan :: "ext \<Rightarrow> AllocationInput list \<Rightarrow> allocationPlanItem list" where
  "buildAllocationPlan x allocations = map (\<lambda>a. \<lparr>pi_type = ai_type a, pi_label = ai_label a,
     pi_target = (case ai_target a of None \<Rightarrow> [] | Some t \<Rightarrow> ext_uuid_text x t),
     pi_amount = FloatString4 (units a)\<rparr>) allocations"

fun parseItems :: "ext \<Rightarrow> allocationPlanItem list \<Rightarrow> contribution_error + AllocationInput list" where
  "parseItems x [] = Inr []"
| "parseItems x (item # items) =
     (case ext_scan x (TrimSpace (pi_amount item)) of None \<Rightarrow> Inl ErrInvalidAllocation
      | Some amount \<Rightarrow>
        let target = TrimSpace (pi_target item) in
        if target \<noteq> [] \<and> ext_uuid_scan x target = None then Inl ErrInvalidAllocation
        else case parseItems x items of Inl e \<Rightarrow> Inl e
          | Inr rest \<Rightarrow> Inr (\<lparr>ai_type = pi_type item, ai_target = (if target = [] then None else ext_uuid_scan x target),
              ai_amount = amount, ai_label = pi_label item\<rparr> # rest))"

definition parseAllocationPlan :: "ext \<Rightarrow> allocationPlanItem list \<Rightarrow> contribution_error + AllocationInput list" where
  "parseAllocationPlan x plan = (if plan = [] then Inl ErrAllocationRequired else parseItems x plan)"

section \<open>Fees\<close>

definition monthlyFees ::
    "ext \<Rightarrow> env \<Rightarrow> timestamptz \<Rightarrow> pg_uuid \<Rightarrow> date option \<Rightarrow> pg_uuid \<Rightarrow> ('s contribution_db_scheme, error, AllocationInput list) tx" where
  "monthlyFees x v clock memberID period excludeReceipt = (case period of None \<Rightarrow> throw_ce ErrInvalidPayment
     | Some day \<Rightarrow>
       let period = month_start day in
       if period > month_start (eat_date clock) then throw_ce ErrInvalidPayment
       else tx_bind (q_AssessMonthlyFees x v memberID period) (\<lambda>_.
         tx_bind (q_LockMonthlyFees memberID period) (\<lambda>fees.
         tx_bind (q_SumMonthlyFeePaymentsByType memberID period excludeReceipt) (\<lambda>payments.
         ret (concat (map (\<lambda>fee.
           let due = numericToScale (db_num (mf_amount fee)) (-4)
               - (case map_of payments (mf_type fee) of None \<Rightarrow> 0 | Some q \<Rightarrow> numericToScale q (-4))
           in if due > 0 then [\<lparr>ai_type = mf_type fee, ai_target = None, ai_amount = numericFromScale due, ai_label = []\<rparr>] else []) fees))))))"

definition is_fee :: "ContributionAllocationType \<Rightarrow> bool" where
  "is_fee ty \<longleftrightarrow> ty = Com \<or> ty = Lgom"

definition is_loan :: "ContributionAllocationType \<Rightarrow> bool" where
  "is_loan ty \<longleftrightarrow> ty = LoanPrincipal \<or> ty = LoanInterest"

text \<open>The loop of \<open>calculatedAllocations\<close>: \<open>acc\<close> is \<open>result\<close>, \<open>loans\<close> maps a loan to its position in it.\<close>

fun calculateLoop ::
    "AllocationInput list \<Rightarrow> AllocationInput list \<Rightarrow> (ContributionAllocationType \<times> pg_uuid) list \<Rightarrow> (uuid \<times> nat) list
     \<Rightarrow> AllocationInput list \<Rightarrow> contribution_error + AllocationInput list" where
  "calculateLoop fees acc seen ls [] = Inr (acc @ fees)"
| "calculateLoop fees acc seen ls (item # items) =
     (if \<not> positive (ai_amount item) then Inl ErrInvalidAllocation
      else let key = (ai_type item, ai_target item) in
      if key \<in> set seen then Inl ErrDuplicateAllocation
      else if is_fee (ai_type item) then
        (if ai_target item \<noteq> None then Inl ErrInvalidAllocation
         else if \<exists>fee\<in>set fees. ai_type fee = ai_type item \<and> units fee = units item
         then calculateLoop fees acc (key # seen) ls items else Inl ErrMembershipFeeMismatch)
      else if is_loan (ai_type item) then
        (case ai_target item of None \<Rightarrow> Inl ErrInvalidAllocation
         | Some t \<Rightarrow> (case map_of ls t of
             Some i \<Rightarrow> calculateLoop fees (acc[i := (acc ! i)\<lparr>ai_amount := numericFromScale (units (acc ! i) + units item)\<rparr>])
                (key # seen) ls items
           | None \<Rightarrow> calculateLoop fees (acc @ [item\<lparr>ai_type := LoanPrincipal\<rparr>]) (key # seen) ((t, length acc) # ls) items))
      else calculateLoop fees (acc @ [item]) (key # seen) ls items)"

definition calculatedAllocations :: "AllocationInput list \<Rightarrow> AllocationInput list \<Rightarrow> contribution_error + AllocationInput list" where
  "calculatedAllocations input fees = calculateLoop fees [] [] [] input"

definition allocationsForRetry :: "ext \<Rightarrow> AllocationInput list \<Rightarrow> allocationPlanItem list \<Rightarrow> contribution_error + AllocationInput list" where
  "allocationsForRetry x input plan = (case parseAllocationPlan x plan of Inl e \<Rightarrow> Inl e
     | Inr stored \<Rightarrow> calculatedAllocations input (filter (\<lambda>a. is_fee (ai_type a)) stored))"

section \<open>Charges\<close>

text \<open>More than four decimals that are not zero.\<close>

definition too_precise :: "numeric \<Rightarrow> bool" where
  "too_precise n \<longleftrightarrow> n_exp n < -4 \<and> big_mod (the (n_int n)) (pow10 (-4 - n_exp n)) \<noteq> 0"

definition CreateCharge :: "env \<Rightarrow> CreateContributionChargeParams \<Rightarrow> ('s contribution_db_scheme, error, ContributionCharge) tx" where
  "CreateCharge v params =
     (let params = params\<lparr>cc_key := TrimSpace (cc_key params), cc_reason := TrimSpace (cc_reason params)\<rparr> in
      if cc_key params = [] \<or> cc_reason params = [] \<or> cc_member params = None \<or> cc_created_by params = None
         \<or> cc_branch params \<le> 0 \<or> \<not> positive (cc_amount params) then throw_ce ErrInvalidCharge
      else let scaled = numericToScale (cc_amount params) (-4) in
      if length (show_int scaled) > 19 \<or> too_precise (cc_amount params) then throw_ce ErrInvalidCharge
      else if cc_category params \<notin> set charge_categories then throw_ce ErrInvalidCharge
      else tx_bind (q_CreateContributionCharge v params) (\<lambda>row.
        case row of Some c \<Rightarrow> ret c
        | None \<Rightarrow> tx_bind (q_GetContributionChargeByKey (cc_key params)) (\<lambda>row.
            case row of None \<Rightarrow> throw_ce ErrInvalidCharge
            | Some c \<Rightarrow>
              if Some (ch_member c) \<noteq> cc_member params \<or> ch_branch c \<noteq> cc_branch params \<or> ch_category c \<noteq> cc_category params
                 \<or> ch_reason c \<noteq> cc_reason params \<or> numericToScale (db_num (ch_amount c)) (-4) \<noteq> scaled
              then throw_ce ErrChargeConflict else ret c)))"

definition is_charge :: "ContributionAllocationType \<Rightarrow> bool" where
  "is_charge ty \<longleftrightarrow> ty = OtherCharge \<or> ty = PenaltyCharge"

fun chargePayments ::
    "(uuid \<times> AllocationInput) list \<Rightarrow> AllocationInput list \<Rightarrow> contribution_error + (uuid \<times> AllocationInput) list" where
  "chargePayments payments [] = Inr payments"
| "chargePayments payments (item # items) =
     (if \<not> is_charge (ai_type item) then chargePayments payments items
      else case ai_target item of None \<Rightarrow> Inl ErrInvalidAllocation
      | Some t \<Rightarrow>
        if \<not> positive (ai_amount item) then Inl ErrInvalidAllocation
        else if map_of payments t \<noteq> None then Inl ErrDuplicateAllocation
        else if too_precise (ai_amount item) then Inl ErrInvalidAllocation
        else chargePayments (payments @ [(t, item)]) items)"

fun checkCharges ::
    "pg_uuid \<Rightarrow> int \<Rightarrow> (uuid \<times> AllocationInput) list \<Rightarrow> (uuid \<times> numeric) list \<Rightarrow> ContributionCharge list \<Rightarrow> contribution_error option" where
  "checkCharges memberID branchID payments paidByID [] = None"
| "checkCharges memberID branchID payments paidByID (charge # charges) =
     (let item = the (map_of payments (ch_id charge)) in
      if Some (ch_member charge) \<noteq> memberID \<or> ch_branch charge \<noteq> branchID
         \<or> (ch_category charge = ''penalty'') \<noteq> (ai_type item = PenaltyCharge) then Some ErrInvalidCharge
      else let outstanding = numericToScale (db_num (ch_amount charge)) (-4)
             - (case map_of paidByID (ch_id charge) of None \<Rightarrow> 0 | Some q \<Rightarrow> numericToScale q (-4))
        in if units item > outstanding then Some ErrChargeOverpayment
           else checkCharges memberID branchID payments paidByID charges)"

definition validateChargeAllocations ::
    "pg_uuid \<Rightarrow> int \<Rightarrow> AllocationInput list \<Rightarrow> pg_uuid \<Rightarrow> ('s contribution_db_scheme, error, unit) tx" where
  "validateChargeAllocations memberID branchID allocations excludeReceipt =
     tx_bind (lift_ce (chargePayments [] allocations)) (\<lambda>payments.
     let ids = map fst payments in
     if ids = [] then ret ()
     else tx_bind (q_LockContributionCharges ids) (\<lambda>charges.
       if length charges \<noteq> length ids then throw_ce ErrInvalidCharge
       else tx_bind (q_SumContributionChargePaymentsByID ids excludeReceipt) (\<lambda>paidRows.
         check_ce (checkCharges memberID branchID payments paidRows charges))))"

section \<open>Receipts\<close>

definition existingReceipt ::
    "InsertContributionReceiptParams \<Rightarrow> ('s contribution_db_scheme, error, ContributionReceipt option) tx" where
  "existingReceipt params =
     tx_bind (case ir_key params of None \<Rightarrow> ret None | Some k \<Rightarrow> q_GetContributionReceiptByIdempotencyKey k) (\<lambda>a.
     case a of Some r \<Rightarrow> ret (Some r)
     | None \<Rightarrow> tx_bind (case ir_external params of None \<Rightarrow> ret None | Some t \<Rightarrow> q_GetContributionReceiptByExternalTransactionID t) (\<lambda>b.
       case b of Some r \<Rightarrow> ret (Some r)
       | None \<Rightarrow> (case ir_checkout params of None \<Rightarrow> ret None | Some t \<Rightarrow> q_GetContributionReceiptByCheckoutRequestID t)))"

definition has_reference :: "string option \<Rightarrow> bool" where
  "has_reference t \<longleftrightarrow> (case t of None \<Rightarrow> False | Some r \<Rightarrow> TrimSpace r \<noteq> [])"

definition needs_target :: "ContributionAllocationType \<Rightarrow> bool" where
  "needs_target ty \<longleftrightarrow> \<not> is_fee ty"

fun validateAllocations ::
    "(ContributionAllocationType \<times> pg_uuid) list \<Rightarrow> int \<Rightarrow> AllocationInput list \<Rightarrow> contribution_error + int" where
  "validateAllocations seen tot [] = Inr tot"
| "validateAllocations seen tot (a # as) =
     (if \<not> positive (ai_amount a) then Inl ErrInvalidAllocation
      else if (ai_type a, ai_target a) \<in> set seen then Inl ErrDuplicateAllocation
      else if needs_target (ai_type a) \<and> ai_target a = None then Inl ErrInvalidAllocation
      else validateAllocations ((ai_type a, ai_target a) # seen) (tot + units a) as)"

definition validateReceipt :: "InsertContributionReceiptParams \<Rightarrow> AllocationInput list \<Rightarrow> contribution_error option" where
  "validateReceipt params allocations =
     (if \<not> positive (ir_amount params) then Some ErrInvalidReceiptAmount
      else if allocations = [] then Some ErrAllocationRequired
      else if \<not> (has_reference (ir_external params) \<or> has_reference (ir_checkout params) \<or> has_reference (ir_internal params))
      then Some ErrReceiptReferenceRequired
      else case validateAllocations [] 0 allocations of Inl e \<Rightarrow> Some e
        | Inr tot \<Rightarrow> if tot \<noteq> numericToScale (ir_amount params) (-4) then Some ErrAllocationTotalMismatch else None)"

definition verifyAllocationsMatch :: "AllocationInput list \<Rightarrow> ContributionAllocation list \<Rightarrow> contribution_error option" where
  "verifyAllocationsMatch expected actual =
     (let actualAmounts = map (\<lambda>a. ((al_type a, al_target a), numericToScale (db_num (al_amount a)) (-4))) actual in
      if length expected \<noteq> length actual then Some ErrInconsistentReceipt
      else if \<not> distinct (map fst actualAmounts) then Some ErrInconsistentReceipt
      else if \<not> distinct (map (\<lambda>e. (ai_type e, ai_target e)) expected) then Some ErrInconsistentReceipt
      else if list_all (\<lambda>e. map_of actualAmounts (ai_type e, ai_target e) = Some (units e)) expected then None
      else Some ErrInconsistentReceipt)"

type_synonym CreatedReceipt = "ContributionReceipt \<times> ContributionAllocation list"

fun insertAllocations ::
    "env \<Rightarrow> uuid \<Rightarrow> nat \<Rightarrow> AllocationInput list \<Rightarrow> ('s contribution_db_scheme, error, ContributionAllocation list) tx" where
  "insertAllocations v receiptID n [] = ret []"
| "insertAllocations v receiptID n (a # as) =
     tx_bind (q_InsertContributionAllocation v n receiptID (ai_type a) (ai_target a) (ai_amount a)) (\<lambda>row.
     case row of None \<Rightarrow> throw_ce ErrInconsistentReceipt
     | Some row \<Rightarrow> tx_bind (insertAllocations v receiptID (Suc n) as) (\<lambda>rows. ret (row # rows)))"

definition createReceipt ::
    "env \<Rightarrow> InsertContributionReceiptParams \<Rightarrow> AllocationInput list \<Rightarrow> ('s contribution_db_scheme, error, CreatedReceipt) tx" where
  "createReceipt v params allocations = tx_bind (q_InsertContributionReceipt v params) (\<lambda>inserted.
     case inserted of
       Some receipt \<Rightarrow> tx_bind (insertAllocations v (cr_id receipt) 1 allocations) (\<lambda>rows. ret (receipt, rows))
     | None \<Rightarrow> tx_bind (or_error (ContributionE ErrReceiptNotFound) (existingReceipt params)) (\<lambda>receipt.
         tx_bind (q_ListContributionAllocationsByReceipt (cr_id receipt)) (\<lambda>rows.
         tx_bind (check_ce (verifyAllocationsMatch allocations rows)) (\<lambda>_. ret (receipt, rows)))))"

definition target_text :: "ext \<Rightarrow> pg_uuid \<Rightarrow> string" where
  "target_text x t = (case t of None \<Rightarrow> [] | Some i \<Rightarrow> ext_uuid_text x i)"

fun checkMinimums ::
    "ext \<Rightarrow> AllocationInput list \<Rightarrow> ContributionLoanSummary list \<Rightarrow> ('s, error, unit) tx" where
  "checkMinimums x allocations [] = ret ()"
| "checkMinimums x allocations (position # positions) =
     (case ext_scan x (ls_InstallmentDue position) of None \<Rightarrow> throw PlainE
      | Some due \<Rightarrow>
        if sum_list (map units (filter (\<lambda>a. ai_type a = LoanPrincipal \<and> target_text x (ai_target a) = ls_LoanID position) allocations))
           < numericToScale due (-4) then throw_ce ErrInvalidAllocation
        else checkMinimums x allocations positions)"

text \<open>Without a member or a month no loan matches.\<close>

definition validateContributionLoanMinimums ::
    "ext \<Rightarrow> pg_uuid \<Rightarrow> int \<Rightarrow> date option \<Rightarrow> AllocationInput list \<Rightarrow> ('s contribution_db_scheme, error, unit) tx" where
  "validateContributionLoanMinimums x memberID branchID period allocations =
     (case (memberID, period) of (Some m, Some p) \<Rightarrow>
        tx_bind (q_LockMemberContributionLoans m branchID) (\<lambda>_.
        tx_bind (QuoteContributionLoans x m branchID p) (\<lambda>positions. checkMinimums x allocations positions))
      | _ \<Rightarrow> ret ())"

definition CreateReceipt ::
    "ext \<Rightarrow> env \<Rightarrow> timestamptz \<Rightarrow> InsertContributionReceiptParams \<Rightarrow> AllocationInput list
     \<Rightarrow> ('s contribution_db_scheme, error, CreatedReceipt) tx" where
  "CreateReceipt x v clock params allocations = tx_bind (existingReceipt params) (\<lambda>existing.
     tx_bind (case existing of Some r \<Rightarrow> lift_ce (allocationsForRetry x allocations (cr_plan r))
       | None \<Rightarrow> tx_bind (monthlyFees x v clock (ir_member params) (ir_period params) None) (\<lambda>fees.
           lift_ce (calculatedAllocations allocations fees))) (\<lambda>allocations.
     let params = params\<lparr>ir_plan := buildAllocationPlan x allocations\<rparr> in
     tx_bind (check_ce (validateReceipt params allocations)) (\<lambda>_.
     tx_bind (if existing = None then
         tx_bind (validateChargeAllocations (ir_member params) (ir_branch params) allocations None) (\<lambda>_.
           validateContributionLoanMinimums x (ir_member params) (ir_branch params) (ir_period params) allocations)
       else ret ()) (\<lambda>_.
     createReceipt v params allocations))))"

definition GetReceipt :: "uuid \<Rightarrow> ('s contribution_db_scheme, error, ContributionReceipt) tx" where
  "GetReceipt i = or_error (ContributionE ErrReceiptNotFound) (q_GetContributionReceiptByID i)"

section \<open>Processing\<close>

definition receiptExternalReference :: "ContributionReceipt \<Rightarrow> string option" where
  "receiptExternalReference r = (if cr_external r \<noteq> None then cr_external r
     else if cr_internal r \<noteq> None then cr_internal r else cr_checkout r)"

definition receiptFailureStatus :: "ContributionReceipt \<Rightarrow> ContributionReceiptStatus" where
  "receiptFailureStatus r = (if cr_channel r = CashChannel then ReceiptManualReview else ReceiptFailed)"

definition receiptBusinessError :: "error \<Rightarrow> bool" where
  "receiptBusinessError e \<longleftrightarrow> (\<exists>c\<in>set [ErrInvalidPayment, ErrAllocationRequired, ErrReceiptNotProcessable, ErrMembershipFeeMismatch,
       ErrInvalidCharge, ErrChargeOverpayment, ErrInvalidAllocation, ErrDuplicateAllocation, ErrAllocationNotSupported].
       errors_is e (ContributionE c))
     \<or> (\<exists>c\<in>set [ErrAccountNotFound, ErrAccountNotActive, ErrDuplicateReference]. errors_is e (ShareE c))
     \<or> (\<exists>c\<in>set [ErrLoanNotFound, ErrPaymentNotAllowed, ErrInvalidRepaymentPeriod, ErrInvalidLoanAmount, ErrRepaymentAmountConflict,
       ErrRepaymentScheduleMissing, ErrGatewayTransactionID]. errors_is e (LoanE c))"

definition processAllocation ::
    "ext \<Rightarrow> env \<Rightarrow> timestamptz \<Rightarrow> ContributionReceipt \<Rightarrow> ContributionAllocation \<Rightarrow> pg_uuid
     \<Rightarrow> ('s contribution_db_scheme, error, pg_uuid \<times> string option) tx" where
  "processAllocation x v clock receipt a processedBy =
     (let reference = receiptExternalReference receipt in
      if is_fee (al_type a) then ret (Some (al_id a), reference)
      else if is_charge (al_type a) then ret (al_target a, reference)
      else if al_type a = SharePurchase then
        (case al_target a of None \<Rightarrow> throw (ShareE ErrAccountNotFound)
         | Some account \<Rightarrow> tx_bind (PurchaseSharesInTx v account (db_num (al_amount a)) (Some (al_id a)) processedBy
             (''contribution receipt '' @ ext_uuid_text x (cr_id receipt)) (Some (cr_member receipt)) (cr_branch receipt)) (\<lambda>posted.
             ret (Some (st_id posted), reference)))
      else if al_type a = LoanPrincipal then
        (case al_target a of None \<Rightarrow> throw (LoanE ErrLoanNotFound)
         | Some loan \<Rightarrow> tx_bind (RecordRepaymentForPeriodInTx v clock loan (db_num (al_amount a)) (ext_uuid_text x (al_id a)) processedBy
             (Some (cr_period receipt)) (Some (cr_member receipt)) (cr_branch receipt)) (\<lambda>posted.
             ret (Some (lt_id posted), reference)))
      else throw_ce ErrAllocationNotSupported)"

text \<open>The identifiers that a transaction draws from the \<open>n\<close>-th on; a posting draws at most two.\<close>

definition env_from :: "nat \<Rightarrow> env \<Rightarrow> env" where
  "env_from n v = v\<lparr>env_uuid := (\<lambda>k. env_uuid v (n + k))\<rparr>"

fun postAllocations ::
    "ext \<Rightarrow> env \<Rightarrow> timestamptz \<Rightarrow> ContributionReceipt \<Rightarrow> nat \<Rightarrow> ContributionAllocation list
     \<Rightarrow> ('s contribution_db_scheme, error, ContributionAllocation list) tx" where
  "postAllocations x v clock receipt n [] = ret []"
| "postAllocations x v clock receipt n (a # as) =
     tx_bind (case al_status a of AllocationCompleted \<Rightarrow> ret a
        | AllocationFailed \<Rightarrow> throw_ce ErrReceiptNotProcessable
        | AllocationPending \<Rightarrow>
            tx_bind (processAllocation x (env_from n v) clock receipt a (cr_received_by receipt)) (\<lambda>(ref, external).
            or_error NoRowsE (q_UpdateContributionAllocationCompleted v (al_id a) ref external))) (\<lambda>row.
     tx_bind (postAllocations x v clock receipt (n + 2) as) (\<lambda>rows. ret (row # rows)))"

definition as_input :: "ContributionAllocation \<Rightarrow> AllocationInput" where
  "as_input a = \<lparr>ai_type = al_type a, ai_target = al_target a, ai_amount = db_num (al_amount a), ai_label = []\<rparr>"

text \<open>The obligations are checked again before anything is posted.\<close>

definition checkObligations ::
    "ext \<Rightarrow> env \<Rightarrow> timestamptz \<Rightarrow> ContributionReceipt \<Rightarrow> ContributionAllocation list \<Rightarrow> ('s contribution_db_scheme, error, unit) tx" where
  "checkObligations x v clock receipt allocations =
     (if allocations = [] then throw_ce ErrAllocationRequired
      else tx_bind (monthlyFees x v clock (Some (cr_member receipt)) (Some (cr_period receipt)) (Some (cr_id receipt))) (\<lambda>fees.
        let input = map as_input allocations in
        case calculatedAllocations input fees of Inl _ \<Rightarrow> throw_ce ErrMembershipFeeMismatch
        | Inr expected \<Rightarrow>
          if verifyAllocationsMatch expected allocations \<noteq> None then throw_ce ErrMembershipFeeMismatch
          else validateChargeAllocations (Some (cr_member receipt)) (cr_branch receipt) input (Some (cr_id receipt))))"

definition posting_order :: "ContributionAllocation list \<Rightarrow> ContributionAllocation list" where
  "posting_order = sort_key (\<lambda>a. (allocation_type_text (al_type a), al_target a))"

definition postReceipt ::
    "ext \<Rightarrow> env \<Rightarrow> timestamptz \<Rightarrow> ContributionReceipt \<Rightarrow> ContributionAllocation list \<Rightarrow> ('s contribution_db_scheme, error, CreatedReceipt) tx" where
  "postReceipt x v clock receipt allocations =
     tx_bind (checkObligations x v clock receipt allocations) (\<lambda>_.
     tx_bind (q_LockMemberContributionLoans (cr_member receipt) (cr_branch receipt)) (\<lambda>_.
     tx_bind (QuoteContributionLoans x (cr_member receipt) (cr_branch receipt) (cr_period receipt)) (\<lambda>loanPositions.
     let loanAllocations = filter (\<lambda>a. al_type a = LoanPrincipal) allocations;
         canSnapshot = (cr_snapshot receipt = None \<and> list_all (\<lambda>a. al_status a \<noteq> AllocationCompleted) loanAllocations)
     in tx_bind (postAllocations x v clock receipt 0 (posting_order allocations)) (\<lambda>rows.
        tx_bind (if canSnapshot then
            tx_bind (CompleteContributionLoanSnapshot x loanPositions (map (\<lambda>a. ext_uuid_text x (al_id a)) loanAllocations)) (\<lambda>snapshot.
            tx_bind (or_error NoRowsE (q_SaveContributionLoanSnapshot (cr_id receipt) snapshot)) (\<lambda>_. ret ()))
          else ret ()) (\<lambda>_.
        tx_bind (or_error NoRowsE (q_UpdateContributionReceiptStatus v (cr_id receipt) ReceiptCompleted None)) (\<lambda>receipt.
        ret (receipt, rows)))))))"

text \<open>\<open>ROLLBACK TO SAVEPOINT\<close>: the receipt is marked in the database as it was at the savepoint.\<close>

definition failReceipt ::
    "env \<Rightarrow> uuid \<Rightarrow> ContributionReceiptStatus \<Rightarrow> error \<Rightarrow> ('s contribution_db_scheme, error, CreatedReceipt \<times> error option) tx" where
  "failReceipt v receiptID st cause = tx_bind (q_ListContributionAllocationsByReceipt receiptID) (\<lambda>rows.
     tx_bind (or_error NoRowsE (q_UpdateContributionReceiptStatus v receiptID st (Some cause))) (\<lambda>receipt.
     ret ((receipt, rows), Some cause)))"

text \<open>A business error rolls back to the savepoint and is recorded, any other error aborts.\<close>

definition postOrFail ::
    "ext \<Rightarrow> env \<Rightarrow> timestamptz \<Rightarrow> ContributionReceipt \<Rightarrow> ContributionAllocation list
     \<Rightarrow> ('s contribution_db_scheme, error, CreatedReceipt \<times> error option) tx" where
  "postOrFail x v clock receipt allocations savepoint =
     (case postReceipt x v clock receipt allocations savepoint of Inr (r, s') \<Rightarrow> Inr ((r, None), s')
      | Inl e \<Rightarrow> if receiptBusinessError e then failReceipt v (cr_id receipt) (receiptFailureStatus receipt) e savepoint else Inl e)"

definition processReceiptInTx ::
    "ext \<Rightarrow> env \<Rightarrow> timestamptz \<Rightarrow> uuid \<Rightarrow> ('s contribution_db_scheme, error, CreatedReceipt option \<times> error option) tx" where
  "processReceiptInTx x v clock receiptID = tx_bind (q_LockContributionReceiptByID receiptID) (\<lambda>r.
     case r of None \<Rightarrow> ret (None, Some (ContributionE ErrReceiptNotFound))
     | Some receipt \<Rightarrow> tx_bind (q_LockContributionAllocationsByReceipt (cr_id receipt)) (\<lambda>allocations.
       case cr_status receipt of
         ReceiptCompleted \<Rightarrow> ret (Some (receipt, allocations), None)
       | ReceiptPending \<Rightarrow> tx_bind (or_error NoRowsE (q_UpdateContributionReceiptStatus v (cr_id receipt) ReceiptProcessing None)) (\<lambda>receipt.
           tx_bind (postOrFail x v clock receipt allocations) (\<lambda>(r, e). ret (Some r, e)))
       | ReceiptProcessing \<Rightarrow> tx_bind (postOrFail x v clock receipt allocations) (\<lambda>(r, e). ret (Some r, e))
       | _ \<Rightarrow> ret (Some (receipt, allocations), Some (ContributionE ErrReceiptNotProcessable))))"

text \<open>The result and the error that the caller gets, and the database: a recorded failure commits.\<close>

definition ProcessReceipt ::
    "ext \<Rightarrow> env \<Rightarrow> timestamptz \<Rightarrow> uuid \<Rightarrow> 's contribution_db_scheme
     \<Rightarrow> (CreatedReceipt option \<times> error option) \<times> 's contribution_db_scheme" where
  "ProcessReceipt x v clock receiptID s = (case execTx (processReceiptInTx x v clock receiptID) s of
       (Inl e, s') \<Rightarrow> ((None, Some e), s') | (Inr r, s') \<Rightarrow> (r, s'))"

end
