(* ===== verification/Cash.thy ===== *)
theory Cash
  imports Contribution
begin

text \<open>
  Custody of cash, \<open>internal/contribution/cash.go\<close>: a cashier opens a session, takes receipts in it,
  counts the cash and closes it, somebody else accepts the cash, it is taken to the bank with other
  sessions, and a further person verifies the deposit. The queries of \<open>cash.sql.go\<close> come first.

  The receipt reference is \<open>CASH-\<close> and a fresh UUID text, which is an argument.
\<close>

section \<open>Queries\<close>

definition q_InsertCashierSession :: "env \<Rightarrow> int \<Rightarrow> pg_uuid \<Rightarrow> ('s contribution_db_scheme, error, CashierSession option) tx" where
  [query_defs]: "q_InsertCashierSession v branch cashier = (case cashier of None \<Rightarrow> throw (DbE NotNullViolation)
     | Some c \<Rightarrow> let r = \<lparr>ses_id = env_uuid v 0, ses_branch = branch, ses_cashier = c, ses_status = SessionOpen, ses_expected = None,
           ses_counted = None, ses_variance = None, ses_reason = None, ses_opened = env_now v, ses_closed_at = None, ses_closed_by = None,
           ses_handed_at = None, ses_handed_to = None, ses_deposited = None, ses_updated = env_now v\<rparr> in
       (\<lambda>s. if \<exists>q\<in>set (cashier_sessions s). ses_id q = ses_id r \<or> (ses_cashier q = c \<and> ses_status q = SessionOpen) then Inr (None, s)
          else Inr (Some r, s\<lparr>cashier_sessions := cashier_sessions s @ [r]\<rparr>)))"

definition q_GetOpenCashierSession :: "pg_uuid \<Rightarrow> ('s contribution_db_scheme, error, CashierSession option) tx" where
  [query_defs]: "q_GetOpenCashierSession c = gets (\<lambda>s. find (\<lambda>r. Some (ses_cashier r) = c \<and> ses_status r = SessionOpen) (cashier_sessions s))"

definition q_LockCashierSession :: "pg_uuid \<Rightarrow> ('s contribution_db_scheme, error, CashierSession option) tx" where
  [query_defs]: "q_LockCashierSession i = gets (\<lambda>s. find (\<lambda>r. Some (ses_id r) = i) (cashier_sessions s))"

definition q_LockCashierSessions :: "pg_uuid list \<Rightarrow> ('s contribution_db_scheme, error, CashierSession list) tx" where
  [query_defs]: "q_LockCashierSessions ids = gets (\<lambda>s. sort_key ses_id (filter (\<lambda>r. Some (ses_id r) \<in> set ids) (cashier_sessions s)))"

definition session_check :: "CashierSession \<Rightarrow> bool" where
  "session_check r \<longleftrightarrow> (case ses_expected r of None \<Rightarrow> True | Some e \<Rightarrow> e \<ge> 0) \<and> (case ses_counted r of None \<Rightarrow> True | Some c \<Rightarrow> c \<ge> 0)
     \<and> (case ses_variance r of None \<Rightarrow> True | Some d \<Rightarrow> d = 0 \<or> (case ses_reason r of None \<Rightarrow> False | Some t \<Rightarrow> btrim t \<noteq> []))"

definition update_session ::
    "pg_uuid \<Rightarrow> CashierSessionStatus \<Rightarrow> (CashierSession \<Rightarrow> CashierSession) \<Rightarrow> ('s contribution_db_scheme, error, CashierSession option) tx" where
  "update_session i st f = (\<lambda>s. case find (\<lambda>r. Some (ses_id r) = i \<and> ses_status r = st) (cashier_sessions s) of None \<Rightarrow> Inr (None, s)
     | Some r \<Rightarrow> if session_check (f r) then Inr (Some (f r), s\<lparr>cashier_sessions :=
           map (\<lambda>q. if ses_id q = ses_id r then f q else q) (cashier_sessions s)\<rparr>) else Inl (DbE CheckViolation))"

text \<open>\<open>variance = $3::NUMERIC(19,4) - $2::NUMERIC(19,4)\<close>, of the rounded amounts.\<close>

definition close_session :: "env \<Rightarrow> int \<Rightarrow> int \<Rightarrow> string option \<Rightarrow> pg_uuid \<Rightarrow> CashierSession \<Rightarrow> CashierSession" where
  "close_session v expected counted reason by r = r\<lparr>ses_status := SessionClosed, ses_expected := Some expected, ses_counted := Some counted,
     ses_variance := Some (counted - expected), ses_reason := reason, ses_closed_at := Some (env_now v), ses_closed_by := by,
     ses_updated := env_now v\<rparr>"

definition q_CloseCashierSession ::
    "env \<Rightarrow> pg_uuid \<Rightarrow> numeric \<Rightarrow> numeric \<Rightarrow> string option \<Rightarrow> pg_uuid \<Rightarrow> ('s contribution_db_scheme, error, CashierSession option) tx" where
  [query_defs]: "q_CloseCashierSession v i expected counted reason by = tx_bind (lift_db (store_numeric expected)) (\<lambda>e.
     tx_bind (lift_db (store_numeric counted)) (\<lambda>c. update_session i SessionOpen (close_session v e c reason by)))"

definition hand_over :: "env \<Rightarrow> pg_uuid \<Rightarrow> CashierSession \<Rightarrow> CashierSession" where
  "hand_over v who r = r\<lparr>ses_status := SessionHandedOver, ses_handed_at := Some (env_now v), ses_handed_to := who, ses_updated := env_now v\<rparr>"

definition q_AcceptCashHandover :: "env \<Rightarrow> pg_uuid \<Rightarrow> pg_uuid \<Rightarrow> ('s contribution_db_scheme, error, CashierSession option) tx" where
  [query_defs]: "q_AcceptCashHandover v i who = update_session i SessionClosed (hand_over v who)"

definition mark_deposited :: "env \<Rightarrow> CashierSession \<Rightarrow> CashierSession" where
  "mark_deposited v r = r\<lparr>ses_status := SessionDeposited, ses_deposited := Some (env_now v), ses_updated := env_now v\<rparr>"

definition q_MarkCashierSessionDeposited :: "env \<Rightarrow> uuid \<Rightarrow> ('s contribution_db_scheme, error, CashierSession option) tx" where
  [query_defs]: "q_MarkCashierSessionDeposited v i = update_session (Some i) SessionHandedOver (mark_deposited v)"

definition session_cash :: "uuid \<Rightarrow> 's contribution_db_scheme \<Rightarrow> int" where
  "session_cash i s = sum_where (\<lambda>r. cr_session r = Some i \<and> cr_channel r = CashChannel \<and> \<not> cr_deleted r) cr_amount (contribution_receipts s)"

definition q_SumCashReceiptsBySession :: "uuid \<Rightarrow> ('s contribution_db_scheme, error, numeric) tx" where
  [query_defs]: "q_SumCashReceiptsBySession i = tx_bind (gets (session_cash i)) (\<lambda>total_cash.
     tx_bind (lift_db (store_numeric (db_num total_cash))) (\<lambda>t. ret (db_num t)))"

definition q_GetCashDepositByBankReference :: "string \<Rightarrow> ('s contribution_db_scheme, error, CashDeposit option) tx" where
  [query_defs]: "q_GetCashDepositByBankReference t = gets (\<lambda>s. find (\<lambda>d. cd_bank_reference d = t) (cash_deposits s))"

definition q_GetCashDepositByID :: "pg_uuid \<Rightarrow> ('s contribution_db_scheme, error, CashDeposit option) tx" where
  [query_defs]: "q_GetCashDepositByID i = gets (\<lambda>s. find (\<lambda>d. Some (cd_id d) = i) (cash_deposits s))"

definition q_ListCashDepositSessions :: "uuid \<Rightarrow> ('s contribution_db_scheme, error, uuid list) tx" where
  [query_defs]: "q_ListCashDepositSessions i = gets (\<lambda>s. sort (map snd (filter (\<lambda>(d, _). d = i) (cash_deposit_sessions s))))"

definition q_InsertCashDeposit ::
    "env \<Rightarrow> int \<Rightarrow> numeric \<Rightarrow> string \<Rightarrow> pg_uuid \<Rightarrow> ('s contribution_db_scheme, error, CashDeposit option) tx" where
  [query_defs]: "q_InsertCashDeposit v branch amount ref by = tx_bind (lift_db (store_numeric amount)) (\<lambda>amt.
     case by of None \<Rightarrow> throw (DbE NotNullViolation)
     | Some who \<Rightarrow> let d = \<lparr>cd_id = env_uuid v 0, cd_branch = branch, cd_amount = amt, cd_bank_reference = ref, cd_status = DepositRecorded,
           cd_recorded_by = who, cd_recorded_at = env_now v, cd_verified_by = None, cd_verified_at = None, cd_updated = env_now v\<rparr> in
       tx_bind (db_check (amt > 0 \<and> btrim ref \<noteq> [])) (\<lambda>_ s.
         if \<exists>q\<in>set (cash_deposits s). cd_id q = cd_id d \<or> cd_bank_reference q = ref then Inr (None, s)
         else Inr (Some d, s\<lparr>cash_deposits := cash_deposits s @ [d]\<rparr>)))"

definition q_InsertCashDepositSession :: "uuid \<Rightarrow> uuid \<Rightarrow> ('s contribution_db_scheme, error, (uuid \<times> uuid) option) tx" where
  [query_defs]: "q_InsertCashDepositSession deposit session = (\<lambda>s.
     if session \<in> set (map snd (cash_deposit_sessions s)) then Inr (None, s)
     else Inr (Some (deposit, session), s\<lparr>cash_deposit_sessions := cash_deposit_sessions s @ [(deposit, session)]\<rparr>))"

definition verify_deposit :: "env \<Rightarrow> pg_uuid \<Rightarrow> CashDeposit \<Rightarrow> CashDeposit" where
  "verify_deposit v who d = d\<lparr>cd_status := DepositVerified, cd_verified_by := who, cd_verified_at := Some (env_now v), cd_updated := env_now v\<rparr>"

definition q_VerifyCashDeposit :: "env \<Rightarrow> pg_uuid \<Rightarrow> pg_uuid \<Rightarrow> ('s contribution_db_scheme, error, CashDeposit option) tx" where
  [query_defs]: "q_VerifyCashDeposit v i who = (\<lambda>s.
     case find (\<lambda>d. Some (cd_id d) = i \<and> cd_status d = DepositRecorded) (cash_deposits s) of None \<Rightarrow> Inr (None, s)
     | Some d \<Rightarrow> Inr (Some (verify_deposit v who d), s\<lparr>cash_deposits :=
         map (\<lambda>q. if cd_id q = cd_id d then verify_deposit v who q else q) (cash_deposits s)\<rparr>))"

section \<open>Sessions and receipts\<close>

definition OpenCashierSession :: "env \<Rightarrow> int \<Rightarrow> pg_uuid \<Rightarrow> ('s contribution_db_scheme, error, CashierSession) tx" where
  "OpenCashierSession v branchID cashierID = tx_bind (q_InsertCashierSession v branchID cashierID) (\<lambda>session.
     case session of Some r \<Rightarrow> ret r | None \<Rightarrow> or_error NoRowsE (q_GetOpenCashierSession cashierID))"

definition charge_label :: "string \<Rightarrow> string" where
  "charge_label category = (case map_of [(''literature'', ''Literature''), (''caritas_registration'', ''Caritas registration''),
     (''lsf'', ''LSF''), (''laptop'', ''Laptop''), (''penalty'', ''Non-loan penalty''), (''other'', ''Other charge'')] category of
     None \<Rightarrow> [] | Some l \<Rightarrow> l)"

text \<open>The middle dot is two bytes in UTF-8.\<close>

definition display_label :: "ContributionCharge \<Rightarrow> string" where
  "display_label c = charge_label (ch_category c) @ [CHR 0x20, CHR 0xC2, CHR 0xB7, CHR 0x20] @ ch_reason c"

definition labelCharges :: "AllocationInput list \<Rightarrow> ('s contribution_db_scheme, error, AllocationInput list) tx" where
  "labelCharges allocations =
     (let chargeIDs = map (the \<circ> ai_target) (filter (\<lambda>a. is_charge (ai_type a)) allocations) in
      if chargeIDs = [] then ret allocations
      else tx_bind (q_LockContributionCharges chargeIDs) (\<lambda>charges.
        ret (fold (\<lambda>c. map (\<lambda>a. if ai_target a = Some (ch_id c) then a\<lparr>ai_label := display_label c\<rparr> else a)) charges allocations)))"

fun validateTargets :: "uuid \<Rightarrow> int \<Rightarrow> AllocationInput list \<Rightarrow> ('s contribution_db_scheme, error, unit) tx" where
  "validateTargets memberID branchID [] = ret ()"
| "validateTargets memberID branchID (target # targets) =
     tx_bind (case ai_target target of None \<Rightarrow> ret ()
        | Some t \<Rightarrow> if ai_type target = SharePurchase then ValidateContributionTarget t memberID branchID
            else if ai_type target = LoanPrincipal then LoanValidateContributionTarget t memberID branchID else ret ())
       (\<lambda>_. validateTargets memberID branchID targets)"

definition target_order :: "AllocationInput list \<Rightarrow> AllocationInput list" where
  "target_order = sort_key (\<lambda>a. (allocation_type_text (ai_type a), ai_target a))"

definition sameCashReceipt :: "InsertContributionReceiptParams \<Rightarrow> ContributionReceipt \<Rightarrow> bool" where
  "sameCashReceipt params r \<longleftrightarrow> cr_channel r = CashChannel \<and> Some (cr_member r) = ir_member params \<and> cr_branch r = ir_branch params
     \<and> cr_session r = ir_session params \<and> Some (cr_period r) = ir_period params
     \<and> numericToScale (db_num (cr_amount r)) (-4) = numericToScale (ir_amount params) (-4)"

text \<open>The key was used before: the stored receipt, when it is the same one.\<close>

definition repeatCashReceipt ::
    "ext \<Rightarrow> InsertContributionReceiptParams \<Rightarrow> AllocationInput list \<Rightarrow> ContributionReceipt \<Rightarrow> ('s contribution_db_scheme, error, CreatedReceipt) tx" where
  "repeatCashReceipt x params allocations existing = tx_bind (lift_ce (allocationsForRetry x allocations (cr_plan existing))) (\<lambda>allocations.
     tx_bind (q_ListContributionAllocationsByReceipt (cr_id existing)) (\<lambda>rows.
     if \<not> sameCashReceipt params existing then throw_ce ErrInconsistentReceipt
     else tx_bind (check_ce (verifyAllocationsMatch allocations rows)) (\<lambda>_. ret (existing, rows))))"

definition acceptCash ::
    "ext \<Rightarrow> env \<Rightarrow> timestamptz \<Rightarrow> InsertContributionReceiptParams \<Rightarrow> AllocationInput list \<Rightarrow> ('s contribution_db_scheme, error, CreatedReceipt) tx" where
  "acceptCash x v clock params allocations =
     tx_bind (RequireActiveMemberInTx (ir_member params) (ir_branch params)) (\<lambda>_.
     tx_bind (monthlyFees x v clock (ir_member params) (ir_period params) None) (\<lambda>fees.
     tx_bind (lift_ce (calculatedAllocations allocations fees)) (\<lambda>allocations.
     tx_bind (validateChargeAllocations (ir_member params) (ir_branch params) allocations None) (\<lambda>_.
     tx_bind (labelCharges allocations) (\<lambda>allocations.
     let params = params\<lparr>ir_plan := buildAllocationPlan x allocations\<rparr> in
     tx_bind (check_ce (validateReceipt params allocations)) (\<lambda>_.
     tx_bind (validateContributionLoanMinimums x (ir_member params) (ir_branch params) (ir_period params) allocations) (\<lambda>_.
     tx_bind (case ir_member params of None \<Rightarrow> ret () | Some m \<Rightarrow> validateTargets m (ir_branch params) (target_order allocations)) (\<lambda>_.
     createReceipt v params allocations))))))))"

definition CreateCashReceipt ::
    "ext \<Rightarrow> env \<Rightarrow> timestamptz \<Rightarrow> string \<Rightarrow> InsertContributionReceiptParams \<Rightarrow> AllocationInput list
     \<Rightarrow> ('s contribution_db_scheme, error, CreatedReceipt) tx" where
  "CreateCashReceipt x v clock fresh params allocations =
     (let params = params\<lparr>ir_channel := CashChannel,
            ir_key := text_of (TrimSpace (case ir_key params of None \<Rightarrow> [] | Some k \<Rightarrow> k)),
            ir_internal := text_of (''CASH-'' @ fresh), ir_received_at := Some clock\<rparr> in
      tx_bind (q_LockCashierSession (ir_session params)) (\<lambda>session.
      case session of None \<Rightarrow> throw_ce ErrCashierSessionNotFound
      | Some session \<Rightarrow>
        tx_bind (case ir_key params of None \<Rightarrow> ret None | Some k \<Rightarrow> q_GetContributionReceiptByIdempotencyKey k) (\<lambda>existing.
        case existing of Some r \<Rightarrow> repeatCashReceipt x params allocations r
        | None \<Rightarrow>
          if ses_status session \<noteq> SessionOpen \<or> Some (ses_cashier session) \<noteq> ir_received_by params
             \<or> ses_branch session \<noteq> ir_branch params then throw_ce ErrCashierSessionState
          else acceptCash x v clock params allocations)))"

definition CloseCashierSession ::
    "env \<Rightarrow> pg_uuid \<Rightarrow> pg_uuid \<Rightarrow> numeric \<Rightarrow> string \<Rightarrow> ('s contribution_db_scheme, error, CashierSession) tx" where
  "CloseCashierSession v i cashierID counted reason =
     (if \<not> nonNegative counted then throw_ce ErrCashDepositInvalid
      else tx_bind (q_LockCashierSession i) (\<lambda>session.
      case session of None \<Rightarrow> throw_ce ErrCashierSessionNotFound
      | Some session \<Rightarrow>
        if Some (ses_cashier session) \<noteq> cashierID then throw_ce ErrCashierSessionState
        else if ses_status session \<noteq> SessionOpen then
          (case ses_counted session of None \<Rightarrow> throw_ce ErrCashierSessionState
           | Some c \<Rightarrow> if numericToScale (db_num c) (-4) = numericToScale counted (-4) then ret session else throw_ce ErrCashierSessionState)
        else tx_bind (q_SumCashReceiptsBySession (ses_id session)) (\<lambda>expected.
          let variance = numericToScale counted (-4) - numericToScale expected (-4) in
          if variance \<noteq> 0 \<and> TrimSpace reason = [] then throw_ce ErrCashVarianceReason
          else or_error NoRowsE (q_CloseCashierSession v i expected counted (text_of (TrimSpace reason)) cashierID))))"

definition AcceptCashHandover ::
    "env \<Rightarrow> pg_uuid \<Rightarrow> pg_uuid \<Rightarrow> int \<Rightarrow> ('s contribution_db_scheme, error, CashierSession) tx" where
  "AcceptCashHandover v i acceptedBy branchID = tx_bind (q_LockCashierSession i) (\<lambda>session.
     case session of None \<Rightarrow> throw_ce ErrCashierSessionNotFound
     | Some session \<Rightarrow>
       if ses_branch session \<noteq> branchID then throw_ce ErrCashierSessionState
       else if Some (ses_cashier session) = acceptedBy then throw_ce ErrCashSeparationOfDuties
       else if ses_status session = SessionHandedOver \<or> ses_status session = SessionDeposited then ret session
       else if ses_status session \<noteq> SessionClosed then throw_ce ErrCashierSessionState
       else or_error NoRowsE (q_AcceptCashHandover v i acceptedBy))"

section \<open>Deposits\<close>

fun depositSessions :: "env \<Rightarrow> uuid \<Rightarrow> CashierSession list \<Rightarrow> ('s contribution_db_scheme, error, unit) tx" where
  "depositSessions v deposit [] = ret ()"
| "depositSessions v deposit (session # sessions) =
     tx_bind (or_error NoRowsE (q_InsertCashDepositSession deposit (ses_id session))) (\<lambda>_.
     tx_bind (or_error NoRowsE (q_MarkCashierSessionDeposited v (ses_id session))) (\<lambda>_.
     depositSessions v deposit sessions))"

definition depositable :: "int \<Rightarrow> CashierSession \<Rightarrow> bool" where
  "depositable branchID session \<longleftrightarrow> ses_branch session = branchID \<and> ses_status session = SessionHandedOver \<and> ses_counted session \<noteq> None"

definition recordDeposit ::
    "env \<Rightarrow> pg_uuid list \<Rightarrow> numeric \<Rightarrow> string \<Rightarrow> int \<Rightarrow> pg_uuid \<Rightarrow> ('s contribution_db_scheme, error, CashDeposit) tx" where
  "recordDeposit v sessionIDs amount bankReference branchID recordedBy = tx_bind (q_LockCashierSessions sessionIDs) (\<lambda>sessions.
     if length sessions \<noteq> length sessionIDs then throw_ce ErrCashierSessionNotFound
     else if \<not> list_all (depositable branchID) sessions then throw_ce ErrCashierSessionState
     else if sum_list (map (\<lambda>r. numericToScale (db_num (the (ses_counted r))) (-4)) sessions) \<noteq> numericToScale amount (-4)
     then throw_ce ErrCashDepositInvalid
     else tx_bind (or_error NoRowsE (q_InsertCashDeposit v branchID amount bankReference recordedBy)) (\<lambda>deposit.
       tx_bind (depositSessions v (cd_id deposit) sessions) (\<lambda>_. ret deposit)))"

definition RecordCashDeposit ::
    "env \<Rightarrow> pg_uuid list \<Rightarrow> numeric \<Rightarrow> string \<Rightarrow> int \<Rightarrow> pg_uuid \<Rightarrow> ('s contribution_db_scheme, error, CashDeposit) tx" where
  "RecordCashDeposit v sessionIDs amount bankReference branchID recordedBy =
     (let bankReference = TrimSpace bankReference in
      if sessionIDs = [] \<or> \<not> positive amount \<or> bankReference = [] then throw_ce ErrCashDepositInvalid
      else if None \<in> set sessionIDs \<or> \<not> distinct sessionIDs then throw_ce ErrCashDepositInvalid
      else tx_bind (q_GetCashDepositByBankReference bankReference) (\<lambda>existing.
        case existing of
          Some d \<Rightarrow> tx_bind (q_ListCashDepositSessions (cd_id d)) (\<lambda>linked.
            if cd_branch d \<noteq> branchID \<or> numericToScale (db_num (cd_amount d)) (-4) \<noteq> numericToScale amount (-4)
               \<or> length linked \<noteq> length sessionIDs \<or> \<not> list_all (\<lambda>i. Some i \<in> set sessionIDs) linked
            then throw_ce ErrCashDepositInvalid else ret d)
        | None \<Rightarrow> recordDeposit v sessionIDs amount bankReference branchID recordedBy))"

definition VerifyCashDeposit ::
    "env \<Rightarrow> pg_uuid \<Rightarrow> pg_uuid \<Rightarrow> int \<Rightarrow> ('s contribution_db_scheme, error, CashDeposit) tx" where
  "VerifyCashDeposit v i verifiedBy branchID = tx_bind (or_error (ContributionE ErrCashDepositInvalid) (q_GetCashDepositByID i)) (\<lambda>deposit.
     if cd_branch deposit \<noteq> branchID then throw_ce ErrCashDepositInvalid
     else if cd_status deposit = DepositVerified then ret deposit
     else if Some (cd_recorded_by deposit) = verifiedBy then throw_ce ErrCashDepositSelfVerify
     else tx_bind (q_VerifyCashDeposit v i verifiedBy) (\<lambda>verified.
       case verified of Some d \<Rightarrow> ret d
       | None \<Rightarrow> or_error NoRowsE (q_GetCashDepositByID i)))"

end
