(* ===== verification/Contribution_Frame.thy ===== *)
theory Contribution_Frame
  imports Cash Reachable
begin

text \<open>
  What the contribution services and the ledgers do to each other's tables. A predicate on the ledgers
  that a purchase of shares and a repayment keep is kept by every contribution operation
  (\<open>contribution_frame\<close>); and no operation of the share, loan, member and credit services touches the
  tables of the contribution domain (\<open>contrib\<close>).
\<close>

lemma keeps_sum [keeps_intros]:
  "(\<And>e. keeps P (f e)) \<Longrightarrow> (\<And>y. keeps P (g y)) \<Longrightarrow> keeps P (case x of Inl e \<Rightarrow> f e | Inr y \<Rightarrow> g y)"
  by (cases x) auto

lemma keeps_contribution_errors [keeps_intros]:
  "keeps P (throw_ce e)" "keeps P (lift_ce r)" "keeps P (check_ce o')"
  unfolding throw_ce_def lift_ce_def check_ce_def by (intro keeps_intros)+

lemma keeps_lift_text' [keeps_intros]: "keeps P (lift_text t)"
  by (auto simp: lift_text_def intro!: keeps_intros)

lemma keeps_modify: "(\<And>s. P s \<Longrightarrow> P (f s)) \<Longrightarrow> keeps P (modify f)"
  by (auto simp: keeps_def tx_simps)

section \<open>Operations that only read\<close>

lemma keeps_loan_reads [keeps_intros]:
  "keeps P (QuoteContributionLoans x m b p)" "keeps P (q_LockMemberContributionLoans m b)"
  unfolding QuoteContributionLoans_def q_ListContributionLoanPositions_def q_LockMemberContributionLoans_def
  by (intro keeps_intros)+

lemma keeps_snapshot [keeps_intros]: "keeps P (CompleteContributionLoanSnapshot x ss ids)"
proof -
  have "keeps P (applyPayment x p ss)" for p ss
    by (induction x p ss rule: applyPayment.induct)
      (auto simp: Let_def remaining_text_def split: option.splits intro!: keeps_intros)
  then have "keeps P (applyPayments x ps ss)" for ps ss
    by (induction ps arbitrary: ss) (auto intro!: keeps_intros)
  then show ?thesis unfolding CompleteContributionLoanSnapshot_def q_ListContributionLoanRepayments_def by (intro keeps_intros)
qed

lemma keeps_receipt_reads [keeps_intros]:
  "keeps P (existingReceipt params)" "keeps P (validateChargeAllocations m b as excl)"
  "keeps P (validateContributionLoanMinimums x m b p as)"
proof -
  have mins: "keeps P (checkMinimums x as ps)" for ps
    by (induction ps) (auto split: option.splits intro!: keeps_intros)
  show "keeps P (existingReceipt params)"
    unfolding existingReceipt_def query_defs by (intro keeps_intros)
  show "keeps P (validateChargeAllocations m b as excl)"
    unfolding validateChargeAllocations_def query_defs by (intro keeps_intros)
  show "keeps P (validateContributionLoanMinimums x m b p as)"
    unfolding validateContributionLoanMinimums_def by (intro keeps_intros mins)
qed

lemma keeps_cash_reads [keeps_intros]:
  "keeps P (labelCharges as)" "keeps P (validateTargets m b ts)"
proof -
  show "keeps P (labelCharges as)" unfolding labelCharges_def query_defs by (intro keeps_intros)
  have "keeps P (ValidateContributionTarget t m b)" "keeps P (LoanValidateContributionTarget t m b)" for t
    unfolding ValidateContributionTarget_def LoanValidateContributionTarget_def lockLoan_def q_LockLoanByID_def
      q_LockAndReadAccount_def by (intro keeps_intros)+
  then show "keeps P (validateTargets m b ts)" by (induction ts) (auto split: option.splits intro!: keeps_intros)
qed

section \<open>Predicates on the ledgers\<close>

locale contribution_frame =
  fixes P :: "'s contribution_db_scheme \<Rightarrow> bool"
  assumes tables: "P (s\<lparr>contribution_receipts := rs\<rparr>) = P s" "P (s\<lparr>contribution_allocations := as\<rparr>) = P s"
      "P (s\<lparr>contribution_monthly_fees := fs\<rparr>) = P s" "P (s\<lparr>contribution_charges := cs\<rparr>) = P s"
      "P (s\<lparr>cashier_sessions := ss\<rparr>) = P s" "P (s\<lparr>cash_deposits := ds\<rparr>) = P s" "P (s\<lparr>cash_deposit_sessions := ls\<rparr>) = P s"
    and buy: "keeps P (postTransactionInTx v a Purchase amt ref orig rsn m b)"
    and pay: "keeps P (RecordRepaymentForPeriodInTx v clock i amt g who day m b)"
begin

lemma keeps_writes [keeps_intros]:
  "keeps P (q_InsertContributionReceipt v p)" "keeps P (update_receipt Q f)"
  "keeps P (q_InsertContributionAllocation v n r ty t amt)" "keeps P (q_UpdateContributionAllocationCompleted v i ref ext)"
  "keeps P (q_AssessMonthlyFees x v mem pd)" "keeps P (q_CreateContributionCharge v cp)"
  "keeps P (q_InsertCashierSession v br who)" "keeps P (update_session sid st g)"
  "keeps P (q_InsertCashDeposit v br amt txt who)" "keeps P (q_InsertCashDepositSession d sess)" "keeps P (q_VerifyCashDeposit v sid who)"
  by (auto simp: keeps_def query_defs update_receipt_def update_session_def tx_simps Let_def tables split: if_splits option.splits)

lemma keeps_fees [keeps_intros]: "keeps P (monthlyFees x v clock m d excl)"
  unfolding monthlyFees_def q_LockMonthlyFees_def q_SumMonthlyFeePaymentsByType_def by (intro keeps_intros)

lemma keeps_createReceipt [keeps_intros]: "keeps P (createReceipt v params as)"
proof -
  have "keeps P (insertAllocations v r n as)" for r n as
    by (induction as arbitrary: n) (auto intro!: keeps_intros)
  then show ?thesis unfolding createReceipt_def q_ListContributionAllocationsByReceipt_def by (intro keeps_intros)
qed

lemma keeps_receipts:
  "keeps P (CreateReceipt x v clock params as)" "keeps P (CreateCharge v cp)" "keeps P (CreateCashReceipt x v clock fresh params as)"
  unfolding CreateReceipt_def CreateCharge_def CreateCashReceipt_def acceptCash_def repeatCashReceipt_def
    q_GetContributionChargeByKey_def q_LockCashierSession_def q_GetContributionReceiptByIdempotencyKey_def
    q_ListContributionAllocationsByReceipt_def
  by (intro keeps_intros keeps_RequireActiveMemberInTx)+

lemma keeps_postAllocations [keeps_intros]: "keeps P (postAllocations x v clock r n as)"
proof -
  have "keeps P (processAllocation x v clock r a who)" for v a who
    unfolding processAllocation_def PurchaseSharesInTx_def by (intro keeps_intros buy pay)
  then show ?thesis
    by (induction as arbitrary: n) (auto split: ContributionAllocationStatus.splits intro!: keeps_intros)
qed

lemma keeps_obligations [keeps_intros]: "keeps P (checkObligations x v clock r as)"
  unfolding checkObligations_def by (intro keeps_intros)

lemma keeps_postReceipt [keeps_intros]: "keeps P (postReceipt x v clock r as)"
  unfolding postReceipt_def q_SaveContributionLoanSnapshot_def q_UpdateContributionReceiptStatus_def by (intro keeps_intros)

lemma keeps_process: "keeps P (processReceiptInTx x v clock i)"
proof -
  have fail: "keeps P (failReceipt v j st e)" for j st e
    unfolding failReceipt_def q_ListContributionAllocationsByReceipt_def q_UpdateContributionReceiptStatus_def by (intro keeps_intros)
  have post: "keeps P (postOrFail x v clock r as)" for r as
  proof (rule keepsI)
    fix s y s'
    assume "P s" and "postOrFail x v clock r as s = Inr (y, s')"
    then show "P s'"
      by (auto simp: postOrFail_def split: sum.splits if_splits elim: keepsD [OF keeps_postReceipt] keepsD [OF fail])
  qed
  show ?thesis
    unfolding processReceiptInTx_def q_LockContributionReceiptByID_def q_LockContributionAllocationsByReceipt_def
      q_UpdateContributionReceiptStatus_def
    by (auto split: ContributionReceiptStatus.splits intro!: keeps_intros post)
qed

lemma process_keeps: "P s \<Longrightarrow> ProcessReceipt x v clock i s = (r, s') \<Longrightarrow> P s'"
  using keeps_execTx [OF keeps_process, of s x v clock i] by (auto simp: ProcessReceipt_def split: prod.splits sum.splits)

lemma keeps_cash:
  "keeps P (OpenCashierSession v br who)" "keeps P (CloseCashierSession v sid who amt rsn)" "keeps P (AcceptCashHandover v sid who br)"
  "keeps P (RecordCashDeposit v ids amt ref br who)" "keeps P (VerifyCashDeposit v sid who br)"
proof -
  have deposits: "keeps P (depositSessions v d ss)" for d ss
    by (induction ss) (auto simp: q_MarkCashierSessionDeposited_def intro!: keeps_intros)
  show "keeps P (OpenCashierSession v br who)" "keeps P (VerifyCashDeposit v sid who br)"
    unfolding OpenCashierSession_def VerifyCashDeposit_def q_GetOpenCashierSession_def q_GetCashDepositByID_def by (intro keeps_intros)+
  show "keeps P (CloseCashierSession v sid who amt rsn)" "keeps P (AcceptCashHandover v sid who br)"
    unfolding CloseCashierSession_def AcceptCashHandover_def q_LockCashierSession_def q_SumCashReceiptsBySession_def
      q_CloseCashierSession_def q_AcceptCashHandover_def by (intro keeps_intros)+
  show "keeps P (RecordCashDeposit v ids amt ref br who)"
    unfolding RecordCashDeposit_def recordDeposit_def q_LockCashierSessions_def q_GetCashDepositByBankReference_def
      q_ListCashDepositSessions_def
    by (intro keeps_intros deposits)
qed

end

section \<open>The tables of the contribution domain\<close>

definition contrib :: "'s contribution_db_scheme \<Rightarrow> ContributionReceipt list \<times> ContributionAllocation list \<times> ContributionMonthlyFee list
    \<times> ContributionCharge list \<times> CashierSession list \<times> CashDeposit list \<times> (uuid \<times> uuid) list" where
  "contrib s = (contribution_receipts s, contribution_allocations s, contribution_monthly_fees s, contribution_charges s,
     cashier_sessions s, cash_deposits s, cash_deposit_sessions s)"

text \<open>A view of the database that the tables of the ledgers do not show up in is the same after any step
  of the ledgers.\<close>

locale outside =
  fixes view :: "'s loan_db_scheme \<Rightarrow> 'v"
  assumes shares: "view (s\<lparr>members := ms\<rparr>) = view s" "view (s\<lparr>member_status_history := hs\<rparr>) = view s"
      "view (s\<lparr>share_accounts := as\<rparr>) = view s" "view (s\<lparr>share_transactions := ts\<rparr>) = view s"
      "view (s\<lparr>share_adjustments := js\<rparr>) = view s" "view (s\<lparr>share_pledges := ps\<rparr>) = view s"
    and money: "view (s\<lparr>loans := ls\<rparr>) = view s" "view (s\<lparr>loan_guarantors := gs\<rparr>) = view s"
      "view (s\<lparr>repayment_schedules := rs\<rparr>) = view s" "view (s\<lparr>loan_transactions := us\<rparr>) = view s"
      "view (s\<lparr>loan_monthly_interest := ins\<rparr>) = view s" "view (s\<lparr>credit_balances := bs\<rparr>) = view s"
      "view (s\<lparr>credit_operations := os\<rparr>) = view s" "view (s\<lparr>loan_audit_trails := ats\<rparr>) = view s"

sublocale outside \<subseteq> view: share_stable "\<lambda>s. view s = c" for c
  by unfold_locales (simp_all add: shares)

sublocale outside \<subseteq> view: loan_security "\<lambda>s. view s = c" L for c L
  by unfold_locales
    (simp_all add: money view.keeps_security keeps_loans_free,
     auto simp: keeps_def query_defs tx_simps Let_def money split: if_splits)

context outside
begin

lemma view_frame: "(\<And>c. keeps (\<lambda>s. view s = c) m) \<Longrightarrow> m s = Inr (y, s') \<Longrightarrow> view s' = view s"
  unfolding keeps_def by metis

lemma view_ledgers:
  "postTransactionInTx v a ty amt ref orig rsn m b s = Inr (r, s') \<Longrightarrow> view s' = view s"
  "RecordRepaymentForPeriodInTx v clock i amt g who day m b s = Inr (t, s') \<Longrightarrow> view s' = view s"
  by (erule view_frame [rotated], rule view.keeps_posting view.keeps_repay)+

lemma sys_step_view:
  assumes "sys_step x s s'"
  shows "view s' = view s"
  using assms
proof cases
  case (approve v i who rsn l)
  from view.approve_keeps [where L = "\<lambda>j. map_option ln_member (find (live_loan j) (loans s))", OF refl this]
  show ?thesis by simp
next
  case (disburse v off i who rsn ev)
  obtain t l where "ev = (t, l)" by (cases ev)
  from view.disburse_keeps [where L = "\<lambda>j. map_option ln_member (find (live_loan j) (loans s))", OF refl disburse [unfolded this]]
  show ?thesis by simp
next
  case (apply_loan v p pledge gs l)
  from view.apply_keeps [where L = "\<lambda>_. Some (ln_member l)", OF refl this] show ?thesis by simp
next
  case (credit v clock caller req p)
  from credit show ?thesis
  proof (rule ManageCredit_tx)
    fix actor c i
    assume run: "manageCreditInTx x v clock actor req c i s = Inr (p, s')"
    have "keeps (\<lambda>s. view s = k) (manageCreditInTx x v clock actor req c i)" for k
      by (rule keeps_credit [OF _ view.keeps_posting view.keeps_repay]) (simp add: money)
    then show ?thesis using run by (rule view_frame)
  qed
qed (unfold PurchaseSharesInTx_def PostDividendInTx_def WithdrawShares_def postTransaction_def execTx_ok,
     (erule view_frame [rotated], rule view.keeps_open view.keeps_posting view.keeps_ledger_service
        view.keeps_member_service view.keeps_guarantor_operations view.keeps_reject view.keeps_repay)+)

end

interpretation contrib: outside "contrib :: 's contribution_db_scheme \<Rightarrow> _"
  by unfold_locales (simp_all add: contrib_def)

lemmas contrib_ledgers = contrib.view_ledgers and sys_step_contrib = contrib.sys_step_view

section \<open>The invariants of the ledgers\<close>

lemma sys_inv_contrib_tables:
  fixes s :: "'s contribution_db_scheme"
  shows "owed_inv (s\<lparr>contribution_receipts := rs\<rparr>) = owed_inv s" "owed_inv (s\<lparr>contribution_allocations := as\<rparr>) = owed_inv s"
    "owed_inv (s\<lparr>contribution_monthly_fees := fs\<rparr>) = owed_inv s" "owed_inv (s\<lparr>contribution_charges := cs\<rparr>) = owed_inv s"
    "owed_inv (s\<lparr>cashier_sessions := ss\<rparr>) = owed_inv s" "owed_inv (s\<lparr>cash_deposits := ds\<rparr>) = owed_inv s"
    "owed_inv (s\<lparr>cash_deposit_sessions := ls\<rparr>) = owed_inv s"
  by (rule owed_core; simp add: core_def)+

interpretation owed: contribution_frame "owed_inv :: 's contribution_db_scheme \<Rightarrow> bool"
  by unfold_locales (simp_all add: sys_inv_contrib_tables owed.keeps_posting keeps_owed_repayment)

interpretation secured: contribution_frame "secure L :: 's contribution_db_scheme \<Rightarrow> bool" for L
  by unfold_locales
    (simp_all add: secure_def share_inv_def backed_def pledges_ok_def pledged_of_def balance_of_def latest_balance_def rows_of_def
       accounts_ok_def applicants_ok_def applicant_pledge_ok_def, simp_all add: keeps_secure_ledger(1) secured.keeps_repay)

interpretation credits: contribution_frame "credit_ok :: 's contribution_db_scheme \<Rightarrow> bool"
  by unfold_locales (simp_all add: credit_ok_def spent_of_def, simp_all add: credits.keeps_posting credits.keeps_repay)

interpretation borrowers: contribution_frame "\<lambda>s :: 's contribution_db_scheme. borrowers s = c" for c
  by unfold_locales ((rule borrowers.keeps_posting borrowers.keeps_repay) | simp add: borrowers_def)+

end
