(* ===== verification/Receipt_Posting.thy ===== *)
theory Receipt_Posting
  imports Contribution_Frame
begin

text \<open>
  What creating and processing a receipt do to the tables of the contribution domain: the case
  distinctions that the invariants and claims on receipts rest on.
\<close>

section \<open>Rows and what identifies them\<close>

definition receipt_core :: "ContributionReceipt \<Rightarrow> ContributionReceipt" where
  "receipt_core r = r\<lparr>cr_status := ReceiptPending, cr_failure := None, cr_updated := 0, cr_snapshot := None\<rparr>"

definition allocation_core :: "ContributionAllocation \<Rightarrow> uuid \<times> uuid \<times> ContributionAllocationType \<times> pg_uuid \<times> int" where
  "allocation_core a = (al_id a, al_receipt a, al_type a, al_target a, al_amount a)"

lemma receipt_core_same:
  assumes "receipt_core r = receipt_core q"
  shows "cr_id r = cr_id q" "cr_channel r = cr_channel q" "cr_session r = cr_session q" "cr_member r = cr_member q" "cr_branch r = cr_branch q"
    "cr_period r = cr_period q" "cr_amount r = cr_amount q" "cr_deleted r = cr_deleted q"
proof -
  have f: "f (receipt_core r) = f (receipt_core q)" for f :: "ContributionReceipt \<Rightarrow> 'b" using assms by simp
  show "cr_id r = cr_id q" using f [of cr_id] by (simp add: receipt_core_def)
  show "cr_channel r = cr_channel q" using f [of cr_channel] by (simp add: receipt_core_def)
  show "cr_session r = cr_session q" using f [of cr_session] by (simp add: receipt_core_def)
  show "cr_member r = cr_member q" using f [of cr_member] by (simp add: receipt_core_def)
  show "cr_branch r = cr_branch q" using f [of cr_branch] by (simp add: receipt_core_def)
  show "cr_period r = cr_period q" using f [of cr_period] by (simp add: receipt_core_def)
  show "cr_amount r = cr_amount q" using f [of cr_amount] by (simp add: receipt_core_def)
  show "cr_deleted r = cr_deleted q" using f [of cr_deleted] by (simp add: receipt_core_def)
qed

lemma receipt_core_updates [simp]:
  "receipt_core (r\<lparr>cr_status := st, cr_failure := e, cr_updated := t\<rparr>) = receipt_core r"
  "receipt_core (r\<lparr>cr_snapshot := sn\<rparr>) = receipt_core r"
  by (simp_all add: receipt_core_def)

text \<open>The receipts after a step: one has changed what is not its core.\<close>

definition same_receipts :: "uuid \<Rightarrow> ContributionReceiptStatus \<Rightarrow> ContributionReceipt list \<Rightarrow> ContributionReceipt list \<Rightarrow> bool" where
  "same_receipts i st = list_all2 (\<lambda>r q. receipt_core q = receipt_core r \<and> (if cr_id r = i then cr_status q = st else q = r))"

lemma same_receipts_map:
  assumes "\<And>r. receipt_core (f r) = receipt_core r" and "\<And>r. cr_status (f r) = st"
  shows "same_receipts i st rs (map (\<lambda>r. if cr_id r = i then f r else r) rs)"
  using assms by (induction rs) (auto simp: same_receipts_def)

lemma same_receipts_trans:
  assumes "same_receipts i st rs qs" and "same_receipts i st' qs ps"
  shows "same_receipts i st' rs ps"
proof -
  have "list_all2 (\<lambda>r p. receipt_core p = receipt_core r \<and> (if cr_id r = i then cr_status p = st' else p = r)) rs ps"
    using assms unfolding same_receipts_def
    by (rule list_all2_trans [rotated]) (auto split: if_splits dest: receipt_core_same(1))
  then show ?thesis by (simp add: same_receipts_def)
qed

lemma same_receipts_snapshot:
  assumes "same_receipts i st rs qs"
  shows "same_receipts i st rs (map (\<lambda>r. if cr_id r = i then r\<lparr>cr_snapshot := sn\<rparr> else r) qs)"
  using assms unfolding same_receipts_def
  by (auto simp: list_all2_conv_all_nth split: if_splits dest: receipt_core_same(1))

text \<open>The allocations after a posting: those of the receipt are completed.\<close>

definition posted :: "uuid \<Rightarrow> ContributionAllocation list \<Rightarrow> ContributionAllocation list \<Rightarrow> bool" where
  "posted i = list_all2 (\<lambda>a b. allocation_core b = allocation_core a \<and> (if al_receipt a = i then al_status b = AllocationCompleted else b = a))"

section \<open>Posting\<close>

lemma processAllocation_contrib:
  fixes s s' :: "'s contribution_db_scheme"
  assumes "processAllocation x v clock r a who s = Inr (y, s')"
  shows "contrib s' = contrib s"
  using assms
  by (auto simp: processAllocation_def PurchaseSharesInTx_def tx_simps Let_def throw_ce_def split: if_splits option.splits
      dest: contrib_ledgers)

definition marked :: "uuid set \<Rightarrow> ContributionAllocation list \<Rightarrow> ContributionAllocation list \<Rightarrow> bool" where
  "marked I = list_all2 (\<lambda>a b. allocation_core b = allocation_core a \<and> (if al_id a \<in> I then al_status b = AllocationCompleted else b = a))"

lemma marked_one: "marked {i} as (map (\<lambda>q. if al_id q = i then complete_allocation v ref ext q else q) as)"
  by (induction as) (auto simp: marked_def complete_allocation_def allocation_core_def)

lemma marked_trans: "marked I as bs \<Longrightarrow> marked J bs cs \<Longrightarrow> marked (I \<union> J) as cs"
  unfolding marked_def
  by (rule list_all2_trans [rotated]) (assumption | auto split: if_splits simp: allocation_core_def)+

lemma marked_refl: "(\<And>a. a \<in> set as \<Longrightarrow> al_id a \<in> I \<Longrightarrow> al_status a = AllocationCompleted) \<Longrightarrow> marked I as as"
  unfolding marked_def by (induction as) auto

lemma marked_completed:
  assumes "marked I as bs" and "b \<in> set bs" and "\<And>a. a \<in> set as \<Longrightarrow> al_id a = al_id b \<Longrightarrow> al_status a = AllocationCompleted"
  shows "al_status b = AllocationCompleted"
proof -
  from assms(1,2) obtain a where "a \<in> set as" "allocation_core b = allocation_core a"
    "if al_id a \<in> I then al_status b = AllocationCompleted else b = a"
    unfolding marked_def by (auto simp: list_all2_conv_all_nth in_set_conv_nth) (metis nth_mem)
  with assms(3) show ?thesis by (auto simp: allocation_core_def split: if_splits)
qed

lemma postAllocations_marked:
  fixes s s' :: "'s contribution_db_scheme"
  assumes "postAllocations x v clock r n as s = Inr (rows, s')"
    and "\<And>a q. a \<in> set as \<Longrightarrow> al_status a = AllocationCompleted \<Longrightarrow> q \<in> set (contribution_allocations s) \<Longrightarrow> al_id q = al_id a
      \<Longrightarrow> al_status q = AllocationCompleted"
  shows "marked (al_id ` set as) (contribution_allocations s) (contribution_allocations s')
    \<and> contrib s' = contrib (s\<lparr>contribution_allocations := contribution_allocations s'\<rparr>)"
  using assms
proof (induction as arbitrary: n s rows)
  case Nil
  then show ?case by (auto simp: tx_simps contrib_def intro: marked_refl)
next
  case (Cons a as)
  obtain row s1 rows' where
    first: "(case al_status a of AllocationCompleted \<Rightarrow> ret a | AllocationFailed \<Rightarrow> throw_ce ErrReceiptNotProcessable
        | AllocationPending \<Rightarrow> tx_bind (processAllocation x (env_from n v) clock r a (cr_received_by r)) (\<lambda>(ref, external).
            or_error NoRowsE (q_UpdateContributionAllocationCompleted v (al_id a) ref external))) s = Inr (row, s1)"
    and rest: "postAllocations x v clock r (n + 2) as s1 = Inr (rows', s')"
    using Cons.prems(1) by (auto simp: tx_simps)
  have one: "marked {al_id a} (contribution_allocations s) (contribution_allocations s1)
      \<and> contrib s1 = contrib (s\<lparr>contribution_allocations := contribution_allocations s1\<rparr>)"
  proof (cases "al_status a")
    case AllocationPending
    obtain ref external s0 where "processAllocation x (env_from n v) clock r a (cr_received_by r) s = Inr ((ref, external), s0)"
      and upd: "q_UpdateContributionAllocationCompleted v (al_id a) ref external s0 = Inr (Some row, s1)"
      using first AllocationPending by (auto simp: tx_simps)
    from processAllocation_contrib [OF this(1)] have same: "contrib s0 = contrib s" .
    from upd have "s1 = s0\<lparr>contribution_allocations :=
        map (\<lambda>q. if al_id q = al_id a then complete_allocation v ref external q else q) (contribution_allocations s0)\<rparr>"
      by (auto simp: q_UpdateContributionAllocationCompleted_def split: option.splits if_splits)
    with same marked_one show ?thesis by (auto simp: contrib_def)
  next
    case AllocationCompleted
    with first have "s1 = s" by (simp add: tx_simps)
    moreover have "marked {al_id a} (contribution_allocations s) (contribution_allocations s)"
      by (rule marked_refl) (use Cons.prems(2) [of a] AllocationCompleted in auto)
    ultimately show ?thesis by (simp add: contrib_def)
  next
    case AllocationFailed
    with first show ?thesis by (simp add: tx_simps throw_ce_def)
  qed
  have "marked (al_id ` set as) (contribution_allocations s1) (contribution_allocations s')
    \<and> contrib s' = contrib (s1\<lparr>contribution_allocations := contribution_allocations s'\<rparr>)"
  proof (rule Cons.IH [OF rest])
    fix b q
    assume "b \<in> set as" "al_status b = AllocationCompleted" "q \<in> set (contribution_allocations s1)" "al_id q = al_id b"
    then show "al_status q = AllocationCompleted"
      using one Cons.prems(2) [of b] by (auto intro: marked_completed)
  qed
  with one show ?case using marked_trans [of "{al_id a}" _ "contribution_allocations s1"] by (simp add: contrib_def)
qed

lemma set_allocations_of [simp]: "set (allocations_of i s) = {a \<in> set (contribution_allocations s). al_receipt a = i}"
  by (auto simp: allocations_of_def)

lemma marked_posted:
  assumes "marked (al_id ` set (posting_order (allocations_of i s))) (contribution_allocations s) bs"
    and "distinct (map al_id (contribution_allocations s))"
  shows "posted i (contribution_allocations s) bs"
proof -
  have ids: "al_id a \<in> al_id ` set (posting_order (allocations_of i s)) \<longleftrightarrow> al_receipt a = i"
    if "a \<in> set (contribution_allocations s)" for a
    using that assms(2) by (auto simp: posting_order_def distinct_map dest: inj_onD)
  show ?thesis using assms(1) unfolding marked_def posted_def
    by (rule list.rel_mono_strong) (auto simp: ids)
qed

text \<open>The fees of a month that are not paid yet, as allocations.\<close>

definition fees_of :: "pg_uuid \<Rightarrow> date \<Rightarrow> 's contribution_db_scheme \<Rightarrow> ContributionMonthlyFee list" where
  "fees_of m p s = filter (\<lambda>f. mf_type f = Com) (filter (\<lambda>f. Some (mf_member f) = m \<and> mf_period f = p) (contribution_monthly_fees s))
     @ filter (\<lambda>f. mf_type f = Lgom) (filter (\<lambda>f. Some (mf_member f) = m \<and> mf_period f = p) (contribution_monthly_fees s))"

definition due_items :: "(ContributionAllocationType \<Rightarrow> int) \<Rightarrow> ContributionMonthlyFee list \<Rightarrow> AllocationInput list" where
  "due_items paid_for fees = concat (map (\<lambda>fee. let due = mf_amount fee - paid_for (mf_type fee) in
     if due > 0 then [\<lparr>ai_type = mf_type fee, ai_target = None, ai_amount = numericFromScale due, ai_label = []\<rparr>] else []) fees)"

lemma due_items_cong: "(\<And>f. f \<in> set fees \<Longrightarrow> p (mf_type f) = q (mf_type f)) \<Longrightarrow> due_items p fees = due_items q fees"
  unfolding due_items_def by (rule arg_cong [where f = concat], rule map_cong) simp_all

lemma fee_paid_zero:
  assumes "\<not> (\<exists>a\<in>set (contribution_allocations s). al_type a = ty \<and> fee_payment m p excl (contribution_receipts s) a)"
  shows "fee_paid m p excl ty s = 0"
proof -
  have "filter (\<lambda>a. al_type a = ty \<and> fee_payment m p excl (contribution_receipts s) a) (contribution_allocations s) = []"
    using assms by (auto simp: filter_empty_conv)
  then show ?thesis by (simp only: fee_paid_def sum_where_def) simp
qed

lemma q_AssessMonthlyFees_Inr:
  assumes "q_AssessMonthlyFees x v m p s = Inr (u, s')"
  shows "s' = s\<lparr>contribution_monthly_fees := contribution_monthly_fees s'\<rparr>"
proof (cases "find (\<lambda>r. Some (mem_id r) = m) (members s)")
  case None
  with assms show ?thesis by (simp add: q_AssessMonthlyFees_def tx_simps)
next
  case (Some r)
  with assms show ?thesis
    by (cases "fee_eligible x p r (member_status_history s)") (auto simp: q_AssessMonthlyFees_def tx_simps)
qed

lemma monthlyFees_Inr:
  assumes run: "monthlyFees x v clock m d excl s = Inr (fees, s')"
  shows "\<exists>day. d = Some day \<and> month_start day \<le> month_start (eat_date clock)
    \<and> q_AssessMonthlyFees x v m (month_start day) s = Inr ((), s')
    \<and> fees = due_items (\<lambda>ty. fee_paid m (month_start day) excl ty s) (fees_of m (month_start day) s')"
proof -
  let ?pays = "\<lambda>p. map (\<lambda>ty. (ty, db_num (fee_paid m p excl ty s'))) (filter (\<lambda>ty. \<exists>a\<in>set (contribution_allocations s'). al_type a = ty
       \<and> fee_payment m p excl (contribution_receipts s') a) [Com, Lgom])"
  let ?paid = "\<lambda>p ty. case map_of (?pays p) ty of None \<Rightarrow> 0 | Some q \<Rightarrow> numericToScale q (-4)"
  obtain day where d: "d = Some day" "month_start day \<le> month_start (eat_date clock)"
    and ass: "q_AssessMonthlyFees x v m (month_start day) s = Inr ((), s')"
    and fees: "fees = due_items (?paid (month_start day)) (fees_of m (month_start day) s')"
  proof (cases d)
    case None
    with run show thesis by (simp add: monthlyFees_def throw_ce_def tx_run)
  next
    case (Some day)
    with run have "\<not> month_start day > month_start (eat_date clock)"
      by (cases "month_start day > month_start (eat_date clock)") (simp_all add: monthlyFees_def throw_ce_def tx_run Let_def)
    with run Some show thesis
      by (intro that [of day]) (simp_all add: monthlyFees_def Let_def tx_bind_Inr_iff tx_run q_LockMonthlyFees_def
        q_SumMonthlyFeePaymentsByType_def due_items_def fees_of_def)
  qed
  have same: "fee_paid m p excl ty s' = fee_paid m p excl ty s" for p ty
    by (subst q_AssessMonthlyFees_Inr [OF ass]) (simp add: fee_paid_def)
  have "?paid p ty = fee_paid m p excl ty s'" if "ty = Com \<or> ty = Lgom" for p ty
    using that fee_paid_zero [of s' Com m p excl] fee_paid_zero [of s' Lgom m p excl] by auto
  note pd = trans [OF this same]
  have "mf_type f = Com \<or> mf_type f = Lgom" if "f \<in> set (fees_of m p s')" for f p using that by (auto simp: fees_of_def)
  then have "fees = due_items (\<lambda>ty. fee_paid m (month_start day) excl ty s) (fees_of m (month_start day) s')"
    unfolding fees by (intro due_items_cong pd)
  with d ass show ?thesis by blast
qed

section \<open>Processing a receipt\<close>

lemma contribution_errors_Inr [tx_simps]:
  "throw_ce e s \<noteq> Inr r" "lift_ce z s = Inr (y, s') \<longleftrightarrow> z = Inr y \<and> s' = s" "check_ce c s = Inr (u, s') \<longleftrightarrow> c = None \<and> s' = s"
  by (auto simp: throw_ce_def lift_ce_def check_ce_def tx_run split: sum.splits option.splits)

text \<open>What only reads gives back the database.\<close>

lemma keeps_same: "(\<And>c. keeps (\<lambda>s. s = c) m) \<Longrightarrow> m s = Inr (y, s') \<Longrightarrow> s' = s"
  unfolding keeps_def by metis

lemmas reads_same =
  keeps_same [OF keeps_loan_reads(1)] keeps_same [OF keeps_loan_reads(2)] keeps_same [OF keeps_snapshot]
  keeps_same [OF keeps_receipt_reads(1)] keeps_same [OF keeps_receipt_reads(2)] keeps_same [OF keeps_receipt_reads(3)]
  keeps_same [OF keeps_cash_reads(1)] keeps_same [OF keeps_cash_reads(2)]

lemma update_receipt_Some:
  assumes "update_receipt Q f s = Inr (Some r, s')"
  obtains q where "find Q (contribution_receipts s) = Some q" "r = f q"
    "s' = s\<lparr>contribution_receipts := map (\<lambda>p. if cr_id p = cr_id q then f p else p) (contribution_receipts s)\<rparr>"
  using assms by (auto simp: update_receipt_def split: option.splits)

lemma checkObligations_cases:
  assumes "checkObligations x v clock r as s = Inr (u, s1)"
  obtains fees expected where "as \<noteq> []"
    "monthlyFees x v clock (Some (cr_member r)) (Some (cr_period r)) (Some (cr_id r)) s = Inr (fees, s1)"
    "calculatedAllocations (map as_input as) fees = Inr expected" "verifyAllocationsMatch expected as = None"
    "validateChargeAllocations (Some (cr_member r)) (cr_branch r) (map as_input as) (Some (cr_id r)) s1 = Inr ((), s1)"
proof -
  obtain fees s0 where ne: "as \<noteq> []"
    and fees: "monthlyFees x v clock (Some (cr_member r)) (Some (cr_period r)) (Some (cr_id r)) s = Inr (fees, s0)"
    and rest: "(case calculatedAllocations (map as_input as) fees of Inl _ \<Rightarrow> throw_ce ErrMembershipFeeMismatch
        | Inr expected \<Rightarrow> if verifyAllocationsMatch expected as \<noteq> None then throw_ce ErrMembershipFeeMismatch
          else validateChargeAllocations (Some (cr_member r)) (cr_branch r) (map as_input as) (Some (cr_id r))) s0 = Inr (u, s1)"
    using assms by (auto simp: checkObligations_def tx_simps Let_def)
  obtain expected where e: "calculatedAllocations (map as_input as) fees = Inr expected"
    using rest by (cases "calculatedAllocations (map as_input as) fees") (auto simp: tx_simps)
  with rest have "verifyAllocationsMatch expected as = None"
    and val: "validateChargeAllocations (Some (cr_member r)) (cr_branch r) (map as_input as) (Some (cr_id r)) s0 = Inr (u, s1)"
    by (auto simp: tx_simps)
  with reads_same(5) [OF val] e fees ne show thesis by (intro that) auto
qed

lemma postReceipt_cases:
  fixes s s' :: "'s contribution_db_scheme"
  assumes run: "postReceipt x v clock r (allocations_of (cr_id r) s) s = Inr ((r', rows), s')"
    and ids: "distinct (map al_id (contribution_allocations s))" and proc: "cr_status r = ReceiptProcessing"
    and st: "\<And>q. q \<in> set (contribution_receipts s) \<Longrightarrow> cr_id q = cr_id r \<Longrightarrow> cr_status q = ReceiptProcessing"
  obtains s1 where "checkObligations x v clock r (allocations_of (cr_id r) s) s = Inr ((), s1)"
    "posted (cr_id r) (contribution_allocations s) (contribution_allocations s')"
    "same_receipts (cr_id r) ReceiptCompleted (contribution_receipts s) (contribution_receipts s')"
    "contrib s' = contrib (s1\<lparr>contribution_allocations := contribution_allocations s', contribution_receipts := contribution_receipts s'\<rparr>)"
    "cr_id r' = cr_id r" "cr_status r' = ReceiptCompleted" "r' \<in> set (contribution_receipts s')"
proof -
  let ?i = "cr_id r"
  define as where "as = allocations_of ?i s"
  define can where "can \<longleftrightarrow> cr_snapshot r = None \<and> list_all (\<lambda>a. al_status a \<noteq> AllocationCompleted) (filter (\<lambda>a. al_type a = LoanPrincipal) as)"
  obtain s1 loans1 t1 positions t2 s2 s3 where ob: "checkObligations x v clock r as s = Inr ((), s1)"
    and quote: "q_LockMemberContributionLoans (cr_member r) (cr_branch r) s1 = Inr (loans1, t1)"
      "QuoteContributionLoans x (cr_member r) (cr_branch r) (cr_period r) t1 = Inr (positions, t2)"
    and post': "postAllocations x v clock r 0 (posting_order as) t2 = Inr (rows, s2)"
    and snap: "(if can then tx_bind (CompleteContributionLoanSnapshot x positions
          (map (\<lambda>a. ext_uuid_text x (al_id a)) (filter (\<lambda>a. al_type a = LoanPrincipal) as))) (\<lambda>snapshot.
            tx_bind (or_error NoRowsE (q_SaveContributionLoanSnapshot ?i snapshot)) (\<lambda>_. ret ())) else ret ()) s2 = Inr ((), s3)"
    and last: "q_UpdateContributionReceiptStatus v ?i ReceiptCompleted None s3 = Inr (Some r', s')"
    using run unfolding as_def [symmetric]
    by (auto simp: postReceipt_def tx_bind_Inr_iff tx_run or_error_Inr Let_def can_def [symmetric])
  have post: "postAllocations x v clock r 0 (posting_order as) s1 = Inr (rows, s2)"
    using post' reads_same(2) [OF quote(1)] reads_same(1) [OF quote(2)] by simp
  from ob obtain fs where s1: "s1 = s\<lparr>contribution_monthly_fees := fs\<rparr>"
    by (rule checkObligations_cases) (use monthlyFees_Inr q_AssessMonthlyFees_Inr in metis)
  have "marked (al_id ` set (posting_order as)) (contribution_allocations s1) (contribution_allocations s2)
      \<and> contrib s2 = contrib (s1\<lparr>contribution_allocations := contribution_allocations s2\<rparr>)"
  proof (rule postAllocations_marked [OF post])
    fix a q
    assume "a \<in> set (posting_order as)" "al_status a = AllocationCompleted" "q \<in> set (contribution_allocations s1)" "al_id q = al_id a"
    then show "al_status q = AllocationCompleted"
      using ids by (auto simp: posting_order_def as_def s1 distinct_map dest: inj_onD)
  qed
  then have alloc: "posted ?i (contribution_allocations s) (contribution_allocations s2)"
    and con2: "contrib s2 = contrib (s1\<lparr>contribution_allocations := contribution_allocations s2\<rparr>)"
    using marked_posted [of ?i s] ids by (simp_all add: as_def s1)
  have rec2: "same_receipts ?i ReceiptProcessing (contribution_receipts s) (contribution_receipts s2)"
    using con2 st by (auto simp: s1 contrib_def same_receipts_def list_all2_same)
  have snapped: "same_receipts ?i ReceiptProcessing (contribution_receipts s) (contribution_receipts s3)
      \<and> s3 = s2\<lparr>contribution_receipts := contribution_receipts s3\<rparr>"
  proof (cases can)
    case False
    with snap rec2 show ?thesis by (simp add: tx_run)
  next
    case True
    obtain sn q where q: "find (\<lambda>r. cr_id r = ?i \<and> cr_snapshot r = None \<and> cr_status r = ReceiptProcessing) (contribution_receipts s2) = Some q"
      "s3 = s2\<lparr>contribution_receipts := map (\<lambda>p. if cr_id p = cr_id q then p\<lparr>cr_snapshot := Some sn\<rparr> else p) (contribution_receipts s2)\<rparr>"
      using snap True by (auto simp: tx_bind_Inr_iff tx_run or_error_Inr q_SaveContributionLoanSnapshot_def dest!: reads_same(3)
          elim!: update_receipt_Some)
    have "cr_id q = ?i" using find_Some_set [OF q(1)] by simp
    then show ?thesis using q(2) same_receipts_snapshot [OF rec2, of "Some sn"] by simp
  qed
  from last obtain q where q: "find (\<lambda>r. cr_id r = ?i \<and> \<not> cr_deleted r) (contribution_receipts s3) = Some q"
    "r' = q\<lparr>cr_status := ReceiptCompleted, cr_failure := None, cr_updated := env_now v\<rparr>"
    "s' = s3\<lparr>contribution_receipts := map (\<lambda>p. if cr_id p = cr_id q then p\<lparr>cr_status := ReceiptCompleted, cr_failure := None,
       cr_updated := env_now v\<rparr> else p) (contribution_receipts s3)\<rparr>"
    unfolding q_UpdateContributionReceiptStatus_def by (rule update_receipt_Some)
  have qi: "cr_id q = ?i" "q \<in> set (contribution_receipts s3)" using find_Some_set [OF q(1)] by simp_all
  have "same_receipts ?i ReceiptCompleted (contribution_receipts s3) (contribution_receipts s')"
    using q(3) qi(1) by (simp add: same_receipts_map)
  from same_receipts_trans [OF snapped [THEN conjunct1] this]
  have rec: "same_receipts ?i ReceiptCompleted (contribution_receipts s) (contribution_receipts s')" .
  have con: "contrib s' = contrib (s1\<lparr>contribution_allocations := contribution_allocations s', contribution_receipts := contribution_receipts s'\<rparr>)"
    "contribution_allocations s' = contribution_allocations s2"
  proof -
    have "contrib s3 = contrib (s2\<lparr>contribution_receipts := contribution_receipts s3\<rparr>)" by (rule arg_cong [OF snapped [THEN conjunct2]])
    with con2 show "contrib s' = contrib (s1\<lparr>contribution_allocations := contribution_allocations s', contribution_receipts := contribution_receipts s'\<rparr>)"
      "contribution_allocations s' = contribution_allocations s2"
      by (simp_all add: q(3) contrib_def)
  qed
  show thesis
    by (rule that [OF ob [unfolded as_def] _ rec con(1)]) (use alloc con(2) q qi in \<open>auto simp: image_iff\<close>)
qed

definition in_progress :: "ContributionReceiptStatus \<Rightarrow> bool" where
  "in_progress st \<longleftrightarrow> st = ReceiptPending \<or> st = ReceiptProcessing"

definition failed_receipt :: "env \<Rightarrow> error \<Rightarrow> ContributionReceipt \<Rightarrow> ContributionReceipt" where
  "failed_receipt v e q = q\<lparr>cr_status := receiptFailureStatus q, cr_failure := Some e, cr_updated := env_now v\<rparr>"

lemma live_receipt_id:
  "live_receipt (\<lambda>r. cr_id r = i) s = Some r \<Longrightarrow> cr_id r = i \<and> \<not> cr_deleted r \<and> r \<in> set (contribution_receipts s)"
  unfolding live_receipt_def by (drule find_Some_set) simp

lemma failReceipt_Inr:
  assumes "failReceipt v i st e s = Inr ((p, err), s')"
  obtains q where "find (\<lambda>r. cr_id r = i \<and> \<not> cr_deleted r) (contribution_receipts s) = Some q" "err = Some e"
    "s' = s\<lparr>contribution_receipts := map (\<lambda>p. if cr_id p = cr_id q then p\<lparr>cr_status := st, cr_failure := Some e, cr_updated := env_now v\<rparr> else p)
       (contribution_receipts s)\<rparr>"
proof -
  from assms obtain r where "err = Some e" "q_UpdateContributionReceiptStatus v i st (Some e) s = Inr (Some r, s')"
    by (auto simp: failReceipt_def tx_bind_Inr_iff tx_run or_error_Inr q_ListContributionAllocationsByReceipt_def)
  then show thesis unfolding q_UpdateContributionReceiptStatus_def by (elim update_receipt_Some) (rule that)
qed

text \<open>The savepoint: the receipt is marked as processing.\<close>

lemma savepoint_cases:
  assumes r: "live_receipt (\<lambda>r. cr_id r = i) s = Some r" and uniq: "distinct (map cr_id (contribution_receipts s))"
    and run: "(case cr_status r of ReceiptCompleted \<Rightarrow> ret (Some (r, as), None)
       | ReceiptPending \<Rightarrow> tx_bind (or_error NoRowsE (q_UpdateContributionReceiptStatus v (cr_id r) ReceiptProcessing None)) (\<lambda>receipt.
           tx_bind (postOrFail x v clock receipt as) (\<lambda>(r, e). ret (Some r, e)))
       | ReceiptProcessing \<Rightarrow> tx_bind (postOrFail x v clock r as) (\<lambda>(r, e). ret (Some r, e))
       | _ \<Rightarrow> ret (Some (r, as), Some (ContributionE ErrReceiptNotProcessable))) s = Inr ((res, err), s')"
  obtains (stopped) "s' = s" "err = None \<longrightarrow> cr_status r = ReceiptCompleted \<and> res = Some (r, as)" "\<not> in_progress (cr_status r)"
  | (started) f r' where "in_progress (cr_status r)" "\<And>q. receipt_core (f q) = receipt_core q" "\<And>q. cr_id q = i \<Longrightarrow> q \<in> set (contribution_receipts s) \<Longrightarrow> cr_status (f q) = ReceiptProcessing"
      "\<And>q e. failed_receipt v e (f q) = failed_receipt v e q" "res = Some r'"
      "postOrFail x v clock (f r) as (s\<lparr>contribution_receipts := map (\<lambda>q. if cr_id q = i then f q else q) (contribution_receipts s)\<rparr>) = Inr ((r', err), s')"
proof -
  have ri: "cr_id r = i" "r \<in> set (contribution_receipts s)" using live_receipt_id [OF r] by simp_all
  have only: "q = r" if "cr_id q = i" "q \<in> set (contribution_receipts s)" for q
    using that ri uniq by (auto simp: distinct_map dest: inj_onD)
  show thesis
  proof (cases "cr_status r")
    case ReceiptPending
    let ?f = "\<lambda>q. q\<lparr>cr_status := ReceiptProcessing, cr_failure := None, cr_updated := env_now v\<rparr>"
    obtain q s1 where "update_receipt (\<lambda>r. cr_id r = i \<and> \<not> cr_deleted r) ?f s = Inr (Some q, s1)"
      and rest: "tx_bind (postOrFail x v clock q as) (\<lambda>(r, e). ret (Some r, e)) s1 = Inr ((res, err), s')"
      using run ReceiptPending ri(1) by (auto simp: tx_bind_Inr_iff or_error_Inr q_UpdateContributionReceiptStatus_def)
    then have "q = ?f r" "s1 = s\<lparr>contribution_receipts := map (\<lambda>q. if cr_id q = i then ?f q else q) (contribution_receipts s)\<rparr>"
      using r ri(1) by (auto elim!: update_receipt_Some simp: live_receipt_def)
    with rest ReceiptPending show thesis
      by (intro started [of ?f "the res"])
        (auto simp: in_progress_def failed_receipt_def receiptFailureStatus_def tx_bind_Inr_iff tx_run)
  next
    case ReceiptProcessing
    have same: "s\<lparr>contribution_receipts := rs\<rparr> = s" if "rs = contribution_receipts s" for rs using that by simp
    have "s\<lparr>contribution_receipts := map (\<lambda>q. if cr_id q = i then id q else q) (contribution_receipts s)\<rparr> = s"
      by (rule same, rule map_idI) simp
    with run ReceiptProcessing only show thesis
      by (intro started [of id "the res"]) (auto simp: in_progress_def tx_bind_Inr_iff tx_run)
  qed (use run in \<open>auto simp: tx_run in_progress_def intro!: stopped\<close>)
qed

lemma process_cases:
  fixes s s' :: "'s contribution_db_scheme"
  assumes run: "ProcessReceipt x v clock i s = ((res, err), s')"
    and uniq: "distinct (map cr_id (contribution_receipts s))" and ids: "distinct (map al_id (contribution_allocations s))"
  obtains (unchanged) "s' = s" "err = None \<longrightarrow> (\<exists>r. live_receipt (\<lambda>r. cr_id r = i) s = Some r \<and> cr_status r = ReceiptCompleted
        \<and> res = Some (r, allocations_of i s))"
  | (failed) r e where "live_receipt (\<lambda>r. cr_id r = i) s = Some r" "in_progress (cr_status r)" "err = Some e" "receiptBusinessError e"
      "s' = s\<lparr>contribution_receipts := map (\<lambda>q. if cr_id q = i then failed_receipt v e q else q) (contribution_receipts s)\<rparr>"
  | (completed) r r0 r' rows rs0 s1 where "live_receipt (\<lambda>r. cr_id r = i) s = Some r" "in_progress (cr_status r)" "err = None"
      "res = Some (r', rows)" "receipt_core r0 = receipt_core r"
      "same_receipts i ReceiptProcessing (contribution_receipts s) rs0"
      "checkObligations x v clock r0 (allocations_of i s) (s\<lparr>contribution_receipts := rs0\<rparr>) = Inr ((), s1)"
      "posted i (contribution_allocations s) (contribution_allocations s')"
      "same_receipts i ReceiptCompleted (contribution_receipts s) (contribution_receipts s')"
      "contrib s' = contrib (s1\<lparr>contribution_allocations := contribution_allocations s', contribution_receipts := contribution_receipts s'\<rparr>)"
      "cr_id r' = i" "cr_status r' = ReceiptCompleted" "r' \<in> set (contribution_receipts s')"
proof (cases "processReceiptInTx x v clock i s")
  case (Inl e)
  with run show thesis by (auto simp: ProcessReceipt_def execTx_def intro: unchanged)
next
  case (Inr p)
  with run have tx: "processReceiptInTx x v clock i s = Inr ((res, err), s')"
    by (cases p) (auto simp: ProcessReceipt_def execTx_def)
  show thesis
  proof (cases "live_receipt (\<lambda>r. cr_id r = i) s")
    case None
    with tx show thesis by (auto simp: processReceiptInTx_def q_LockContributionReceiptByID_def tx_bind_Inr_iff tx_run intro: unchanged)
  next
    case (Some r)
    note ri = live_receipt_id [OF Some]
    from tx Some ri have "(case cr_status r of ReceiptCompleted \<Rightarrow> ret (Some (r, allocations_of i s), None)
       | ReceiptPending \<Rightarrow> tx_bind (or_error NoRowsE (q_UpdateContributionReceiptStatus v (cr_id r) ReceiptProcessing None)) (\<lambda>receipt.
           tx_bind (postOrFail x v clock receipt (allocations_of i s)) (\<lambda>(r, e). ret (Some r, e)))
       | ReceiptProcessing \<Rightarrow> tx_bind (postOrFail x v clock r (allocations_of i s)) (\<lambda>(r, e). ret (Some r, e))
       | _ \<Rightarrow> ret (Some (r, allocations_of i s), Some (ContributionE ErrReceiptNotProcessable))) s = Inr ((res, err), s')"
      by (simp add: processReceiptInTx_def q_LockContributionReceiptByID_def q_LockContributionAllocationsByReceipt_def tx_bind_Inr_iff tx_run)
    from Some uniq this show thesis
    proof (cases rule: savepoint_cases)
      case stopped
      with Some show thesis by (intro unchanged) auto
    next
      case (started f p)
      define rs where "rs = map (\<lambda>q. if cr_id q = i then f q else q) (contribution_receipts s)"
      let ?s0 = "s\<lparr>contribution_receipts := rs\<rparr>"
      note started = started [folded rs_def]
      have id: "cr_id (f q) = cr_id q" for q using receipt_core_same(1) [OF started(2)] .
      have same: "same_receipts i ReceiptProcessing (contribution_receipts s) rs"
        using started(2,3) by (auto simp: rs_def same_receipts_def list_all2_map2 intro!: list.rel_refl_strong)
      show thesis
      proof (cases "postReceipt x v clock (f r) (allocations_of i s) ?s0")
        case (Inl e)
        with started(6) have bus: "receiptBusinessError e"
          and fail: "failReceipt v i (receiptFailureStatus (f r)) e ?s0 = Inr ((p, err), s')"
          using ri id by (auto simp: postOrFail_def split: if_splits)
        have rs0: "contribution_receipts ?s0 = rs" by simp
        from failReceipt_Inr [OF fail, unfolded rs0] obtain q where found: "find (\<lambda>r. cr_id r = i \<and> \<not> cr_deleted r) rs = Some q"
          and err: "err = Some e" and s': "s' = ?s0\<lparr>contribution_receipts := map (\<lambda>p. if cr_id p = cr_id q
             then p\<lparr>cr_status := receiptFailureStatus (f r), cr_failure := Some e, cr_updated := env_now v\<rparr> else p) rs\<rparr>"
          by blast
        have q: "cr_id q = i" using find_Some_set [OF found] by simp
        have row: "(f p)\<lparr>cr_status := receiptFailureStatus (f r), cr_failure := Some e, cr_updated := env_now v\<rparr> = failed_receipt v e p"
          if "p \<in> set (contribution_receipts s)" "cr_id p = i" for p
        proof -
          have "p = r" using that ri uniq by (auto simp: distinct_map dest: inj_onD)
          then show ?thesis using started(4) [of e r] by (simp add: failed_receipt_def)
        qed
        have "map (\<lambda>p. if cr_id p = cr_id q then p\<lparr>cr_status := receiptFailureStatus (f r), cr_failure := Some e,
             cr_updated := env_now v\<rparr> else p) rs = map (\<lambda>q. if cr_id q = i then failed_receipt v e q else q) (contribution_receipts s)"
          unfolding rs_def map_map by (rule map_cong [OF refl]) (simp add: q id row)
        with s' show thesis by (intro failed [OF Some started(1) err bus]) simp
      next
        case (Inr w)
        with started(6) obtain r' rows where p: "p = (r', rows)" "err = None"
          and post: "postReceipt x v clock (f r) (allocations_of i s) ?s0 = Inr ((r', rows), s')"
          by (cases w; cases p) (auto simp: postOrFail_def)
        have fr: "cr_id (f r) = i" "allocations_of i ?s0 = allocations_of i s" using id ri by (simp_all add: allocations_of_def)
        show thesis
        proof (rule postReceipt_cases [of x v clock "f r" ?s0 r' rows s'])
          show "postReceipt x v clock (f r) (allocations_of (cr_id (f r)) ?s0) ?s0 = Inr ((r', rows), s')" using post fr by simp
          show "cr_status (f r) = ReceiptProcessing" using started(3) ri by simp
          show "cr_status q = ReceiptProcessing" if "q \<in> set (contribution_receipts ?s0)" "cr_id q = cr_id (f r)" for q
            using that started(3) fr id by (auto simp: rs_def)
        next
          fix s1
          assume ob: "checkObligations x v clock (f r) (allocations_of (cr_id (f r)) ?s0) ?s0 = Inr ((), s1)"
            and po: "posted (cr_id (f r)) (contribution_allocations ?s0) (contribution_allocations s')"
            and sr: "same_receipts (cr_id (f r)) ReceiptCompleted (contribution_receipts ?s0) (contribution_receipts s')"
            and con: "contrib s' = contrib (s1\<lparr>contribution_allocations := contribution_allocations s', contribution_receipts := contribution_receipts s'\<rparr>)"
            and r': "cr_id r' = cr_id (f r)" "cr_status r' = ReceiptCompleted" "r' \<in> set (contribution_receipts s')"
          have "same_receipts i ReceiptCompleted (contribution_receipts s) (contribution_receipts s')"
            using same_receipts_trans [OF same] sr fr by simp
          then show thesis
            using completed [OF Some started(1) p(2) _ started(2) same _ _ _ con] started(5) p(1) ob po r' fr by simp
        qed (use ids in simp)
      qed
    qed
  qed
qed

end
