(* ===== verification/Receipt_Entry.thy ===== *)
theory Receipt_Entry
  imports Receipt_Posting
begin

text \<open>
  What creating a receipt does, for cash and for other channels: the rows that are inserted and how
  their amounts relate to the allocations that were asked for.
\<close>

section \<open>Amounts\<close>

lemma store_precise:
  assumes "store_numeric n = Inr k" and "\<not> too_precise n"
  shows "k = numericToScale n (-4)"
proof (cases "-4 \<le> n_exp n")
  case True
  with assms(1) show ?thesis by (rule store_exact)
next
  case False
  obtain v where v: "n_int n = Some v" "n_valid n" and k: "k = round4 v (n_exp n)"
    using assms(1) by (auto simp: store_numeric_def Let_def split: if_splits option.splits)
  define b :: int where "b = 10 ^ nat (- 4 - n_exp n)"
  have b: "0 < b" by (simp add: b_def)
  have "v mod b = 0" using assms(2) False v by (simp add: too_precise_def big_mod_def b_def)
  then obtain q where q: "v = q * b" by (metis dvd_div_mult_self mod_0_imp_dvd)
  have "k = q" using k False b by (simp add: round4_def q b_def [symmetric])
  moreover have "numericToScale n (-4) = q"
  proof -
    have "10 ^ nat (- (n_exp n - - 4)) = b" by (simp add: b_def algebra_simps)
    then show ?thesis using v False big_quo_exact [OF b, of q] by (simp add: numericToScale_def Let_def q)
  qed
  ultimately show ?thesis by simp
qed

lemma precise_from_scale [simp]: "\<not> too_precise (numericFromScale k)"
  by (simp add: too_precise_def numericFromScale_def)

lemma precise_db [simp]: "\<not> too_precise (db_num k)"
  by (simp add: too_precise_def db_num_def)

section \<open>Validation\<close>

lemma validateAllocations_Inr:
  assumes "validateAllocations seen tot as = Inr t"
  shows "t = tot + sum_list (map units as) \<and> list_all (\<lambda>a. positive (ai_amount a)) as
    \<and> distinct (map (\<lambda>a. (ai_type a, ai_target a)) as) \<and> set seen \<inter> (\<lambda>a. (ai_type a, ai_target a)) ` set as = {}"
  using assms
proof (induction as arbitrary: seen tot)
  case (Cons a as)
  then have "validateAllocations ((ai_type a, ai_target a) # seen) (tot + units a) as = Inr t"
    and a: "positive (ai_amount a)" "(ai_type a, ai_target a) \<notin> set seen" by (auto split: if_splits)
  from Cons.IH [OF this(1)] a show ?case by auto
qed simp

lemma validateReceipt_None:
  assumes "validateReceipt p as = None"
  shows "sum_list (map units as) = numericToScale (ir_amount p) (-4) \<and> list_all (\<lambda>a. positive (ai_amount a)) as
    \<and> distinct (map (\<lambda>a. (ai_type a, ai_target a)) as) \<and> as \<noteq> []"
  using assms validateAllocations_Inr [of "[]" 0 as]
  by (auto simp: validateReceipt_def split: if_splits sum.splits)

section \<open>Inserting\<close>

definition entered :: "uuid \<Rightarrow> AllocationInput \<Rightarrow> ContributionAllocation \<Rightarrow> bool" where
  "entered i e a \<longleftrightarrow> al_receipt a = i \<and> al_type a = ai_type e \<and> al_target a = ai_target e \<and> store_numeric (ai_amount e) = Inr (al_amount a)
     \<and> 0 < al_amount a \<and> al_status a = AllocationPending"

lemma insertAllocations_Inr:
  assumes "insertAllocations v i n es s = Inr (rows, s')"
  shows "s' = s\<lparr>contribution_allocations := contribution_allocations s @ rows\<rparr> \<and> list_all2 (entered i) es rows
    \<and> (distinct (map al_id (contribution_allocations s)) \<longrightarrow> distinct (map al_id (contribution_allocations s @ rows)))"
  using assms
proof (induction es arbitrary: n s rows)
  case Nil
  then show ?case by (simp add: tx_run)
next
  case (Cons e es)
  then obtain a s1 rows' where ins: "q_InsertContributionAllocation v n i (ai_type e) (ai_target e) (ai_amount e) s = Inr (Some a, s1)"
    and rest: "insertAllocations v i (Suc n) es s1 = Inr (rows', s')" and rows: "rows = a # rows'"
    by (auto simp: tx_bind_Inr_iff tx_run tx_option_Inr contribution_errors_Inr)
  from ins have a: "entered i e a" "s1 = s\<lparr>contribution_allocations := contribution_allocations s @ [a]\<rparr>"
    "al_id a \<notin> al_id ` set (contribution_allocations s)"
    by (auto simp: q_InsertContributionAllocation_def entered_def tx_simps Let_def allocation_conflict_def split: if_splits)
  from Cons.IH [OF rest] a rows show ?case by (auto simp: a(2))
qed

lemma createReceipt_cases:
  assumes "createReceipt v p es s = Inr ((r, rows), s')"
  obtains (repeated) "s' = s" "existingReceipt p s = Inr (Some r, s)" "rows = allocations_of (cr_id r) s" "verifyAllocationsMatch es rows = None"
  | (new) "s' = s\<lparr>contribution_receipts := contribution_receipts s @ [r], contribution_allocations := contribution_allocations s @ rows\<rparr>"
      "list_all2 (entered (cr_id r)) es rows"
      "distinct (map al_id (contribution_allocations s)) \<Longrightarrow> distinct (map al_id (contribution_allocations s @ rows))"
      "store_numeric (ir_amount p) = Inr (cr_amount r)" "\<forall>q\<in>set (contribution_receipts s). \<not> receipt_conflict r q" "receipt_check r"
      "cr_status r = ReceiptPending" "cr_channel r = ir_channel p" "cr_session r = ir_session p" "Some (cr_member r) = ir_member p"
      "Some (cr_period r) = ir_period p" "cr_branch r = ir_branch p" "cr_plan r = ir_plan p" "cr_key r = ir_key p"
      "cr_external r = ir_external p" "cr_checkout r = ir_checkout p" "cr_received_by r = ir_received_by p" "\<not> cr_deleted r"
proof -
  obtain ins s1 where ins: "q_InsertContributionReceipt v p s = Inr (ins, s1)"
    and rest: "(case ins of Some receipt \<Rightarrow> tx_bind (insertAllocations v (cr_id receipt) 1 es) (\<lambda>rows. ret (receipt, rows))
       | None \<Rightarrow> tx_bind (or_error (ContributionE ErrReceiptNotFound) (existingReceipt p)) (\<lambda>receipt.
           tx_bind (q_ListContributionAllocationsByReceipt (cr_id receipt)) (\<lambda>rows.
           tx_bind (check_ce (verifyAllocationsMatch es rows)) (\<lambda>_. ret (receipt, rows))))) s1 = Inr ((r, rows), s')"
    using assms by (auto simp: createReceipt_def tx_bind_Inr_iff)
  show thesis
  proof (cases ins)
    case None
    with ins have s1: "s1 = s"
      by (auto simp: q_InsertContributionReceipt_def tx_simps Let_def split: if_splits option.splits prod.splits)
    with rest None have "existingReceipt p s = Inr (Some r, s') \<and> rows = allocations_of (cr_id r) s' \<and> verifyAllocationsMatch es rows = None"
      by (auto simp: tx_bind_Inr_iff tx_run or_error_Inr q_ListContributionAllocationsByReceipt_def contribution_errors_Inr)
    moreover from this have "s' = s" using reads_same(4) by blast
    ultimately show thesis by (intro repeated) auto
  next
    case (Some r1)
    with rest have r: "r1 = r" and al: "insertAllocations v (cr_id r) 1 es s1 = Inr (rows, s')"
      by (auto simp: tx_bind_Inr_iff tx_run)
    have "s1 = s\<lparr>contribution_receipts := contribution_receipts s @ [r]\<rparr> \<and> store_numeric (ir_amount p) = Inr (cr_amount r)
      \<and> (\<forall>q\<in>set (contribution_receipts s). \<not> receipt_conflict r q) \<and> receipt_check r \<and> cr_status r = ReceiptPending \<and> cr_channel r = ir_channel p
      \<and> cr_session r = ir_session p \<and> Some (cr_member r) = ir_member p \<and> Some (cr_period r) = ir_period p \<and> cr_branch r = ir_branch p
      \<and> cr_plan r = ir_plan p \<and> cr_key r = ir_key p \<and> cr_external r = ir_external p \<and> cr_checkout r = ir_checkout p
      \<and> cr_received_by r = ir_received_by p \<and> \<not> cr_deleted r"
      using ins Some r
      by (cases "ir_member p"; cases "ir_period p"; cases "ir_received_at p")
        (auto simp: q_InsertContributionReceipt_def tx_simps Let_def split: if_splits)
    with insertAllocations_Inr [OF al] show thesis by (intro new) auto
  qed
qed

section \<open>The calculated allocations\<close>

lemma sum_list_update_int: "i < length xs \<Longrightarrow> sum_list (xs[i := y]) = sum_list xs - xs ! i + (y :: int)"
  by (induction xs arbitrary: i) (auto split: nat.splits)

lemma calculateLoop_Inr:
  assumes "calculateLoop fees acc seen ls items = Inr out" and "\<forall>(t, i)\<in>set ls. i < length acc"
    and "\<forall>e\<in>set acc. \<not> is_fee (ai_type e) \<and> \<not> too_precise (ai_amount e)"
    and "\<forall>e\<in>set items. \<not> is_fee (ai_type e) \<longrightarrow> \<not> too_precise (ai_amount e)"
  shows "\<exists>parts. out = parts @ fees \<and> sum_list (map units parts) = sum_list (map units acc) + sum_list (map units (filter (\<lambda>e. \<not> is_fee (ai_type e)) items))
    \<and> (\<forall>e\<in>set parts. \<not> is_fee (ai_type e) \<and> \<not> too_precise (ai_amount e))"
  using assms
proof (induction items arbitrary: acc seen ls)
  case (Cons item items)
  note run = Cons.prems(1) and idx = Cons.prems(2) and acc = Cons.prems(3) and it = Cons.prems(4)
  let ?key = "(ai_type item, ai_target item)"
  have its: "\<forall>e\<in>set items. \<not> is_fee (ai_type e) \<longrightarrow> \<not> too_precise (ai_amount e)" using it by simp
  have ok: "positive (ai_amount item)" "?key \<notin> set seen" using run by (auto simp: Let_def split: if_splits)
  show ?case
  proof (cases "is_fee (ai_type item)")
    case fee: True
    with run ok have "calculateLoop fees acc (?key # seen) ls items = Inr out" "ai_target item = None"
      "\<exists>fee\<in>set fees. ai_type fee = ai_type item \<and> units fee = units item" by (auto simp: Let_def split: if_splits)
    with Cons.IH ok fee idx acc it show ?thesis by simp
  next
    case nofee: False
    show ?thesis
    proof (cases "is_loan (ai_type item)")
      case loan: True
      with run ok nofee obtain t where t: "ai_target item = Some t" by (auto simp: Let_def split: option.splits)
      show ?thesis
      proof (cases "map_of ls t")
        case None
        with run ok nofee loan t have "calculateLoop fees (acc @ [item\<lparr>ai_type := LoanPrincipal\<rparr>]) (?key # seen) ((t, length acc) # ls) items = Inr out"
          by (simp add: Let_def)
        moreover have "\<forall>(u, i)\<in>set ((t, length acc) # ls). i < length (acc @ [item\<lparr>ai_type := LoanPrincipal\<rparr>])"
          using idx by fastforce
        moreover have "\<forall>e\<in>set (acc @ [item\<lparr>ai_type := LoanPrincipal\<rparr>]). \<not> is_fee (ai_type e) \<and> \<not> too_precise (ai_amount e)"
          using acc it nofee by (auto simp: is_fee_def)
        moreover have "units (item\<lparr>ai_type := LoanPrincipal\<rparr>) = units item" by (simp add: units_def)
        ultimately show ?thesis using Cons.IH [OF _ _ _ its, of "acc @ [item\<lparr>ai_type := LoanPrincipal\<rparr>]"] nofee
          by (fastforce simp: add.assoc)
      next
        case (Some i)
        let ?new = "(acc ! i)\<lparr>ai_amount := numericFromScale (units (acc ! i) + units item)\<rparr>"
        from Some idx have i: "i < length acc" by (auto dest!: map_of_SomeD)
        from run ok nofee loan t Some have "calculateLoop fees (acc[i := ?new]) (?key # seen) ls items = Inr out" by (simp add: Let_def)
        moreover have "\<forall>e\<in>set (acc[i := ?new]). \<not> is_fee (ai_type e) \<and> \<not> too_precise (ai_amount e)"
          using acc i by (auto dest!: set_update_subset_insert [THEN subsetD])
        moreover have "sum_list (map units (acc[i := ?new])) = sum_list (map units acc) + units item"
        proof -
          have "map units (acc[i := ?new]) = (map units acc)[i := units (acc ! i) + units item]"
            by (simp add: map_update) (simp add: units_def)
          then show ?thesis using i by (simp add: sum_list_update_int)
        qed
        ultimately show ?thesis using Cons.IH [OF _ _ _ its, of "acc[i := ?new]"] idx nofee by (simp add: add.assoc)
      qed
    next
      case noloan: False
      with run ok nofee have "calculateLoop fees (acc @ [item]) (?key # seen) ls items = Inr out" by (simp add: Let_def)
      moreover have "\<forall>(u, i)\<in>set ls. i < length (acc @ [item])" using idx by fastforce
      moreover have "\<forall>e\<in>set (acc @ [item]). \<not> is_fee (ai_type e) \<and> \<not> too_precise (ai_amount e)" using acc it nofee by auto
      ultimately show ?thesis using Cons.IH [OF _ _ _ its, of "acc @ [item]"] nofee by (fastforce simp: add.assoc)
    qed
  qed
qed auto

lemma calculated_Inr:
  assumes "calculatedAllocations es fees = Inr out" and "\<forall>e\<in>set es. \<not> is_fee (ai_type e) \<longrightarrow> \<not> too_precise (ai_amount e)"
  obtains parts where "out = parts @ fees" "sum_list (map units parts) = sum_list (map units (filter (\<lambda>e. \<not> is_fee (ai_type e)) es))"
    "\<forall>e\<in>set parts. \<not> is_fee (ai_type e) \<and> \<not> too_precise (ai_amount e)"
  using calculateLoop_Inr [of fees "[]" "[]" "[]" es out] assms by (auto simp: calculatedAllocations_def)

lemma due_items_precise: "e \<in> set (due_items p fees) \<Longrightarrow> \<not> too_precise (ai_amount e) \<and> positive (ai_amount e) \<and> ai_target e = None"
  by (auto simp: due_items_def Let_def positive_def numericFromScale_def too_precise_def split: if_splits)

section \<open>What a new receipt adds\<close>

definition new_receipt :: "ContributionReceipt \<Rightarrow> ContributionAllocation list \<Rightarrow> 's contribution_db_scheme \<Rightarrow> 's contribution_db_scheme \<Rightarrow> bool" where
  "new_receipt r rows s s' \<longleftrightarrow>
     s' = s\<lparr>contribution_receipts := contribution_receipts s @ [r], contribution_allocations := contribution_allocations s @ rows\<rparr>
     \<and> (\<forall>q\<in>set (contribution_receipts s). cr_id q \<noteq> cr_id r) \<and> cr_status r = ReceiptPending \<and> receipt_check r
     \<and> (\<forall>a\<in>set rows. al_receipt a = cr_id r \<and> 0 < al_amount a \<and> al_status a = AllocationPending)
     \<and> (distinct (map al_id (contribution_allocations s)) \<longrightarrow> distinct (map al_id (contribution_allocations s @ rows)))
     \<and> sum_list (map al_amount rows) = cr_amount r"

text \<open>The months' fees are assessed, and a receipt is added or found.\<close>

definition receipt_entry :: "ext \<Rightarrow> env \<Rightarrow> ContributionReceipt \<Rightarrow> ContributionAllocation list
    \<Rightarrow> 's contribution_db_scheme \<Rightarrow> 's contribution_db_scheme \<Rightarrow> bool" where
  "receipt_entry x v r rows s s' \<longleftrightarrow>
     (\<exists>s1. (s1 = s \<or> (\<exists>m d. q_AssessMonthlyFees x v m (month_start d) s = Inr ((), s1))) \<and> (s' = s1 \<or> new_receipt r rows s1 s'))"

lemma entered_amounts:
  "list_all2 (entered i) es rows \<Longrightarrow> \<forall>e\<in>set es. \<not> too_precise (ai_amount e) \<Longrightarrow> map al_amount rows = map units es"
  by (induction rule: list_all2_induct) (auto simp: entered_def units_def dest: store_precise)

lemma createReceipt_entry:
  assumes run: "createReceipt v p es s = Inr ((r, rows), s')" and val: "validateReceipt p es = None"
    and es: "\<forall>e\<in>set es. \<not> too_precise (ai_amount e)" and amt: "\<not> too_precise (ir_amount p)"
  shows "s' = s \<and> existingReceipt p s = Inr (Some r, s) \<or> new_receipt r rows s s' \<and> cr_channel r = ir_channel p \<and> cr_session r = ir_session p"
  using run
proof (cases rule: createReceipt_cases)
  case new
  have "map al_amount rows = map units es" by (rule entered_amounts [OF new(2) es])
  then have "sum_list (map al_amount rows) = cr_amount r"
    using validateReceipt_None [OF val] store_precise [OF new(4) amt] by simp
  moreover have "\<forall>a\<in>set rows. al_receipt a = cr_id r \<and> 0 < al_amount a \<and> al_status a = AllocationPending"
    using new(2) by (auto simp: list_all2_conv_all_nth entered_def in_set_conv_nth)
  ultimately show ?thesis using new by (auto simp: new_receipt_def receipt_conflict_def)
qed simp

lemma calculated_precise:
  assumes "monthlyFees x v clock m d excl s = Inr (fees, s1)" and "calculatedAllocations es fees = Inr out"
    and "\<forall>e\<in>set es. \<not> is_fee (ai_type e) \<longrightarrow> \<not> too_precise (ai_amount e)"
  shows "\<forall>e\<in>set out. \<not> too_precise (ai_amount e)"
proof (rule calculated_Inr [OF assms(2,3)])
  fix parts
  assume "out = parts @ fees" "\<forall>e\<in>set parts. \<not> is_fee (ai_type e) \<and> \<not> too_precise (ai_amount e)"
  with monthlyFees_Inr [OF assms(1)] show ?thesis by (auto dest: due_items_precise)
qed

lemma existing_conflict:
  assumes "existingReceipt p s = Inr (Some q, s)"
  shows "q \<in> set (contribution_receipts s) \<and> (same_key (ir_key p) (cr_key q) \<or> same_key (ir_external p) (cr_external q)
    \<or> same_key (ir_checkout p) (cr_checkout q))"
  using assms unfolding existingReceipt_def same_key_def
  by (auto simp: tx_simps query_defs live_receipt_def split: option.splits dest: find_Some_set)

lemma CreateReceipt_entry:
  assumes run: "CreateReceipt x v clock p es s = Inr ((r, rows), s')"
    and es: "\<forall>e\<in>set es. \<not> is_fee (ai_type e) \<longrightarrow> \<not> too_precise (ai_amount e)" and amt: "\<not> too_precise (ir_amount p)"
  shows "receipt_entry x v r rows s s' \<and> (s' = s \<or> cr_channel r = ir_channel p \<or> contribution_receipts s' = contribution_receipts s)"
proof -
  obtain ex out s1 s2 where ex: "existingReceipt p s = Inr (ex, s)"
    and out: "(case ex of Some r \<Rightarrow> lift_ce (allocationsForRetry x es (cr_plan r))
       | None \<Rightarrow> tx_bind (monthlyFees x v clock (ir_member p) (ir_period p) None) (\<lambda>fees. lift_ce (calculatedAllocations es fees))) s = Inr (out, s1)"
    and val: "validateReceipt (p\<lparr>ir_plan := buildAllocationPlan x out\<rparr>) out = None" and s2: "s2 = s1"
    and create: "createReceipt v (p\<lparr>ir_plan := buildAllocationPlan x out\<rparr>) out s2 = Inr ((r, rows), s')"
    using run by (auto simp: CreateReceipt_def tx_bind_Inr_iff contribution_errors_Inr Let_def tx_run dest!: reads_same(4,5,6) split: if_splits)
  show ?thesis
  proof (cases ex)
    case None
    with out obtain fees where fees: "monthlyFees x v clock (ir_member p) (ir_period p) None s = Inr (fees, s1)"
      and calc: "calculatedAllocations es fees = Inr out" by (auto simp: tx_bind_Inr_iff contribution_errors_Inr)
    have "s' = s1 \<or> new_receipt r rows s1 s' \<and> cr_channel r = ir_channel p"
      using createReceipt_entry [OF create val calculated_precise [OF fees calc es]] amt s2 by auto
    moreover have "contribution_receipts s1 = contribution_receipts s"
      using monthlyFees_Inr [OF fees] q_AssessMonthlyFees_Inr by (metis contribution_db.select_convs(1) contribution_db.surjective contribution_db.update_convs(3))
    ultimately show ?thesis using monthlyFees_Inr [OF fees] by (auto simp: receipt_entry_def)
  next
    case (Some q)
    with out have s1: "s1 = s" by (simp add: contribution_errors_Inr)
    note conf = existing_conflict [OF ex [unfolded Some]]
    from create show ?thesis
    proof (cases rule: createReceipt_cases)
      case repeated
      then show ?thesis by (auto simp: receipt_entry_def s1 s2)
    next
      case new
      with conf s1 s2 have "receipt_conflict r q" by (auto simp: receipt_conflict_def same_key_def)
      with new(5) conf s1 s2 show ?thesis by simp
    qed
  qed
qed

lemma labelCharges_amounts:
  assumes "labelCharges es s = Inr (out, s')"
  shows "map ai_amount out = map ai_amount es \<and> map units out = map units es"
proof -
  have "map ai_amount (fold (\<lambda>c. map (\<lambda>a. if ai_target a = Some (ch_id c) then a\<lparr>ai_label := display_label c\<rparr> else a)) cs es)
      = map ai_amount es" for cs
    by (induction cs arbitrary: es) (auto simp: comp_def cong: if_cong)
  then have "map ai_amount out = map ai_amount es" using assms
    by (auto simp: labelCharges_def Let_def tx_bind_Inr_iff tx_run q_LockContributionCharges_def split: if_splits)
  moreover have "map units zs = map (\<lambda>n. numericToScale n (-4)) (map ai_amount zs)" for zs by (simp add: units_def)
  ultimately show ?thesis by metis
qed

lemma CreateCashReceipt_entry:
  fixes s s' :: "'s contribution_db_scheme"
  assumes run: "CreateCashReceipt x v clock fresh p es s = Inr ((r, rows), s')"
    and es: "\<forall>e\<in>set es. \<not> is_fee (ai_type e) \<longrightarrow> \<not> too_precise (ai_amount e)" and amt: "\<not> too_precise (ir_amount p)"
  shows "receipt_entry x v r rows s s' \<and> (contribution_receipts s' = contribution_receipts s \<or> cr_channel r = CashChannel
    \<and> (\<exists>q\<in>set (cashier_sessions s). cr_session r = Some (ses_id q) \<and> ses_status q = SessionOpen))"
proof -
  define p1 where "p1 = p\<lparr>ir_channel := CashChannel, ir_key := text_of (TrimSpace (case ir_key p of None \<Rightarrow> [] | Some k \<Rightarrow> k)),
            ir_internal := text_of (''CASH-'' @ fresh), ir_received_at := Some clock\<rparr>"
  obtain ses where ses: "find (\<lambda>r. Some (ses_id r) = ir_session p1) (cashier_sessions s) = Some ses"
    and rest: "tx_bind (case ir_key p1 of None \<Rightarrow> ret None | Some k \<Rightarrow> q_GetContributionReceiptByIdempotencyKey k) (\<lambda>existing.
        case existing of Some r \<Rightarrow> repeatCashReceipt x p1 es r
        | None \<Rightarrow>
          if ses_status ses \<noteq> SessionOpen \<or> Some (ses_cashier ses) \<noteq> ir_received_by p1
             \<or> ses_branch ses \<noteq> ir_branch p1 then throw_ce ErrCashierSessionState
          else acceptCash x v clock p1 es) s = Inr ((r, rows), s')"
    using run unfolding CreateCashReceipt_def Let_def p1_def [symmetric]
    by (auto simp: tx_bind_Inr_iff tx_run q_LockCashierSession_def tx_option_Inr contribution_errors_Inr)
  obtain ex where ex: "(case ir_key p1 of None \<Rightarrow> ret None | Some k \<Rightarrow> q_GetContributionReceiptByIdempotencyKey k) s = Inr (ex, s)"
    and cases: "(case ex of Some r \<Rightarrow> repeatCashReceipt x p1 es r
        | None \<Rightarrow>
          if ses_status ses \<noteq> SessionOpen \<or> Some (ses_cashier ses) \<noteq> ir_received_by p1
             \<or> ses_branch ses \<noteq> ir_branch p1 then throw_ce ErrCashierSessionState
          else acceptCash x v clock p1 es) s = Inr ((r, rows), s')"
    using rest by (auto simp: tx_bind_Inr_iff tx_run q_GetContributionReceiptByIdempotencyKey_def split: option.splits)
  show ?thesis
  proof (cases ex)
    case (Some q)
    with cases have "s' = s"
      by (auto simp: repeatCashReceipt_def tx_bind_Inr_iff tx_run contribution_errors_Inr q_ListContributionAllocationsByReceipt_def split: if_splits)
    then show ?thesis by (auto simp: receipt_entry_def)
  next
    case None
    with cases have op: "ses_status ses = SessionOpen" and acc: "acceptCash x v clock p1 es s = Inr ((r, rows), s')"
      by (auto simp: contribution_errors_Inr split: if_splits)
    obtain fees calc out s1 s2 s3 s4 s5 s6 where
      act: "RequireActiveMemberInTx (ir_member p1) (ir_branch p1) s = Inr ((), s1)"
      and fees: "monthlyFees x v clock (ir_member p1) (ir_period p1) None s1 = Inr (fees, s2)"
      and calc: "calculatedAllocations es fees = Inr calc"
      and chk: "validateChargeAllocations (ir_member p1) (ir_branch p1) calc None s2 = Inr ((), s3)"
      and lab: "labelCharges calc s3 = Inr (out, s4)"
      and val: "validateReceipt (p1\<lparr>ir_plan := buildAllocationPlan x out\<rparr>) out = None"
      and min: "validateContributionLoanMinimums x (ir_member p1) (ir_branch p1) (ir_period p1) out s4 = Inr ((), s5)"
      and targets: "(case ir_member p1 of None \<Rightarrow> ret () | Some m \<Rightarrow>
          validateTargets m (ir_branch (p1\<lparr>ir_plan := buildAllocationPlan x out\<rparr>)) (target_order out)) s5 = Inr ((), s6)"
      and create: "createReceipt v (p1\<lparr>ir_plan := buildAllocationPlan x out\<rparr>) out s6 = Inr ((r, rows), s')"
      using acc by (auto simp: acceptCash_def tx_bind_Inr_iff contribution_errors_Inr Let_def)
    have "s1 = s" using act by (simp add: RequireActiveMemberInTx_Inr)
    moreover have "s3 = s2" "s4 = s3" "s5 = s4" using reads_same(5) [OF chk] reads_same(7) [OF lab] reads_same(6) [OF min] .
    moreover have "s6 = s5" using targets by (cases "ir_member p1") (auto simp: tx_run dest: reads_same(8))
    ultimately have fees: "monthlyFees x v clock (ir_member p1) (ir_period p1) None s = Inr (fees, s2)"
      and create: "createReceipt v (p1\<lparr>ir_plan := buildAllocationPlan x out\<rparr>) out s2 = Inr ((r, rows), s')" using fees create by simp_all
    have "\<forall>n\<in>set (map ai_amount out). \<not> too_precise n"
      using calculated_precise [OF fees calc es] labelCharges_amounts [OF lab] by (metis (no_types, lifting) image_iff list.set_map)
    then have "s' = s2 \<or> new_receipt r rows s2 s' \<and> cr_channel r = CashChannel \<and> cr_session r = ir_session p1"
      using createReceipt_entry [OF create val] amt by (auto simp: p1_def)
    moreover have "contribution_receipts s2 = contribution_receipts s"
      using monthlyFees_Inr [OF fees] q_AssessMonthlyFees_Inr by (metis contribution_db.select_convs(1) contribution_db.surjective contribution_db.update_convs(3))
    moreover have "\<exists>q\<in>set (cashier_sessions s). ir_session p1 = Some (ses_id q) \<and> ses_status q = SessionOpen"
      using find_Some_set [OF ses] op by (intro bexI [of _ ses]) auto
    ultimately show ?thesis using monthlyFees_Inr [OF fees] by (auto simp: receipt_entry_def)
  qed
qed

end
