(* ===== verification/Receipt_Inv.thy ===== *)
theory Receipt_Inv
  imports Receipt_Entry
begin

text \<open>
  The invariants of the contribution tables. \<open>receipts_ok\<close>: the parts of a receipt add up to it and are
  posted all together or not at all. \<open>dues_ok\<close>: no charge and no monthly fee is ever paid beyond its
  amount. Creating and processing receipts and creating charges keep both.
\<close>

section \<open>Receipts and their parts\<close>

definition part_ok :: "ContributionReceipt list \<Rightarrow> ContributionAllocation \<Rightarrow> bool" where
  "part_ok rs a \<longleftrightarrow> 0 < al_amount a \<and> (\<exists>r\<in>set rs. cr_id r = al_receipt a
     \<and> al_status a = (if cr_status r = ReceiptCompleted then AllocationCompleted else AllocationPending))"

definition receipts_ok :: "'s contribution_db_scheme \<Rightarrow> bool" where
  "receipts_ok s \<longleftrightarrow> distinct (map cr_id (contribution_receipts s)) \<and> distinct (map al_id (contribution_allocations s))
     \<and> (\<forall>a\<in>set (contribution_allocations s). part_ok (contribution_receipts s) a)
     \<and> (\<forall>r\<in>set (contribution_receipts s). sum_where (\<lambda>a. al_receipt a = cr_id r) al_amount (contribution_allocations s) = cr_amount r)"

lemma sum_where_list_all2:
  assumes "list_all2 R xs ys" and "\<And>x y. R x y \<Longrightarrow> (if P y then f y else 0) = (if Q x then g x else 0)"
  shows "sum_where P f ys = sum_where Q g xs"
  using assms(1) by (induction rule: list_all2_induct) (auto simp: assms(2))

lemma sum_where_none: "(\<And>x. x \<in> set xs \<Longrightarrow> \<not> P x) \<Longrightarrow> sum_where P f xs = 0"
  by (induction xs) auto

lemma same_receipts_ids: "same_receipts i st rs qs \<Longrightarrow> map cr_id qs = map cr_id rs"
  unfolding same_receipts_def by (induction rule: list_all2_induct) (auto dest: receipt_core_same)

lemma list_all2_left: "list_all2 R xs ys \<Longrightarrow> x \<in> set xs \<Longrightarrow> \<exists>y\<in>set ys. R x y"
  by (induction rule: list_all2_induct) auto

lemma list_all2_right: "list_all2 R xs ys \<Longrightarrow> y \<in> set ys \<Longrightarrow> \<exists>x\<in>set xs. R x y"
  by (induction rule: list_all2_induct) auto

lemma same_receipts_row:
  assumes "same_receipts i st rs qs" and "r \<in> set rs"
  obtains q where "q \<in> set qs" "receipt_core q = receipt_core r" "if cr_id r = i then cr_status q = st else q = r"
  using list_all2_left [OF assms(1) [unfolded same_receipts_def] assms(2)] by blast

lemma same_receipts_row':
  assumes "same_receipts i st rs qs" and "q \<in> set qs"
  obtains r where "r \<in> set rs" "receipt_core q = receipt_core r" "if cr_id r = i then cr_status q = st else q = r"
  using list_all2_right [OF assms(1) [unfolded same_receipts_def] assms(2)] by blast

lemma posted_row:
  assumes "posted i as bs" and "b \<in> set bs"
  obtains a where "a \<in> set as" "allocation_core b = allocation_core a" "if al_receipt a = i then al_status b = AllocationCompleted else b = a"
  using list_all2_right [OF assms(1) [unfolded posted_def] assms(2)] by blast

lemma posted_ids: "posted i as bs \<Longrightarrow> map al_id bs = map al_id as"
  unfolding posted_def by (induction rule: list_all2_induct) (auto simp: allocation_core_def)

lemma posted_sum: "posted i as bs \<Longrightarrow> sum_where (\<lambda>a. al_receipt a = j) al_amount bs = sum_where (\<lambda>a. al_receipt a = j) al_amount as"
  unfolding posted_def by (erule sum_where_list_all2) (auto simp: allocation_core_def)

lemma receipts_ok_posted:
  assumes ok: "receipts_ok s" and rs: "same_receipts i ReceiptCompleted (contribution_receipts s) (contribution_receipts s')"
    and as: "posted i (contribution_allocations s) (contribution_allocations s')"
  shows "receipts_ok s'"
proof -
  have "part_ok (contribution_receipts s') b" if "b \<in> set (contribution_allocations s')" for b
  proof -
    from posted_row [OF as that] obtain a where a: "a \<in> set (contribution_allocations s)" "allocation_core b = allocation_core a"
      "if al_receipt a = i then al_status b = AllocationCompleted else b = a" .
    with ok obtain r where r: "r \<in> set (contribution_receipts s)" "cr_id r = al_receipt a" "0 < al_amount a"
      "al_status a = (if cr_status r = ReceiptCompleted then AllocationCompleted else AllocationPending)"
      by (auto simp: receipts_ok_def part_ok_def)
    from same_receipts_row [OF rs r(1)] obtain q where q: "q \<in> set (contribution_receipts s')" "receipt_core q = receipt_core r"
      "if cr_id r = i then cr_status q = ReceiptCompleted else q = r" .
    show ?thesis unfolding part_ok_def
      using a r q receipt_core_same(1) [OF q(2)] by (auto simp: allocation_core_def split: if_splits intro!: bexI [of _ q])
  qed
  moreover have "sum_where (\<lambda>a. al_receipt a = cr_id q) al_amount (contribution_allocations s') = cr_amount q"
    if "q \<in> set (contribution_receipts s')" for q
  proof -
    from same_receipts_row' [OF rs that] obtain r where r: "r \<in> set (contribution_receipts s)" "receipt_core q = receipt_core r" .
    with ok receipt_core_same(1,7) [OF r(2)] show ?thesis by (simp add: receipts_ok_def posted_sum [OF as])
  qed
  ultimately show ?thesis using ok by (simp add: receipts_ok_def same_receipts_ids [OF rs] posted_ids [OF as])
qed

lemma receipts_ok_failed:
  assumes ok: "receipts_ok s" and rs: "same_receipts i st (contribution_receipts s) rs"
    and st: "st \<noteq> ReceiptCompleted" and was: "\<And>r. r \<in> set (contribution_receipts s) \<Longrightarrow> cr_id r = i \<Longrightarrow> cr_status r \<noteq> ReceiptCompleted"
  shows "receipts_ok (s\<lparr>contribution_receipts := rs\<rparr>)"
proof -
  have "part_ok rs a" if "a \<in> set (contribution_allocations s)" for a
  proof -
    from ok that obtain r where r: "r \<in> set (contribution_receipts s)" "cr_id r = al_receipt a" "0 < al_amount a"
      "al_status a = (if cr_status r = ReceiptCompleted then AllocationCompleted else AllocationPending)"
      by (auto simp: receipts_ok_def part_ok_def)
    from same_receipts_row [OF rs r(1)] obtain q where q: "q \<in> set rs" "receipt_core q = receipt_core r"
      "if cr_id r = i then cr_status q = st else q = r" .
    show ?thesis unfolding part_ok_def
      using r q was [OF r(1)] st receipt_core_same(1) [OF q(2)] by (auto split: if_splits intro!: bexI [of _ q])
  qed
  moreover have "sum_where (\<lambda>a. al_receipt a = cr_id q) al_amount (contribution_allocations s) = cr_amount q" if "q \<in> set rs" for q
  proof -
    from same_receipts_row' [OF rs that] obtain r where r: "r \<in> set (contribution_receipts s)" "receipt_core q = receipt_core r" .
    with ok receipt_core_same(1,7) [OF r(2)] show ?thesis by (simp add: receipts_ok_def)
  qed
  ultimately show ?thesis using ok by (simp add: receipts_ok_def same_receipts_ids [OF rs])
qed

lemma receipts_ok_new:
  assumes ok: "receipts_ok s" and new: "new_receipt r rows s s'"
  shows "receipts_ok s'"
proof -
  have s': "contribution_receipts s' = contribution_receipts s @ [r]" "contribution_allocations s' = contribution_allocations s @ rows"
    and id: "\<forall>q\<in>set (contribution_receipts s). cr_id q \<noteq> cr_id r" and st: "cr_status r = ReceiptPending"
    and rows: "\<forall>a\<in>set rows. al_receipt a = cr_id r \<and> 0 < al_amount a \<and> al_status a = AllocationPending"
    and sum: "sum_list (map al_amount rows) = cr_amount r"
    and dist: "distinct (map al_id (contribution_allocations s @ rows))"
    using new ok by (auto simp: new_receipt_def receipts_ok_def)
  have old: "al_receipt a \<noteq> cr_id r" if "a \<in> set (contribution_allocations s)" for a
    using ok id that by (fastforce simp: receipts_ok_def part_ok_def)
  have part: "part_ok (contribution_receipts s') a" if "a \<in> set (contribution_allocations s')" for a
    using that ok rows st by (fastforce simp: s' receipts_ok_def part_ok_def)
  have all: "sum_where (\<lambda>a. al_receipt a = cr_id r) al_amount rows = sum_list (map al_amount rows)"
    using rows by (simp add: sum_where_def)
  have none: "sum_where (\<lambda>a. al_receipt a = cr_id r) al_amount (contribution_allocations s) = 0"
    by (rule sum_where_none) (use old in simp)
  have "sum_where (\<lambda>a. al_receipt a = cr_id q) al_amount (contribution_allocations s') = cr_amount q"
    if "q \<in> set (contribution_receipts s')" for q
  proof (cases "q = r")
    case True
    then show ?thesis by (simp add: s' none all sum)
  next
    case False
    with that have q: "q \<in> set (contribution_receipts s)" by (simp add: s')
    have "sum_where (\<lambda>a. al_receipt a = cr_id q) al_amount rows = 0"
      by (rule sum_where_none) (use rows id q in auto)
    with ok q show ?thesis by (simp add: s' receipts_ok_def)
  qed
  moreover have "distinct (map cr_id (contribution_receipts s'))" using ok id by (auto simp: s' receipts_ok_def)
  ultimately show ?thesis using part dist by (simp add: receipts_ok_def s')
qed

lemma receipts_ok_tables:
  "contribution_receipts s' = contribution_receipts s \<Longrightarrow> contribution_allocations s' = contribution_allocations s \<Longrightarrow> receipts_ok s' = receipts_ok s"
  by (simp add: receipts_ok_def)

lemma assess_rows:
  assumes "q_AssessMonthlyFees x v m p s = Inr (u, s')"
  shows "contribution_receipts s' = contribution_receipts s" "contribution_allocations s' = contribution_allocations s"
    "contribution_charges s' = contribution_charges s" "cashier_sessions s' = cashier_sessions s" "cash_deposits s' = cash_deposits s"
    "cash_deposit_sessions s' = cash_deposit_sessions s"
  by (subst q_AssessMonthlyFees_Inr [OF assms], simp)+

lemma receipts_ok_entry: "receipts_ok s \<Longrightarrow> receipt_entry x v r rows s s' \<Longrightarrow> receipts_ok s'"
proof -
  assume ok: "receipts_ok s" and "receipt_entry x v r rows s s'"
  then obtain s1 where s1: "s1 = s \<or> (\<exists>m d. q_AssessMonthlyFees x v m (month_start d) s = Inr ((), s1))"
    and new: "s' = s1 \<or> new_receipt r rows s1 s'" by (auto simp: receipt_entry_def)
  from s1 ok have "receipts_ok s1" using receipts_ok_tables [of s1 s] assess_rows(1,2) by blast
  with new show "receipts_ok s'" using receipts_ok_new by blast
qed

lemma receipts_ok_process:
  assumes ok: "receipts_ok s" and run: "ProcessReceipt x v clock i s = ((res, err), s')"
  shows "receipts_ok s'"
proof -
  have d: "distinct (map cr_id (contribution_receipts s))" "distinct (map al_id (contribution_allocations s))"
    using ok by (simp_all add: receipts_ok_def)
  from run d show ?thesis
  proof (cases rule: process_cases)
    case unchanged
    with ok show ?thesis by simp
  next
    case (failed r e)
    have ri: "cr_id r = i" "r \<in> set (contribution_receipts s)" using live_receipt_id [OF failed(1)] by simp_all
    have only: "q = r" if "q \<in> set (contribution_receipts s)" "cr_id q = i" for q
      using that ri d by (auto simp: distinct_map dest: inj_onD)
    have "same_receipts i (receiptFailureStatus r) (contribution_receipts s)
        (map (\<lambda>q. if cr_id q = i then failed_receipt v e q else q) (contribution_receipts s))"
      using only by (auto simp: same_receipts_def list_all2_map2 failed_receipt_def intro!: list.rel_refl_strong)
    moreover have "receiptFailureStatus r \<noteq> ReceiptCompleted" by (simp add: receiptFailureStatus_def)
    ultimately show ?thesis
      unfolding failed(5) using only failed(2) by (intro receipts_ok_failed [OF ok]) (auto simp: in_progress_def)
  next
    case (completed r r0 r' rows rs0 s1)
    show ?thesis by (rule receipts_ok_posted [OF ok completed(9,8)])
  qed
qed

end
