(* ===== verification/Dues.thy ===== *)
theory Dues
  imports Receipt_Inv "HOL-Library.Multiset"
begin

text \<open>
  What members owe besides loans: charges and the two monthly membership fees. No charge and no fee is
  ever paid beyond its amount, and a receipt that completes settles the fees of its month.
\<close>

lemma sum_where_sort: "sum_where P f (sort_key k xs) = sum_where P f xs"
proof -
  have "mset (map f (filter P (sort_key k xs))) = mset (map f (filter P xs))" by simp
  then show ?thesis unfolding sum_where_def by (metis sum_mset_sum_list)
qed

lemma sum_where_cong: "(\<And>x. x \<in> set xs \<Longrightarrow> P x = Q x) \<Longrightarrow> sum_where P f xs = sum_where Q f xs"
  by (induction xs) auto

lemma sum_where_filter: "sum_where P f (filter Q xs) = sum_where (\<lambda>x. Q x \<and> P x) f xs"
  by (induction xs) auto

lemma sum_where_split: "sum_where P f xs = sum_where (\<lambda>x. P x \<and> Q x) f xs + sum_where (\<lambda>x. P x \<and> \<not> Q x) f xs"
  by (induction xs) auto

lemma sum_where_map: "sum_where P f (map g xs) = sum_where (P \<circ> g) (f \<circ> g) xs"
  by (induction xs) auto

lemma allocations_of_sum: "sum_where P al_amount (allocations_of i s) = sum_where (\<lambda>a. al_receipt a = i \<and> P a) al_amount (contribution_allocations s)"
  by (simp add: allocations_of_def sum_where_sort sum_where_filter)

section \<open>Charges\<close>

definition to_charge :: "uuid \<Rightarrow> AllocationInput \<Rightarrow> bool" where
  "to_charge c e \<longleftrightarrow> is_charge (ai_type e) \<and> ai_target e = Some c"

definition payment_of :: "(uuid \<times> AllocationInput) list \<Rightarrow> uuid \<Rightarrow> int" where
  "payment_of ps c = (case map_of ps c of None \<Rightarrow> 0 | Some e \<Rightarrow> units e)"

lemma chargePayments_Inr:
  assumes "chargePayments ps es = Inr qs" and "distinct (map fst ps)"
  shows "distinct (map fst qs) \<and> fst ` set qs = fst ` set ps \<union> {c. \<exists>e\<in>set es. to_charge c e}
    \<and> (\<forall>c. payment_of qs c = payment_of ps c + sum_where (to_charge c) units es)"
  using assms
proof (induction es arbitrary: ps)
  case (Cons e es)
  show ?case
  proof (cases "is_charge (ai_type e)")
    case False
    then have "\<not> to_charge c e" for c by (simp add: to_charge_def)
    with Cons False show ?thesis by simp
  next
    case True
    with Cons.prems(1) obtain t where t: "ai_target e = Some t" "map_of ps t = None"
      and rest: "chargePayments (ps @ [(t, e)]) es = Inr qs" by (auto split: option.splits if_splits)
    have new: "t \<notin> fst ` set ps" using t(2) by (simp add: map_of_eq_None_iff)
    with Cons.prems(2) have "distinct (map fst (ps @ [(t, e)]))" by simp
    note ih = Cons.IH [OF rest this]
    have to: "to_charge c e \<longleftrightarrow> c = t" for c using True t(1) by (auto simp: to_charge_def)
    have pay: "payment_of (ps @ [(t, e)]) c = payment_of ps c + (if to_charge c e then units e else 0)" for c
      using t(2) by (auto simp: payment_of_def to map_add_def split: option.splits)
    have "fst ` set qs = fst ` set ps \<union> {c. \<exists>f\<in>set (e # es). to_charge c f}" using ih to by auto
    with ih pay show ?thesis by simp
  qed
qed simp

lemma checkCharges_None:
  assumes "checkCharges m b ps pd cs = None" and "c \<in> set cs" and "map_of ps (ch_id c) = Some e"
  shows "units e \<le> ch_amount c - (case map_of pd (ch_id c) of None \<Rightarrow> 0 | Some q \<Rightarrow> numericToScale q (-4))
    \<and> Some (ch_member c) = m \<and> ch_branch c = b"
  using assms by (induction cs) (auto simp: Let_def split: if_splits)

lemma charge_paid_zero:
  assumes "\<not> (\<exists>a\<in>set (contribution_allocations s). charge_payment i excl a)"
  shows "charge_paid i excl s = 0"
  unfolding charge_paid_def by (rule sum_where_none) (use assms in auto)

lemma paid_rows:
  assumes "i \<in> set ids"
  shows "(case map_of (map (\<lambda>i. (i, db_num (charge_paid i excl s)))
       (filter (\<lambda>i. \<exists>a\<in>set (contribution_allocations s). charge_payment i excl a) (remdups ids))) i of None \<Rightarrow> 0 | Some q \<Rightarrow> numericToScale q (-4))
    = charge_paid i excl s"
proof (cases "\<exists>a\<in>set (contribution_allocations s). charge_payment i excl a")
  case True
  with assms have "map_of (map (\<lambda>i. (i, db_num (charge_paid i excl s)))
       (filter (\<lambda>i. \<exists>a\<in>set (contribution_allocations s). charge_payment i excl a) (remdups ids))) i = Some (db_num (charge_paid i excl s))"
    by (intro map_of_is_SomeI) (auto simp: comp_def)
  then show ?thesis by simp
next
  case False
  then have "map_of (map (\<lambda>i. (i, db_num (charge_paid i excl s)))
       (filter (\<lambda>i. \<exists>a\<in>set (contribution_allocations s). charge_payment i excl a) (remdups ids))) i = None"
    by (auto simp: map_of_eq_None_iff)
  with charge_paid_zero [OF False] show ?thesis by simp
qed

lemma validateCharges_Inr:
  assumes run: "validateChargeAllocations m b es excl s = Inr (u, s')" and d: "distinct (map ch_id (contribution_charges s))"
  shows "(\<forall>c e. e \<in> set es \<longrightarrow> to_charge c e \<longrightarrow> (\<exists>ch\<in>set (contribution_charges s). ch_id ch = c))
    \<and> (\<forall>ch\<in>set (contribution_charges s). (\<exists>e\<in>set es. to_charge (ch_id ch) e) \<longrightarrow>
        charge_paid (ch_id ch) excl s + sum_where (to_charge (ch_id ch)) units es \<le> ch_amount ch)"
proof -
  obtain ps where ps: "chargePayments [] es = Inr ps"
    and rest: "ps \<noteq> [] \<Longrightarrow> length (filter (\<lambda>c. ch_id c \<in> fst ` set ps) (contribution_charges s)) = length ps
      \<and> checkCharges m b ps (map (\<lambda>i. (i, db_num (charge_paid i excl s)))
       (filter (\<lambda>i. \<exists>a\<in>set (contribution_allocations s). charge_payment i excl a) (remdups (map fst ps))))
       (sort_key ch_id (filter (\<lambda>c. ch_id c \<in> fst ` set ps) (contribution_charges s))) = None"
    using run by (auto simp: validateChargeAllocations_def tx_bind_Inr_iff contribution_errors_Inr Let_def q_LockContributionCharges_def
        q_SumContributionChargePaymentsByID_def tx_run split: if_splits)
  note facts = chargePayments_Inr [OF ps]
  let ?found = "filter (\<lambda>c. ch_id c \<in> fst ` set ps) (contribution_charges s)"
  have all: "fst ` set ps \<subseteq> ch_id ` set (contribution_charges s)"
  proof (cases "ps = []")
    case False
    have "card (ch_id ` set ?found) = length ps"
      using rest [OF False] d by (metis (no_types, lifting) distinct_card distinct_map_filter length_map list.set_map)
    moreover have "card (fst ` set ps) = length ps" using facts by (metis distinct_card length_map list.set_map list.simps(8) distinct.simps(1))
    moreover have "ch_id ` set ?found \<subseteq> fst ` set ps" by auto
    ultimately have "ch_id ` set ?found = fst ` set ps" by (intro card_subset_eq) auto
    then show ?thesis by auto
  qed simp
  have ids: "fst ` set ps = {c. \<exists>e\<in>set es. to_charge c e}" using facts by simp
  have room: "charge_paid (ch_id ch) excl s + sum_where (to_charge (ch_id ch)) units es \<le> ch_amount ch"
    if ch: "ch \<in> set (contribution_charges s)" and to: "\<exists>e\<in>set es. to_charge (ch_id ch) e" for ch
  proof -
    from ids to have mem: "ch_id ch \<in> fst ` set ps" by blast
    then obtain e where e: "map_of ps (ch_id ch) = Some e" by (metis map_of_eq_None_iff option.exhaust)
    from mem have ne: "ps \<noteq> []" by auto
    have m2: "ch_id ch \<in> set (map fst ps)" using mem by simp
    have "units e \<le> ch_amount ch - charge_paid (ch_id ch) excl s"
      using checkCharges_None [OF rest [OF ne, THEN conjunct2] _ e, unfolded paid_rows [OF m2]] ch mem by simp
    moreover have "payment_of ps (ch_id ch) = sum_where (to_charge (ch_id ch)) units es" using facts by (simp add: payment_of_def)
    ultimately show ?thesis using e by (simp add: payment_of_def)
  qed
  have "\<exists>ch\<in>set (contribution_charges s). ch_id ch = c" if "e \<in> set es" "to_charge c e" for c e
  proof -
    have "c \<in> fst ` set ps" using that ids by blast
    from subsetD [OF all this] show ?thesis by auto
  qed
  with room show ?thesis by simp
qed

section \<open>Fees\<close>

lemma in_month: "month_start p = p \<Longrightarrow> p \<le> d \<Longrightarrow> d < AddDate_months p 1 \<Longrightarrow> month_start d = p"
  using month_index_unique [of "month_index p" d] by (simp add: month_start_eq AddDate_months_eq)

lemma month_contains: "month_start d \<le> d \<and> d < AddDate_months (month_start d) 1"
  using month_index_bounds [of d] by (simp add: month_start_eq)

text \<open>A receipt whose allocations match the expected ones has the same amounts.\<close>

lemma match_mset:
  assumes "verifyAllocationsMatch es as = None"
  shows "mset (map (\<lambda>a. ((al_type a, al_target a), al_amount a)) as) = mset (map (\<lambda>e. ((ai_type e, ai_target e), units e)) es)"
proof -
  let ?act = "map (\<lambda>a. ((al_type a, al_target a), al_amount a)) as" and ?exp = "map (\<lambda>e. ((ai_type e, ai_target e), units e)) es"
  have len: "length es = length as" and da: "distinct (map fst ?act)" and de: "distinct (map fst ?exp)"
    and all: "\<forall>e\<in>set es. map_of ?act (ai_type e, ai_target e) = Some (units e)"
    using assms by (auto simp: verifyAllocationsMatch_def Let_def list_all_iff comp_def split: if_splits)
  have dd: "distinct ?act" "distinct ?exp" using da de by (metis distinct_map)+
  have "((ai_type e, ai_target e), units e) \<in> set ?act" if "e \<in> set es" for e
    by (rule map_of_SomeD) (use all that in blast)
  then have "set ?exp \<subseteq> set ?act" by (simp add: image_subset_iff)
  moreover have "card (set ?act) = card (set ?exp)" using distinct_card [OF dd(1)] distinct_card [OF dd(2)] len by simp
  ultimately have "set ?exp = set ?act" by (intro card_subset_eq) auto
  with set_eq_iff_mset_eq_distinct [OF dd] show ?thesis by simp
qed

lemma match_sums:
  assumes "verifyAllocationsMatch es as = None"
  shows "sum_where (\<lambda>a. al_type a = ty) al_amount as = sum_where (\<lambda>e. ai_type e = ty) units es"
proof -
  let ?act = "map (\<lambda>a. ((al_type a, al_target a), al_amount a)) as" and ?exp = "map (\<lambda>e. ((ai_type e, ai_target e), units e)) es"
  have "sum_where (\<lambda>(k, n). fst k = ty) snd ?exp = sum_where (\<lambda>(k, n). fst k = ty) snd ?act"
    using match_mset [OF assms] unfolding sum_where_def by (metis (no_types, lifting) mset_filter mset_map sum_mset_sum_list)
  then show ?thesis by (simp add: sum_where_map comp_def)
qed

lemma match_total:
  assumes "verifyAllocationsMatch es as = None"
  shows "sum_list (map al_amount as) = sum_list (map units es)"
proof -
  from match_mset [OF assms] have "image_mset snd (mset (map (\<lambda>a. ((al_type a, al_target a), al_amount a)) as))
    = image_mset snd (mset (map (\<lambda>e. ((ai_type e, ai_target e), units e)) es))" by simp
  then have "mset (map al_amount as) = mset (map units es)" by (simp add: image_mset.compositionality comp_def)
  then show ?thesis by (metis sum_mset_sum_list)
qed

lemma due_sum:
  assumes "\<forall>f\<in>set fs. mf_amount f = k"
  shows "sum_where (\<lambda>e. ai_type e = ty) units (due_items pd fs) = (if \<exists>f\<in>set fs. mf_type f = ty then
      int (length (filter (\<lambda>f. mf_type f = ty) fs)) * max 0 (k - pd ty) else 0)"
proof -
  have "sum_where (\<lambda>e. ai_type e = ty) units (due_items pd fs) = int (length (filter (\<lambda>f. mf_type f = ty) fs)) * max 0 (k - pd ty)"
    using assms
  proof (induction fs)
    case (Cons f fs)
    have "due_items pd (f # fs) = due_items pd [f] @ due_items pd fs" by (simp add: due_items_def)
    with Cons show ?case by (auto simp: due_items_def units_def Let_def algebra_simps)
  qed (simp add: due_items_def)
  then show ?thesis by (auto simp: filter_empty_conv)
qed

text \<open>The receipts that count towards a fee, as a property of the receipt's rows.\<close>

definition counts :: "uuid \<Rightarrow> date \<Rightarrow> ContributionReceipt \<Rightarrow> bool" where
  "counts m p r \<longleftrightarrow> cr_member r = m \<and> p \<le> cr_period r \<and> cr_period r < AddDate_months p 1"

lemma fee_payment_counts:
  "fee_payment (Some m) p excl rs a \<longleftrightarrow> al_status a = AllocationCompleted \<and> Some (al_receipt a) \<noteq> excl
     \<and> (\<exists>r\<in>set rs. cr_id r = al_receipt a \<and> counts m p r)"
  by (auto simp: fee_payment_def counts_def)

lemma counts_same:
  assumes "same_receipts i st rs qs"
  shows "(\<exists>q\<in>set qs. cr_id q = j \<and> counts m p q) = (\<exists>r\<in>set rs. cr_id r = j \<and> counts m p r)"
proof -
  have "counts m p q = counts m p r \<and> cr_id q = cr_id r" if "receipt_core q = receipt_core r" for q r
    using receipt_core_same [OF that] by (simp add: counts_def)
  then show ?thesis by (metis same_receipts_row [OF assms] same_receipts_row' [OF assms])
qed

text \<open>The payments of a fee after a receipt was posted.\<close>

lemma fee_paid_posted:
  assumes rs: "same_receipts i st (contribution_receipts s) (contribution_receipts s')"
    and as: "posted i (contribution_allocations s) (contribution_allocations s')"
  shows "fee_paid (Some m) p None ty s' = fee_paid (Some m) p (Some i) ty s
    + (if \<exists>r\<in>set (contribution_receipts s). cr_id r = i \<and> counts m p r then
         sum_where (\<lambda>a. al_type a = ty) al_amount (allocations_of i s) else 0)"
proof -
  let ?E = "\<lambda>j. \<exists>r\<in>set (contribution_receipts s). cr_id r = j \<and> counts m p r"
  have "fee_paid (Some m) p None ty s'
      = sum_where (\<lambda>a. al_type a = ty \<and> ?E (al_receipt a) \<and> (al_receipt a = i \<or> al_status a = AllocationCompleted)) al_amount (contribution_allocations s)"
    unfolding fee_paid_def
    by (rule sum_where_list_all2 [OF as [unfolded posted_def]])
      (auto simp: fee_payment_counts counts_same [OF rs] allocation_core_def split: if_splits)
  also have "\<dots> = sum_where (\<lambda>a. (al_type a = ty \<and> ?E (al_receipt a) \<and> (al_receipt a = i \<or> al_status a = AllocationCompleted)) \<and> al_receipt a = i)
        al_amount (contribution_allocations s)
      + sum_where (\<lambda>a. (al_type a = ty \<and> ?E (al_receipt a) \<and> (al_receipt a = i \<or> al_status a = AllocationCompleted)) \<and> al_receipt a \<noteq> i)
        al_amount (contribution_allocations s)" by (rule sum_where_split)
  also have "sum_where (\<lambda>a. (al_type a = ty \<and> ?E (al_receipt a) \<and> (al_receipt a = i \<or> al_status a = AllocationCompleted)) \<and> al_receipt a \<noteq> i)
        al_amount (contribution_allocations s) = fee_paid (Some m) p (Some i) ty s"
    unfolding fee_paid_def by (rule sum_where_cong) (auto simp: fee_payment_counts)
  also have "sum_where (\<lambda>a. (al_type a = ty \<and> ?E (al_receipt a) \<and> (al_receipt a = i \<or> al_status a = AllocationCompleted)) \<and> al_receipt a = i)
        al_amount (contribution_allocations s) = (if ?E i then sum_where (\<lambda>a. al_type a = ty) al_amount (allocations_of i s) else 0)"
  proof (cases "?E i")
    case True
    then show ?thesis unfolding allocations_of_sum by (simp only: if_True) (rule sum_where_cong, auto)
  next
    case False
    then show ?thesis by (simp only: if_False) (rule sum_where_none, auto)
  qed
  finally show ?thesis by simp
qed

section \<open>The invariant\<close>

definition fee_key :: "ContributionMonthlyFee \<Rightarrow> uuid \<times> date \<times> ContributionAllocationType" where
  "fee_key f = (mf_member f, mf_period f, mf_type f)"

definition fees_ok :: "ContributionMonthlyFee list \<Rightarrow> bool" where
  "fees_ok fs \<longleftrightarrow> distinct (map fee_key fs) \<and> (\<forall>f\<in>set fs. mf_amount f = 300000)"

definition charges_ok :: "'s contribution_db_scheme \<Rightarrow> bool" where
  "charges_ok s \<longleftrightarrow> distinct (map ch_id (contribution_charges s))
     \<and> (\<forall>c\<in>set (contribution_charges s). charge_paid (ch_id c) None s \<le> ch_amount c \<and> 0 < ch_amount c)
     \<and> (\<forall>a\<in>set (contribution_allocations s). al_status a = AllocationCompleted \<longrightarrow> is_charge (al_type a)
          \<longrightarrow> (\<exists>c\<in>set (contribution_charges s). al_target a = Some (ch_id c)))"

definition dues_ok :: "'s contribution_db_scheme \<Rightarrow> bool" where
  "dues_ok s \<longleftrightarrow> charges_ok s \<and> fees_ok (contribution_monthly_fees s)
     \<and> (\<forall>m p ty. is_fee ty \<longrightarrow> month_start p = p \<longrightarrow> fee_paid (Some m) p None ty s \<le> 300000)"

lemma insert_fee_ok: "fees_ok fs \<Longrightarrow> fees_ok (insert_fee v m p ty fs)"
  by (auto simp: fees_ok_def insert_fee_def fee_key_def)

lemma assess_fees_ok:
  assumes "q_AssessMonthlyFees x v m p s = Inr (u, s')" and "fees_ok (contribution_monthly_fees s)"
  shows "fees_ok (contribution_monthly_fees s')"
proof (cases "find (\<lambda>r. Some (mem_id r) = m) (members s)")
  case None
  with assms show ?thesis by (simp add: q_AssessMonthlyFees_def tx_run)
next
  case (Some r)
  with assms show ?thesis
    by (cases "fee_eligible x p r (member_status_history s)") (auto simp: q_AssessMonthlyFees_def tx_run insert_fee_ok)
qed

lemma dues_ok_rows:
  assumes "contribution_receipts s' = contribution_receipts s" "contribution_allocations s' = contribution_allocations s"
    "contribution_charges s' = contribution_charges s"
  shows "charges_ok s' = charges_ok s" "fee_paid m p excl ty s' = fee_paid m p excl ty s"
  using assms by (simp_all add: charges_ok_def charge_paid_def fee_paid_def)

lemma dues_ok_assess:
  assumes "q_AssessMonthlyFees x v m p s = Inr (u, s')" and "dues_ok s"
  shows "dues_ok s'"
  using assms(2) dues_ok_rows [OF assess_rows(1-3) [OF assms(1)]] assess_fees_ok [OF assms(1)] by (simp add: dues_ok_def)

text \<open>A new receipt has no completed part.\<close>

lemma dues_ok_new:
  assumes dues: "dues_ok s" and ok: "receipts_ok s" and new: "new_receipt r rows s s'"
  shows "dues_ok s'"
proof -
  have s': "contribution_receipts s' = contribution_receipts s @ [r]" "contribution_allocations s' = contribution_allocations s @ rows"
    "contribution_charges s' = contribution_charges s" "contribution_monthly_fees s' = contribution_monthly_fees s"
    and id: "\<forall>q\<in>set (contribution_receipts s). cr_id q \<noteq> cr_id r"
    and rows: "\<forall>a\<in>set rows. al_receipt a = cr_id r \<and> al_status a = AllocationPending"
    using new by (auto simp: new_receipt_def)
  have "charge_paid c None s' = charge_paid c None s" for c
    using rows by (simp add: charge_paid_def s') (rule sum_where_none, auto simp: charge_payment_def)
  moreover have "fee_paid (Some m) p None ty s' = fee_paid (Some m) p None ty s" for m p ty
  proof -
    have "sum_where (\<lambda>a. al_type a = ty \<and> fee_payment (Some m) p None (contribution_receipts s @ [r]) a) al_amount rows = 0"
      by (rule sum_where_none) (use rows in \<open>auto simp: fee_payment_counts\<close>)
    moreover have "sum_where (\<lambda>a. al_type a = ty \<and> fee_payment (Some m) p None (contribution_receipts s @ [r]) a) al_amount (contribution_allocations s)
        = sum_where (\<lambda>a. al_type a = ty \<and> fee_payment (Some m) p None (contribution_receipts s) a) al_amount (contribution_allocations s)"
    proof (rule sum_where_cong)
      fix a
      assume "a \<in> set (contribution_allocations s)"
      with ok id have "cr_id r \<noteq> al_receipt a" by (fastforce simp: receipts_ok_def part_ok_def)
      then show "(al_type a = ty \<and> fee_payment (Some m) p None (contribution_receipts s @ [r]) a)
          = (al_type a = ty \<and> fee_payment (Some m) p None (contribution_receipts s) a)" by (simp add: fee_payment_counts)
    qed
    ultimately show ?thesis by (simp add: fee_paid_def s')
  qed
  ultimately show ?thesis using dues rows by (auto simp: dues_ok_def charges_ok_def s')
qed

lemma dues_ok_entry:
  assumes "dues_ok s" and "receipts_ok s" and "receipt_entry x v r rows s s'"
  shows "dues_ok s'"
proof -
  obtain s1 where s1: "s1 = s \<or> (\<exists>m d. q_AssessMonthlyFees x v m (month_start d) s = Inr ((), s1))"
    and new: "s' = s1 \<or> new_receipt r rows s1 s'" using assms(3) by (auto simp: receipt_entry_def)
  have "receipts_ok s1" using s1 assms(2) receipts_ok_tables [of s1 s] assess_rows(1,2) by blast
  moreover have "dues_ok s1" using s1 assms(1) dues_ok_assess by blast
  ultimately show ?thesis using new dues_ok_new by blast
qed

lemma dues_ok_same:
  assumes "same_receipts i st (contribution_receipts s) rs" and "dues_ok s"
  shows "dues_ok (s\<lparr>contribution_receipts := rs\<rparr>)"
proof -
  have "fee_paid (Some m) p None ty (s\<lparr>contribution_receipts := rs\<rparr>) = fee_paid (Some m) p None ty s" for m p ty
    unfolding fee_paid_def by (simp, rule sum_where_cong) (simp add: fee_payment_counts counts_same [OF assms(1)])
  with assms(2) show ?thesis by (simp add: dues_ok_def charges_ok_def charge_paid_def)
qed

section \<open>Processing keeps it\<close>

lemma charge_paid_posted:
  assumes as: "posted i (contribution_allocations s) (contribution_allocations s')"
  shows "charge_paid c None s' = charge_paid c (Some i) s + sum_where (to_charge c) units (map as_input (allocations_of i s))"
proof -
  let ?Q = "\<lambda>a. al_target a = Some c \<and> is_charge (al_type a)"
  have "charge_paid c None s' = sum_where (\<lambda>a. ?Q a \<and> (al_receipt a = i \<or> al_status a = AllocationCompleted)) al_amount (contribution_allocations s)"
    unfolding charge_paid_def
    by (rule sum_where_list_all2 [OF as [unfolded posted_def]]) (auto simp: charge_payment_def allocation_core_def is_charge_def split: if_splits)
  also have "\<dots> = sum_where (\<lambda>a. (?Q a \<and> (al_receipt a = i \<or> al_status a = AllocationCompleted)) \<and> al_receipt a = i) al_amount (contribution_allocations s)
      + sum_where (\<lambda>a. (?Q a \<and> (al_receipt a = i \<or> al_status a = AllocationCompleted)) \<and> al_receipt a \<noteq> i) al_amount (contribution_allocations s)"
    by (rule sum_where_split)
  also have "sum_where (\<lambda>a. (?Q a \<and> (al_receipt a = i \<or> al_status a = AllocationCompleted)) \<and> al_receipt a \<noteq> i) al_amount (contribution_allocations s)
      = charge_paid c (Some i) s"
    unfolding charge_paid_def by (rule sum_where_cong) (auto simp: charge_payment_def is_charge_def)
  also have "sum_where (\<lambda>a. (?Q a \<and> (al_receipt a = i \<or> al_status a = AllocationCompleted)) \<and> al_receipt a = i) al_amount (contribution_allocations s)
      = sum_where (to_charge c) units (map as_input (allocations_of i s))"
  proof -
    have f: "units \<circ> as_input = al_amount" "to_charge c \<circ> as_input = ?Q"
      by (auto simp: fun_eq_iff units_def as_input_def to_charge_def)
    show ?thesis unfolding sum_where_map f allocations_of_sum by (rule sum_where_cong) auto
  qed
  finally show ?thesis by simp
qed

lemma sum_where_mono:
  "(\<And>a. P a \<Longrightarrow> Q a) \<Longrightarrow> \<forall>a\<in>set as. 0 < f a \<Longrightarrow> sum_where P f as \<le> sum_where Q f as"
  by (induction as) fastforce+

lemma paid_excluding:
  assumes "\<forall>a\<in>set (contribution_allocations s). 0 < al_amount a"
  shows "charge_paid c (Some i) s \<le> charge_paid c None s" "fee_paid m p (Some i) ty s \<le> fee_paid m p None ty s"
  unfolding charge_paid_def fee_paid_def
  by (rule sum_where_mono [OF _ assms], auto simp: charge_payment_def fee_payment_def)+

lemma charges_ok_posted:
  assumes ok: "charges_ok s" "receipts_ok s"
    and val: "validateChargeAllocations m b (map as_input (allocations_of i s)) (Some i) s1 = Inr (u, s2)"
    and s1: "contribution_charges s1 = contribution_charges s" "contribution_allocations s1 = contribution_allocations s"
    and as: "posted i (contribution_allocations s) (contribution_allocations s')" and s': "contribution_charges s' = contribution_charges s"
  shows "charges_ok s'"
proof -
  let ?es = "map as_input (allocations_of i s)"
  have d: "distinct (map ch_id (contribution_charges s1))" using ok s1 by (simp add: charges_ok_def)
  have same: "charge_paid c (Some i) s1 = charge_paid c (Some i) s" for c by (simp add: charge_paid_def s1)
  have refs: "\<exists>ch\<in>set (contribution_charges s). ch_id ch = c" if "e \<in> set ?es" "to_charge c e" for c e
    using validateCharges_Inr [OF val d, THEN conjunct1, rule_format, OF that] unfolding s1(1) .
  have room: "charge_paid (ch_id ch) (Some i) s + sum_where (to_charge (ch_id ch)) units ?es \<le> ch_amount ch"
    if "ch \<in> set (contribution_charges s)" "\<exists>e\<in>set ?es. to_charge (ch_id ch) e" for ch
    using validateCharges_Inr [OF val d, THEN conjunct2, unfolded s1(1) same, rule_format, OF that] .
  have pos: "\<forall>a\<in>set (contribution_allocations s). 0 < al_amount a" using ok(2) by (simp add: receipts_ok_def part_ok_def)
  have "charge_paid (ch_id ch) None s' \<le> ch_amount ch" if ch: "ch \<in> set (contribution_charges s)" for ch
  proof (cases "\<exists>e\<in>set ?es. to_charge (ch_id ch) e")
    case True
    from room [OF ch this] show ?thesis by (simp only: charge_paid_posted [OF as])
  next
    case False
    then have "sum_where (to_charge (ch_id ch)) units ?es = 0" by (intro sum_where_none) blast
    then have "charge_paid (ch_id ch) None s' \<le> charge_paid (ch_id ch) None s"
      using paid_excluding(1) [OF pos] by (simp only: charge_paid_posted [OF as]) simp
    also have "\<dots> \<le> ch_amount ch" using ok(1) ch by (simp add: charges_ok_def)
    finally show ?thesis .
  qed
  moreover have "\<exists>c\<in>set (contribution_charges s). al_target b = Some (ch_id c)"
    if b: "b \<in> set (contribution_allocations s')" "al_status b = AllocationCompleted" "is_charge (al_type b)" for b
  proof -
    from posted_row [OF as b(1)] obtain a where a: "a \<in> set (contribution_allocations s)" "allocation_core b = allocation_core a"
      "if al_receipt a = i then al_status b = AllocationCompleted else b = a" .
    show ?thesis
    proof (cases "al_receipt a = i")
      case False
      with a b ok(1) show ?thesis by (auto simp: charges_ok_def)
    next
      case True
      then have mem: "as_input a \<in> set ?es" using a(1) by simp
      have chg: "is_charge (al_type a)" using a(2) b(3) by (simp add: allocation_core_def)
      have "al_target a \<noteq> None"
      proof
        assume none: "al_target a = None"
        have "\<exists>ps. chargePayments [] ?es = Inr ps"
          using val by (auto simp: validateChargeAllocations_def tx_bind_Inr_iff contribution_errors_Inr)
        moreover have "chargePayments qs es \<noteq> Inr ps" if "e \<in> set es" "is_charge (ai_type e)" "ai_target e = None" for qs es e ps
          using that by (induction es arbitrary: qs) (auto split: option.splits)
        ultimately show False using mem chg none by (metis AllocationInput.select_convs(1,2) as_input_def)
      qed
      then obtain c where c: "al_target a = Some c" by blast
      then have "to_charge c (as_input a)" using chg by (simp add: to_charge_def as_input_def)
      from refs [OF mem this] show ?thesis using a(2) c by (auto simp: allocation_core_def)
    qed
  qed
  ultimately show ?thesis using ok(1) by (simp add: charges_ok_def s')
qed

lemma one_fee:
  assumes "fees_ok (contribution_monthly_fees s)"
  shows "length (filter (\<lambda>f. mf_type f = ty) (fees_of m p s)) \<le> 1"
proof -
  let ?fs = "filter (\<lambda>f. Some (mf_member f) = m \<and> mf_period f = p \<and> mf_type f = ty) (contribution_monthly_fees s)"
  have "distinct (map fee_key ?fs)" using assms by (simp add: fees_ok_def distinct_map_filter)
  moreover have "set (map fee_key ?fs) \<subseteq> {(the m, p, ty)}" by (auto simp: fee_key_def)
  ultimately have "length ?fs \<le> 1"
    by (metis (no_types, lifting) card.empty card.insert card_mono distinct_card empty_iff finite.emptyI finite_insert length_map One_nat_def)
  moreover have "filter (\<lambda>f. mf_type f = ty) (fees_of m p s) = (if is_fee ty then ?fs else [])"
    by (auto simp: fees_of_def is_fee_def filter_empty_conv intro!: filter_cong)
  ultimately show ?thesis by simp
qed

text \<open>What the parts of a receipt pay towards a fee is what was due of it.\<close>

lemma fees_posted:
  assumes fees: "monthlyFees x v clock (Some m) (Some d) (Some i) s = Inr (fees, s1)"
    and calc: "calculatedAllocations (map as_input as) fees = Inr expected" and match: "verifyAllocationsMatch expected as = None"
    and ok: "fees_ok (contribution_monthly_fees s)" and ty: "is_fee ty"
  shows "sum_where (\<lambda>a. al_type a = ty) al_amount as
    = (if \<exists>f\<in>set (fees_of (Some m) (month_start d) s1). mf_type f = ty
       then max 0 (300000 - fee_paid (Some m) (month_start d) (Some i) ty s) else 0)"
proof -
  let ?fs = "fees_of (Some m) (month_start d) s1" and ?pd = "\<lambda>ty. fee_paid (Some m) (month_start d) (Some i) ty s"
  have ass: "q_AssessMonthlyFees x v (Some m) (month_start d) s = Inr ((), s1)" and f: "fees = due_items ?pd ?fs"
    using monthlyFees_Inr [OF fees] by auto
  have ok1: "fees_ok (contribution_monthly_fees s1)" by (rule assess_fees_ok [OF ass ok])
  then have amt: "\<forall>f\<in>set ?fs. mf_amount f = 300000" by (auto simp: fees_of_def fees_ok_def)
  obtain parts where parts: "expected = parts @ fees" "\<forall>e\<in>set parts. \<not> is_fee (ai_type e) \<and> \<not> too_precise (ai_amount e)"
  proof (rule calculated_Inr [OF calc])
    show "\<forall>e\<in>set (map as_input as). \<not> is_fee (ai_type e) \<longrightarrow> \<not> too_precise (ai_amount e)" by (simp add: as_input_def)
  qed (rule that)
  have "sum_where (\<lambda>e. ai_type e = ty) units parts = 0" by (rule sum_where_none) (use parts(2) ty in auto)
  then have sum: "sum_where (\<lambda>a. al_type a = ty) al_amount as = sum_where (\<lambda>e. ai_type e = ty) units (due_items ?pd ?fs)"
    using match_sums [OF match, of ty] by (simp add: parts(1) f)
  show ?thesis
  proof (cases "\<exists>f\<in>set ?fs. mf_type f = ty")
    case True
    then have "0 < length (filter (\<lambda>f. mf_type f = ty) ?fs)" by (auto simp: filter_empty_conv)
    with one_fee [OF ok1, of ty "Some m" "month_start d"] have "length (filter (\<lambda>f. mf_type f = ty) ?fs) = 1" by linarith
    with True show ?thesis using due_sum [OF amt, of ty ?pd] sum by simp
  next
    case False
    then show ?thesis using due_sum [OF amt, of ty ?pd] sum by simp
  qed
qed

lemma process_dues:
  fixes s s' :: "'s contribution_db_scheme"
  assumes dues: "dues_ok s" and ok: "receipts_ok s" and run: "ProcessReceipt x v clock i s = ((res, err), s')"
  shows "dues_ok s' \<and> (err = None \<and> s' \<noteq> s \<longrightarrow> (\<exists>r. live_receipt (\<lambda>r. cr_id r = i) s = Some r \<and> (\<forall>f\<in>set (contribution_monthly_fees s').
     mf_member f = cr_member r \<and> mf_period f = month_start (cr_period r) \<and> is_fee (mf_type f)
     \<longrightarrow> fee_paid (Some (mf_member f)) (mf_period f) None (mf_type f) s' = mf_amount f)))"
proof -
  have d: "distinct (map cr_id (contribution_receipts s))" "distinct (map al_id (contribution_allocations s))"
    and pos: "\<forall>a\<in>set (contribution_allocations s). 0 < al_amount a" using ok by (simp_all add: receipts_ok_def part_ok_def)
  from run d show ?thesis
  proof (cases rule: process_cases)
    case unchanged
    with dues show ?thesis by simp
  next
    case (failed r e)
    have only: "q = r" if "q \<in> set (contribution_receipts s)" "cr_id q = i" for q
      using that live_receipt_id [OF failed(1)] d by (auto simp: distinct_map dest: inj_onD)
    have "same_receipts i (receiptFailureStatus r) (contribution_receipts s)
        (map (\<lambda>q. if cr_id q = i then failed_receipt v e q else q) (contribution_receipts s))"
      using only by (auto simp: same_receipts_def list_all2_map2 failed_receipt_def intro!: list.rel_refl_strong)
    from dues_ok_same [OF this dues] failed(3,5) show ?thesis by simp
  next
    case (completed r r0 r' rows rs0 s1)
    let ?s0 = "s\<lparr>contribution_receipts := rs0\<rparr>" and ?m = "cr_member r" and ?p = "month_start (cr_period r)"
    note ri = live_receipt_id [OF completed(1)] and r0 = receipt_core_same [OF completed(5)]
    have dues0: "dues_ok ?s0" by (rule dues_ok_same [OF completed(6) dues])
    obtain fees expected where
      fees: "monthlyFees x v clock (Some ?m) (Some (cr_period r)) (Some i) ?s0 = Inr (fees, s1)"
      and calc: "calculatedAllocations (map as_input (allocations_of i s)) fees = Inr expected"
      and match: "verifyAllocationsMatch expected (allocations_of i s) = None"
      and val: "validateChargeAllocations (Some ?m) (cr_branch r) (map as_input (allocations_of i s)) (Some i) s1 = Inr ((), s1)"
    proof (rule checkObligations_cases [OF completed(7)])
      fix fees expected
      have eqs: "cr_member r0 = ?m" "cr_period r0 = cr_period r" "cr_id r0 = i" "cr_branch r0 = cr_branch r" using r0 ri by simp_all
      assume "monthlyFees x v clock (Some (cr_member r0)) (Some (cr_period r0)) (Some (cr_id r0)) ?s0 = Inr (fees, s1)"
        "calculatedAllocations (map as_input (allocations_of i s)) fees = Inr expected"
        "verifyAllocationsMatch expected (allocations_of i s) = None"
        "validateChargeAllocations (Some (cr_member r0)) (cr_branch r0) (map as_input (allocations_of i s)) (Some (cr_id r0)) s1 = Inr ((), s1)"
      then show thesis unfolding eqs by (rule that)
    qed
    have ass: "q_AssessMonthlyFees x v (Some ?m) ?p ?s0 = Inr ((), s1)" using monthlyFees_Inr [OF fees] by auto
    note rows1 = assess_rows [OF ass, simplified]
    have con: "contribution_charges s' = contribution_charges s" "contribution_monthly_fees s' = contribution_monthly_fees s1"
      using completed(10) rows1 by (auto simp: contrib_def)
    have fok: "fees_ok (contribution_monthly_fees s1)" using assess_fees_ok [OF ass] dues0 by (simp add: dues_ok_def)
    have "charges_ok s'"
      by (rule charges_ok_posted [OF _ ok val rows1(3,2) completed(8) con(1)]) (use dues in \<open>simp add: dues_ok_def\<close>)
    moreover
    have ex: "fee_paid (Some m) p (Some i) ty ?s0 = fee_paid (Some m) p (Some i) ty s" for m p ty
      unfolding fee_paid_def by (simp, rule sum_where_cong) (simp add: fee_payment_counts counts_same [OF completed(6)])
    have E: "(\<exists>q\<in>set (contribution_receipts s). cr_id q = i \<and> counts m p q) = counts m p r" for m p
    proof -
      have "q = r" if "q \<in> set (contribution_receipts s)" "cr_id q = i" for q
        using that ri d by (auto simp: distinct_map dest: inj_onD)
      then show ?thesis using ri by auto
    qed
    have own: "fee_paid (Some ?m) ?p None ty s' = fee_paid (Some ?m) ?p (Some i) ty s
        + (if \<exists>f\<in>set (fees_of (Some ?m) ?p s1). mf_type f = ty then max 0 (300000 - fee_paid (Some ?m) ?p (Some i) ty s) else 0)"
      if "is_fee ty" for ty
    proof -
      have "counts ?m ?p r" using month_contains [of "cr_period r"] by (simp add: counts_def)
      moreover have "sum_where (\<lambda>a. al_type a = ty) al_amount (allocations_of i s)
          = (if \<exists>f\<in>set (fees_of (Some ?m) ?p s1). mf_type f = ty then max 0 (300000 - fee_paid (Some ?m) ?p (Some i) ty s) else 0)"
        using fees_posted [OF fees calc match _ that] dues by (simp add: ex dues_ok_def)
      ultimately show ?thesis using fee_paid_posted [OF completed(9,8), of ?m ?p ty] by (simp add: E)
    qed
    have old: "fee_paid (Some m) p (Some i) ty s \<le> 300000" if "is_fee ty" "month_start p = p" for m p ty
    proof -
      have "fee_paid (Some m) p (Some i) ty s \<le> fee_paid (Some m) p None ty s" by (rule paid_excluding(2) [OF pos])
      also have "\<dots> \<le> 300000" using dues that by (simp add: dues_ok_def)
      finally show ?thesis .
    qed
    have "fee_paid (Some m) p None ty s' \<le> 300000" if "is_fee ty" "month_start p = p" for m p ty
    proof (cases "counts m p r")
      case True
      then have "m = ?m" "p = ?p" using in_month [of p "cr_period r"] that(2) by (auto simp: counts_def)
      then show ?thesis using own [OF that(1)] old [OF that, of m] by simp
    next
      case False
      then show ?thesis using fee_paid_posted [OF completed(9,8), of m p ty] old [OF that, of m] by (simp add: E)
    qed
    moreover have "fee_paid (Some (mf_member f)) (mf_period f) None (mf_type f) s' = mf_amount f"
      if "f \<in> set (contribution_monthly_fees s')" "mf_member f = ?m" "mf_period f = ?p" "is_fee (mf_type f)" for f
    proof -
      have "f \<in> set (fees_of (Some ?m) ?p s1)" using that con(2) by (auto simp: fees_of_def is_fee_def)
      then have "\<exists>g\<in>set (fees_of (Some ?m) ?p s1). mf_type g = mf_type f" by blast
      moreover have "mf_amount f = 300000" using fok that(1) con(2) by (simp add: fees_ok_def)
      ultimately show ?thesis using own [OF that(4)] old [OF that(4), of ?p ?m] that(2,3) by simp
    qed
    ultimately show ?thesis using completed(1) con(2) fok by (simp add: dues_ok_def)
  qed
qed

end
