(* ===== verification/Cash_Inv.thy ===== *)
theory Cash_Inv
  imports Dues
begin

text \<open>
  The invariant of cash custody: every cashier has at most one open session; what a session was
  expected to hold when it was closed is the cash that was received in it, for ever; the variance is
  explained; the cash is handed to somebody else; a deposit is the sum of the counted cash of its
  sessions, no session is in two deposits, and nobody verifies a deposit they recorded.
\<close>

definition session_ok :: "'s contribution_db_scheme \<Rightarrow> CashierSession \<Rightarrow> bool" where
  "session_ok s q \<longleftrightarrow> (ses_status q \<noteq> SessionOpen \<longrightarrow> (\<exists>c. ses_counted q = Some c \<and> 0 \<le> c \<and> ses_expected q = Some (session_cash (ses_id q) s)
       \<and> ses_variance q = Some (c - session_cash (ses_id q) s) \<and> ses_closed_by q = Some (ses_cashier q)
       \<and> (c \<noteq> session_cash (ses_id q) s \<longrightarrow> (\<exists>t. ses_reason q = Some t \<and> btrim t \<noteq> []))))
     \<and> (ses_status q = SessionHandedOver \<or> ses_status q = SessionDeposited \<longrightarrow> ses_handed_to q \<noteq> Some (ses_cashier q))
     \<and> (ses_status q = SessionDeposited \<longleftrightarrow> ses_id q \<in> snd ` set (cash_deposit_sessions s))"

definition counted_in :: "uuid \<Rightarrow> 's contribution_db_scheme \<Rightarrow> int" where
  "counted_in d s = sum_where (\<lambda>q. (d, ses_id q) \<in> set (cash_deposit_sessions s)) (the \<circ> ses_counted) (cashier_sessions s)"

definition deposit_ok :: "'s contribution_db_scheme \<Rightarrow> CashDeposit \<Rightarrow> bool" where
  "deposit_ok s d \<longleftrightarrow> cd_amount d = counted_in (cd_id d) s \<and> (cd_status d = DepositVerified \<longrightarrow> cd_verified_by d \<noteq> Some (cd_recorded_by d))"

definition one_open :: "CashierSession list \<Rightarrow> bool" where
  "one_open qs \<longleftrightarrow> distinct (map ses_cashier (filter (\<lambda>q. ses_status q = SessionOpen) qs))"

definition cash_ok :: "'s contribution_db_scheme \<Rightarrow> bool" where
  "cash_ok s \<longleftrightarrow> distinct (map ses_id (cashier_sessions s)) \<and> one_open (cashier_sessions s)
     \<and> (\<forall>q\<in>set (cashier_sessions s). session_ok s q)
     \<and> distinct (map cd_id (cash_deposits s)) \<and> (\<forall>d\<in>set (cash_deposits s). deposit_ok s d)
     \<and> distinct (map snd (cash_deposit_sessions s)) \<and> fst ` set (cash_deposit_sessions s) \<subseteq> cd_id ` set (cash_deposits s)
     \<and> snd ` set (cash_deposit_sessions s) \<subseteq> ses_id ` set (cashier_sessions s)"

section \<open>Updating a session\<close>

lemma update_session_Some:
  assumes "update_session i st f s = Inr (Some r, s')"
  obtains q where "q \<in> set (cashier_sessions s)" "Some (ses_id q) = i" "ses_status q = st" "r = f q" "session_check (f q)"
    "s' = s\<lparr>cashier_sessions := map (\<lambda>p. if ses_id p = ses_id q then f p else p) (cashier_sessions s)\<rparr>"
proof -
  from assms obtain q where f: "find (\<lambda>r. Some (ses_id r) = i \<and> ses_status r = st) (cashier_sessions s) = Some q"
    and "r = f q" "session_check (f q)" "s' = s\<lparr>cashier_sessions := map (\<lambda>p. if ses_id p = ses_id q then f p else p) (cashier_sessions s)\<rparr>"
    by (auto simp: update_session_def split: option.splits if_splits)
  with find_Some_set [OF f] show thesis by (intro that) simp_all
qed

text \<open>A session that is not opened leaves the others at most one open session per cashier.\<close>

lemma one_open_update:
  assumes "one_open qs" and "\<And>q. q \<in> set qs \<Longrightarrow> k q = i \<Longrightarrow> ses_status (f q) \<noteq> SessionOpen"
  shows "one_open (map (\<lambda>q. if k q = i then f q else q) qs)"
  using assms
proof (induction qs)
  case (Cons q qs)
  have "set (map ses_cashier (filter (\<lambda>q. ses_status q = SessionOpen) (map (\<lambda>q. if k q = i then f q else q) qs)))
      \<subseteq> set (map ses_cashier (filter (\<lambda>q. ses_status q = SessionOpen) qs))"
    using Cons.prems(2) by (auto split: if_splits)
  with Cons show ?case by (auto simp: one_open_def split: if_splits)
qed (simp add: one_open_def)

text \<open>A session that moves on from closed or handed over, with its counted cash.\<close>

lemma cash_ok_update:
  assumes ok: "cash_ok s" and q: "q \<in> set (cashier_sessions s)"
    and id: "\<And>p. ses_id (f p) = ses_id p" and st: "\<And>p. ses_status (f p) \<noteq> SessionOpen"
    and cnt: "ses_status q = SessionDeposited \<Longrightarrow> ses_counted (f q) = ses_counted q"
    and new: "session_ok s (f q)"
  shows "cash_ok (s\<lparr>cashier_sessions := map (\<lambda>p. if ses_id p = ses_id q then f p else p) (cashier_sessions s)\<rparr>)"
proof -
  let ?s = "s\<lparr>cashier_sessions := map (\<lambda>p. if ses_id p = ses_id q then f p else p) (cashier_sessions s)\<rparr>"
  have d: "distinct (map ses_id (cashier_sessions s))" using ok by (simp add: cash_ok_def)
  then have only: "p = q" if "p \<in> set (cashier_sessions s)" "ses_id p = ses_id q" for p
    using that q by (auto simp: distinct_map dest: inj_onD)
  have cash: "session_ok ?s p = session_ok s p" for p by (simp add: session_ok_def session_cash_def)
  have "counted_in k ?s = counted_in k s" for k
  proof -
    have dep: "ses_status q = SessionDeposited" if "(d, ses_id q) \<in> set (cash_deposit_sessions s)" for d
    proof -
      have "session_ok s q" using ok q by (simp add: cash_ok_def)
      moreover have "ses_id q \<in> snd ` set (cash_deposit_sessions s)" using that by force
      ultimately show ?thesis by (simp add: session_ok_def)
    qed
    have "(if (k, ses_id (if ses_id p = ses_id q then f p else p)) \<in> set (cash_deposit_sessions s)
        then (the \<circ> ses_counted) (if ses_id p = ses_id q then f p else p) else 0)
      = (if (k, ses_id p) \<in> set (cash_deposit_sessions s) then (the \<circ> ses_counted) p else 0)" if "p \<in> set (cashier_sessions s)" for p
      using only [OF that] cnt dep by (cases "ses_id p = ses_id q") (auto simp: id)
    then show ?thesis unfolding counted_in_def by (simp add: sum_where_map_eq)
  qed
  then have "deposit_ok ?s p = deposit_ok s p" for p by (simp add: deposit_ok_def)
  moreover have "session_ok s p" if "p \<in> set (cashier_sessions ?s)" for p
    using that ok only new by (auto simp: cash_ok_def split: if_splits)
  moreover have "one_open (cashier_sessions ?s)" using ok st by (simp add: cash_ok_def one_open_update)
  moreover have ids': "map ses_id (cashier_sessions ?s) = map ses_id (cashier_sessions s)" by (simp add: id)
  moreover have "ses_id ` set (cashier_sessions ?s) = ses_id ` set (cashier_sessions s)"
    using arg_cong [OF ids', of set] by (simp only: list.set_map)
  ultimately show ?thesis using ok unfolding cash_ok_def cash ids' by simp
qed

section \<open>Sessions\<close>

lemma cash_ok_open:
  assumes ok: "cash_ok s" and run: "OpenCashierSession v br who s = Inr (r, s')"
  shows "cash_ok s'"
proof -
  from run consider "s' = s" | c where "s' = s\<lparr>cashier_sessions := cashier_sessions s @ [r]\<rparr>" "ses_cashier r = c" "ses_status r = SessionOpen"
      "\<forall>q\<in>set (cashier_sessions s). ses_id q \<noteq> ses_id r \<and> \<not> (ses_cashier q = c \<and> ses_status q = SessionOpen)"
    by (auto simp: OpenCashierSession_def tx_simps q_InsertCashierSession_def q_GetOpenCashierSession_def Let_def split: option.splits if_splits)
  then show ?thesis
  proof cases
    case 2
    have fresh: "ses_id r \<notin> snd ` set (cash_deposit_sessions s)" using ok 2(4) by (auto simp: cash_ok_def)
    have so: "session_ok s' q = session_ok s q" for q by (simp add: session_ok_def session_cash_def 2(1))
    have "counted_in k s' = counted_in k s" for k using fresh by (force simp: counted_in_def 2(1))
    then have dep: "deposit_ok s' d = deposit_ok s d" for d by (simp add: deposit_ok_def)
    have new: "session_ok s r" using fresh 2(3) by (simp add: session_ok_def)
    have "one_open (cashier_sessions s @ [r])" using ok 2 by (auto simp: cash_ok_def one_open_def)
    with ok 2(4) new show ?thesis unfolding cash_ok_def so dep by (auto simp: 2(1))
  qed (use ok in simp)
qed

lemma cash_ok_close:
  assumes ok: "cash_ok s" and run: "CloseCashierSession v i who counted rsn s = Inr (r, s')"
  shows "cash_ok s'"
proof -
  from run consider "s' = s" | e c t where "update_session i SessionOpen (close_session v e c t who) s = Inr (Some r, s')"
      "\<exists>q. find (\<lambda>r. Some (ses_id r) = i) (cashier_sessions s) = Some q \<and> Some (ses_cashier q) = who \<and> e = session_cash (ses_id q) s"
    by (auto simp: CloseCashierSession_def tx_simps q_LockCashierSession_def q_SumCashReceiptsBySession_def q_CloseCashierSession_def
        Let_def store_db_Inr split: option.splits if_splits)
  then show ?thesis
  proof cases
    case (2 e c t)
    from 2(1) show ?thesis
    proof (rule update_session_Some)
      fix q
      assume q: "q \<in> set (cashier_sessions s)" "Some (ses_id q) = i" "ses_status q = SessionOpen" "session_check (close_session v e c t who q)"
        and s': "s' = s\<lparr>cashier_sessions := map (\<lambda>p. if ses_id p = ses_id q then close_session v e c t who p else p) (cashier_sessions s)\<rparr>"
      from 2(2) obtain p where p: "p \<in> set (cashier_sessions s)" "Some (ses_id p) = i" "Some (ses_cashier p) = who" "e = session_cash (ses_id p) s"
        by (auto dest: find_Some_set)
      have "p = q" using p q ok by (auto simp: cash_ok_def distinct_map dest: inj_onD)
      with p have e: "who = Some (ses_cashier q)" "e = session_cash (ses_id q) s" by auto
      have "session_ok s q" using ok q(1) by (simp add: cash_ok_def)
      then have "session_ok s (close_session v e c t who q)"
        using q(3,4) e by (auto simp: session_ok_def close_session_def session_check_def split: option.splits)
      then show ?thesis unfolding s' by (intro cash_ok_update [OF ok q(1)]) (simp_all add: close_session_def q(3))
    qed
  qed (use ok in simp)
qed

lemma cash_ok_accept:
  assumes ok: "cash_ok s" and run: "AcceptCashHandover v i who br s = Inr (r, s')"
  shows "cash_ok s'"
proof -
  from run consider "s' = s" | "update_session i SessionClosed (hand_over v who) s = Inr (Some r, s')"
      "\<exists>q. find (\<lambda>r. Some (ses_id r) = i) (cashier_sessions s) = Some q \<and> Some (ses_cashier q) \<noteq> who"
    by (auto simp: AcceptCashHandover_def tx_simps q_LockCashierSession_def q_AcceptCashHandover_def split: if_splits)
  then show ?thesis
  proof cases
    case 2
    from 2(1) show ?thesis
    proof (rule update_session_Some)
      fix q
      assume q: "q \<in> set (cashier_sessions s)" "Some (ses_id q) = i" "ses_status q = SessionClosed"
        and s': "s' = s\<lparr>cashier_sessions := map (\<lambda>p. if ses_id p = ses_id q then hand_over v who p else p) (cashier_sessions s)\<rparr>"
      from 2(2) obtain p where p: "p \<in> set (cashier_sessions s)" "Some (ses_id p) = i" "Some (ses_cashier p) \<noteq> who"
        by (auto dest: find_Some_set)
      have "p = q" using p q ok by (auto simp: cash_ok_def distinct_map dest: inj_onD)
      moreover have "session_ok s q" using ok q(1) by (simp add: cash_ok_def)
      ultimately have "session_ok s (hand_over v who q)" using q(3) p(3) by (auto simp: session_ok_def hand_over_def)
      then show ?thesis unfolding s' by (intro cash_ok_update [OF ok q(1)]) (simp_all add: hand_over_def)
    qed
  qed (use ok in simp)
qed

section \<open>Deposits\<close>

lemma depositSessions_Inr:
  assumes "depositSessions v d qs s = Inr (u, s')" and "distinct (map ses_id qs)"
  shows "s' = s\<lparr>cashier_sessions := map (\<lambda>p. if ses_id p \<in> ses_id ` set qs then mark_deposited v p else p) (cashier_sessions s),
      cash_deposit_sessions := cash_deposit_sessions s @ map (\<lambda>q. (d, ses_id q)) qs\<rparr>
    \<and> ses_id ` set qs \<inter> snd ` set (cash_deposit_sessions s) = {}"
  using assms
proof (induction qs arbitrary: s)
  case Nil
  then show ?case by (simp add: tx_run)
next
  case (Cons q qs)
  obtain l r s1 s2 where ins: "q_InsertCashDepositSession d (ses_id q) s = Inr (Some l, s1)"
    and upd: "update_session (Some (ses_id q)) SessionHandedOver (mark_deposited v) s1 = Inr (Some r, s2)"
    and rest: "depositSessions v d qs s2 = Inr (u, s')"
    using Cons.prems(1) by (auto simp: tx_bind_Inr_iff or_error_Inr q_MarkCashierSessionDeposited_def)
  from ins have s1: "s1 = s\<lparr>cash_deposit_sessions := cash_deposit_sessions s @ [(d, ses_id q)]\<rparr>" and new: "ses_id q \<notin> snd ` set (cash_deposit_sessions s)"
    by (auto simp: q_InsertCashDepositSession_def split: if_splits)
  from upd have s2: "s2 = s1\<lparr>cashier_sessions := map (\<lambda>p. if ses_id p = ses_id q then mark_deposited v p else p) (cashier_sessions s1)\<rparr>"
    by (rule update_session_Some) simp
  have id: "ses_id (mark_deposited v p) = ses_id p" for p by (simp add: mark_deposited_def)
  have "map (\<lambda>p. if ses_id p \<in> ses_id ` set qs then mark_deposited v p else p)
      (map (\<lambda>p. if ses_id p = ses_id q then mark_deposited v p else p) ps)
      = map (\<lambda>p. if ses_id p \<in> ses_id ` set (q # qs) then mark_deposited v p else p) ps" for ps
    using Cons.prems(2) by (auto simp: id)
  then show ?case using Cons.IH [OF rest] Cons.prems(2) new by (auto simp: s2 s1)
qed

lemma cash_ok_deposited:
  fixes s :: "'s contribution_db_scheme"
  assumes ok: "cash_ok s" and fresh: "cd_id d \<notin> cd_id ` set (cash_deposits s)" and st: "cd_status d = DepositRecorded"
    and I: "I \<inter> snd ` set (cash_deposit_sessions s) = {}" "I \<subseteq> ses_id ` set (cashier_sessions s)" "set ls = (\<lambda>i. (cd_id d, i)) ` I" "distinct (map snd ls)"
    and h: "\<And>q. q \<in> set (cashier_sessions s) \<Longrightarrow> ses_id q \<in> I \<Longrightarrow> ses_status q = SessionHandedOver"
    and amt: "cd_amount d = sum_where (\<lambda>q. ses_id q \<in> I) (the \<circ> ses_counted) (cashier_sessions s)"
  shows "cash_ok (s\<lparr>cash_deposits := cash_deposits s @ [d],
      cashier_sessions := map (\<lambda>p. if ses_id p \<in> I then mark_deposited v p else p) (cashier_sessions s),
      cash_deposit_sessions := cash_deposit_sessions s @ ls\<rparr>)" (is "cash_ok ?s")
proof -
  have id: "ses_id (mark_deposited v p) = ses_id p" "ses_counted (mark_deposited v p) = ses_counted p" for p by (simp_all add: mark_deposited_def)
  have snd_ls: "snd ` set ls = I" "fst ` set ls \<subseteq> {cd_id d}" using I(3) by (auto simp: image_image)
  have sess: "session_ok ?s (if ses_id q \<in> I then mark_deposited v q else q)" if q: "q \<in> set (cashier_sessions s)" for q
  proof -
    have old: "session_ok s q" using ok q by (simp add: cash_ok_def)
    have links: "snd ` set (cash_deposit_sessions ?s) = snd ` set (cash_deposit_sessions s) \<union> I" by (simp add: image_Un snd_ls)
    have cash: "session_cash k ?s = session_cash k s" for k by (simp add: session_cash_def)
    show ?thesis
    proof (cases "ses_id q \<in> I")
      case True
      with old h [OF q True] show ?thesis unfolding session_ok_def links cash by (simp add: mark_deposited_def)
    next
      case False
      with old show ?thesis unfolding session_ok_def links cash by simp
    qed
  qed
  have ids: "map ses_id (cashier_sessions ?s) = map ses_id (cashier_sessions s)" by (simp add: id)
  have counted: "counted_in k ?s = counted_in k s + (if k = cd_id d then cd_amount d else 0)" for k
  proof -
    have "counted_in k ?s = sum_where (\<lambda>q. (k, ses_id q) \<in> set (cash_deposit_sessions s) \<or> (k = cd_id d \<and> ses_id q \<in> I)) (the \<circ> ses_counted) (cashier_sessions s)"
      unfolding counted_in_def
      by (simp add: sum_where_map comp_def id if_distrib [of ses_id] if_distrib [of ses_counted] I(3) cong: if_cong)
        (rule sum_where_cong, auto)
    also have "\<dots> = sum_where (\<lambda>q. ((k, ses_id q) \<in> set (cash_deposit_sessions s) \<or> (k = cd_id d \<and> ses_id q \<in> I)) \<and> ses_id q \<in> I) (the \<circ> ses_counted) (cashier_sessions s)
       + sum_where (\<lambda>q. ((k, ses_id q) \<in> set (cash_deposit_sessions s) \<or> (k = cd_id d \<and> ses_id q \<in> I)) \<and> ses_id q \<notin> I) (the \<circ> ses_counted) (cashier_sessions s)"
      by (rule sum_where_split)
    also have "sum_where (\<lambda>q. ((k, ses_id q) \<in> set (cash_deposit_sessions s) \<or> (k = cd_id d \<and> ses_id q \<in> I)) \<and> ses_id q \<notin> I) (the \<circ> ses_counted) (cashier_sessions s)
       = counted_in k s"
      unfolding counted_in_def by (rule sum_where_cong) (use I(1) in force)
    also have "sum_where (\<lambda>q. ((k, ses_id q) \<in> set (cash_deposit_sessions s) \<or> (k = cd_id d \<and> ses_id q \<in> I)) \<and> ses_id q \<in> I) (the \<circ> ses_counted) (cashier_sessions s)
       = (if k = cd_id d then cd_amount d else 0)"
    proof (cases "k = cd_id d")
      case True
      then show ?thesis by (simp add: amt) (rule sum_where_cong, auto)
    next
      case False
      then show ?thesis by simp (rule sum_where_none, use I(1) in force)
    qed
    finally show ?thesis by simp
  qed
  have none: "counted_in (cd_id d) s = 0"
    unfolding counted_in_def
  proof (rule sum_where_none)
    have "fst ` set (cash_deposit_sessions s) \<subseteq> cd_id ` set (cash_deposits s)" using ok by (simp add: cash_ok_def)
    then have "cd_id d \<notin> fst ` set (cash_deposit_sessions s)" using fresh by blast
    then show "(cd_id d, ses_id q) \<notin> set (cash_deposit_sessions s)" for q by force
  qed
  have dep: "deposit_ok ?s k" if "k \<in> set (cash_deposits ?s)" for k
  proof (cases "k = d")
    case True
    then show ?thesis using counted [of "cd_id d"] none st by (simp add: deposit_ok_def)
  next
    case False
    with that have "k \<in> set (cash_deposits s)" by simp
    moreover from this fresh have "cd_id k \<noteq> cd_id d" by (metis image_eqI)
    ultimately show ?thesis using ok counted [of "cd_id k"] unfolding cash_ok_def deposit_ok_def by (simp only: if_False) simp
  qed
  have f1: "one_open (cashier_sessions ?s)"
    using ok one_open_update [of "cashier_sessions s" "\<lambda>q. ses_id q \<in> I" True "mark_deposited v"] by (simp add: cash_ok_def mark_deposited_def)
  have f2: "\<forall>q\<in>set (cashier_sessions ?s). session_ok ?s q"
  proof
    fix q
    assume "q \<in> set (cashier_sessions ?s)"
    then obtain p where "p \<in> set (cashier_sessions s)" "q = (if ses_id p \<in> I then mark_deposited v p else p)" by auto
    with sess show "session_ok ?s q" by (simp only:)
  qed
  have f3: "distinct (map cd_id (cash_deposits ?s))" using ok fresh by (simp add: cash_ok_def)
  have f4: "distinct (map snd (cash_deposit_sessions ?s))" using ok I(1,4) snd_ls by (auto simp: cash_ok_def)
  have f5: "fst ` set (cash_deposit_sessions ?s) \<subseteq> cd_id ` set (cash_deposits ?s)" using ok snd_ls by (auto simp: cash_ok_def)
  have e1: "ses_id ` set (cashier_sessions ?s) = ses_id ` set (cashier_sessions s)"
    using arg_cong [OF ids, of set] by (simp only: list.set_map)
  have e2: "snd ` set (cash_deposit_sessions ?s) = snd ` set (cash_deposit_sessions s) \<union> I" by (simp add: image_Un snd_ls)
  have "snd ` set (cash_deposit_sessions s) \<subseteq> ses_id ` set (cashier_sessions s)" using ok by (simp add: cash_ok_def)
  then have f6: "snd ` set (cash_deposit_sessions ?s) \<subseteq> ses_id ` set (cashier_sessions ?s)"
    unfolding e1 e2 using I(2) by (rule Un_least)
  have f7: "distinct (map ses_id (cashier_sessions ?s))" unfolding ids using ok by (simp add: cash_ok_def)
  show ?thesis unfolding cash_ok_def by (intro conjI f1 f2 f3 f4 f5 f6 f7 ballI dep)
qed

end
