(* ===== verification/Custody.thy ===== *)
theory Custody
  imports Cash_Inv
begin

text \<open>Recording and verifying deposits, and receiving cash, keep the custody invariant.\<close>

lemma lock_sessions_sum:
  "sum_list (map f (sort_key ses_id (filter P qs))) = sum_where P f qs"
proof -
  have "sum_list (map f (sort_key ses_id (filter P qs))) = sum_where (\<lambda>_. True) f (sort_key ses_id (filter P qs))"
    by (simp add: sum_where_def)
  then show ?thesis by (simp add: sum_where_sort sum_where_filter)
qed

lemma cash_ok_record:
  fixes s s' :: "'s contribution_db_scheme"
  assumes ok: "cash_ok s" and run: "RecordCashDeposit v ids amount ref br who s = Inr (d, s')" and ex: "\<not> too_precise amount"
  shows "cash_ok s'"
proof -
  let ?I = "{i. Some i \<in> set ids}" and ?qs = "sort_key ses_id (filter (\<lambda>q. Some (ses_id q) \<in> set ids) (cashier_sessions s))"
  from run consider "s' = s" | "recordDeposit v ids amount (TrimSpace ref) br who s = Inr (d, s')" "None \<notin> set ids" "distinct ids"
    by (auto simp: RecordCashDeposit_def tx_simps contribution_errors_Inr Let_def q_GetCashDepositByBankReference_def
        q_ListCashDepositSessions_def split: if_splits)
  then show ?thesis
  proof cases
    case 2
    then obtain s1 where len: "length ?qs = length ids" and all: "list_all (depositable br) ?qs"
      and sum: "sum_list (map (\<lambda>r. the (ses_counted r)) ?qs) = numericToScale amount (-4)"
      and ins: "q_InsertCashDeposit v br amount (TrimSpace ref) who s = Inr (Some d, s1)"
      and dep: "depositSessions v (cd_id d) ?qs s1 = Inr ((), s')"
      by (auto simp: recordDeposit_def tx_bind_Inr_iff tx_run q_LockCashierSessions_def contribution_errors_Inr or_error_Inr split: if_splits)
    have d: "s1 = s\<lparr>cash_deposits := cash_deposits s @ [d]\<rparr>" "cd_id d \<notin> cd_id ` set (cash_deposits s)" "cd_status d = DepositRecorded"
      "store_numeric amount = Inr (cd_amount d)"
      using ins by (cases who; auto simp: q_InsertCashDeposit_def tx_simps Let_def split: if_splits)+
    have dist: "distinct (map ses_id ?qs)"
    proof -
      have "distinct (map ses_id (filter (\<lambda>q. Some (ses_id q) \<in> set ids) (cashier_sessions s)))"
        using ok by (simp add: cash_ok_def distinct_map_filter)
      moreover have "mset (map ses_id ?qs) = mset (map ses_id (filter (\<lambda>q. Some (ses_id q) \<in> set ids) (cashier_sessions s)))" by simp
      ultimately show ?thesis by (metis mset_eq_imp_distinct_iff)
    qed
    have I: "ses_id ` set ?qs = ?I"
    proof (rule card_subset_eq)
      have inj: "card ?I = length ids"
      proof -
        have "Some ` ?I = set ids" using 2(2) by (auto simp: image_iff) (metis not_None_eq)
        then show ?thesis using distinct_card [OF 2(3)] card_image [of Some ?I] by simp
      qed
      show "finite ?I" using finite_vimageI [of "set ids" Some] by (simp add: vimage_def)
      show "ses_id ` set ?qs \<subseteq> ?I" by auto
      show "card (ses_id ` set ?qs) = card ?I" using distinct_card [OF dist] len inj by simp
    qed
    have s': "s' = s\<lparr>cash_deposits := cash_deposits s @ [d],
        cashier_sessions := map (\<lambda>p. if ses_id p \<in> ?I then mark_deposited v p else p) (cashier_sessions s),
        cash_deposit_sessions := cash_deposit_sessions s @ map (\<lambda>q. (cd_id d, ses_id q)) ?qs\<rparr>"
      and new: "?I \<inter> snd ` set (cash_deposit_sessions s) = {}"
      using depositSessions_Inr [OF dep dist] unfolding I by (simp_all add: d(1))
    show ?thesis unfolding s'
    proof (rule cash_ok_deposited [OF ok d(2,3) new])
      show "?I \<subseteq> ses_id ` set (cashier_sessions s)" unfolding I [symmetric] by auto
      show "set (map (\<lambda>q. (cd_id d, ses_id q)) ?qs) = (\<lambda>i. (cd_id d, i)) ` ?I" unfolding I [symmetric] by (auto simp: image_image)
      show "distinct (map snd (map (\<lambda>q. (cd_id d, ses_id q)) ?qs))" using dist by (simp add: comp_def)
      show "ses_status q = SessionHandedOver" if "q \<in> set (cashier_sessions s)" "ses_id q \<in> ?I" for q
        using all that by (simp add: list_all_iff depositable_def)
      have "cd_amount d = numericToScale amount (-4)" by (rule store_precise [OF d(4) ex])
      then show "cd_amount d = sum_where (\<lambda>q. ses_id q \<in> ?I) (the \<circ> ses_counted) (cashier_sessions s)"
        using sum lock_sessions_sum [of "the \<circ> ses_counted" "\<lambda>q. Some (ses_id q) \<in> set ids" "cashier_sessions s"] by (simp add: comp_def)
    qed
  qed (use ok in simp)
qed

lemma cash_ok_verify:
  fixes s s' :: "'s contribution_db_scheme"
  assumes ok: "cash_ok s" and run: "VerifyCashDeposit v i who br s = Inr (d, s')"
  shows "cash_ok s'"
proof -
  from run consider "s' = s" | q where "q \<in> set (cash_deposits s)" "Some (cd_id q) = i" "Some (cd_recorded_by q) \<noteq> who"
      "s' = s\<lparr>cash_deposits := map (\<lambda>p. if cd_id p = cd_id q then verify_deposit v who p else p) (cash_deposits s)\<rparr>"
  proof -
    from run obtain q0 where q0: "find (\<lambda>d. Some (cd_id d) = i) (cash_deposits s) = Some q0"
      and rest: "s' = s \<or> Some (cd_recorded_by q0) \<noteq> who \<and> (\<exists>w. q_VerifyCashDeposit v i who s = Inr (w, s'))"
      by (auto simp: VerifyCashDeposit_def tx_simps q_GetCashDepositByID_def contribution_errors_Inr split: if_splits)
    note q0 = find_Some_set [OF q0]
    show thesis
    proof (cases "find (\<lambda>d. Some (cd_id d) = i \<and> cd_status d = DepositRecorded) (cash_deposits s)")
      case None
      with rest have "s' = s" by (auto simp: q_VerifyCashDeposit_def)
      then show thesis by (rule that(1))
    next
      case (Some q)
      note q = find_Some_set [OF Some]
      have "q = q0" using q q0 ok by (auto simp: cash_ok_def distinct_map dest: inj_onD)
      with rest Some q show thesis using that by (auto simp: q_VerifyCashDeposit_def)
    qed
  qed
  then show ?thesis
  proof cases
    case (2 q)
    let ?f = "\<lambda>p. if cd_id p = cd_id q then verify_deposit v who p else p"
    have only: "p = q" if "p \<in> set (cash_deposits s)" "cd_id p = cd_id q" for p
      using that 2(1) ok by (auto simp: cash_ok_def distinct_map dest: inj_onD)
    have same: "session_ok s' p = session_ok s p" "counted_in k s' = counted_in k s" for p k
      by (simp_all add: session_ok_def session_cash_def counted_in_def 2(4))
    have ids: "map cd_id (cash_deposits s') = map cd_id (cash_deposits s)" by (simp add: 2(4) verify_deposit_def)
    have "deposit_ok s' p" if "p \<in> set (cash_deposits s')" for p
    proof -
      from that obtain p0 where p0: "p0 \<in> set (cash_deposits s)" "p = ?f p0" by (auto simp: 2(4))
      then have "deposit_ok s p0" using ok by (simp add: cash_ok_def)
      then show ?thesis using only [OF p0(1)] 2(3) unfolding deposit_ok_def same p0(2) by (auto simp: verify_deposit_def)
    qed
    moreover have "cd_id ` set (cash_deposits s') = cd_id ` set (cash_deposits s)"
      using arg_cong [OF ids, of set] by (simp only: list.set_map)
    moreover have "distinct (map cd_id (cash_deposits s'))" unfolding ids using ok by (simp add: cash_ok_def)
    moreover have "cashier_sessions s' = cashier_sessions s" "cash_deposit_sessions s' = cash_deposit_sessions s" by (simp_all add: 2(4))
    ultimately show ?thesis using ok unfolding cash_ok_def same by simp
  qed (use ok in simp)
qed

section \<open>Receipts\<close>

lemma cash_ok_frame:
  assumes ok: "cash_ok s" and same: "cashier_sessions s' = cashier_sessions s" "cash_deposits s' = cash_deposits s"
      "cash_deposit_sessions s' = cash_deposit_sessions s"
    and cash: "\<And>q. q \<in> set (cashier_sessions s) \<Longrightarrow> ses_status q \<noteq> SessionOpen \<Longrightarrow> session_cash (ses_id q) s' = session_cash (ses_id q) s"
  shows "cash_ok s'"
proof -
  have "counted_in k s' = counted_in k s" for k by (simp add: counted_in_def same)
  then have dep: "deposit_ok s' d = deposit_ok s d" for d by (simp add: deposit_ok_def)
  have "session_ok s' q" if "q \<in> set (cashier_sessions s)" for q
  proof -
    have "session_ok s q" using ok that by (simp add: cash_ok_def)
    then show ?thesis using cash [OF that] unfolding session_ok_def same by (cases "ses_status q = SessionOpen") auto
  qed
  with ok show ?thesis unfolding cash_ok_def same dep by simp
qed

lemma session_cash_same:
  assumes "same_receipts i st (contribution_receipts s) (contribution_receipts s')"
  shows "session_cash k s' = session_cash k s"
  unfolding session_cash_def
  by (rule sum_where_list_all2 [OF assms [unfolded same_receipts_def]])
    (metis receipt_core_same(2,3,7,8))

lemma cash_ok_process:
  fixes s s' :: "'s contribution_db_scheme"
  assumes ok: "cash_ok s" and rok: "receipts_ok s" and run: "ProcessReceipt x v clock i s = ((res, err), s')"
  shows "cash_ok s'"
proof -
  have d: "distinct (map cr_id (contribution_receipts s))" "distinct (map al_id (contribution_allocations s))"
    using rok by (simp_all add: receipts_ok_def)
  from run d show ?thesis
  proof (cases rule: process_cases)
    case unchanged
    with ok show ?thesis by simp
  next
    case (failed r e)
    have "q = r" if "q \<in> set (contribution_receipts s)" "cr_id q = i" for q
      using that live_receipt_id [OF failed(1)] d by (auto simp: distinct_map dest: inj_onD)
    then have "same_receipts i (receiptFailureStatus r) (contribution_receipts s) (contribution_receipts s')"
      using failed(5) by (auto simp: same_receipts_def list_all2_map2 failed_receipt_def intro!: list.rel_refl_strong)
    from session_cash_same [OF this] failed(5) show ?thesis by (intro cash_ok_frame [OF ok]) simp_all
  next
    case (completed r r0 r' rows rs0 s1)
    have "contrib s1 = contrib (s\<lparr>contribution_receipts := rs0, contribution_monthly_fees := contribution_monthly_fees s1\<rparr>)"
      using completed(7)
    proof (rule checkObligations_cases)
      fix fees expected
      assume "monthlyFees x v clock (Some (cr_member r0)) (Some (cr_period r0)) (Some (cr_id r0)) (s\<lparr>contribution_receipts := rs0\<rparr>) = Inr (fees, s1)"
      from monthlyFees_Inr [OF this] obtain m p where "q_AssessMonthlyFees x v m p (s\<lparr>contribution_receipts := rs0\<rparr>) = Inr ((), s1)" by blast
      from assess_rows [OF this] show ?thesis by (simp add: contrib_def)
    qed
    with completed(10) have "cashier_sessions s' = cashier_sessions s" "cash_deposits s' = cash_deposits s"
      "cash_deposit_sessions s' = cash_deposit_sessions s" by (auto simp: contrib_def)
    then show ?thesis by (rule cash_ok_frame [OF ok]) (rule session_cash_same [OF completed(9)])
  qed
qed

text \<open>Cash is received in an open session only.\<close>

lemma cash_ok_entry:
  fixes s s' :: "'s contribution_db_scheme"
  assumes ok: "cash_ok s" and entry: "receipt_entry x v r rows s s'"
    and cash: "contribution_receipts s' = contribution_receipts s \<or> cr_channel r \<noteq> CashChannel
      \<or> (\<exists>q\<in>set (cashier_sessions s). cr_session r = Some (ses_id q) \<and> ses_status q = SessionOpen)"
  shows "cash_ok s'"
proof -
  obtain s1 where s1: "s1 = s \<or> (\<exists>m d. q_AssessMonthlyFees x v m (month_start d) s = Inr ((), s1))"
    and new: "s' = s1 \<or> new_receipt r rows s1 s'" using entry by (auto simp: receipt_entry_def)
  have same1: "cashier_sessions s1 = cashier_sessions s" "cash_deposits s1 = cash_deposits s" "cash_deposit_sessions s1 = cash_deposit_sessions s"
    "contribution_receipts s1 = contribution_receipts s"
    by (rule disjE [OF s1], simp, elim exE, erule assess_rows)+
  have same: "cashier_sessions s' = cashier_sessions s" "cash_deposits s' = cash_deposits s" "cash_deposit_sessions s' = cash_deposit_sessions s"
    using new same1 by (auto simp: new_receipt_def)
  show ?thesis
  proof (rule cash_ok_frame [OF ok same])
    fix q
    assume q: "q \<in> set (cashier_sessions s)" "ses_status q \<noteq> SessionOpen"
    have "contribution_receipts s' = contribution_receipts s \<or> contribution_receipts s' = contribution_receipts s @ [r]"
      using new same1(4) by (auto simp: new_receipt_def)
    moreover have "\<not> (cr_session r = Some (ses_id q) \<and> cr_channel r = CashChannel)" if "contribution_receipts s' = contribution_receipts s @ [r]"
    proof
      assume r: "cr_session r = Some (ses_id q) \<and> cr_channel r = CashChannel"
      with cash that obtain p where p: "p \<in> set (cashier_sessions s)" "ses_id p = ses_id q" "ses_status p = SessionOpen" by auto
      then have "p = q" using q(1) ok by (auto simp: cash_ok_def distinct_map dest: inj_onD)
      with p q show False by simp
    qed
    ultimately show "session_cash (ses_id q) s' = session_cash (ses_id q) s" by (auto simp: session_cash_def)
  qed
qed

end
