(* ===== verification/Whole.thy ===== *)
theory Whole
  imports Custody
begin

text \<open>
  The whole program: the steps of the ledgers and, around them, of the contribution domain, in any
  order, with any arguments. Amounts that come in have at most four decimals (\<open>too_precise\<close> is the check
  that the program itself applies to charges); a receipt of the cash channel is created through a
  session, as the only caller does. \<open>whole_inv\<close> joins the invariants of all components.
\<close>

section \<open>Steps\<close>

definition precise :: "AllocationInput list \<Rightarrow> numeric \<Rightarrow> bool" where
  "precise es n \<longleftrightarrow> (\<forall>e\<in>set es. \<not> is_fee (ai_type e) \<longrightarrow> \<not> too_precise (ai_amount e)) \<and> \<not> too_precise n"

inductive full_step :: "ext \<Rightarrow> 's contribution_db_scheme \<Rightarrow> 's contribution_db_scheme \<Rightarrow> bool" for x where
  ledger: "sys_step x s s' \<Longrightarrow> full_step x s s'"
| receipt: "CreateReceipt x v clock p es s = Inr (c, s') \<Longrightarrow> precise es (ir_amount p) \<Longrightarrow> ir_channel p \<noteq> CashChannel \<Longrightarrow> full_step x s s'"
| cash_receipt: "CreateCashReceipt x v clock fresh p es s = Inr (c, s') \<Longrightarrow> precise es (ir_amount p) \<Longrightarrow> full_step x s s'"
| process: "ProcessReceipt x v clock i s = (res, s') \<Longrightarrow> full_step x s s'"
| charge: "CreateCharge v cp s = Inr (ch, s') \<Longrightarrow> full_step x s s'"
| open_session: "OpenCashierSession v br who s = Inr (q, s') \<Longrightarrow> full_step x s s'"
| close_session: "CloseCashierSession v sid who amt rsn s = Inr (q, s') \<Longrightarrow> full_step x s s'"
| handover: "AcceptCashHandover v sid who br s = Inr (q, s') \<Longrightarrow> full_step x s s'"
| deposit: "RecordCashDeposit v ids amt ref br who s = Inr (d, s') \<Longrightarrow> \<not> too_precise amt \<Longrightarrow> full_step x s s'"
| verify: "VerifyCashDeposit v sid who br s = Inr (d, s') \<Longrightarrow> full_step x s s'"

definition whole_genesis :: "'s contribution_db_scheme \<Rightarrow> bool" where
  "whole_genesis s \<longleftrightarrow> genesis s \<and> contrib s = ([], [], [], [], [], [], [])"

definition whole_reachable :: "ext \<Rightarrow> 's contribution_db_scheme \<Rightarrow> bool" where
  "whole_reachable x s \<longleftrightarrow> (\<exists>s0. whole_genesis s0 \<and> (full_step x)\<^sup>*\<^sup>* s0 s)"

definition whole_inv :: "'s contribution_db_scheme \<Rightarrow> bool" where
  "whole_inv s \<longleftrightarrow> sys_inv s \<and> receipts_ok s \<and> dues_ok s \<and> cash_ok s"

section \<open>The ledgers\<close>

lemma contribution_steps:
  fixes s s' :: "'s contribution_db_scheme"
  assumes inv: "sys_inv s"
  shows "CreateReceipt x v clock p es s = Inr (c, s') \<Longrightarrow> sys_inv s'"
    "CreateCharge v cp s = Inr (ch, s') \<Longrightarrow> sys_inv s'"
    "CreateCashReceipt x v clock fresh p es s = Inr (c, s') \<Longrightarrow> sys_inv s'"
    "OpenCashierSession v br who s = Inr (q, s') \<Longrightarrow> sys_inv s'"
    "CloseCashierSession v sid who amt rsn s = Inr (q, s') \<Longrightarrow> sys_inv s'"
    "AcceptCashHandover v sid who br s = Inr (q, s') \<Longrightarrow> sys_inv s'"
    "RecordCashDeposit v ids amt ref br who s = Inr (d, s') \<Longrightarrow> sys_inv s'"
    "VerifyCashDeposit v sid who br s = Inr (d, s') \<Longrightarrow> sys_inv s'"
  using inv
  by (erule_tac [!] sys_inv_keeps [rotated -1])
    (rule owed.keeps_receipts owed.keeps_cash secured.keeps_receipts secured.keeps_cash
      credits.keeps_receipts credits.keeps_cash borrowers.keeps_receipts borrowers.keeps_cash | assumption)+

lemma process_sys_inv:
  fixes s s' :: "'s contribution_db_scheme"
  assumes inv: "sys_inv s" and run: "ProcessReceipt x v clock i s = (res, s')"
  shows "sys_inv s'"
proof (rule sys_inv_step [OF inv])
  note parts = inv [unfolded sys_inv_def]
  show "owed_inv s'" by (rule owed.process_keeps [OF _ run]) (use parts in simp)
  show "secure (loan_member s) s'" by (rule secured.process_keeps [OF _ run]) (use parts in simp)
  show "credit_ok s'" by (rule credits.process_keeps [OF _ run]) (use parts in simp)
  show "map (\<lambda>l. (ln_id l, ln_member l)) (loans s') = map (\<lambda>l. (ln_id l, ln_member l)) (loans s)"
    using borrowers.process_keeps [OF refl run] by (simp add: borrowers_def)
qed

section \<open>The tables of the contribution domain\<close>

lemma contrib_invariants:
  assumes "contrib s' = contrib s"
  shows "receipts_ok s' = receipts_ok s" "dues_ok s' = dues_ok s" "cash_ok s' = cash_ok s"
proof -
  have eqs: "contribution_receipts s' = contribution_receipts s" "contribution_allocations s' = contribution_allocations s"
    "contribution_monthly_fees s' = contribution_monthly_fees s" "contribution_charges s' = contribution_charges s"
    "cashier_sessions s' = cashier_sessions s" "cash_deposits s' = cash_deposits s" "cash_deposit_sessions s' = cash_deposit_sessions s"
    using assms by (simp_all add: contrib_def)
  show "receipts_ok s' = receipts_ok s" by (rule receipts_ok_tables [OF eqs(1,2)])
  show "dues_ok s' = dues_ok s" using dues_ok_rows [OF eqs(1,2,4)] by (simp add: dues_ok_def eqs(3))
  have "session_cash k s' = session_cash k s" for k by (simp add: session_cash_def eqs)
  then show "cash_ok s' = cash_ok s"
    using cash_ok_frame [of s s'] cash_ok_frame [of s' s] eqs by auto
qed

lemma CreateCharge_Inr:
  assumes "CreateCharge v cp s = Inr (c, s')"
  shows "s' = s \<or> s' = s\<lparr>contribution_charges := contribution_charges s @ [c]\<rparr> \<and> 0 < ch_amount c
    \<and> ch_id c \<notin> ch_id ` set (contribution_charges s)"
  using assms
  by (auto simp: CreateCharge_def Let_def tx_simps contribution_errors_Inr q_CreateContributionCharge_def q_GetContributionChargeByKey_def
      split: if_splits option.splits)

lemma charge_invariants:
  fixes s s' :: "'s contribution_db_scheme"
  assumes inv: "receipts_ok s" "dues_ok s" "cash_ok s" and run: "CreateCharge v cp s = Inr (c, s')"
  shows "receipts_ok s' \<and> dues_ok s' \<and> cash_ok s'"
proof -
  from CreateCharge_Inr [OF run] show ?thesis
  proof
    assume new: "s' = s\<lparr>contribution_charges := contribution_charges s @ [c]\<rparr> \<and> 0 < ch_amount c \<and> ch_id c \<notin> ch_id ` set (contribution_charges s)"
    have ok: "charges_ok s" and fees: "fees_ok (contribution_monthly_fees s)"
      and paid_fees: "\<forall>m p ty. is_fee ty \<longrightarrow> month_start p = p \<longrightarrow> fee_paid (Some m) p None ty s \<le> 300000"
      using inv(2) by (simp_all add: dues_ok_def)
    have cp: "charge_paid k None s' = charge_paid k None s" for k by (simp add: charge_paid_def new)
    have zero: "charge_paid (ch_id c) None s = 0"
    proof (rule charge_paid_zero, rule notI, elim bexE)
      fix a
      assume a: "a \<in> set (contribution_allocations s)" "charge_payment (ch_id c) None a"
      then have "al_target a = Some (ch_id c)" "al_status a = AllocationCompleted" "is_charge (al_type a)"
        by (simp_all add: charge_payment_def is_charge_def)
      with a(1) ok obtain k where "k \<in> set (contribution_charges s)" "ch_id c = ch_id k" by (auto simp: charges_ok_def)
      with new show False by simp
    qed
    have "charges_ok s'"
      unfolding charges_ok_def cp
    proof (intro conjI ballI)
      show "distinct (map ch_id (contribution_charges s'))" using ok new by (simp add: charges_ok_def)
    next
      fix k
      assume "k \<in> set (contribution_charges s')"
      then have "k = c \<or> k \<in> set (contribution_charges s)" using new by auto
      then show "charge_paid (ch_id k) None s \<le> ch_amount k" "0 < ch_amount k"
        using zero new ok by (auto simp: charges_ok_def)
    next
      fix a
      assume "a \<in> set (contribution_allocations s')"
      then have "a \<in> set (contribution_allocations s)" using new by simp
      then have "al_status a = AllocationCompleted \<longrightarrow> is_charge (al_type a)
          \<longrightarrow> (\<exists>c\<in>set (contribution_charges s). al_target a = Some (ch_id c))" using ok by (simp add: charges_ok_def)
      then show "al_status a = AllocationCompleted \<longrightarrow> is_charge (al_type a)
          \<longrightarrow> (\<exists>c\<in>set (contribution_charges s'). al_target a = Some (ch_id c))" using new by auto
    qed
    moreover have "fee_paid (Some m) p None ty s' = fee_paid (Some m) p None ty s" for m p ty using new by (simp add: fee_paid_def)
    ultimately have "dues_ok s'" using fees paid_fees new by (simp add: dues_ok_def)
    moreover have "receipts_ok s'" using inv(1) new by (simp add: receipts_ok_def)
    moreover have "cash_ok s'" using cash_ok_frame [OF inv(3), of s'] new by (simp add: session_cash_def)
    ultimately show ?thesis by simp
  qed (use inv in simp)
qed

lemma entry_invariants:
  fixes s s' :: "'s contribution_db_scheme"
  assumes inv: "receipts_ok s" "dues_ok s" "cash_ok s" and pr: "precise es (ir_amount p)"
  shows "CreateReceipt x v clock p es s = Inr (c, s') \<Longrightarrow> ir_channel p \<noteq> CashChannel \<Longrightarrow> receipts_ok s' \<and> dues_ok s' \<and> cash_ok s'"
    and "CreateCashReceipt x v clock fresh p es s = Inr (c, s') \<Longrightarrow> receipts_ok s' \<and> dues_ok s' \<and> cash_ok s'"
proof -
  obtain r rows where c: "c = (r, rows)" by (cases c)
  note pr = pr [unfolded precise_def, THEN conjunct1] pr [unfolded precise_def, THEN conjunct2]
  assume run: "CreateReceipt x v clock p es s = Inr (c, s')" and ch: "ir_channel p \<noteq> CashChannel"
  note e = CreateReceipt_entry [OF run [unfolded c] pr]
  have "contribution_receipts s' = contribution_receipts s \<or> cr_channel r \<noteq> CashChannel"
    using e ch by auto
  then have "cash_ok s'" by (intro cash_ok_entry [OF inv(3) e [THEN conjunct1]]) blast
  with receipts_ok_entry [OF inv(1) e [THEN conjunct1]] dues_ok_entry [OF inv(2,1) e [THEN conjunct1]]
  show "receipts_ok s' \<and> dues_ok s' \<and> cash_ok s'" by simp
next
  obtain r rows where c: "c = (r, rows)" by (cases c)
  note pr = pr [unfolded precise_def, THEN conjunct1] pr [unfolded precise_def, THEN conjunct2]
  assume run: "CreateCashReceipt x v clock fresh p es s = Inr (c, s')"
  note e = CreateCashReceipt_entry [OF run [unfolded c] pr]
  then have "cash_ok s'" by (intro cash_ok_entry [OF inv(3) e [THEN conjunct1]]) blast
  with receipts_ok_entry [OF inv(1) e [THEN conjunct1]] dues_ok_entry [OF inv(2,1) e [THEN conjunct1]]
  show "receipts_ok s' \<and> dues_ok s' \<and> cash_ok s'" by simp
qed

text \<open>The custody of cash does not touch receipts and dues.\<close>

definition dues_tables :: "'s contribution_db_scheme \<Rightarrow> ContributionReceipt list \<times> ContributionAllocation list \<times> ContributionMonthlyFee list \<times> ContributionCharge list" where
  "dues_tables s = (contribution_receipts s, contribution_allocations s, contribution_monthly_fees s, contribution_charges s)"

lemma cash_dues_tables:
  "keeps (\<lambda>s. dues_tables s = k) (OpenCashierSession v br who)" "keeps (\<lambda>s. dues_tables s = k) (CloseCashierSession v sid who amt rsn)"
  "keeps (\<lambda>s. dues_tables s = k) (AcceptCashHandover v sid who br)" "keeps (\<lambda>s. dues_tables s = k) (RecordCashDeposit v ids amt ref br who)"
  "keeps (\<lambda>s. dues_tables s = k) (VerifyCashDeposit v sid who br)"
proof -
  let ?P = "\<lambda>s. dues_tables s = k"
  have w: "keeps ?P (q_InsertCashierSession v br who)" "keeps ?P (update_session sid st g)" "keeps ?P (q_InsertCashDeposit v br amt ref who)"
    "keeps ?P (q_InsertCashDepositSession d sess)" "keeps ?P (q_VerifyCashDeposit v sid who)" for v br who sid st g amt ref d sess
    by (auto simp: keeps_def query_defs update_session_def tx_simps Let_def dues_tables_def split: if_splits option.splits)
  have ds: "keeps ?P (depositSessions v d ss)" for d ss
    by (induction ss) (auto simp: q_MarkCashierSessionDeposited_def intro!: keeps_intros w)
  show "keeps ?P (OpenCashierSession v br who)" "keeps ?P (VerifyCashDeposit v sid who br)"
    unfolding OpenCashierSession_def VerifyCashDeposit_def q_GetOpenCashierSession_def q_GetCashDepositByID_def by (intro keeps_intros w)+
  show "keeps ?P (CloseCashierSession v sid who amt rsn)" "keeps ?P (AcceptCashHandover v sid who br)"
    unfolding CloseCashierSession_def AcceptCashHandover_def q_LockCashierSession_def q_SumCashReceiptsBySession_def
      q_CloseCashierSession_def q_AcceptCashHandover_def by (intro keeps_intros w)+
  show "keeps ?P (RecordCashDeposit v ids amt ref br who)"
    unfolding RecordCashDeposit_def recordDeposit_def q_LockCashierSessions_def q_GetCashDepositByBankReference_def
      q_ListCashDepositSessions_def by (intro keeps_intros w ds)
qed

lemma dues_tables_invariants:
  assumes "keeps (\<lambda>s. dues_tables s = dues_tables s0) m" and "m s0 = Inr (y, s')"
  shows "receipts_ok s' = receipts_ok s0 \<and> dues_ok s' = dues_ok s0"
proof -
  have eqs: "contribution_receipts s' = contribution_receipts s0" "contribution_allocations s' = contribution_allocations s0"
    "contribution_monthly_fees s' = contribution_monthly_fees s0" "contribution_charges s' = contribution_charges s0"
    using keepsD [OF assms(1) refl assms(2)] by (simp_all add: dues_tables_def)
  show ?thesis using receipts_ok_tables [OF eqs(1,2)] dues_ok_rows [OF eqs(1,2,4)] by (simp add: dues_ok_def eqs(3))
qed

section \<open>Every step\<close>

lemma full_step_inv:
  fixes s s' :: "'s contribution_db_scheme"
  assumes scan: "scan_ok x" and inv: "whole_inv s" and step: "full_step x s s'"
  shows "whole_inv s'"
proof -
  note parts = inv [unfolded whole_inv_def]
  note rdc = parts [THEN conjunct2, THEN conjunct1] parts [THEN conjunct2, THEN conjunct2, THEN conjunct1]
    parts [THEN conjunct2, THEN conjunct2, THEN conjunct2]
  have sys: "sys_inv s" using parts by simp
  from step show ?thesis
  proof cases
    case ledger
    from sys_step_inv [OF scan sys this] contrib_invariants [OF sys_step_contrib [OF this]] parts show ?thesis by (simp add: whole_inv_def)
  next
    case (receipt v clock p es c)
    from contribution_steps(1) [OF sys this(1)] entry_invariants(1) [OF rdc this(2,1,3)] show ?thesis by (simp add: whole_inv_def)
  next
    case (cash_receipt v clock fresh p es c)
    from contribution_steps(3) [OF sys this(1)] entry_invariants(2) [OF rdc this(2,1)] show ?thesis by (simp add: whole_inv_def)
  next
    case (process v clock i res)
    obtain r e where res: "res = (r, e)" by (cases res)
    note run = process [unfolded res]
    from process_sys_inv [OF sys run] receipts_ok_process [OF rdc(1) run] process_dues [OF rdc(2,1) run] cash_ok_process [OF rdc(3,1) run]
    show ?thesis by (simp add: whole_inv_def)
  next
    case (charge v cp ch)
    from contribution_steps(2) [OF sys this] charge_invariants [OF rdc this] show ?thesis by (simp add: whole_inv_def)
  next
    case (open_session v br who q)
    from contribution_steps(4) [OF sys this] cash_ok_open [OF rdc(3) this] dues_tables_invariants [OF cash_dues_tables(1) this] rdc
    show ?thesis by (simp add: whole_inv_def)
  next
    case (close_session v sid who amt rsn q)
    from contribution_steps(5) [OF sys this] cash_ok_close [OF rdc(3) this] dues_tables_invariants [OF cash_dues_tables(2) this] rdc
    show ?thesis by (simp add: whole_inv_def)
  next
    case (handover v sid who br q)
    from contribution_steps(6) [OF sys this] cash_ok_accept [OF rdc(3) this] dues_tables_invariants [OF cash_dues_tables(3) this] rdc
    show ?thesis by (simp add: whole_inv_def)
  next
    case (deposit v ids amt ref br who d)
    from contribution_steps(7) [OF sys this(1)] cash_ok_record [OF rdc(3) this] dues_tables_invariants [OF cash_dues_tables(4) this(1)] rdc
    show ?thesis by (simp add: whole_inv_def)
  next
    case (verify v sid who br d)
    from contribution_steps(8) [OF sys this] cash_ok_verify [OF rdc(3) this] dues_tables_invariants [OF cash_dues_tables(5) this] rdc
    show ?thesis by (simp add: whole_inv_def)
  qed
qed

lemma whole_genesis_inv: "whole_genesis s \<Longrightarrow> whole_inv s"
proof -
  assume g: "whole_genesis s"
  then have "sys_inv s" by (simp add: whole_genesis_def genesis_inv)
  moreover from g have e: "contribution_receipts s = []" "contribution_allocations s = []" "contribution_monthly_fees s = []"
    "contribution_charges s = []" "cashier_sessions s = []" "cash_deposits s = []" "cash_deposit_sessions s = []"
    by (simp_all add: whole_genesis_def contrib_def)
  ultimately show ?thesis
    by (simp add: whole_inv_def receipts_ok_def dues_ok_def charges_ok_def fees_ok_def fee_paid_def cash_ok_def one_open_def e)
qed

interpretation whole: invariant_of whole_genesis "full_step x" "\<lambda>s. scan_ok x \<longrightarrow> whole_inv s" for x
  by unfold_locales (auto intro: whole_genesis_inv full_step_inv)

lemma whole_reachable_inv: "scan_ok x \<Longrightarrow> whole_reachable x s \<Longrightarrow> whole_inv s"
  using whole.always by (auto simp: whole_reachable_def)

end
