(* ===== verification/Custody_Samples.thy ===== *)
theory Custody_Samples
  imports Whole
begin

text \<open>
  A run of the whole program for the witnesses: member 7 opens a share account, a cashier takes a
  receipt of 610 shillings for the fees of the month, a charge and shares, the receipt is processed,
  and the cash goes from the cashier through the accepting officer to the bank.
\<close>

definition cash_genesis :: contribution_db where
  "cash_genesis = \<lparr>members = [sample_member], member_status_history = [],
     share_accounts = [], share_transactions = [],
     share_adjustments = [], share_pledges = [], loans = [], loan_guarantors = [], repayment_schedules = [],
     loan_transactions = [], loan_monthly_interest = [], credit_balances = [], credit_operations = [], loan_audit_trails = [],
     contribution_receipts = [], contribution_allocations = [], contribution_monthly_fees = [], contribution_charges = [],
     cashier_sessions = [], cash_deposits = [], cash_deposit_sessions = []\<rparr>"

definition cash_account :: contribution_db where
  "cash_account = cash_genesis\<lparr>share_accounts := [sample_account]\<rparr>"

definition sample_session :: CashierSession where
  "sample_session = \<lparr>ses_id = 500, ses_branch = 1, ses_cashier = 9, ses_status = SessionOpen, ses_expected = None,
     ses_counted = None, ses_variance = None, ses_reason = None, ses_opened = 1000, ses_closed_at = None, ses_closed_by = None,
     ses_handed_at = None, ses_handed_to = None, ses_deposited = None, ses_updated = 1000\<rparr>"

definition cash_open :: contribution_db where
  "cash_open = cash_account\<lparr>cashier_sessions := [sample_session]\<rparr>"

definition sample_charge :: ContributionCharge where
  "sample_charge = \<lparr>ch_id = 510, ch_key = ''book'', ch_member = 7, ch_branch = 1, ch_category = ''literature'',
     ch_amount = 500000, ch_reason = ''prayer book'', ch_created_by = 9, ch_created = 1100\<rparr>"

definition cash_charged :: contribution_db where
  "cash_charged = cash_open\<lparr>contribution_charges := [sample_charge]\<rparr>"

definition sample_params :: InsertContributionReceiptParams where
  "sample_params = \<lparr>ir_channel = CashChannel, ir_external = None, ir_checkout = None, ir_internal = None, ir_key = Some ''k1'',
     ir_session = Some 500, ir_member = Some 7, ir_branch = 1, ir_period = Some 0, ir_amount = db_num 6100000, ir_plan = [],
     ir_received_by = Some 9, ir_received_at = None\<rparr>"

definition sample_parts :: "AllocationInput list" where
  "sample_parts = [\<lparr>ai_type = SharePurchase, ai_target = Some 1, ai_amount = db_num 5000000, ai_label = []\<rparr>,
     \<lparr>ai_type = OtherCharge, ai_target = Some 510, ai_amount = db_num 500000, ai_label = []\<rparr>]"

lemma sample_cash_steps:
  "OpenShareAccount (sample_env 2 1) 7 1 cash_genesis = Inr (sample_account, cash_account)"
  "OpenCashierSession (sample_env 1000 500) 1 (Some 9) cash_account = Inr (sample_session, cash_open)"
  "CreateCharge (sample_env 1100 510) \<lparr>cc_key = '' book'', cc_member = Some 7, cc_branch = 1, cc_category = ''literature'',
     cc_amount = db_num 500000, cc_reason = ''prayer book'', cc_created_by = Some 9\<rparr> cash_open = Inr (sample_charge, cash_charged)"
  by code_simp+

section \<open>The receipt\<close>

definition plan_item :: "ContributionAllocationType \<Rightarrow> string \<Rightarrow> string \<Rightarrow> string \<Rightarrow> allocationPlanItem" where
  "plan_item ty l t n = \<lparr>pi_type = ty, pi_label = l, pi_target = t, pi_amount = n\<rparr>"

definition sample_receipt :: ContributionReceipt where
  "sample_receipt = \<lparr>cr_id = 520, cr_channel = CashChannel, cr_external = None, cr_checkout = None, cr_internal = Some ''CASH-u1'',
     cr_key = Some ''k1'', cr_session = Some 500, cr_member = 7, cr_branch = 1, cr_period = 0, cr_amount = 6100000,
     cr_plan = [plan_item SharePurchase [] ''o'' ''500.0000'', plan_item OtherCharge (display_label sample_charge) ''o'' ''50.0000'',
       plan_item Com [] [] ''30.0000'', plan_item Lgom [] [] ''30.0000''],
     cr_status = ReceiptPending, cr_failure = None, cr_received_by = Some 9, cr_received_at = 1200, cr_deleted = False,
     cr_created = 1200, cr_updated = 1200, cr_snapshot = None\<rparr>"

definition sample_part :: "uuid \<Rightarrow> ContributionAllocationType \<Rightarrow> pg_uuid \<Rightarrow> int \<Rightarrow> ContributionAllocation" where
  "sample_part i ty t n = \<lparr>al_id = i, al_receipt = 520, al_type = ty, al_target = t, al_amount = n, al_status = AllocationPending,
     al_reference = None, al_external = None, al_created = 1200, al_updated = 1200\<rparr>"

definition sample_rows :: "ContributionAllocation list" where
  "sample_rows = [sample_part 521 SharePurchase (Some 1) 5000000, sample_part 522 OtherCharge (Some 510) 500000,
     sample_part 523 Com None 300000, sample_part 524 Lgom None 300000]"

definition sample_fees :: "ContributionMonthlyFee list" where
  "sample_fees = [\<lparr>mf_member = 7, mf_period = 0, mf_type = Com, mf_amount = 300000, mf_created = 1200\<rparr>,
     \<lparr>mf_member = 7, mf_period = 0, mf_type = Lgom, mf_amount = 300000, mf_created = 1200\<rparr>]"

definition cash_received :: contribution_db where
  "cash_received = cash_charged\<lparr>contribution_receipts := [sample_receipt], contribution_allocations := sample_rows,
     contribution_monthly_fees := sample_fees\<rparr>"

lemma sample_receive: "CreateCashReceipt sample_ext (sample_env 1200 520) 1200 ''u1'' sample_params sample_parts cash_charged
    = Inr ((sample_receipt, sample_rows), cash_received)"
  by code_simp

section \<open>Processing\<close>

definition completed_receipt :: ContributionReceipt where
  "completed_receipt = sample_receipt\<lparr>cr_status := ReceiptCompleted, cr_updated := 1300, cr_snapshot := Some []\<rparr>"

definition completed_part :: "pg_uuid \<Rightarrow> ContributionAllocation \<Rightarrow> ContributionAllocation" where
  "completed_part ref a = complete_allocation (sample_env 1300 530) ref (Some ''CASH-u1'') a"

definition completed_rows :: "ContributionAllocation list" where
  "completed_rows = [completed_part (Some 536) (sample_part 521 SharePurchase (Some 1) 5000000),
     completed_part (Some 510) (sample_part 522 OtherCharge (Some 510) 500000),
     completed_part (Some 523) (sample_part 523 Com None 300000), completed_part (Some 524) (sample_part 524 Lgom None 300000)]"

definition receipt_purchase :: ShareTransaction where
  "receipt_purchase = \<lparr>st_id = 536, st_account = 1, st_type = Purchase, st_amount = 5000000, st_balance_after = 5000000,
     st_reference = 521, st_reversal_of = None, st_reason = Some ''contribution receipt o'', st_originator = Some 9, st_created = 1300\<rparr>"

definition cash_processed :: contribution_db where
  "cash_processed = cash_received\<lparr>contribution_receipts := [completed_receipt], contribution_allocations := completed_rows,
     share_transactions := [receipt_purchase]\<rparr>"

lemma sample_process: "ProcessReceipt sample_ext (sample_env 1300 530) 1300 520 cash_received
    = ((Some (completed_receipt, posting_order completed_rows), None), cash_processed)"
  by code_simp

text \<open>Without the share account nothing is posted.\<close>

definition cash_orphan :: contribution_db where
  "cash_orphan = cash_received\<lparr>share_accounts := []\<rparr>"

lemma sample_failure: "ProcessReceipt sample_ext (sample_env 1300 530) 1300 520 cash_orphan
    = ((Some (failed_receipt (sample_env 1300 530) (ShareE ErrAccountNotFound) sample_receipt, sample_rows), Some (ShareE ErrAccountNotFound)),
       cash_orphan\<lparr>contribution_receipts := [failed_receipt (sample_env 1300 530) (ShareE ErrAccountNotFound) sample_receipt]\<rparr>)"
  by code_simp

section \<open>Custody\<close>

definition cash_closed :: contribution_db where
  "cash_closed = cash_processed\<lparr>cashier_sessions := [close_session (sample_env 1400 540) 6100000 6100000 None (Some 9) sample_session]\<rparr>"

definition handed_session :: CashierSession where
  "handed_session = hand_over (sample_env 1500 550) (Some 10) (close_session (sample_env 1400 540) 6100000 6100000 None (Some 9) sample_session)"

definition cash_handed :: contribution_db where
  "cash_handed = cash_closed\<lparr>cashier_sessions := [handed_session]\<rparr>"

definition sample_deposit :: CashDeposit where
  "sample_deposit = \<lparr>cd_id = 560, cd_branch = 1, cd_amount = 6100000, cd_bank_reference = ''B1'', cd_status = DepositRecorded,
     cd_recorded_by = 10, cd_recorded_at = 1600, cd_verified_by = None, cd_verified_at = None, cd_updated = 1600\<rparr>"

definition cash_banked :: contribution_db where
  "cash_banked = cash_handed\<lparr>cashier_sessions := [mark_deposited (sample_env 1600 560) handed_session], cash_deposits := [sample_deposit],
     cash_deposit_sessions := [(560, 500)]\<rparr>"

definition cash_verified :: contribution_db where
  "cash_verified = cash_banked\<lparr>cash_deposits := [verify_deposit (sample_env 1700 570) (Some 11) sample_deposit]\<rparr>"

lemma sample_custody:
  "CloseCashierSession (sample_env 1400 540) (Some 500) (Some 9) (db_num 6100000) [] cash_processed
     = Inr (hd (cashier_sessions cash_closed), cash_closed)"
  "AcceptCashHandover (sample_env 1500 550) (Some 500) (Some 10) 1 cash_closed = Inr (handed_session, cash_handed)"
  "RecordCashDeposit (sample_env 1600 560) [Some 500] (db_num 6100000) '' B1'' 1 (Some 10) cash_handed = Inr (sample_deposit, cash_banked)"
  "VerifyCashDeposit (sample_env 1700 570) (Some 560) (Some 11) 1 cash_banked = Inr (hd (cash_deposits cash_verified), cash_verified)"
  by code_simp+

section \<open>The run\<close>

lemma sample_precise: "precise sample_parts (ir_amount sample_params)"
  by code_simp

lemmas cash_steps = full_step.ledger [OF sys_step.open_account [OF sample_cash_steps(1)]] full_step.open_session [OF sample_cash_steps(2)]
  full_step.charge [OF sample_cash_steps(3)] full_step.cash_receipt [OF sample_receive sample_precise]
  full_step.process [OF sample_process] full_step.close_session [OF sample_custody(1)] full_step.handover [OF sample_custody(2)]
  full_step.deposit [OF sample_custody(3)] full_step.verify [OF sample_custody(4)]

lemma whole_reachableI: "whole_genesis s \<Longrightarrow> whole_reachable x s"
  by (auto simp: whole_reachable_def)

lemma whole_reachable_step: "whole_reachable x s \<Longrightarrow> full_step x s s' \<Longrightarrow> whole_reachable x s'"
  by (auto simp: whole_reachable_def intro: rtranclp.rtrancl_into_rtrancl)

lemma sample_whole:
  "whole_reachable sample_ext cash_received" "whole_reachable sample_ext cash_processed" "whole_reachable sample_ext cash_verified"
proof -
  note step = whole_reachable_step [where x = sample_ext]
  have "whole_genesis cash_genesis" by (simp add: whole_genesis_def genesis_def contrib_def cash_genesis_def)
  then have "whole_reachable sample_ext cash_charged"
    by (rule step [OF step [OF step [OF whole_reachableI cash_steps(1)] cash_steps(2)] cash_steps(3)])
  then show r: "whole_reachable sample_ext cash_received" by (rule step [OF _ cash_steps(4)])
  then show p: "whole_reachable sample_ext cash_processed" by (rule step [OF _ cash_steps(5)])
  have "\<not> too_precise (db_num 6100000)" by code_simp
  note banked = step [OF step [OF step [OF p cash_steps(6)] cash_steps(7)] cash_steps(8) [OF this]]
  show "whole_reachable sample_ext cash_verified" by (rule step [OF banked cash_steps(9)])
qed

end
