(* ===== verification/Plans.thy ===== *)
theory Plans
  imports Receipt_Entry
begin

text \<open>
  The stored plan of a receipt: \<open>buildAllocationPlan\<close> writes the allocations as JSON items, and a retry
  reads them back with \<open>parseAllocationPlan\<close>.
\<close>

section \<open>Amounts as text with four decimals\<close>

lemma FloatString4_in: "numeric_in (FloatString4 n) = Some \<lparr>n_int = Some n, n_exp = -4, n_valid = True\<rparr>"
proof -
  let ?w = "show_nat (nat (\<bar>n\<bar> div 10000))" and ?r = "nat (\<bar>n\<bar> mod 10000)"
  let ?f = "pad_left 4 (show_nat ?r)"
  have w: "?w \<noteq> []" "list_all is_digit ?w" "digits_value ?w = \<bar>n\<bar> div 10000"
    using show_nat_digits [of "nat (\<bar>n\<bar> div 10000)"] by simp_all
  have "?r < 10 ^ 4" by (simp add: nat_less_iff)
  then have len: "length ?f = 4" using show_nat_length [of ?r 4] by (simp add: pad_left_def)
  have zeros: "digits_value (replicate k (CHR ''0'') @ t) = digits_value t" for k t by (induction k) simp_all
  have f: "list_all is_digit ?f" "digits_value ?f = \<bar>n\<bar> mod 10000"
    using show_nat_digits [of ?r] by (auto simp: pad_left_def list_all_iff zeros)
  have "digits_value (?w @ ?f) = \<bar>n\<bar>" using w(3) f(2) len by (simp add: digits_value_append)
  with read_fraction [OF w(2,1) f(1)] len have "read_unsigned (?w @ CHR ''.'' # ?f) = Some (\<bar>n\<bar>, 4)" by simp
  from numeric_in_signed [OF this, of "n < 0"] w show ?thesis
    by (cases ?w) (auto simp: FloatString4_def)
qed

lemma trim_not_space: "s \<noteq> [] \<Longrightarrow> \<not> P (hd s) \<Longrightarrow> \<not> P (last s) \<Longrightarrow> trim_with P s = s"
proof -
  assume s: "s \<noteq> []" "\<not> P (hd s)" "\<not> P (last s)"
  then have "dropWhile P s = s" "dropWhile P (rev s) = rev s" by (simp_all add: dropWhile_eq_self_iff hd_rev)
  then show ?thesis by (simp add: trim_with_def)
qed

lemma digit_not_space: "is_digit c \<Longrightarrow> \<not> is_space c"
  by (auto simp: is_digit_def is_space_def)

lemma FloatString4_trim: "TrimSpace (FloatString4 n) = FloatString4 n"
proof -
  let ?w = "show_nat (nat (\<bar>n\<bar> div 10000))" and ?g = "show_nat (nat (\<bar>n\<bar> mod 10000))"
  have w: "?w \<noteq> []" "is_digit (hd ?w)" "?g \<noteq> []" "is_digit (last ?g)"
    using show_nat_digits [of "nat (\<bar>n\<bar> div 10000)"] show_nat_digits [of "nat (\<bar>n\<bar> mod 10000)"] by (auto simp: list_all_iff)
  have "\<not> is_space (hd (FloatString4 n))" using w digit_not_space by (auto simp: FloatString4_def is_space_def)
  moreover have "\<not> is_space (last (FloatString4 n))" using w digit_not_space by (auto simp: FloatString4_def pad_left_def)
  ultimately show ?thesis unfolding TrimSpace_def by (intro trim_not_space) (auto simp: FloatString4_def)
qed

section \<open>Round trip\<close>

text \<open>\<open>pgtype.Numeric.Scan\<close> reads a decimal text with four decimals, and \<open>pgtype.UUID.Scan\<close> what
  \<open>UUID.String\<close> writes, a text without blanks.\<close>

definition plan_ext :: "ext \<Rightarrow> bool" where
  "plan_ext x \<longleftrightarrow> (\<forall>n. ext_scan x (FloatString4 n) = numeric_in (FloatString4 n))
     \<and> (\<forall>i. ext_uuid_scan x (ext_uuid_text x i) = Some i \<and> TrimSpace (ext_uuid_text x i) = ext_uuid_text x i \<and> ext_uuid_text x i \<noteq> [])"

definition plan_view :: "AllocationInput \<Rightarrow> ContributionAllocationType \<times> pg_uuid \<times> string \<times> int" where
  "plan_view a = (ai_type a, ai_target a, ai_label a, units a)"

lemma parse_build:
  assumes "plan_ext x"
  shows "\<exists>bs. parseItems x (buildAllocationPlan x as) = Inr bs \<and> map plan_view bs = map plan_view as"
proof (induction as)
  case Nil
  then show ?case by (simp add: buildAllocationPlan_def)
next
  case (Cons a as)
  then obtain bs where bs: "parseItems x (buildAllocationPlan x as) = Inr bs" "map plan_view bs = map plan_view as" by blast
  let ?t = "case ai_target a of None \<Rightarrow> [] | Some t \<Rightarrow> ext_uuid_text x t"
  have scan: "ext_scan x (TrimSpace (FloatString4 (units a))) = Some \<lparr>n_int = Some (units a), n_exp = -4, n_valid = True\<rparr>"
    using assms by (simp add: plan_ext_def FloatString4_trim FloatString4_in)
  have t: "TrimSpace ?t = ?t" "?t \<noteq> [] \<longrightarrow> ext_uuid_scan x ?t = ai_target a" "?t = [] \<longleftrightarrow> ai_target a = None"
    using assms by (auto simp: plan_ext_def TrimSpace_def trim_with_def split: option.splits)
  let ?b = "\<lparr>ai_type = ai_type a, ai_target = ai_target a, ai_amount = \<lparr>n_int = Some (units a), n_exp = -4, n_valid = True\<rparr>, ai_label = ai_label a\<rparr>"
  have "plan_view ?b = plan_view a" by (simp add: plan_view_def units_def numericToScale_def Let_def)
  moreover have "parseItems x (buildAllocationPlan x (a # as)) = Inr (?b # bs)"
    using bs(1) scan t by (auto simp: buildAllocationPlan_def Let_def)
  ultimately show ?case using bs(2) by simp
qed

text \<open>C31. The plan stored with a receipt loses nothing: reading back the plan that was built for some
  allocations gives allocations with the same types, targets, labels and amounts, in the same order.
\<close>
theorem plan_round_trip:
  assumes "plan_ext x" and "as \<noteq> []"
  shows "\<exists>bs. parseAllocationPlan x (buildAllocationPlan x as) = Inr bs
    \<and> map (\<lambda>a. (ai_type a, ai_target a, ai_label a, units a)) bs = map (\<lambda>a. (ai_type a, ai_target a, ai_label a, units a)) as"
proof -
  have "plan_view = (\<lambda>a. (ai_type a, ai_target a, ai_label a, units a))" by (simp add: fun_eq_iff plan_view_def)
  with parse_build [OF assms(1), of as] assms(2) show ?thesis by (simp add: parseAllocationPlan_def buildAllocationPlan_def)
qed

text \<open>Identifiers written as decimal numbers.\<close>

definition text_ext :: ext where
  "text_ext = \<lparr>ext_uuid = (\<lambda>t. None), ext_uuid_text = show_nat, ext_scan = numeric_in,
     ext_uuid_scan = (\<lambda>t. Some (nat (digits_value t))), ext_db_zone = 0\<rparr>"

lemma text_ext_ok: "plan_ext text_ext"
proof -
  have "TrimSpace (show_nat i) = show_nat i" for i
    using show_nat_digits [of i] unfolding TrimSpace_def
    by (intro trim_not_space) (auto simp: list_all_iff dest: digit_not_space)
  then show ?thesis using show_nat_digits by (simp add: plan_ext_def text_ext_def)
qed

theorem plan_round_trip_witness:
  "\<exists>bs. parseAllocationPlan text_ext (buildAllocationPlan text_ext
       [\<lparr>ai_type = SharePurchase, ai_target = Some 42, ai_amount = db_num 1250000, ai_label = []\<rparr>]) = Inr bs
    \<and> map (\<lambda>a. (ai_type a, ai_target a, ai_label a, units a)) bs = [(SharePurchase, Some 42, [], 1250000)]"
proof -
  have "units \<lparr>ai_type = SharePurchase, ai_target = Some 42, ai_amount = db_num 1250000, ai_label = []\<rparr> = 1250000" by code_simp
  then show ?thesis
    using plan_round_trip [OF text_ext_ok, of "[\<lparr>ai_type = SharePurchase, ai_target = Some 42, ai_amount = db_num 1250000, ai_label = []\<rparr>]"] by simp
qed

end
