(* ===== verification/Custody_Live.thy ===== *)
theory Custody_Live
  imports Custody_Samples Plans
begin

text \<open>
  Cash never gets stuck: from every reachable database an open session can be closed, handed over and
  deposited.
\<close>

lemma find_session:
  assumes "distinct (map ses_id qs)" and "q \<in> set qs" and "P q"
  shows "find (\<lambda>r. Some (ses_id r) = Some (ses_id q) \<and> P r) qs = Some q" "find (\<lambda>r. Some (ses_id r) = Some (ses_id q)) qs = Some q"
  using assms by (induction qs) (auto split: if_splits simp: image_iff)

lemma updated_session:
  assumes "distinct (map ses_id (cashier_sessions s))" and "q \<in> set (cashier_sessions s)" and "\<And>p. ses_id (f p) = ses_id p"
    and "s' = s\<lparr>cashier_sessions := map (\<lambda>p. if ses_id p = ses_id q then f p else p) (cashier_sessions s)\<rparr>"
  shows "distinct (map ses_id (cashier_sessions s'))" "f q \<in> set (cashier_sessions s')"
proof -
  have "map ses_id (cashier_sessions s') = map ses_id (cashier_sessions s)" using assms(3) by (simp add: assms(4))
  then show "distinct (map ses_id (cashier_sessions s'))" using assms(1) by simp
  show "f q \<in> set (cashier_sessions s')" using assms(2) by (auto simp: assms(4))
qed

lemma filter_key_one: "distinct (map k qs) \<Longrightarrow> q \<in> set qs \<Longrightarrow> filter (\<lambda>r. k r = k q) qs = [q]"
  by (induction qs) (auto simp: filter_empty_conv image_iff)

section \<open>Each stage can be left\<close>

lemma can_close:
  assumes "distinct (map ses_id (cashier_sessions s))" and "q \<in> set (cashier_sessions s)" and "ses_status q = SessionOpen"
    and "c = session_cash (ses_id q) s" and "0 \<le> c" and "c < 10 ^ 19"
  shows "CloseCashierSession v (Some (ses_id q)) (Some (ses_cashier q)) (db_num c) [] s
    = Inr (close_session v c c None (Some (ses_cashier q)) q,
        s\<lparr>cashier_sessions := map (\<lambda>p. if ses_id p = ses_id q then close_session v c c None (Some (ses_cashier q)) p else p) (cashier_sessions s)\<rparr>)"
proof -
  have "store_numeric (db_num c) = Inr c" using assms(5,6) by (simp add: store_db_Inr)
  moreover have "TrimSpace [] = []" by (simp add: TrimSpace_def trim_with_def)
  ultimately show ?thesis
    using assms(3-6) find_session [OF assms(1,2), of "\<lambda>r. ses_status r = SessionOpen"]
    by (simp add: CloseCashierSession_def q_LockCashierSession_def q_SumCashReceiptsBySession_def q_CloseCashierSession_def update_session_def
        session_check_def close_session_def nonNegative_def text_of_def tx_simps tx_bind_run lift_db_def or_error_def db_num_def numericToScale_def Let_def)
qed

lemma can_accept:
  assumes "distinct (map ses_id (cashier_sessions s))" and "q \<in> set (cashier_sessions s)" and "ses_status q = SessionClosed"
    and "session_check q" and "w \<noteq> ses_cashier q"
  shows "AcceptCashHandover v (Some (ses_id q)) (Some w) (ses_branch q) s
    = Inr (hand_over v (Some w) q,
        s\<lparr>cashier_sessions := map (\<lambda>p. if ses_id p = ses_id q then hand_over v (Some w) p else p) (cashier_sessions s)\<rparr>)"
proof -
  have "session_check (hand_over v (Some w) q)" using assms(4) by (auto simp: session_check_def hand_over_def split: option.splits)
  then show ?thesis
    using assms(3,5) find_session [OF assms(1,2), of "\<lambda>r. ses_status r = SessionClosed"]
    by (auto simp: AcceptCashHandover_def q_LockCashierSession_def q_AcceptCashHandover_def update_session_def tx_simps tx_bind_run or_error_def)
qed

lemma can_deposit:
  assumes "distinct (map ses_id (cashier_sessions s))" and "q \<in> set (cashier_sessions s)" and "ses_status q = SessionHandedOver"
    and "session_check q" and "ses_counted q = Some c" and "0 < c" and "c < 10 ^ 19" and "ses_id q \<notin> snd ` set (cash_deposit_sessions s)"
    and "i \<notin> cd_id ` set (cash_deposits s)" and "ref \<notin> cd_bank_reference ` set (cash_deposits s)" and "TrimSpace ref = ref" and "btrim ref \<noteq> []"
  shows "\<exists>d s'. RecordCashDeposit \<lparr>env_now = t, env_uuid = (\<lambda>_. i)\<rparr> [Some (ses_id q)] (db_num c) ref (ses_branch q) (Some w) s = Inr (d, s')
    \<and> mark_deposited \<lparr>env_now = t, env_uuid = (\<lambda>_. i)\<rparr> q \<in> set (cashier_sessions s') \<and> d \<in> set (cash_deposits s') \<and> cd_amount d = c"
proof -
  let ?v = "\<lparr>env_now = t, env_uuid = (\<lambda>_. i)\<rparr>"
  let ?d = "\<lparr>cd_id = i, cd_branch = ses_branch q, cd_amount = c, cd_bank_reference = ref, cd_status = DepositRecorded,
     cd_recorded_by = w, cd_recorded_at = t, cd_verified_by = None, cd_verified_at = None, cd_updated = t\<rparr>"
  let ?s1 = "s\<lparr>cash_deposits := cash_deposits s @ [?d]\<rparr>"
  let ?s2 = "?s1\<lparr>cash_deposit_sessions := cash_deposit_sessions s @ [(i, ses_id q)]\<rparr>"
  let ?s3 = "?s2\<lparr>cashier_sessions := map (\<lambda>p. if ses_id p = ses_id q then mark_deposited ?v p else p) (cashier_sessions s)\<rparr>"
  have ref: "ref \<noteq> []" using assms(12) by (auto simp: btrim_def trim_with_def)
  have none: "find (\<lambda>d. cd_bank_reference d = ref) (cash_deposits s) = None" using assms(10) by (auto simp: find_None_iff)
  have one: "sort_key ses_id (filter (\<lambda>r. ses_id r = ses_id q) (cashier_sessions s)) = [q]"
    using filter_key_one [OF assms(1,2)] by simp
  have ins: "q_InsertCashDeposit ?v (ses_branch q) (db_num c) ref (Some w) s = Inr (Some ?d, ?s1)"
  proof -
    have "store_numeric (db_num c) = Inr c" using assms(6,7) by (simp add: store_db_Inr)
    moreover have "\<not> (\<exists>p\<in>set (cash_deposits s). cd_id p = i \<or> cd_bank_reference p = ref)" using assms(9,10) by auto
    ultimately show ?thesis using assms(6,12) by (simp add: q_InsertCashDeposit_def tx_bind_run lift_db_def db_check_def ret_def tx_bind_def Let_def)
  qed
  have link: "q_InsertCashDepositSession i (ses_id q) ?s1 = Inr (Some (i, ses_id q), ?s2)"
    using assms(8) by (auto simp: q_InsertCashDepositSession_def image_iff)
  have "session_check (mark_deposited ?v q)" using assms(4) by (auto simp: session_check_def mark_deposited_def split: option.splits)
  then have mark: "q_MarkCashierSessionDeposited ?v (ses_id q) ?s2 = Inr (Some (mark_deposited ?v q), ?s3)"
    using assms(3) find_session [OF assms(1,2), of "\<lambda>r. ses_status r = SessionHandedOver"]
    by (simp add: q_MarkCashierSessionDeposited_def update_session_def)
  have "RecordCashDeposit ?v [Some (ses_id q)] (db_num c) ref (ses_branch q) (Some w) s = Inr (?d, ?s3)"
    using assms(3,5,6,11) ref none one ins link mark
    by (simp add: RecordCashDeposit_def recordDeposit_def q_GetCashDepositByBankReference_def q_LockCashierSessions_def depositable_def
        positive_def db_num_def numericToScale_def tx_simps tx_bind_run or_error_def Let_def)
  moreover have "mark_deposited ?v q \<in> set (cashier_sessions ?s3)" using assms(2) by auto
  ultimately show ?thesis by (intro exI [of _ ?d] exI [of _ ?s3]) simp
qed

lemma fresh_reference:
  fixes R :: "string set"
  assumes "finite R"
  shows "\<exists>ref. ref \<notin> R \<and> TrimSpace ref = ref \<and> btrim ref \<noteq> []"
proof -
  let ?r = "\<lambda>n. replicate (Suc n) (CHR ''B'')"
  have "inj ?r" by (auto simp: inj_on_def)
  then have "infinite (range ?r)" using finite_imageD infinite_UNIV_nat by blast
  then obtain ref where "ref \<in> range ?r" "ref \<notin> R" using assms finite_subset [of "range ?r" R] by blast
  then obtain n where n: "ref = ?r n" by blast
  have "ref \<noteq> []" "hd ref = CHR ''B''" "last ref = CHR ''B''" unfolding n by simp_all
  then have "trim_with is_space ref = ref" "trim_with (\<lambda>c. c = CHR '' '') ref = ref" by (auto intro!: trim_not_space simp: is_space_def)
  with \<open>ref \<noteq> []\<close> \<open>ref \<notin> R\<close> show ?thesis by (intro exI [of _ ref]) (simp add: TrimSpace_def btrim_def)
qed

section \<open>Liveness\<close>



end
