(* ===== verification/Posting_Trace.thy ===== *)
theory Posting_Trace
  imports Custody_Samples
begin

text \<open>
  What a completed receipt leaves in the ledgers: every part for shares has its purchase, and every
  part for a loan its repayment, of the same amount and under the identifier of the part.
\<close>

definition share_posting :: "ContributionAllocation \<Rightarrow> ShareTransaction \<Rightarrow> bool" where
  "share_posting a t \<longleftrightarrow> al_target a = Some (st_account t) \<and> st_type t = Purchase \<and> st_reference t = al_id a \<and> st_amount t = al_amount a"

definition loan_posting :: "ext \<Rightarrow> ContributionAllocation \<Rightarrow> LoanTransaction \<Rightarrow> bool" where
  "loan_posting x a t \<longleftrightarrow> al_target a = Some (lt_loan t) \<and> lt_gateway t = Some (TrimSpace (ext_uuid_text x (al_id a))) \<and> lt_amount t = al_amount a"

definition in_ledgers :: "ShareTransaction set \<Rightarrow> LoanTransaction set \<Rightarrow> 's contribution_db_scheme \<Rightarrow> bool" where
  "in_ledgers T L s \<longleftrightarrow> owed_inv s \<and> T \<subseteq> set (share_transactions s) \<and> L \<subseteq> set (loan_transactions s)"

section \<open>Both ledgers only grow\<close>

interpretation share_rows: pledge_stable "\<lambda>s. share_transactions s = c" for c
  by unfold_locales simp

interpretation share_rows: loan_frame "\<lambda>s. share_transactions s = c" L for c L
  by unfold_locales
    (simp_all add: share_rows.keeps_security,
     auto simp: keeps_def query_defs update_loan_def tx_simps Let_def split: if_splits option.splits)

lemma repayment_appends:
  fixes s s' :: "'s loan_db_scheme"
  assumes run: "RecordRepaymentForPeriodInTx v clock i amount g who day m b s = Inr (t, s')" and inv: "owed_inv s"
  shows "set (loan_transactions s) \<subseteq> set (loan_transactions s')"
  using run
proof (cases rule: RecordRepayment_cases)
  case (new l d)
  have "l \<in> set (loans s)" "ln_status l \<noteq> LoanClosed" using find_loan [OF new(5)] new(6) by (auto simp: repayable_def)
  with new(9) inv show ?thesis
  proof (cases rule: postRepayment_cases)
    case (1 s1 s2)
    then show ?thesis using settle_rows [OF 1(7)] q_InsertLoanTransaction_Some [OF 1(6)] by auto
  qed
qed simp

interpretation ledgers: contribution_frame "in_ledgers T L :: 's contribution_db_scheme \<Rightarrow> bool" for T L
proof unfold_locales
  show "keeps (in_ledgers T L :: 's contribution_db_scheme \<Rightarrow> bool) (postTransactionInTx v a Purchase amt ref orig rsn m b)" for v a amt ref orig rsn m b
  proof (rule keepsI)
    fix s s' :: "'s contribution_db_scheme" and r
    assume s: "in_ledgers T L s" and run: "postTransactionInTx v a Purchase amt ref orig rsn m b s = Inr (r, s')"
    have "owed_inv s'" by (rule keepsD [OF owed.keeps_posting _ run]) (use s in \<open>simp add: in_ledgers_def\<close>)
    moreover from run have "share_transactions s' = share_transactions s \<and> loan_transactions s' = loan_transactions s
        \<or> share_transactions s' = share_transactions s @ [r] \<and> loan_transactions s' = loan_transactions s"
      by (cases rule: postTransactionInTx_cases) auto
    ultimately show "in_ledgers T L s'" using s by (auto simp: in_ledgers_def)
  qed
  show "keeps (in_ledgers T L :: 's contribution_db_scheme \<Rightarrow> bool) (RecordRepaymentForPeriodInTx v clock i amt g who day m b)" for v clock i amt g who day m b
  proof (rule keepsI)
    fix s s' :: "'s contribution_db_scheme" and t
    assume s: "in_ledgers T L s" and run: "RecordRepaymentForPeriodInTx v clock i amt g who day m b s = Inr (t, s')"
    then have inv: "owed_inv s" by (simp add: in_ledgers_def)
    have "share_transactions s' = share_transactions s" using keepsD [OF share_rows.keeps_repay refl run] .
    then show "in_ledgers T L s'" using s repayment_appends [OF run inv] keepsD [OF keeps_owed_repayment inv run] by (auto simp: in_ledgers_def)
  qed
qed (simp_all add: in_ledgers_def sys_inv_contrib_tables)

section \<open>Every part is posted\<close>

definition traced :: "ext \<Rightarrow> ContributionAllocation \<Rightarrow> 's contribution_db_scheme \<Rightarrow> bool" where
  "traced x a s \<longleftrightarrow> (al_type a = SharePurchase \<longrightarrow> (\<exists>t\<in>set (share_transactions s). share_posting a t))
     \<and> (al_type a = LoanPrincipal \<longrightarrow> (\<exists>t\<in>set (loan_transactions s). loan_posting x a t))"

lemma traced_keeps:
  assumes "\<And>T L. keeps (in_ledgers T L) m" and "m s = Inr (y, s')" and "owed_inv s" and "traced x a s"
  shows "traced x a s'"
proof -
  have "in_ledgers (set (share_transactions s)) (set (loan_transactions s)) s'"
    by (rule keepsD [OF assms(1) _ assms(2)]) (simp add: in_ledgers_def assms(3))
  with assms(4) show ?thesis by (auto simp: in_ledgers_def traced_def)
qed

lemma purchase_traced:
  assumes "postTransactionInTx v a Purchase (db_num k) ref orig rsn m b s = Inr (r, s')"
  shows "\<exists>t\<in>set (share_transactions s'). st_account t = a \<and> st_type t = Purchase \<and> Some (st_reference t) = ref \<and> st_amount t = k"
  using assms
proof (cases rule: postTransactionInTx_cases)
  case replay
  then show ?thesis using find_Some_set [OF replay(2)] by (intro bexI [of _ r]) (auto simp: same_reference_def)
next
  case (posted n)
  then show ?thesis using posted(6) by (intro bexI [of _ r]) (auto simp: same_reference_def store_db_Inr)
qed

lemma repayment_traced:
  fixes s s' :: "'s loan_db_scheme"
  assumes run: "RecordRepaymentForPeriodInTx v clock i (db_num k) g who day m b s = Inr (t, s')" and inv: "owed_inv s"
  shows "\<exists>t\<in>set (loan_transactions s'). lt_loan t = i \<and> lt_gateway t = Some (TrimSpace g) \<and> lt_amount t = k"
  using run
proof (cases rule: RecordRepayment_cases)
  case replay
  then show ?thesis using find_Some_set [OF replay(2)] by (intro bexI [of _ t]) (auto simp: same_gateway_def)
next
  case (new l d)
  have l: "l \<in> set (loans s)" "ln_status l \<noteq> LoanClosed" "ln_id l = i" using find_loan [OF new(5)] new(6) by (auto simp: repayable_def)
  from new(9) inv l(1,2) show ?thesis
  proof (cases rule: postRepayment_cases)
    case (1 s1 s2)
    note row = q_InsertLoanTransaction_Some [OF 1(6)]
    then have "lt_amount t = k" by (simp add: store_db_Inr)
    with row l(3) settle_rows [OF 1(7)] show ?thesis by (intro bexI [of _ t]) auto
  qed
qed

lemma processAllocation_traced:
  fixes s s' :: "'s contribution_db_scheme"
  assumes run: "processAllocation x v clock r a who s = Inr ((ref, ext), s')" and inv: "owed_inv s"
  shows "traced x a s' \<and> owed_inv s'"
proof -
  from run consider (fee) "s' = s" "is_fee (al_type a) \<or> is_charge (al_type a)"
    | (share) i t where "al_type a = SharePurchase" "al_target a = Some i" "postTransactionInTx v i Purchase (db_num (al_amount a)) (Some (al_id a)) who
        (''contribution receipt '' @ ext_uuid_text x (cr_id r)) (Some (cr_member r)) (cr_branch r) s = Inr (t, s')"
    | (loan) i t where "al_type a = LoanPrincipal" "al_target a = Some i" "RecordRepaymentForPeriodInTx v clock i (db_num (al_amount a))
        (ext_uuid_text x (al_id a)) who (Some (cr_period r)) (Some (cr_member r)) (cr_branch r) s = Inr (t, s')"
    by (auto simp: processAllocation_def PurchaseSharesInTx_def Let_def tx_simps throw_ce_def split: if_splits option.splits)
  then show ?thesis
  proof cases
    case fee
    then show ?thesis using inv by (auto simp: traced_def is_fee_def is_charge_def)
  next
    case (share i t)
    with purchase_traced [OF share(3)] keepsD [OF owed.keeps_posting inv share(3)] show ?thesis by (auto simp: traced_def share_posting_def)
  next
    case (loan i t)
    with repayment_traced [OF loan(3) inv] keepsD [OF keeps_owed_repayment inv loan(3)] show ?thesis by (auto simp: traced_def loan_posting_def)
  qed
qed

lemma postAllocations_traced:
  fixes s s' :: "'s contribution_db_scheme"
  assumes "postAllocations x v clock r n as s = Inr (rows, s')" and "owed_inv s"
    and "\<And>a. a \<in> set as \<Longrightarrow> al_status a = AllocationPending" and "a \<in> set as"
  shows "traced x a s'"
  using assms
proof (induction as arbitrary: n s rows)
  case (Cons b as)
  obtain ref external s0 row s1 rows' where
    one: "processAllocation x (env_from n v) clock r b (cr_received_by r) s = Inr ((ref, external), s0)"
    and upd: "q_UpdateContributionAllocationCompleted v (al_id b) ref external s0 = Inr (Some row, s1)"
    and rest: "postAllocations x v clock r (n + 2) as s1 = Inr (rows', s')"
    using Cons.prems(1) Cons.prems(3) [of b] by (auto simp: tx_simps)
  note b = processAllocation_traced [OF one Cons.prems(2)]
  have inv1: "owed_inv s1" by (rule keepsD [OF owed.keeps_writes(4) _ upd]) (use b Cons.prems(3) in simp)
  show ?case
  proof (cases "a = b")
    case True
    have "traced x b s1" by (rule traced_keeps [OF ledgers.keeps_writes(4) upd]) (use b Cons.prems(3) in simp_all)
    then show ?thesis unfolding True by (rule traced_keeps [OF ledgers.keeps_postAllocations rest inv1])
  next
    case False
    with Cons.prems(3,4) show ?thesis by (intro Cons.IH [OF rest inv1]) auto
  qed
qed simp

lemma postReceipt_traced:
  fixes s s' :: "'s contribution_db_scheme"
  assumes run: "postReceipt x v clock r as s = Inr (y, s')" and inv: "owed_inv s"
    and pend: "\<And>a. a \<in> set as \<Longrightarrow> al_status a = AllocationPending" and a: "a \<in> set as"
  shows "traced x a s'"
proof -
  let ?fin = "\<lambda>positions rows. tx_bind (if cr_snapshot r = None \<and> list_all (\<lambda>a. al_status a \<noteq> AllocationCompleted) (filter (\<lambda>a. al_type a = LoanPrincipal) as)
        then tx_bind (CompleteContributionLoanSnapshot x positions
            (map (\<lambda>a. ext_uuid_text x (al_id a)) (filter (\<lambda>a. al_type a = LoanPrincipal) as))) (\<lambda>snapshot.
            tx_bind (or_error NoRowsE (q_SaveContributionLoanSnapshot (cr_id r) snapshot)) (\<lambda>_. ret ()))
          else ret ()) (\<lambda>_.
        tx_bind (or_error NoRowsE (q_UpdateContributionReceiptStatus v (cr_id r) ReceiptCompleted None)) (\<lambda>receipt. ret (receipt, rows)))"
  obtain s1 l1 t1 positions t2 rows s2 where ob: "checkObligations x v clock r as s = Inr ((), s1)"
    and q: "q_LockMemberContributionLoans (cr_member r) (cr_branch r) s1 = Inr (l1, t1)"
      "QuoteContributionLoans x (cr_member r) (cr_branch r) (cr_period r) t1 = Inr (positions, t2)"
    and post: "postAllocations x v clock r 0 (posting_order as) t2 = Inr (rows, s2)"
    and fin: "?fin positions rows s2 = Inr (y, s')"
    using run by (auto simp: postReceipt_def Let_def elim!: tx_bindE)
  have quotes: "keeps owed_inv (q_LockMemberContributionLoans (cr_member r) (cr_branch r))"
    "keeps owed_inv (QuoteContributionLoans x (cr_member r) (cr_branch r) (cr_period r))" by (intro keeps_intros)+
  have inv2: "owed_inv t2"
    by (rule keepsD [OF quotes(2) keepsD [OF quotes(1) keepsD [OF owed.keeps_obligations inv ob] q(1)] q(2)])
  have a2: "traced x a s2"
    by (rule postAllocations_traced [OF post inv2]) (use pend a in \<open>simp_all add: posting_order_def\<close>)
  have inv3: "owed_inv s2" by (rule keepsD [OF owed.keeps_postAllocations inv2 post])
  have "keeps (in_ledgers T L) (?fin positions rows)" for T L
    unfolding q_SaveContributionLoanSnapshot_def q_UpdateContributionReceiptStatus_def
    by (intro keeps_intros ledgers.keeps_writes)
  from traced_keeps [where m = "?fin positions rows", OF this fin inv3 a2] show ?thesis .
qed

lemma process_traced:
  fixes s s' :: "'s contribution_db_scheme"
  assumes run: "ProcessReceipt x v clock i s = ((res, None), s')" and changed: "s' \<noteq> s"
    and rok: "receipts_ok s" and inv: "owed_inv s" and a: "a \<in> set (contribution_allocations s)" "al_receipt a = i"
  shows "traced x a s'"
proof -
  have uniq: "distinct (map cr_id (contribution_receipts s))" using rok by (simp add: receipts_ok_def)
  from run have tx: "processReceiptInTx x v clock i s = Inr ((res, None), s')"
    by (auto simp: ProcessReceipt_def execTx_def split: sum.splits prod.splits)
  obtain r where r: "live_receipt (\<lambda>r. cr_id r = i) s = Some r"
    using tx by (cases "live_receipt (\<lambda>r. cr_id r = i) s")
      (auto simp: processReceiptInTx_def q_LockContributionReceiptByID_def tx_bind_Inr_iff tx_run)
  note ri = live_receipt_id [OF r]
  from tx r ri have st: "(case cr_status r of ReceiptCompleted \<Rightarrow> ret (Some (r, allocations_of i s), None)
       | ReceiptPending \<Rightarrow> tx_bind (or_error NoRowsE (q_UpdateContributionReceiptStatus v (cr_id r) ReceiptProcessing None)) (\<lambda>receipt.
           tx_bind (postOrFail x v clock receipt (allocations_of i s)) (\<lambda>(r, e). ret (Some r, e)))
       | ReceiptProcessing \<Rightarrow> tx_bind (postOrFail x v clock r (allocations_of i s)) (\<lambda>(r, e). ret (Some r, e))
       | _ \<Rightarrow> ret (Some (r, allocations_of i s), Some (ContributionE ErrReceiptNotProcessable))) s = Inr ((res, None), s')"
    by (simp add: processReceiptInTx_def q_LockContributionReceiptByID_def q_LockContributionAllocationsByReceipt_def tx_bind_Inr_iff tx_run)
  have pend: "al_status b = AllocationPending" if "in_progress (cr_status r)" "b \<in> set (allocations_of i s)" for b
  proof -
    have "part_ok (contribution_receipts s) b" "al_receipt b = i" using that rok by (simp_all add: receipts_ok_def)
    moreover have "q = r" if "q \<in> set (contribution_receipts s)" "cr_id q = i" for q
      using that ri uniq by (auto simp: distinct_map dest: inj_onD)
    ultimately show ?thesis using that(1) by (auto simp: part_ok_def in_progress_def)
  qed
  from r uniq st show ?thesis
  proof (cases rule: savepoint_cases)
    case stopped
    with changed show ?thesis by simp
  next
    case (started f r')
    let ?s0 = "s\<lparr>contribution_receipts := map (\<lambda>q. if cr_id q = i then f q else q) (contribution_receipts s)\<rparr>"
    have "postReceipt x v clock (f r) (allocations_of i s) ?s0 = Inr (r', s')"
      using started(6) by (auto simp: postOrFail_def split: sum.splits prod.splits if_splits elim: failReceipt_Inr)
    then show ?thesis
      by (rule postReceipt_traced) (use inv pend [OF started(1)] a in \<open>simp_all add: sys_inv_contrib_tables\<close>)
  qed
qed

end
