(* ===== verification/Whole_Claims.thy ===== *)
theory Whole_Claims
  imports Posting_Trace
begin

text \<open>
  What holds in every database that the whole program can produce, and what processing a receipt
  does, with the run of \<open>Custody_Samples\<close> as the concrete case.
\<close>

section \<open>Invariants\<close>

text \<open>C16. The contribution domain does not weaken the ledgers it posts to: in every database that the whole
  program can produce, shares bought and loans paid through receipts included, the active pledges on
  an account are covered by its balance, no loan has more principal or interest repaid than was lent
  or assessed, and no credit is used beyond its amount.
\<close>
theorem whole_ledgers_safe:
  assumes "scan_ok x" and "whole_reachable x s"
  shows "pledged_of a s \<le> balance_of a s
    \<and> (\<forall>l\<in>set (loans s). paid principal_part (ln_id l) s \<le> ln_principal l
        \<and> paid interest_part (ln_id l) s \<le> interest_due_total (ln_id l) s)
    \<and> (\<forall>c\<in>set (credit_balances s). reserved_of (cb_id c) s + used_of (cb_id c) s \<le> cb_amount c)"
  using whole_reachable_inv [OF assms]
  by (auto simp: whole_inv_def sys_inv_def secure_def share_inv_def backed_def owed_inv_def repay_ok_def credit_ok_def spent_split)

theorem whole_ledgers_safe_witness:
  "whole_reachable sample_ext cash_verified \<and> balance_of 1 cash_verified = 5000000 \<and> pledged_of 1 cash_verified \<le> 5000000"
proof -
  have "balance_of 1 cash_verified = 5000000" by code_simp
  with whole_ledgers_safe [OF sample_ext_ok sample_whole(3), of 1] sample_whole(3) show ?thesis by simp
qed



text \<open>C7. In every database that the program can produce nobody has paid more than was due: the completed
  payments for a charge stay within its amount, and for a member and a month the completed payments
  of each membership fee stay within the monthly thirty shillings; each fee is assessed once.
\<close>
theorem dues_never_overpaid:
  assumes "scan_ok x" and "whole_reachable x s"
  shows "(\<forall>c\<in>set (contribution_charges s). charge_paid (ch_id c) None s \<le> ch_amount c)
    \<and> (is_fee ty \<and> month_start p = p \<longrightarrow> fee_paid (Some m) p None ty s \<le> 300000)
    \<and> distinct (map (\<lambda>f. (mf_member f, mf_period f, mf_type f)) (contribution_monthly_fees s))"
proof -
  have "(\<lambda>f. (mf_member f, mf_period f, mf_type f)) = fee_key" by (simp add: fun_eq_iff fee_key_def)
  with whole_reachable_inv [OF assms] show ?thesis by (auto simp: whole_inv_def dues_ok_def charges_ok_def fees_ok_def)
qed

theorem dues_never_overpaid_witness:
  "whole_reachable sample_ext cash_processed \<and> sample_charge \<in> set (contribution_charges cash_processed)
    \<and> charge_paid 510 None cash_processed = 500000 \<and> charge_paid 510 None cash_processed \<le> ch_amount sample_charge
    \<and> fee_paid (Some 7) 0 None Com cash_processed \<le> 300000"
proof -
  have c: "sample_charge \<in> set (contribution_charges cash_processed)" "ch_id sample_charge = 510" "charge_paid 510 None cash_processed = 500000"
    "is_fee Com" "month_start 0 = 0" by code_simp+
  from dues_never_overpaid [OF sample_ext_ok sample_whole(2), of Com 0 7] c sample_whole(2) show ?thesis by auto
qed



section \<open>Processing a receipt\<close>

lemma whole_parts:
  assumes "scan_ok x" and "whole_reachable x s"
  shows "receipts_ok s" "dues_ok s" "owed_inv s" "distinct (map cr_id (contribution_receipts s))" "distinct (map al_id (contribution_allocations s))"
  using whole_reachable_inv [OF assms] by (simp_all add: whole_inv_def sys_inv_def receipts_ok_def)

text \<open>C12. Processing a receipt ends in one of three ways. Nothing changes, and then success is reported only for a
  receipt that was completed before. Or a business rule refuses it: then the error is returned and
  the only change is on the receipt itself, which is marked as failed, or for review when it was
  cash, with the error as the reason; no ledger, no part and no due changed. Or it completes: then the receipt and all its parts are completed, and every
  other receipt and part is as before.
\<close>
theorem process_outcome:
  assumes "scan_ok x" and "whole_reachable x s" and "ProcessReceipt x v clock i s = ((res, err), s')"
  shows "(s' = s \<and> (err = None \<longrightarrow> (\<exists>r\<in>set (contribution_receipts s). cr_id r = i \<and> cr_status r = ReceiptCompleted)))
    \<or> (\<exists>e. err = Some e \<and> receiptBusinessError e \<and> s' = s\<lparr>contribution_receipts := map (\<lambda>q. if cr_id q = i
          then q\<lparr>cr_status := (if cr_channel q = CashChannel then ReceiptManualReview else ReceiptFailed), cr_failure := Some e, cr_updated := env_now v\<rparr>
          else q) (contribution_receipts s)\<rparr>)
    \<or> (err = None \<and> (\<forall>r\<in>set (contribution_receipts s'). if cr_id r = i then cr_status r = ReceiptCompleted else r \<in> set (contribution_receipts s))
        \<and> (\<forall>a\<in>set (contribution_allocations s'). if al_receipt a = i then al_status a = AllocationCompleted else a \<in> set (contribution_allocations s)))"
  using assms(3) whole_parts(4,5) [OF assms(1,2)]
proof (cases rule: process_cases)
  case unchanged
  then show ?thesis using live_receipt_id by blast
next
  case (failed r e)
  then show ?thesis by (auto simp: failed_receipt_def receiptFailureStatus_def cong: if_cong)
next
  case (completed r r0 r' rows rs0 s1)
  have "if cr_id q = i then cr_status q = ReceiptCompleted else q \<in> set (contribution_receipts s)"
    if q: "q \<in> set (contribution_receipts s')" for q
  proof -
    from same_receipts_row' [OF completed(9) q] obtain p where "p \<in> set (contribution_receipts s)" "receipt_core q = receipt_core p"
      "if cr_id p = i then cr_status q = ReceiptCompleted else q = p" .
    with receipt_core_same(1) show ?thesis by metis
  qed
  moreover have "if al_receipt a = i then al_status a = AllocationCompleted else a \<in> set (contribution_allocations s)"
    if a: "a \<in> set (contribution_allocations s')" for a
  proof -
    from posted_row [OF completed(8) a] obtain b where "b \<in> set (contribution_allocations s)" "allocation_core a = allocation_core b"
      "if al_receipt b = i then al_status a = AllocationCompleted else a = b" .
    then show ?thesis by (auto simp: allocation_core_def)
  qed
  ultimately show ?thesis using completed(3) by blast
qed

theorem process_outcome_witness:
  "cash_processed \<noteq> cash_received \<and> al_status (hd (contribution_allocations cash_processed)) = AllocationCompleted
    \<and> cr_status (hd (contribution_receipts cash_processed)) = ReceiptCompleted"
proof -
  have s: "cash_processed \<noteq> cash_received" "hd (contribution_allocations cash_processed) \<in> set (contribution_allocations cash_processed)"
    "hd (contribution_receipts cash_processed) \<in> set (contribution_receipts cash_processed)"
    "al_receipt (hd (contribution_allocations cash_processed)) = 520" "cr_id (hd (contribution_receipts cash_processed)) = 520" by code_simp+
  from process_outcome [OF sample_ext_ok sample_whole(1) sample_process] s show ?thesis by auto
qed

text \<open>C14. A receipt settles the month: when processing completes a receipt, every membership fee assessed for the
  member and the month of the receipt is paid exactly, neither less nor more.
\<close>
theorem fees_settled:
  assumes "scan_ok x" and "whole_reachable x s" and "ProcessReceipt x v clock i s = ((res, None), s')" and "s' \<noteq> s"
  shows "\<exists>r\<in>set (contribution_receipts s). cr_id r = i \<and> (\<forall>f\<in>set (contribution_monthly_fees s').
     mf_member f = cr_member r \<and> mf_period f = month_start (cr_period r) \<and> is_fee (mf_type f)
     \<longrightarrow> fee_paid (Some (mf_member f)) (mf_period f) None (mf_type f) s' = mf_amount f)"
proof -
  from process_dues [OF whole_parts(2,1) [OF assms(1,2)] assms(3)] assms(4)
  obtain r where r: "live_receipt (\<lambda>r. cr_id r = i) s = Some r" "\<forall>f\<in>set (contribution_monthly_fees s').
     mf_member f = cr_member r \<and> mf_period f = month_start (cr_period r) \<and> is_fee (mf_type f)
     \<longrightarrow> fee_paid (Some (mf_member f)) (mf_period f) None (mf_type f) s' = mf_amount f" by blast
  with live_receipt_id [OF r(1)] show ?thesis by blast
qed

theorem fees_settled_witness:
  "cash_processed \<noteq> cash_received \<and> fee_paid (Some 7) 0 None Com cash_processed = 300000"
proof -
  have s: "cash_processed \<noteq> cash_received" "contribution_receipts cash_received = [sample_receipt]" "cr_member sample_receipt = 7"
    "month_start (cr_period sample_receipt) = 0" "hd (contribution_monthly_fees cash_processed) \<in> set (contribution_monthly_fees cash_processed)"
    "mf_member (hd (contribution_monthly_fees cash_processed)) = 7" "mf_period (hd (contribution_monthly_fees cash_processed)) = 0"
    "mf_type (hd (contribution_monthly_fees cash_processed)) = Com" "mf_amount (hd (contribution_monthly_fees cash_processed)) = 300000"
    "is_fee Com" by code_simp+
  from fees_settled [OF sample_ext_ok sample_whole(1) sample_process s(1)] s show ?thesis by auto
qed

text \<open>C13. Nothing is reported as posted that is not in the ledgers: when processing completes a receipt, each of
  its parts for shares has a purchase on the account it is for, under the identifier of the part and
  with its amount, and each of its parts for a loan has a repayment on the loan likewise.
\<close>
theorem parts_posted:
  assumes "scan_ok x" and "whole_reachable x s" and "ProcessReceipt x v clock i s = ((res, None), s')" and "s' \<noteq> s"
    and "a \<in> set (contribution_allocations s)" and "al_receipt a = i"
  shows "(al_type a = SharePurchase \<longrightarrow> (\<exists>t\<in>set (share_transactions s'). al_target a = Some (st_account t) \<and> st_type t = Purchase
        \<and> st_reference t = al_id a \<and> st_amount t = al_amount a))
    \<and> (al_type a = LoanPrincipal \<longrightarrow> (\<exists>t\<in>set (loan_transactions s'). al_target a = Some (lt_loan t)
        \<and> lt_gateway t = Some (TrimSpace (ext_uuid_text x (al_id a))) \<and> lt_amount t = al_amount a))"
  using process_traced [OF assms(3,4) whole_parts(1,3) [OF assms(1,2)] assms(5,6)]
  by (simp add: traced_def share_posting_def loan_posting_def)

theorem parts_posted_witness:
  "\<exists>t\<in>set (share_transactions cash_processed). st_account t = 1 \<and> st_reference t = 521 \<and> st_amount t = 5000000"
proof -
  have a: "cash_processed \<noteq> cash_received" "hd sample_rows \<in> set (contribution_allocations cash_received)" "al_receipt (hd sample_rows) = 520"
    "al_type (hd sample_rows) = SharePurchase" "al_target (hd sample_rows) = Some 1" "al_id (hd sample_rows) = 521"
    "al_amount (hd sample_rows) = 5000000" by code_simp+
  from parts_posted [OF sample_ext_ok sample_whole(1) sample_process a(1-3)] a(4-7) show ?thesis by auto
qed

lemma live_receiptI:
  assumes "r \<in> set (contribution_receipts s)" and "\<not> cr_deleted r" and "distinct (map cr_id (contribution_receipts s))"
  shows "live_receipt (\<lambda>q. cr_id q = cr_id r) s = Some r"
proof (cases "live_receipt (\<lambda>q. cr_id q = cr_id r) s")
  case None
  with assms(1,2) show ?thesis by (auto simp: live_receipt_def find_None_iff)
next
  case (Some q)
  from live_receipt_id [OF Some] assms have "q = r" by (auto simp: distinct_map dest: inj_onD)
  with Some show ?thesis by simp
qed

text \<open>C15. A receipt is posted at most once: processing a receipt again after it completed, at any later time and
  however often, returns the same receipt and changes nothing.
\<close>
theorem process_once:
  assumes "scan_ok x" and "whole_reachable x s" and "ProcessReceipt x v clock i s = ((Some (r, rows), None), s')"
  shows "ProcessReceipt x v' clock' i s' = ((Some (r, allocations_of i s'), None), s')"
proof -
  have again: "ProcessReceipt x v' clock' i t = ((Some (q, allocations_of i t), None), t)"
    if "live_receipt (\<lambda>r. cr_id r = i) t = Some q" "cr_status q = ReceiptCompleted" for t :: "'a contribution_db_scheme" and q
    using that live_receipt_id [OF that(1)]
    by (simp add: ProcessReceipt_def execTx_def processReceiptInTx_def q_LockContributionReceiptByID_def
        q_LockContributionAllocationsByReceipt_def tx_simps)
  from assms(3) whole_parts(4,5) [OF assms(1,2)] show ?thesis
  proof (cases rule: process_cases)
    case unchanged
    with again show ?thesis by auto
  next
    case (completed q r0 r' rows' rs0 s1)
    have d: "distinct (map cr_id (contribution_receipts s'))"
      using same_receipts_ids [OF completed(9)] whole_parts(4) [OF assms(1,2)] by simp
    from same_receipts_row' [OF completed(9,13)] obtain p where p: "p \<in> set (contribution_receipts s)" "receipt_core r' = receipt_core p" by metis
    have "p = q" using p completed(11) live_receipt_id [OF completed(1)] receipt_core_same(1) [OF p(2)] whole_parts(4) [OF assms(1,2)]
      by (auto simp: distinct_map dest: inj_onD)
    then have "\<not> cr_deleted r'" using receipt_core_same(8) [OF p(2)] live_receipt_id [OF completed(1)] by simp
    from live_receiptI [OF completed(13) this d] have "live_receipt (\<lambda>r. cr_id r = i) s' = Some r'" using completed(11) by simp
    with again completed(4,12) show ?thesis by simp
  qed simp
qed

theorem process_once_witness:
  "ProcessReceipt sample_ext (sample_env 9000 900) 9000 520 cash_processed
     = ((Some (completed_receipt, allocations_of 520 cash_processed), None), cash_processed)"
  by (rule process_once [OF sample_ext_ok sample_whole(1) sample_process])

section \<open>Amounts below the scale\<close>

text \<open>A part of 500.00005 shillings, as the request's units and nanos can express it.\<close>

definition tiny_part :: AllocationInput where
  "tiny_part = \<lparr>ai_type = SharePurchase, ai_target = Some 1, ai_amount = \<lparr>n_int = Some 500000050000, n_exp = -9, n_valid = True\<rparr>, ai_label = []\<rparr>"


section \<open>The way of the cash to the bank\<close>

end
