(* ===== verification/Daraja_Store.thy ===== *)
theory Daraja_Store
  imports Cash
begin

text \<open>
  The tables of the M-Pesa payments and their queries, \<open>payment_requests.sql.go\<close> and
  \<open>daraja_recovery.sql.go\<close>: a payment request is what a member was asked to pay and for what, a
  callback is what the provider reported, saved before it is looked at. They extend the contribution
  tables, since a callback creates a receipt in the same transaction.

  A callback's payload is the decoded \<open>stkCallback\<close> together with the rest of the canonical JSON text; its
  SHA-256 is an argument of the operations that store it. A stored error message is the error whose
  text it is.
\<close>

section \<open>Tables\<close>

datatype ContributionPaymentRequestStatus = PaymentPending | PaymentCompleted | PaymentFailed

datatype remark = NoteText string | NoteError error

record ContributionPaymentRequest =
  rq_id :: uuid
  rq_checkout :: "string option"
  rq_member :: uuid
  rq_branch :: int
  rq_period :: date
  rq_expected :: int
  rq_plan :: "allocationPlanItem list"
  rq_status :: ContributionPaymentRequestStatus
  rq_receipt :: pg_uuid
  rq_failure :: "remark option"
  rq_requested_by :: pg_uuid
  rq_created :: timestamptz
  rq_updated :: timestamptz
  rq_key :: string
  rq_phone :: string
  rq_recovery :: string
  rq_attempts :: int
  rq_next :: timestamptz
  rq_result :: "remark option"

text \<open>A metadata value is a JSON string or the raw text of another JSON value.\<close>

datatype json_value = JsonString string | JsonRaw string

record darajaSTKCallback =
  cb_checkout :: string
  cb_code :: "int option"
  cb_desc :: string
  cb_items :: "(string \<times> json_value) list"
  cb_rest :: string

record DarajaCallback =
  dc_id :: uuid
  dc_checkout :: string
  dc_payload :: darajaSTKCallback
  dc_hash :: string
  dc_attempts :: int
  dc_next :: timestamptz
  dc_processed :: "timestamptz option"
  dc_error :: "error option"
  dc_created :: timestamptz

record PaymentReconciliation =
  pc_id :: uuid
  pc_request :: uuid
  pc_external :: string
  pc_amount :: int
  pc_received :: timestamptz
  pc_evidence :: string
  pc_reason :: string
  pc_by :: uuid
  pc_created :: timestamptz

record PaymentRecoveryAction =
  pa_id :: uuid
  pa_request :: uuid
  pa_action :: string
  pa_reason :: string
  pa_by :: uuid
  pa_created :: timestamptz

record daraja_db = contribution_db +
  payment_requests :: "ContributionPaymentRequest list"
  daraja_callbacks :: "DarajaCallback list"
  payment_reconciliations :: "PaymentReconciliation list"
  payment_recovery_actions :: "PaymentRecoveryAction list"

section \<open>Payment requests\<close>

definition seconds :: "int \<Rightarrow> int" where
  "seconds n = n * 1000000"

definition has_prefix :: "string \<Rightarrow> string \<Rightarrow> bool" where
  "has_prefix p t \<longleftrightarrow> take (length p) t = p"

record InsertContributionPaymentRequestParams =
  np_key :: string
  np_member :: pg_uuid
  np_branch :: int
  np_period :: "date option"
  np_expected :: numeric
  np_plan :: "allocationPlanItem list"
  np_requested_by :: pg_uuid
  np_phone :: string

definition q_InsertContributionPaymentRequest ::
    "env \<Rightarrow> InsertContributionPaymentRequestParams \<Rightarrow> ('s daraja_db_scheme, error, ContributionPaymentRequest option) tx" where
  [query_defs]: "q_InsertContributionPaymentRequest v p = tx_bind (lift_db (store_numeric (np_expected p))) (\<lambda>amt.
     case (np_member p, np_period p) of (Some m, Some d) \<Rightarrow>
       let r = \<lparr>rq_id = env_uuid v 0, rq_checkout = None, rq_member = m, rq_branch = np_branch p, rq_period = d, rq_expected = amt,
                rq_plan = np_plan p, rq_status = PaymentPending, rq_receipt = None, rq_failure = None, rq_requested_by = np_requested_by p,
                rq_created = env_now v, rq_updated = env_now v, rq_key = np_key p, rq_phone = np_phone p,
                rq_recovery = ''awaiting_confirmation'', rq_attempts = 0, rq_next = env_now v + seconds 120, rq_result = None\<rparr>
       in tx_bind (db_check (amt > 0 \<and> btrim (np_key p) \<noteq> [])) (\<lambda>_ s.
         if \<exists>q\<in>set (payment_requests s). rq_id q = rq_id r \<or> rq_key q = rq_key r then Inr (None, s)
         else Inr (Some r, s\<lparr>payment_requests := payment_requests s @ [r]\<rparr>))
     | _ \<Rightarrow> throw (DbE NotNullViolation))"

definition q_GetContributionPaymentRequestByIdempotencyKey ::
    "string \<Rightarrow> ('s daraja_db_scheme, error, ContributionPaymentRequest option) tx" where
  [query_defs]: "q_GetContributionPaymentRequestByIdempotencyKey k = gets (\<lambda>s. find (\<lambda>r. rq_key r = k) (payment_requests s))"

definition q_LockContributionPaymentRequestByCheckoutID ::
    "string \<Rightarrow> ('s daraja_db_scheme, error, ContributionPaymentRequest option) tx" where
  [query_defs]: "q_LockContributionPaymentRequestByCheckoutID c = gets (\<lambda>s. find (\<lambda>r. rq_checkout r = Some c) (payment_requests s))"

definition q_LockDarajaRequest :: "uuid \<Rightarrow> int \<Rightarrow> ('s daraja_db_scheme, error, ContributionPaymentRequest option) tx" where
  [query_defs]: "q_LockDarajaRequest i branch = gets (\<lambda>s. find (\<lambda>r. rq_id r = i \<and> rq_branch r = branch) (payment_requests s))"

definition update_request ::
    "(ContributionPaymentRequest \<Rightarrow> bool) \<Rightarrow> (ContributionPaymentRequest \<Rightarrow> ContributionPaymentRequest)
     \<Rightarrow> ('s daraja_db_scheme, error, ContributionPaymentRequest option) tx" where
  "update_request P f = (\<lambda>s. case find P (payment_requests s) of None \<Rightarrow> Inr (None, s)
     | Some r \<Rightarrow> Inr (Some (f r), s\<lparr>payment_requests := map (\<lambda>q. if rq_id q = rq_id r then f q else q) (payment_requests s)\<rparr>))"

text \<open>The column \<open>checkout_request_id\<close> is unique and not blank.\<close>

definition free_checkout :: "uuid \<Rightarrow> string \<Rightarrow> ('s daraja_db_scheme, error, unit) tx" where
  "free_checkout i c = (\<lambda>s. if \<exists>q\<in>set (payment_requests s). rq_id q \<noteq> i \<and> rq_checkout q = Some c then Inl (DbE UniqueViolation)
     else if btrim c = [] then Inl (DbE CheckViolation) else Inr ((), s))"

definition q_UpdateContributionPaymentRequestCheckoutID ::
    "env \<Rightarrow> uuid \<Rightarrow> string \<Rightarrow> ('s daraja_db_scheme, error, ContributionPaymentRequest option) tx" where
  [query_defs]: "q_UpdateContributionPaymentRequestCheckoutID v i c = (\<lambda>s. if i \<notin> rq_id ` set (payment_requests s) then Inr (None, s)
     else tx_bind (free_checkout i c) (\<lambda>_.
       update_request (\<lambda>r. rq_id r = i) (\<lambda>r. r\<lparr>rq_checkout := Some c, rq_updated := env_now v\<rparr>)) s)"

definition q_UpdateContributionPaymentRequestCompleted ::
    "env \<Rightarrow> uuid \<Rightarrow> uuid \<Rightarrow> ('s daraja_db_scheme, error, ContributionPaymentRequest option) tx" where
  [query_defs]: "q_UpdateContributionPaymentRequestCompleted v i receipt = update_request (\<lambda>r. rq_id r = i)
     (\<lambda>r. r\<lparr>rq_status := PaymentCompleted, rq_recovery := ''received'', rq_receipt := Some receipt, rq_failure := None, rq_updated := env_now v\<rparr>)"

definition q_UpdateContributionPaymentRequestFailed ::
    "env \<Rightarrow> uuid \<Rightarrow> remark option \<Rightarrow> ('s daraja_db_scheme, error, ContributionPaymentRequest option) tx" where
  [query_defs]: "q_UpdateContributionPaymentRequestFailed v i reason = update_request (\<lambda>r. rq_id r = i)
     (\<lambda>r. r\<lparr>rq_status := PaymentFailed, rq_recovery := ''provider_failed'', rq_failure := reason, rq_updated := env_now v\<rparr>)"

definition q_ClaimUnsentDarajaRequest :: "env \<Rightarrow> uuid \<Rightarrow> ('s daraja_db_scheme, error, ContributionPaymentRequest option) tx" where
  [query_defs]: "q_ClaimUnsentDarajaRequest v i = update_request
     (\<lambda>r. rq_id r = i \<and> rq_status r = PaymentPending \<and> rq_checkout r = None \<and> rq_recovery r = ''not_sent'')
     (\<lambda>r. r\<lparr>rq_recovery := ''awaiting_confirmation'', rq_result := None, rq_updated := env_now v\<rparr>)"

text \<open>A late answer must not erase the evidence of a callback.\<close>

definition result_recordable :: "string \<Rightarrow> ContributionPaymentRequest \<Rightarrow> bool" where
  "result_recordable st r \<longleftrightarrow> rq_status r \<noteq> PaymentCompleted \<and> (\<not> has_prefix ''received'' (rq_recovery r) \<or> st = ''received_needs_review'')
     \<and> (rq_status r = PaymentPending \<or> st \<in> set [''received_needs_review'', ''received_needs_receipt'', ''provider_failed''])"

definition q_RecordDarajaQueryResult :: "env \<Rightarrow> uuid \<Rightarrow> remark option \<Rightarrow> string \<Rightarrow> ('s daraja_db_scheme, error, unit) tx" where
  [query_defs]: "q_RecordDarajaQueryResult v i res st = tx_bind (update_request (\<lambda>r. rq_id r = i \<and> result_recordable st r)
     (\<lambda>r. r\<lparr>rq_result := res, rq_recovery := st, rq_updated := env_now v\<rparr>)) (\<lambda>_. ret ())"

definition q_RestoreDarajaCheckout :: "env \<Rightarrow> uuid \<Rightarrow> string \<Rightarrow> ('s daraja_db_scheme, error, unit) tx" where
  [query_defs]: "q_RestoreDarajaCheckout v i c = (\<lambda>s.
     if \<exists>r\<in>set (payment_requests s). rq_id r = i \<and> rq_status r = PaymentPending \<and> rq_checkout r = None \<and> rq_receipt r = None
     then tx_bind (free_checkout i c) (\<lambda>_. tx_bind (update_request (\<lambda>r. rq_id r = i)
       (\<lambda>r. r\<lparr>rq_checkout := Some c, rq_next := env_now v, rq_attempts := 0, rq_recovery := ''awaiting_confirmation'', rq_updated := env_now v\<rparr>))
       (\<lambda>_. ret ())) s
     else Inr ((), s))"

definition q_ScheduleDarajaQuery :: "env \<Rightarrow> uuid \<Rightarrow> int \<Rightarrow> ('s daraja_db_scheme, error, unit) tx" where
  [query_defs]: "q_ScheduleDarajaQuery v i branch = tx_bind (update_request
     (\<lambda>r. rq_id r = i \<and> rq_branch r = branch \<and> rq_status r = PaymentPending
        \<and> (rq_attempts r \<ge> 8 \<or> rq_next r > env_now v + seconds 30) \<and> rq_updated r < env_now v - seconds 30)
     (\<lambda>r. r\<lparr>rq_next := env_now v, rq_attempts := 0, rq_updated := env_now v\<rparr>)) (\<lambda>_. ret ())"

text \<open>The first row in an order: \<open>ORDER BY k LIMIT 1\<close>.\<close>

definition first_by :: "('a \<Rightarrow> 'k :: linorder) \<Rightarrow> 'a list \<Rightarrow> 'a option" where
  "first_by k xs = (case sort_key k xs of [] \<Rightarrow> None | x # _ \<Rightarrow> Some x)"

definition queryable :: "timestamptz \<Rightarrow> ContributionPaymentRequest \<Rightarrow> bool" where
  "queryable t r \<longleftrightarrow> rq_status r = PaymentPending \<and> rq_checkout r \<noteq> None \<and> rq_attempts r < 8 \<and> rq_next r \<le> t
     \<and> rq_recovery r \<notin> set [''received_needs_receipt'', ''received_needs_review'']"

definition q_ClaimDarajaQuery :: "env \<Rightarrow> ('s daraja_db_scheme, error, ContributionPaymentRequest option) tx" where
  [query_defs]: "q_ClaimDarajaQuery v = (\<lambda>s.
     case first_by (\<lambda>r. (rq_next r, rq_id r)) (filter (queryable (env_now v)) (payment_requests s)) of None \<Rightarrow> Inr (None, s)
     | Some r \<Rightarrow> update_request (\<lambda>q. rq_id q = rq_id r) (\<lambda>q. q\<lparr>rq_attempts := rq_attempts q + 1,
         rq_next := env_now v + seconds (min 1800 (30 * 2 ^ nat (min (rq_attempts q) 6)))\<rparr>) s)"

definition q_DeferUnavailableDarajaQuery :: "env \<Rightarrow> uuid \<Rightarrow> int \<Rightarrow> ('s daraja_db_scheme, error, unit) tx" where
  [query_defs]: "q_DeferUnavailableDarajaQuery v i attempts = tx_bind (update_request
     (\<lambda>r. rq_id r = i \<and> rq_status r = PaymentPending \<and> \<not> has_prefix ''received'' (rq_recovery r) \<and> rq_attempts r = attempts)
     (\<lambda>r. r\<lparr>rq_attempts := rq_attempts r - 1, rq_next := env_now v + seconds 60,
        rq_result := Some (NoteText ''Provider query unavailable''), rq_updated := env_now v\<rparr>)) (\<lambda>_. ret ())"

section \<open>Callbacks\<close>

definition q_InsertDarajaCallback :: "env \<Rightarrow> string \<Rightarrow> darajaSTKCallback \<Rightarrow> string \<Rightarrow> ('s daraja_db_scheme, error, unit) tx" where
  [query_defs]: "q_InsertDarajaCallback v c payload hash = (\<lambda>s.
     if \<exists>q\<in>set (daraja_callbacks s). dc_id q = env_uuid v 0 \<or> dc_hash q = hash then Inr ((), s)
     else Inr ((), s\<lparr>daraja_callbacks := daraja_callbacks s @ [\<lparr>dc_id = env_uuid v 0, dc_checkout = c, dc_payload = payload, dc_hash = hash,
       dc_attempts = 0, dc_next = env_now v, dc_processed = None, dc_error = None, dc_created = env_now v\<rparr>]\<rparr>))"

definition update_callback ::
    "(DarajaCallback \<Rightarrow> bool) \<Rightarrow> (DarajaCallback \<Rightarrow> DarajaCallback) \<Rightarrow> 's daraja_db_scheme \<Rightarrow> 's daraja_db_scheme" where
  "update_callback P f s = s\<lparr>daraja_callbacks := map (\<lambda>q. if P q then f q else q) (daraja_callbacks s)\<rparr>"

definition q_ClaimDarajaCallback :: "env \<Rightarrow> ('s daraja_db_scheme, error, DarajaCallback option) tx" where
  [query_defs]: "q_ClaimDarajaCallback v = (\<lambda>s.
     case first_by (\<lambda>q. (dc_next q, dc_id q))
        (filter (\<lambda>q. dc_processed q = None \<and> dc_attempts q < 8 \<and> dc_next q \<le> env_now v) (daraja_callbacks s)) of None \<Rightarrow> Inr (None, s)
     | Some q \<Rightarrow> let f = (\<lambda>q. q\<lparr>dc_attempts := dc_attempts q + 1, dc_next := env_now v + seconds 120\<rparr>) in
         Inr (Some (f q), update_callback (\<lambda>p. dc_id p = dc_id q) f s))"

definition q_FinishDarajaCallback :: "env \<Rightarrow> uuid \<Rightarrow> error option \<Rightarrow> ('s daraja_db_scheme, error, unit) tx" where
  [query_defs]: "q_FinishDarajaCallback v i err = modify (update_callback (\<lambda>q. dc_id q = i)
     (\<lambda>q. q\<lparr>dc_processed := (if err = None then Some (env_now v) else None), dc_error := err,
        dc_next := env_now v + seconds (min 1800 (15 * 2 ^ nat (min (dc_attempts q) 7)))\<rparr>))"

definition q_RequeueDarajaCallbacks :: "env \<Rightarrow> string \<Rightarrow> ('s daraja_db_scheme, error, unit) tx" where
  [query_defs]: "q_RequeueDarajaCallbacks v c = modify (update_callback (\<lambda>q. dc_checkout q = c \<and> dc_processed q = None \<and> dc_attempts q \<ge> 8)
     (\<lambda>q. q\<lparr>dc_attempts := 0, dc_next := env_now v\<rparr>))"

section \<open>Reconciliation\<close>

definition q_InsertPaymentReconciliation ::
    "env \<Rightarrow> nat \<Rightarrow> uuid \<Rightarrow> string \<Rightarrow> numeric \<Rightarrow> timestamptz \<Rightarrow> string \<Rightarrow> string \<Rightarrow> uuid \<Rightarrow> ('s daraja_db_scheme, error, PaymentReconciliation option) tx" where
  [query_defs]: "q_InsertPaymentReconciliation v n request external amount received evidence reason by =
     tx_bind (lift_db (store_numeric amount)) (\<lambda>amt.
       let r = \<lparr>pc_id = env_uuid v n, pc_request = request, pc_external = external, pc_amount = amt, pc_received = received,
                pc_evidence = evidence, pc_reason = reason, pc_by = by, pc_created = env_now v\<rparr>
       in tx_bind (db_check (amt > 0 \<and> btrim evidence \<noteq> [] \<and> btrim reason \<noteq> [])) (\<lambda>_ s.
         if \<exists>q\<in>set (payment_reconciliations s). pc_id q = pc_id r \<or> pc_request q = request \<or> pc_external q = external then Inr (None, s)
         else Inr (Some r, s\<lparr>payment_reconciliations := payment_reconciliations s @ [r]\<rparr>)))"

definition q_GetPaymentReconciliation :: "string \<Rightarrow> ('s daraja_db_scheme, error, PaymentReconciliation option) tx" where
  [query_defs]: "q_GetPaymentReconciliation t = gets (\<lambda>s. find (\<lambda>r. pc_external r = t) (payment_reconciliations s))"

definition q_InsertPaymentRecoveryAction :: "env \<Rightarrow> nat \<Rightarrow> uuid \<Rightarrow> string \<Rightarrow> string \<Rightarrow> uuid \<Rightarrow> ('s daraja_db_scheme, error, unit) tx" where
  [query_defs]: "q_InsertPaymentRecoveryAction v n request action reason by = modify (\<lambda>s.
     if \<exists>q\<in>set (payment_recovery_actions s). pa_id q = env_uuid v n then s
     else s\<lparr>payment_recovery_actions := payment_recovery_actions s @ [\<lparr>pa_id = env_uuid v n, pa_request = request, pa_action = action,
       pa_reason = reason, pa_by = by, pa_created = env_now v\<rparr>]\<rparr>)"

text \<open>A receipt that was refused goes back to the receipt worker.\<close>

definition q_RetryDarajaReceipt :: "env \<Rightarrow> uuid \<Rightarrow> int \<Rightarrow> ('s daraja_db_scheme, error, unit) tx" where
  [query_defs]: "q_RetryDarajaReceipt v i branch = tx_bind (update_receipt
     (\<lambda>r. cr_id r = i \<and> cr_branch r = branch \<and> cr_channel r = DarajaStk \<and> (cr_status r = ReceiptFailed \<or> cr_status r = ReceiptManualReview))
     (\<lambda>r. r\<lparr>cr_status := ReceiptPending, cr_failure := None, cr_updated := env_now v\<rparr>)) (\<lambda>_. ret ())"

end
