(* ===== verification/Daraja.thy ===== *)
theory Daraja
  imports Daraja_Store Auth
begin

text \<open>
  Payments by M-Pesa: \<open>daraja.go\<close> asks the provider to prompt a member and turns the provider's reports
  into receipts, \<open>daraja_handlers.go\<close> saves the reports, the workers of \<open>daraja_recovery.go\<close> work them off
  and query what stays open, and staff can resolve the rest (\<open>payment_request_handlers.go\<close>).

  The provider is an argument: a function that answers a prompt or a query. A database statement outside
  a transaction is a transaction of its own. The workers are given by one round of their loop.
\<close>

section \<open>Amounts\<close>

definition darajaWholeAmount :: "numeric \<Rightarrow> contribution_error + int" where
  "darajaWholeAmount amount = (let value = numericToScale amount 0 in
     if value * 10000 \<noteq> numericToScale amount (-4) then Inl ErrInvalidReceiptAmount
     else if value \<ge> 2 ^ 63 \<or> value < - (2 ^ 63) \<or> value \<le> 0 then Inl ErrInvalidReceiptAmount else Inr value)"

definition validatePaymentRequestAmount :: "numeric \<Rightarrow> AllocationInput list \<Rightarrow> contribution_error option" where
  "validatePaymentRequestAmount amount allocations = validateReceipt \<lparr>ir_channel = DarajaStk, ir_external = None,
     ir_checkout = Some ''pending'', ir_internal = None, ir_key = None, ir_session = None, ir_member = None, ir_branch = 0, ir_period = None,
     ir_amount = amount, ir_plan = [], ir_received_by = None, ir_received_at = None\<rparr> allocations"

section \<open>Asking for a payment\<close>

record InitiateDarajaSTKPaymentParams =
  ip_key :: string
  ip_phone :: string
  ip_member :: pg_uuid
  ip_branch :: int
  ip_period :: "date option"
  ip_expected :: numeric
  ip_allocations :: "AllocationInput list"
  ip_requested_by :: pg_uuid

record DarajaSTKInitiationRequest =
  sr_key :: string
  sr_phone :: string
  sr_amount :: int

text \<open>The key was used before: the same request again, which is only claimed for another prompt when the
  earlier one was certainly not sent.\<close>

definition sameRequest ::
    "ext \<Rightarrow> InitiateDarajaSTKPaymentParams \<Rightarrow> ContributionPaymentRequest \<Rightarrow> AllocationInput list \<Rightarrow> AllocationInput list \<Rightarrow> bool" where
  "sameRequest x p existing allocations stored \<longleftrightarrow> Some (rq_member existing) = ip_member p \<and> rq_branch existing = ip_branch p
     \<and> (rq_phone existing = [] \<or> rq_phone existing = ip_phone p) \<and> Some (rq_period existing) = ip_period p
     \<and> numericToScale (db_num (rq_expected existing)) (-4) = numericToScale (ip_expected p) (-4)
     \<and> buildAllocationPlan x allocations = buildAllocationPlan x stored"

definition repeatPaymentRequest ::
    "ext \<Rightarrow> env \<Rightarrow> InitiateDarajaSTKPaymentParams \<Rightarrow> ContributionPaymentRequest
     \<Rightarrow> ('s daraja_db_scheme, error, ContributionPaymentRequest \<times> bool) tx" where
  "repeatPaymentRequest x v p existing =
     tx_bind (lift_ce (allocationsForRetry x (ip_allocations p) (rq_plan existing))) (\<lambda>allocations.
     tx_bind (lift_ce (parseAllocationPlan x (rq_plan existing))) (\<lambda>stored.
     if \<not> sameRequest x p existing allocations stored then throw_ce ErrInconsistentReceipt
     else if rq_recovery existing = ''not_sent'' \<and> rq_checkout existing = None
       then tx_bind (or_error (ContributionE ErrPaymentRequestInProgress) (q_ClaimUnsentDarajaRequest v (rq_id existing)))
         (\<lambda>request. ret (request, True))
     else if rq_checkout existing = None then throw_ce ErrPaymentRequestInProgress
     else ret (existing, False)))"

definition newPaymentRequest ::
    "ext \<Rightarrow> env \<Rightarrow> timestamptz \<Rightarrow> InitiateDarajaSTKPaymentParams \<Rightarrow> ('s daraja_db_scheme, error, ContributionPaymentRequest \<times> bool) tx" where
  "newPaymentRequest x v clock p =
     tx_bind (monthlyFees x v clock (ip_member p) (ip_period p) None) (\<lambda>fees.
     tx_bind (lift_ce (calculatedAllocations (ip_allocations p) fees)) (\<lambda>allocations.
     tx_bind (check_ce (validatePaymentRequestAmount (ip_expected p) allocations)) (\<lambda>_.
     tx_bind (validateChargeAllocations (ip_member p) (ip_branch p) allocations None) (\<lambda>_.
     tx_bind (validateContributionLoanMinimums x (ip_member p) (ip_branch p) (ip_period p) allocations) (\<lambda>_.
     tx_bind (lift_ce (darajaWholeAmount (ip_expected p))) (\<lambda>_.
     tx_bind (or_error (ContributionE ErrPaymentRequestInProgress) (q_InsertContributionPaymentRequest v
       \<lparr>np_key = ip_key p, np_member = ip_member p, np_branch = ip_branch p, np_period = ip_period p, np_expected = ip_expected p,
        np_plan = buildAllocationPlan x allocations, np_requested_by = ip_requested_by p, np_phone = ip_phone p\<rparr>)) (\<lambda>request.
     ret (request, True))))))))"

definition createContributionPaymentRequest ::
    "ext \<Rightarrow> env \<Rightarrow> timestamptz \<Rightarrow> InitiateDarajaSTKPaymentParams \<Rightarrow> ('s daraja_db_scheme, error, ContributionPaymentRequest \<times> bool) tx" where
  "createContributionPaymentRequest x v clock p = tx_bind (q_GetContributionPaymentRequestByIdempotencyKey (ip_key p)) (\<lambda>existing.
     case existing of Some r \<Rightarrow> repeatPaymentRequest x v p r | None \<Rightarrow> newPaymentRequest x v clock p)"

text \<open>The provider's answer is saved, and what it leaves open too: only a prompt that was certainly not
  sent may be repeated, only a certain refusal is a failure.\<close>

definition saveAnswer ::
    "env \<Rightarrow> ContributionPaymentRequest \<Rightarrow> error + string \<Rightarrow> 's daraja_db_scheme \<Rightarrow> (error + ContributionPaymentRequest) \<times> 's daraja_db_scheme" where
  "saveAnswer v request answer s = (case answer of
       Inr checkoutID \<Rightarrow> execTx (or_error NoRowsE (q_UpdateContributionPaymentRequestCheckoutID v (rq_id request) checkoutID)) s
     | Inl e \<Rightarrow>
       if errors_is e (ContributionE ErrDarajaNotSent) then
         (case execTx (q_RecordDarajaQueryResult v (rq_id request) (Some (NoteText ''Prompt was not sent; retry the same request'')) ''not_sent'') s of
            (Inl e', s') \<Rightarrow> (Inl e', s') | (Inr _, s') \<Rightarrow> (Inr (request\<lparr>rq_recovery := ''not_sent''\<rparr>), s'))
       else if errors_is e (ContributionE ErrDarajaRejected) then
         (case execTx (or_error NoRowsE (q_UpdateContributionPaymentRequestFailed v (rq_id request)
              (Some (NoteText ''M-Pesa rejected the prompt request'')))) s of
            (Inl e', s') \<Rightarrow> (Inl e', s') | (Inr _, s') \<Rightarrow> (Inl e, s'))
       else (Inl e, s))"

text \<open>The result, the prompt that was sent to the provider, if any, and the database.\<close>

definition InitiateDarajaSTKPayment ::
    "ext \<Rightarrow> env \<Rightarrow> env \<Rightarrow> timestamptz \<Rightarrow> InitiateDarajaSTKPaymentParams \<Rightarrow> (DarajaSTKInitiationRequest \<Rightarrow> error + string) option
     \<Rightarrow> 's daraja_db_scheme \<Rightarrow> (error + ContributionPaymentRequest) \<times> DarajaSTKInitiationRequest option \<times> 's daraja_db_scheme" where
  "InitiateDarajaSTKPayment x v v' clock params initiator s = (case initiator of None \<Rightarrow> (Inl (ContributionE ErrDarajaClientMissing), None, s)
     | Some provider \<Rightarrow>
       let p = params\<lparr>ip_key := TrimSpace (ip_key params), ip_phone := TrimSpace (ip_phone params)\<rparr> in
       if ip_key p = [] \<or> ip_phone p = [] \<or> ip_member p = None \<or> ip_branch p = 0 \<or> ip_period p = None
       then (Inl (ContributionE ErrInvalidPayment), None, s)
       else case execTx (createContributionPaymentRequest x v clock p) s of (Inl e, s1) \<Rightarrow> (Inl e, None, s1)
         | (Inr (request, False), s1) \<Rightarrow> (Inr request, None, s1)
         | (Inr (request, True), s1) \<Rightarrow> (case darajaWholeAmount (ip_expected p) of
             Inl e \<Rightarrow> (Inl (ContributionE e), None,
               snd (execTx (q_UpdateContributionPaymentRequestFailed v' (rq_id request) (Some (NoteError (ContributionE e)))) s1))
           | Inr amount \<Rightarrow>
               let prompt = \<lparr>sr_key = ip_key p, sr_phone = ip_phone p, sr_amount = amount\<rparr>;
                   (result, s2) = saveAnswer v' request (provider prompt) s1
               in (result, Some prompt, s2)))"

section \<open>What the provider reports\<close>

record DarajaSTKPayment =
  dp_checkout :: string
  dp_receipt :: string
  dp_amount :: numeric
  dp_received :: "timestamptz option"

text \<open>The money that came is on record even when it cannot be posted.\<close>

definition needsReview :: "env \<Rightarrow> uuid \<Rightarrow> contribution_error \<Rightarrow> ('s daraja_db_scheme, error, CreatedReceipt option \<times> error option) tx" where
  "needsReview v i e = tx_bind (q_RecordDarajaQueryResult v i (Some (NoteError (ContributionE e))) ''received_needs_review'')
     (\<lambda>_. ret (None, Some (ContributionE e)))"

definition completedPayment ::
    "string \<Rightarrow> numeric \<Rightarrow> ContributionPaymentRequest \<Rightarrow> ('s daraja_db_scheme, error, CreatedReceipt option \<times> error option) tx" where
  "completedPayment mpesaReceipt amount request = (case rq_receipt request of None \<Rightarrow> throw_ce ErrReceiptNotProcessable
     | Some i \<Rightarrow> tx_bind (or_error NoRowsE (q_GetContributionReceiptByID i)) (\<lambda>existing.
       if (case cr_external existing of None \<Rightarrow> [] | Some t \<Rightarrow> t) \<noteq> mpesaReceipt
          \<or> numericToScale (db_num (cr_amount existing)) (-4) \<noteq> numericToScale amount (-4)
       then throw_ce ErrInconsistentReceipt else ret (Some (existing, []), None)))"

definition receivePayment ::
    "ext \<Rightarrow> env \<Rightarrow> timestamptz \<Rightarrow> string \<Rightarrow> string \<Rightarrow> DarajaSTKPayment \<Rightarrow> ContributionPaymentRequest
     \<Rightarrow> ('s daraja_db_scheme, error, CreatedReceipt option \<times> error option) tx" where
  "receivePayment x v clock checkoutID mpesaReceipt payment request =
     (if numericToScale (db_num (rq_expected request)) (-4) \<noteq> numericToScale (dp_amount payment) (-4)
      then needsReview v (rq_id request) ErrPaymentAmountMismatch
      else case parseAllocationPlan x (rq_plan request) of Inl e \<Rightarrow> needsReview v (rq_id request) e
      | Inr allocations \<Rightarrow>
        let params = \<lparr>ir_channel = DarajaStk, ir_external = Some mpesaReceipt, ir_checkout = Some checkoutID, ir_internal = None, ir_key = None,
              ir_session = None, ir_member = Some (rq_member request), ir_branch = rq_branch request, ir_period = Some (rq_period request),
              ir_amount = dp_amount payment, ir_plan = rq_plan request, ir_received_by = rq_requested_by request,
              ir_received_at = Some (case dp_received payment of None \<Rightarrow> clock | Some t \<Rightarrow> t)\<rparr>
        in case validateReceipt params allocations of Some e \<Rightarrow> needsReview v (rq_id request) e
        | None \<Rightarrow> tx_bind (createReceipt v params allocations) (\<lambda>result.
            if cr_checkout (fst result) \<noteq> None \<and> cr_checkout (fst result) \<noteq> Some checkoutID then throw_ce ErrReceiptNotProcessable
            else tx_bind (or_error NoRowsE (q_UpdateContributionPaymentRequestCompleted v (rq_id request) (cr_id (fst result)))) (\<lambda>_.
              ret (Some result, None))))"

definition processPaymentInTx ::
    "ext \<Rightarrow> env \<Rightarrow> timestamptz \<Rightarrow> string \<Rightarrow> string \<Rightarrow> DarajaSTKPayment \<Rightarrow> ('s daraja_db_scheme, error, CreatedReceipt option \<times> error option) tx" where
  "processPaymentInTx x v clock checkoutID mpesaReceipt payment =
     tx_bind (or_error (ContributionE ErrPaymentRequestNotFound) (q_LockContributionPaymentRequestByCheckoutID checkoutID)) (\<lambda>request.
     if rq_status request = PaymentCompleted then completedPayment mpesaReceipt (dp_amount payment) request
     else receivePayment x v clock checkoutID mpesaReceipt payment request)"

definition ProcessDarajaSTKPayment ::
    "ext \<Rightarrow> env \<Rightarrow> timestamptz \<Rightarrow> DarajaSTKPayment \<Rightarrow> 's daraja_db_scheme \<Rightarrow> (CreatedReceipt option \<times> error option) \<times> 's daraja_db_scheme" where
  "ProcessDarajaSTKPayment x v clock payment s =
     (let checkoutID = TrimSpace (dp_checkout payment); mpesaReceipt = ToUpper (TrimSpace (dp_receipt payment)) in
      if checkoutID = [] \<or> mpesaReceipt = [] \<or> \<not> positive (dp_amount payment) then ((None, Some (ContributionE ErrInvalidPayment)), s)
      else case execTx (processPaymentInTx x v clock checkoutID mpesaReceipt payment) s of
        (Inl e, s') \<Rightarrow> ((None, Some e), s') | (Inr r, s') \<Rightarrow> (r, s'))"

definition markFailedInTx :: "env \<Rightarrow> string \<Rightarrow> string \<Rightarrow> ('s daraja_db_scheme, error, unit) tx" where
  "markFailedInTx v checkoutID reason =
     tx_bind (or_error (ContributionE ErrPaymentRequestNotFound) (q_LockContributionPaymentRequestByCheckoutID checkoutID)) (\<lambda>request.
     if rq_status request = PaymentCompleted then ret ()
     else if has_prefix ''received'' (rq_recovery request) then ret ()
     else tx_bind (or_error NoRowsE (q_UpdateContributionPaymentRequestFailed v (rq_id request) (map_option NoteText (text_of reason)))) (\<lambda>_. ret ()))"

definition MarkDarajaSTKPaymentFailed :: "env \<Rightarrow> string \<Rightarrow> string \<Rightarrow> 's daraja_db_scheme \<Rightarrow> error option \<times> 's daraja_db_scheme" where
  "MarkDarajaSTKPaymentFailed v checkoutID reason s = (let checkoutID = TrimSpace checkoutID in
     if checkoutID = [] then (Some (ContributionE ErrPaymentRequestNotFound), s)
     else case execTx (markFailedInTx v checkoutID reason) s of (Inl e, s') \<Rightarrow> (Some e, s') | (Inr _, s') \<Rightarrow> (None, s'))"

section \<open>Callbacks\<close>

text \<open>\<open>json.Unmarshal\<close> of \<open>null\<close> into a string leaves it empty.\<close>

fun metadata_value :: "string \<Rightarrow> (string \<times> json_value) list \<Rightarrow> string option" where
  "metadata_value name [] = None"
| "metadata_value name ((n, val) # items) = (if n \<noteq> name \<or> val = JsonRaw [] then metadata_value name items
     else Some (case val of JsonString t \<Rightarrow> TrimSpace t | JsonRaw t \<Rightarrow> if t = ''null'' then [] else TrimSpace t))"

text \<open>\<open>time.ParseInLocation("20060102150405", value, Africa/Nairobi)\<close>: fourteen digits, and a fraction of a
  second after a point or a comma, which the database keeps to the microsecond.\<close>

definition parse_stamp :: "string \<Rightarrow> timestamptz option" where
  "parse_stamp s =
     (let d = take 8 s; c = take 6 (drop 8 s); f = drop 14 s;
          hh = digits_value (take 2 c); mm = digits_value (take 2 (drop 2 c)); ss = digits_value (drop 4 c);
          frac = (f = [] \<or> ((hd f = CHR ''.'' \<or> hd f = CHR '','') \<and> tl f \<noteq> [] \<and> list_all is_digit (tl f)))
      in if length c = 6 \<and> list_all is_digit d \<and> list_all is_digit c \<and> hh < 24 \<and> mm < 60 \<and> ss < 60 \<and> frac
         then map_option (\<lambda>day. day * 86400000000 + (hh * 3600 + mm * 60 + ss) * 1000000 - 10800000000
           + digits_value (take 6 (tl f @ ''000000''))) (parse_date (take 4 d @ ''-'' @ take 2 (drop 4 d) @ ''-'' @ drop 6 d))
         else None)"

definition successPayment :: "ext \<Rightarrow> timestamptz \<Rightarrow> darajaSTKCallback \<Rightarrow> error + DarajaSTKPayment" where
  "successPayment x clock c = (case metadata_value ''Amount'' (cb_items c) of None \<Rightarrow> Inl (ContributionE ErrInvalidReceiptAmount)
     | Some amountText \<Rightarrow> (case ext_scan x amountText of None \<Rightarrow> Inl (ContributionE ErrInvalidReceiptAmount)
     | Some amount \<Rightarrow> (case metadata_value ''MpesaReceiptNumber'' (cb_items c) of None \<Rightarrow> Inl (ContributionE ErrReceiptReferenceRequired)
     | Some receipt \<Rightarrow> if TrimSpace receipt = [] then Inl (ContributionE ErrReceiptReferenceRequired)
       else let payment = (\<lambda>t. \<lparr>dp_checkout = cb_checkout c, dp_receipt = receipt, dp_amount = amount, dp_received = Some t\<rparr>) in
         (case metadata_value ''TransactionDate'' (cb_items c) of None \<Rightarrow> Inr (payment clock)
          | Some val \<Rightarrow> (case parse_stamp val of None \<Rightarrow> Inl PlainE | Some t \<Rightarrow> Inr (payment t))))))"

text \<open>\<open>HandleSTKCallback\<close>: the status of the answer. \<open>payload\<close> is the decoded body, \<open>hash\<close> the digest of its
  canonical text, \<open>signed\<close> whether the signature of the path is valid for a configured key.\<close>

definition bindCallback ::
    "env \<Rightarrow> string \<Rightarrow> string \<Rightarrow> darajaSTKCallback \<Rightarrow> string \<Rightarrow> ('s daraja_db_scheme, error, unit) tx" where
  "bindCallback v key checkoutID payload hash =
     tx_bind (or_error NoRowsE (q_GetContributionPaymentRequestByIdempotencyKey key)) (\<lambda>request.
     tx_bind (or_error NoRowsE (q_LockDarajaRequest (rq_id request) (rq_branch request))) (\<lambda>request.
     if rq_checkout request \<noteq> None \<and> rq_checkout request \<noteq> Some checkoutID then throw_ce ErrInconsistentReceipt
     else tx_bind (if rq_checkout request = None
         then tx_bind (or_error NoRowsE (q_UpdateContributionPaymentRequestCheckoutID v (rq_id request) checkoutID)) (\<lambda>_. ret ()) else ret ()) (\<lambda>_.
       q_InsertDarajaCallback v checkoutID payload hash)))"

definition HandleSTKCallback ::
    "env \<Rightarrow> darajaSTKCallback option \<Rightarrow> string \<Rightarrow> string \<Rightarrow> bool \<Rightarrow> 's daraja_db_scheme \<Rightarrow> int \<times> 's daraja_db_scheme" where
  "HandleSTKCallback v payload hash requestKey signed s = (case payload of None \<Rightarrow> (400, s)
     | Some payload \<Rightarrow>
       let checkoutID = TrimSpace (cb_checkout payload);
           saved = (\<lambda>m. case execTx m s of (Inl _, s') \<Rightarrow> (503, s') | (Inr _, s') \<Rightarrow> (200, s'))
       in if cb_code payload = None \<or> checkoutID = [] then (400, s)
       else if requestKey \<noteq> [] then (if \<not> signed then (403, s) else saved (bindCallback v requestKey checkoutID payload hash))
       else saved (q_InsertDarajaCallback v checkoutID payload hash))"

section \<open>The workers\<close>

text \<open>One round of \<open>RecoverDaraja\<close>: a saved callback is claimed, worked off and marked. The payload decodes,
  since it did when it was saved.\<close>

definition workOff :: "ext \<Rightarrow> env \<Rightarrow> timestamptz \<Rightarrow> darajaSTKCallback \<Rightarrow> 's daraja_db_scheme \<Rightarrow> error option \<times> 's daraja_db_scheme" where
  "workOff x v clock c s = (if cb_code c \<noteq> Some 0 then MarkDarajaSTKPaymentFailed v (cb_checkout c) (cb_desc c) s
     else case successPayment x clock c of Inl e \<Rightarrow> (Some e, s)
       | Inr payment \<Rightarrow> (case ProcessDarajaSTKPayment x v clock payment s of ((_, err), s') \<Rightarrow> (err, s')))"

definition RecoverDaraja :: "ext \<Rightarrow> env \<Rightarrow> env \<Rightarrow> env \<Rightarrow> timestamptz \<Rightarrow> 's daraja_db_scheme \<Rightarrow> 's daraja_db_scheme" where
  "RecoverDaraja x v v1 v2 clock s = (case execTx (q_ClaimDarajaCallback v) s of
       (Inr (Some event), s1) \<Rightarrow> (case workOff x v1 clock (dc_payload event) s1 of (err, s2) \<Rightarrow>
          snd (execTx (q_FinishDarajaCallback v2 (dc_id event) err) s2))
     | (_, s1) \<Rightarrow> s1)"

text \<open>One round of \<open>QueryPendingDaraja\<close>, with the provider's answer to the query.\<close>

definition saveQueryResult ::
    "env \<Rightarrow> ContributionPaymentRequest \<Rightarrow> string \<Rightarrow> string \<Rightarrow> string \<Rightarrow> 's daraja_db_scheme \<Rightarrow> 's daraja_db_scheme" where
  "saveQueryResult v request checkout code description s =
     (let recovery = (if code = ''0'' then ''received_needs_receipt''
            else if rq_attempts request \<ge> 8 then ''needs_review'' else ''awaiting_confirmation'');
          refused = (code \<in> set [''1032'', ''1037'', ''1'', ''2001'']);
          s1 = (if refused then snd (MarkDarajaSTKPaymentFailed v checkout description s) else s)
      in snd (execTx (q_RecordDarajaQueryResult v (rq_id request) (Some (NoteText (code @ '' '' @ description)))
           (if refused then ''provider_failed'' else recovery)) s1))"

definition QueryPendingDaraja ::
    "env \<Rightarrow> env \<Rightarrow> (string \<Rightarrow> error + string \<times> string) \<Rightarrow> 's daraja_db_scheme \<Rightarrow> 's daraja_db_scheme" where
  "QueryPendingDaraja v v1 provider s = (case execTx (q_ClaimDarajaQuery v) s of
       (Inr (Some request), s1) \<Rightarrow>
         let checkout = (case rq_checkout request of None \<Rightarrow> [] | Some c \<Rightarrow> c)
         in (case provider checkout of
              Inr (code, description) \<Rightarrow> saveQueryResult v1 request checkout code description s1
            | Inl e \<Rightarrow> if errors_is e (ContributionE ErrDarajaQueryUnavailable)
                then snd (execTx (q_DeferUnavailableDarajaQuery v1 (rq_id request) (rq_attempts request)) s1)
                else saveQueryResult v1 request checkout [] ''Provider could not verify this checkout'' s1)
     | (_, s1) \<Rightarrow> s1)"

section \<open>Resolution by staff\<close>

record RecoverDarajaPaymentRequest =
  rp_request :: string
  rp_action :: string
  rp_reason :: string
  rp_checkout :: string
  rp_reference :: string
  rp_evidence :: string
  rp_amount :: numeric
  rp_received :: "timestamptz option"

definition format_stamp :: "timestamptz \<Rightarrow> string" where
  "format_stamp t = (let e = t + 10800000000; s = (e div 1000000) mod 86400; two = (\<lambda>n. pad_left 2 (show_nat (nat n))) in
     filter (\<lambda>c. c \<noteq> CHR ''-'') (format_date (e div 86400000000)) @ two (s div 3600) @ two (s div 60 mod 60) @ two (s mod 60))"

definition staff_callback :: "string \<Rightarrow> numeric \<Rightarrow> string \<Rightarrow> timestamptz \<Rightarrow> darajaSTKCallback" where
  "staff_callback checkout amount reference received = \<lparr>cb_checkout = checkout, cb_code = Some 0,
     cb_desc = ''Staff verified against business records'',
     cb_items = [(''Amount'', JsonString (show_int (numericToScale amount 0))), (''MpesaReceiptNumber'', JsonString reference),
       (''TransactionDate'', JsonString (format_stamp received))], cb_rest = []\<rparr>"

definition restoreCheckout ::
    "env \<Rightarrow> RecoverDarajaPaymentRequest \<Rightarrow> ContributionPaymentRequest \<Rightarrow> ('s daraja_db_scheme, error, unit) tx" where
  "restoreCheckout v req request =
     (let checkout = TrimSpace (rp_checkout req) in
      if checkout = [] then throw_ce ErrInvalidPayment
      else if rq_checkout request \<noteq> None \<and> rq_checkout request \<noteq> Some checkout then throw_ce ErrInconsistentReceipt
      else if rq_status request \<noteq> PaymentPending \<or> rq_receipt request \<noteq> None then throw (StatusE FailedPrecondition)
      else if rq_checkout request \<noteq> None then ret ()
      else tx_bind (q_RestoreDarajaCheckout v (rq_id request) checkout) (\<lambda>_. q_RequeueDarajaCallbacks v checkout))"

definition reconcileCheckout ::
    "env \<Rightarrow> RecoverDarajaPaymentRequest \<Rightarrow> ContributionPaymentRequest \<Rightarrow> ('s daraja_db_scheme, error, string) tx" where
  "reconcileCheckout v req request = (case rq_checkout request of Some c \<Rightarrow> ret c
     | None \<Rightarrow> let c = TrimSpace (rp_checkout req) in if c = [] then throw_ce ErrPaymentRequestNotFound
         else tx_bind (or_error NoRowsE (q_UpdateContributionPaymentRequestCheckoutID v (rq_id request) c)) (\<lambda>_. ret c))"

definition recordReconciliation ::
    "env \<Rightarrow> (darajaSTKCallback \<Rightarrow> string) \<Rightarrow> uuid \<Rightarrow> RecoverDarajaPaymentRequest \<Rightarrow> ContributionPaymentRequest \<Rightarrow> string \<Rightarrow> timestamptz
     \<Rightarrow> string \<Rightarrow> ('s daraja_db_scheme, error, unit) tx" where
  "recordReconciliation v hash actor req request reference received checkout =
     tx_bind (case rq_receipt request of None \<Rightarrow> ret ()
       | Some i \<Rightarrow> tx_bind (or_error NoRowsE (q_GetContributionReceiptByID i)) (\<lambda>receipt.
           if (case cr_external receipt of None \<Rightarrow> [] | Some t \<Rightarrow> t) \<noteq> reference then throw_ce ErrInconsistentReceipt else ret ())) (\<lambda>_.
     tx_bind (q_InsertPaymentReconciliation v 1 (rq_id request) reference (rp_amount req) received
       (TrimSpace (rp_evidence req)) (TrimSpace (rp_reason req)) actor) (\<lambda>inserted.
     tx_bind (case inserted of Some _ \<Rightarrow> ret ()
       | None \<Rightarrow> tx_bind (or_error (ContributionE ErrInconsistentReceipt) (q_GetPaymentReconciliation reference)) (\<lambda>existing.
           if pc_request existing \<noteq> rq_id request \<or> numericToScale (db_num (pc_amount existing)) (-4) \<noteq> numericToScale (rp_amount req) (-4)
           then throw_ce ErrInconsistentReceipt else ret ())) (\<lambda>_.
     let callback = staff_callback checkout (rp_amount req) reference received in
     tx_bind (q_InsertDarajaCallback v checkout callback (hash callback)) (\<lambda>_. q_RequeueDarajaCallbacks v checkout))))"

definition reconcile ::
    "env \<Rightarrow> timestamptz \<Rightarrow> (darajaSTKCallback \<Rightarrow> string) \<Rightarrow> uuid \<Rightarrow> RecoverDarajaPaymentRequest \<Rightarrow> ContributionPaymentRequest
     \<Rightarrow> ('s daraja_db_scheme, error, unit) tx" where
  "reconcile v clock hash actor req request =
     (let reference = ToUpper (TrimSpace (rp_reference req)) in
      case rp_received req of None \<Rightarrow> throw_ce ErrInvalidPayment
      | Some received \<Rightarrow>
        if reference = [] \<or> TrimSpace (rp_evidence req) = [] \<or> TrimSpace (rp_reason req) = [] \<or> received > clock
           \<or> numericToScale (db_num (rq_expected request)) (-4) \<noteq> numericToScale (rp_amount req) (-4) then throw_ce ErrInvalidPayment
        else tx_bind (reconcileCheckout v req request) (recordReconciliation v hash actor req request reference received))"

definition recoverAction ::
    "env \<Rightarrow> timestamptz \<Rightarrow> (darajaSTKCallback \<Rightarrow> string) \<Rightarrow> Principal \<Rightarrow> uuid \<Rightarrow> RecoverDarajaPaymentRequest \<Rightarrow> ContributionPaymentRequest
     \<Rightarrow> ('s daraja_db_scheme, error, unit) tx" where
  "recoverAction v clock hash actor i req request =
     (if rp_action req = ''restore_checkout'' then restoreCheckout v req request
      else if rp_action req = ''query'' then
        tx_bind (q_RequeueDarajaCallbacks v (case rq_checkout request of None \<Rightarrow> [] | Some c \<Rightarrow> c)) (\<lambda>_. q_ScheduleDarajaQuery v i (pr_branch actor))
      else if rp_action req = ''retry_posting'' then
        (case rq_receipt request of None \<Rightarrow> throw_ce ErrReceiptNotFound
         | Some receipt \<Rightarrow> if TrimSpace (rp_reason req) = [] then throw_ce ErrInvalidPayment else q_RetryDarajaReceipt v receipt (pr_branch actor))
      else if rp_action req = ''reconcile'' then reconcile v clock hash (pr_id actor) req request
      else throw_ce ErrInvalidPayment)"

definition recoverPaymentInTx ::
    "env \<Rightarrow> timestamptz \<Rightarrow> (darajaSTKCallback \<Rightarrow> string) \<Rightarrow> Principal \<Rightarrow> uuid \<Rightarrow> RecoverDarajaPaymentRequest \<Rightarrow> ('s daraja_db_scheme, error, unit) tx" where
  "recoverPaymentInTx v clock hash actor i req = tx_bind (or_error NoRowsE (q_LockDarajaRequest i (pr_branch actor))) (\<lambda>request.
     tx_bind (if rp_action req = ''query'' then ret ()
       else let reason = TrimSpace (rp_reason req) in if reason = [] then throw_ce ErrInvalidPayment
         else q_InsertPaymentRecoveryAction v 2 i (rp_action req)
           (if rp_action req = ''restore_checkout'' then reason @ '' (checkout: '' @ TrimSpace (rp_checkout req) @ '')'' else reason) (pr_id actor)) (\<lambda>_.
     recoverAction v clock hash actor i req request))"

text \<open>The answer of a success is the state of the payment, which is only read.\<close>

definition RecoverDarajaPayment ::
    "ext \<Rightarrow> env \<Rightarrow> timestamptz \<Rightarrow> (darajaSTKCallback \<Rightarrow> string) \<Rightarrow> Principal option \<Rightarrow> RecoverDarajaPaymentRequest
     \<Rightarrow> 's daraja_db_scheme \<Rightarrow> error option \<times> 's daraja_db_scheme" where
  "RecoverDarajaPayment x v clock hash caller req s = (case caller of None \<Rightarrow> (Some (StatusE Unauthenticated), s)
     | Some actor \<Rightarrow> (case ext_uuid x (rp_request req) of None \<Rightarrow> (Some (StatusE InvalidArgument), s)
     | Some i \<Rightarrow>
       if rp_action req \<noteq> ''query'' \<and> \<not> snd (CashPermissions (pr_role actor)) then (Some (StatusE PermissionDenied), s)
       else case execTx (recoverPaymentInTx v clock hash actor i req) s of
         (Inl e, s') \<Rightarrow> (Some (if e = NoRowsE then StatusE NotFound else if e = DbE UniqueViolation then StatusE AlreadyExists else e), s') | (Inr _, s') \<Rightarrow> (None, s')))"

end
