(* ===== verification/Daraja_Inv.thy ===== *)
theory Daraja_Inv
  imports Daraja Whole Plans
begin

text \<open>
  The invariants of M-Pesa payments. Requests keep their identity, two never share a checkout, and a
  completed request has its receipt, of the amount that was asked for. The steps of the payments keep
  the invariants of the rest of the program, and those of the rest of the program keep these.
\<close>

section \<open>The rest of the program and the tables of the payments\<close>

definition daraja_tables :: "'s daraja_db_scheme \<Rightarrow> ContributionPaymentRequest list \<times> DarajaCallback list
    \<times> PaymentReconciliation list \<times> PaymentRecoveryAction list" where
  "daraja_tables s = (payment_requests s, daraja_callbacks s, payment_reconciliations s, payment_recovery_actions s)"

interpretation payments: outside "daraja_tables :: 's daraja_db_scheme \<Rightarrow> _"
  by unfold_locales (simp_all add: daraja_tables_def)

interpretation payments: contribution_frame "\<lambda>s :: 's daraja_db_scheme. daraja_tables s = c" for c
  by unfold_locales ((rule payments.view.keeps_posting payments.view.keeps_repay) | simp add: daraja_tables_def)+

lemma full_step_payments:
  fixes s s' :: "'s daraja_db_scheme"
  assumes "full_step x s s'"
  shows "daraja_tables s' = daraja_tables s"
  using assms
proof cases
  case ledger
  then show ?thesis by (rule payments.sys_step_view)
next
  case (process v clock i res)
  from payments.process_keeps [OF refl process] show ?thesis .
qed (erule payments.view_frame [rotated], rule payments.keeps_receipts payments.keeps_cash)+

section \<open>Receipts are never lost\<close>

lemma receipt_core_references:
  assumes "receipt_core r = receipt_core q"
  shows "cr_external r = cr_external q" "cr_checkout r = cr_checkout q"
proof -
  have f: "f (receipt_core r) = f (receipt_core q)" for f :: "ContributionReceipt \<Rightarrow> 'b" using assms by simp
  show "cr_external r = cr_external q" using f [of cr_external] by (simp add: receipt_core_def)
  show "cr_checkout r = cr_checkout q" using f [of cr_checkout] by (simp add: receipt_core_def)
qed

definition receipts_stay :: "'s contribution_db_scheme \<Rightarrow> 's contribution_db_scheme \<Rightarrow> bool" where
  "receipts_stay s s' \<longleftrightarrow> (\<forall>c\<in>set (contribution_receipts s). \<exists>c'\<in>set (contribution_receipts s'). receipt_core c' = receipt_core c)"

lemma receipts_stayI: "set (contribution_receipts s) \<subseteq> set (contribution_receipts s') \<Longrightarrow> receipts_stay s s'"
  by (auto simp: receipts_stay_def)

lemma receipts_stay_entry: "receipt_entry x v r rows s s' \<Longrightarrow> receipts_stay s s'"
proof -
  assume "receipt_entry x v r rows s s'"
  then obtain s1 where s1: "s1 = s \<or> (\<exists>m d. q_AssessMonthlyFees x v m (month_start d) s = Inr ((), s1))"
    and new: "s' = s1 \<or> new_receipt r rows s1 s'" by (auto simp: receipt_entry_def)
  have "contribution_receipts s1 = contribution_receipts s" using s1 by (auto dest: assess_rows)
  with new show ?thesis by (intro receipts_stayI) (auto simp: new_receipt_def)
qed

lemma receipts_stay_process:
  fixes s s' :: "'s contribution_db_scheme"
  assumes rok: "receipts_ok s" and run: "ProcessReceipt x v clock i s = ((res, err), s')"
  shows "receipts_stay s s'"
proof -
  have d: "distinct (map cr_id (contribution_receipts s))" "distinct (map al_id (contribution_allocations s))"
    using rok by (simp_all add: receipts_ok_def)
  have same: "receipts_stay s s'" if "same_receipts i st (contribution_receipts s) (contribution_receipts s')" for st
    using same_receipts_row [OF that] unfolding receipts_stay_def by metis
  from run d show ?thesis
  proof (cases rule: process_cases)
    case unchanged
    then show ?thesis by (simp add: receipts_stayI)
  next
    case (failed r e)
    have "receipt_core (failed_receipt v e q) = receipt_core q" for q by (simp add: failed_receipt_def)
    then have "receipt_core (if cr_id q = i then failed_receipt v e q else q) = receipt_core q" for q by simp
    moreover have "(if cr_id q = i then failed_receipt v e q else q) \<in> set (contribution_receipts s')" if "q \<in> set (contribution_receipts s)" for q
      using that by (simp add: failed(5))
    ultimately show ?thesis unfolding receipts_stay_def by metis
  next
    case (completed r r0 r' rows rs0 s1)
    from same [OF completed(9)] show ?thesis .
  qed
qed

lemma full_step_receipts:
  fixes s s' :: "'s contribution_db_scheme"
  assumes step: "full_step x s s'" and rok: "receipts_ok s"
  shows "receipts_stay s s'"
proof -
  have cash: "receipts_stay s s'" if "keeps (\<lambda>t. dues_tables t = dues_tables s) m" "m s = Inr (y, s')" for m and y :: 'b
    using keepsD [OF that(1) refl that(2)] by (auto simp: dues_tables_def intro: receipts_stayI)
  from step show ?thesis
  proof cases
    case ledger
    from sys_step_contrib [OF this] show ?thesis by (auto simp: contrib_def intro: receipts_stayI)
  next
    case (receipt v clock p es c)
    obtain r rows where "c = (r, rows)" by (cases c)
    with CreateReceipt_entry [of x v clock p es s r rows s'] receipt show ?thesis by (auto simp: precise_def intro: receipts_stay_entry)
  next
    case (cash_receipt v clock fresh p es c)
    obtain r rows where "c = (r, rows)" by (cases c)
    with CreateCashReceipt_entry [of x v clock fresh p es s r rows s'] cash_receipt show ?thesis by (auto simp: precise_def intro: receipts_stay_entry)
  next
    case (process v clock i res)
    then show ?thesis by (cases res) (auto intro: receipts_stay_process [OF rok])
  next
    case (charge v cp ch)
    from CreateCharge_Inr [OF this] show ?thesis by (auto intro: receipts_stayI)
  qed (erule cash [rotated], rule cash_dues_tables)+
qed

section \<open>Predicates that do not depend on the tables of the payments\<close>

locale payment_free =
  fixes P :: "'s daraja_db_scheme \<Rightarrow> bool"
  assumes free: "P (s\<lparr>payment_requests := rs\<rparr>) = P s" "P (s\<lparr>daraja_callbacks := cs\<rparr>) = P s"
    "P (s\<lparr>payment_reconciliations := ps\<rparr>) = P s" "P (s\<lparr>payment_recovery_actions := as\<rparr>) = P s"
begin

lemma keeps_update [keeps_intros]: "keeps P (update_request Q f)"
  by (auto simp: keeps_def update_request_def free split: option.splits)

lemma keeps_checkout [keeps_intros]: "keeps P (free_checkout i c)"
  by (auto simp: keeps_def free_checkout_def split: if_splits)

lemma keeps_payment_queries [keeps_intros]:
  "keeps P (q_InsertContributionPaymentRequest v p)" "keeps P (q_UpdateContributionPaymentRequestCheckoutID v i c)"
  "keeps P (q_RestoreDarajaCheckout v i c)" "keeps P (q_ClaimDarajaQuery v)" "keeps P (q_InsertDarajaCallback v c pl h)"
  "keeps P (q_ClaimDarajaCallback v)" "keeps P (q_FinishDarajaCallback v i e)" "keeps P (q_RequeueDarajaCallbacks v c)"
  "keeps P (q_InsertPaymentReconciliation v n i t amt tm ev rsn who)" "keeps P (q_InsertPaymentRecoveryAction v n i act rsn who)"
  by (auto simp: keeps_def query_defs update_callback_def update_request_def free_checkout_def tx_simps Let_def free split: if_splits option.splits prod.splits)

lemma keeps_payment_updates [keeps_intros]:
  "keeps P (q_UpdateContributionPaymentRequestCompleted v i r)" "keeps P (q_UpdateContributionPaymentRequestFailed v i n)"
  "keeps P (q_ClaimUnsentDarajaRequest v i)" "keeps P (q_RecordDarajaQueryResult v i n st)"
  "keeps P (q_ScheduleDarajaQuery v i b)" "keeps P (q_DeferUnavailableDarajaQuery v i k)"
  unfolding query_defs by (intro keeps_intros)+

end

lemma whole_inv_same:
  assumes "contrib t = contrib s" and rows: "share_accounts t = share_accounts s" "share_transactions t = share_transactions s"
      "share_pledges t = share_pledges s" "loans t = loans s" "loan_transactions t = loan_transactions s"
      "loan_monthly_interest t = loan_monthly_interest s" "credit_balances t = credit_balances s" "credit_operations t = credit_operations s"
  shows "whole_inv t = whole_inv s"
proof -
  have "owed_inv t = owed_inv s" by (rule owed_core) (simp add: core_def rows)
  moreover have "secure (loan_member t) t = secure (loan_member s) s"
    by (simp add: secure_def share_inv_def backed_def pledges_ok_def pledged_of_def balance_of_def latest_balance_def rows_of_def
        accounts_ok_def applicants_ok_def applicant_pledge_ok_def loan_member_def rows)
  ultimately show ?thesis using contrib_invariants [OF assms(1)] credit_frame [OF rows(7,8)] by (simp add: whole_inv_def sys_inv_def)
qed

interpretation whole: payment_free "whole_inv :: 's daraja_db_scheme \<Rightarrow> bool"
  by unfold_locales (rule whole_inv_same; simp add: contrib_def)+

interpretation receipts: payment_free "\<lambda>s :: 's daraja_db_scheme. receipts_stay s0 s" for s0
  by unfold_locales (simp_all add: receipts_stay_def)

section \<open>Receipts of payments keep the invariants of the program\<close>

lemma sys_inv_contribution:
  fixes m :: "('s contribution_db_scheme, error, 'a) tx"
  assumes "\<And>P. contribution_frame P \<Longrightarrow> keeps P m" and "sys_inv s" and "m s = Inr (y, s')"
  shows "sys_inv s'"
proof (rule sys_inv_keeps [where m = m, OF _ _ _ _ assms(2,3)])
  show "keeps owed_inv m" by (rule assms(1)) (rule owed.contribution_frame_axioms)
  show "keeps (secure L) m" for L by (rule assms(1)) (rule secured.contribution_frame_axioms)
  show "keeps credit_ok m" by (rule assms(1)) (rule credits.contribution_frame_axioms)
  show "keeps (\<lambda>s. borrowers s = c) m" for c by (rule assms(1)) (rule borrowers.contribution_frame_axioms)
qed

lemma entry_whole:
  fixes s s' :: "'s contribution_db_scheme"
  assumes inv: "whole_inv s" and sys: "sys_inv s'" and entry: "receipt_entry x v r rows s s'"
    and cash: "contribution_receipts s' = contribution_receipts s \<or> cr_channel r \<noteq> CashChannel"
  shows "whole_inv s'"
proof -
  note parts = inv [unfolded whole_inv_def]
  have "cash_ok s'" by (rule cash_ok_entry [OF _ entry]) (use parts cash in auto)
  with parts sys receipts_ok_entry [OF _ entry] dues_ok_entry [OF _ _ entry] show ?thesis by (simp add: whole_inv_def)
qed

lemma monthlyFees_whole:
  fixes s s' :: "'s contribution_db_scheme"
  assumes inv: "whole_inv s" and run: "monthlyFees x v clock m d excl s = Inr (fees, s')"
  shows "whole_inv s' \<and> receipts_stay s s'"
proof -
  have entry: "receipt_entry x v r rows s s'" for r rows using monthlyFees_Inr [OF run] by (auto simp: receipt_entry_def)
  have "sys_inv s'"
    by (rule sys_inv_contribution [where m = "monthlyFees x v clock m d excl", OF _ _ run]) (use inv in \<open>simp_all add: contribution_frame.keeps_fees whole_inv_def\<close>)
  moreover have "contribution_receipts s' = contribution_receipts s"
    using monthlyFees_Inr [OF run] by (auto dest: assess_rows)
  ultimately show ?thesis using entry_whole [OF inv _ entry] receipts_stay_entry [OF entry] by simp
qed

lemma createReceipt_whole:
  fixes s s' :: "'s contribution_db_scheme"
  assumes inv: "whole_inv s" and run: "createReceipt v p es s = Inr ((r, rows), s')" and val: "validateReceipt p es = None"
    and ex: "\<forall>e\<in>set es. \<not> too_precise (ai_amount e)" "\<not> too_precise (ir_amount p)" and ch: "ir_channel p \<noteq> CashChannel"
  shows "whole_inv s' \<and> receipts_stay s s'"
proof -
  note e = createReceipt_entry [OF run val ex]
  have entry: "receipt_entry x v r rows s s'" for x using e by (auto simp: receipt_entry_def)
  have "sys_inv s'"
    by (rule sys_inv_contribution [where m = "createReceipt v p es", OF _ _ run]) (use inv in \<open>simp_all add: contribution_frame.keeps_createReceipt whole_inv_def\<close>)
  then show ?thesis using entry_whole [OF inv _ entry] e ch receipts_stay_entry [OF entry] by auto
qed

text \<open>A refused receipt goes back to the worker.\<close>

lemma receipt_again:
  fixes s s' :: "'s contribution_db_scheme"
  assumes inv: "whole_inv s" and run: "update_receipt Q f s = Inr (y, s')"
    and Q: "\<And>r. Q r \<Longrightarrow> cr_status r \<noteq> ReceiptCompleted" and f: "\<And>r. receipt_core (f r) = receipt_core r" "\<And>r. cr_status (f r) = ReceiptPending"
  shows "whole_inv s' \<and> receipts_stay s s'"
proof (cases y)
  case None
  with run have "s' = s" by (auto simp: update_receipt_def split: option.splits)
  with inv show ?thesis by (simp add: receipts_stayI)
next
  case (Some q)
  with run obtain r where r: "find Q (contribution_receipts s) = Some r"
    and s': "s' = s\<lparr>contribution_receipts := map (\<lambda>q. if cr_id q = cr_id r then f q else q) (contribution_receipts s)\<rparr>"
    by (auto simp: update_receipt_def split: option.splits)
  note r = find_Some_set [OF r]
  note parts = inv [unfolded whole_inv_def]
  have only: "p = r" if "p \<in> set (contribution_receipts s)" "cr_id p = cr_id r" for p
    using that r parts by (auto simp: receipts_ok_def distinct_map dest: inj_onD)
  have rs: "same_receipts (cr_id r) ReceiptPending (contribution_receipts s) (contribution_receipts s')"
    unfolding s' same_receipts_def by (auto simp: list_all2_map2 f intro!: list.rel_refl_strong)
  have "receipts_ok s'" unfolding s'
    by (rule receipts_ok_failed [OF _ rs [unfolded s', simplified]]) (use parts only Q r in auto)
  moreover have "dues_ok s'" unfolding s' by (rule dues_ok_same [OF rs [unfolded s', simplified]]) (use parts in simp)
  moreover have "cash_ok s'"
    by (rule cash_ok_frame) (use parts session_cash_same [OF rs] in \<open>simp_all add: s'\<close>)
  moreover have "sys_inv s'"
    by (rule sys_inv_contribution [where m = "update_receipt Q f", OF _ _ run]) (use parts in \<open>simp_all add: contribution_frame.keeps_writes\<close>)
  moreover have "receipts_stay s s'" using same_receipts_row [OF rs] unfolding receipts_stay_def by metis
  ultimately show ?thesis by (simp add: whole_inv_def)
qed

end
