(* ===== verification/Payments.thy ===== *)
theory Payments
  imports Daraja_Inv
begin

text \<open>
  Payment requests over time. \<open>later\<close> relates a request to what becomes of it: its terms stay, a checkout
  that is known stays, a completed request stays completed with its receipt, and a prompt that may have
  been sent is never forgotten. \<open>requests_ok\<close> holds of all requests at any time.
\<close>

section \<open>Requests\<close>

text \<open>The provider may have been asked to prompt the member.\<close>

definition asked :: "ContributionPaymentRequest \<Rightarrow> bool" where
  "asked r \<longleftrightarrow> rq_recovery r \<noteq> ''not_sent'' \<or> rq_checkout r \<noteq> None"

definition request_terms :: "ContributionPaymentRequest \<Rightarrow> uuid \<times> string \<times> uuid \<times> int \<times> date \<times> int \<times> allocationPlanItem list \<times> string" where
  "request_terms r = (rq_id r, rq_key r, rq_member r, rq_branch r, rq_period r, rq_expected r, rq_plan r, rq_phone r)"

text \<open>\<open>K\<close> are the keys of the requests whose prompts are not answered yet.\<close>

definition later :: "string set \<Rightarrow> ContributionPaymentRequest \<Rightarrow> ContributionPaymentRequest \<Rightarrow> bool" where
  "later K r r' \<longleftrightarrow> request_terms r' = request_terms r \<and> (rq_checkout r \<noteq> None \<longrightarrow> rq_checkout r' = rq_checkout r)
     \<and> (rq_status r = PaymentCompleted \<longrightarrow> rq_status r' = PaymentCompleted \<and> rq_receipt r' = rq_receipt r)
     \<and> (rq_key r \<notin> K \<longrightarrow> asked r \<longrightarrow> asked r')"

lemma later_refl [simp]: "later K r r"
  by (simp add: later_def)

lemma later_trans: "later K r s \<Longrightarrow> later K s t \<Longrightarrow> later K r t"
  by (auto simp: later_def request_terms_def)

definition develops :: "string set \<Rightarrow> 's daraja_db_scheme \<Rightarrow> 's daraja_db_scheme \<Rightarrow> bool" where
  "develops K s s' \<longleftrightarrow> (\<forall>r\<in>set (payment_requests s). \<exists>r'\<in>set (payment_requests s'). later K r r')"

lemma develops_same: "payment_requests s' = payment_requests s \<Longrightarrow> develops K s s'"
  by (auto simp: develops_def intro: later_refl)

lemma develops_trans: "develops K s t \<Longrightarrow> develops K t u \<Longrightarrow> develops K s u"
  unfolding develops_def using later_trans by blast

definition paid_by :: "ContributionPaymentRequest \<Rightarrow> ContributionReceipt \<Rightarrow> bool" where
  "paid_by r c \<longleftrightarrow> rq_receipt r = Some (cr_id c) \<and> \<not> cr_deleted c \<and> cr_amount c = rq_expected r
     \<and> (cr_checkout c = None \<or> cr_checkout c = rq_checkout r)"

definition request_ok :: "ext \<Rightarrow> ContributionReceipt list \<Rightarrow> ContributionPaymentRequest \<Rightarrow> bool" where
  "request_ok x cs r \<longleftrightarrow> (\<exists>as. as \<noteq> [] \<and> rq_plan r = buildAllocationPlan x as)
     \<and> (if rq_status r = PaymentCompleted then rq_checkout r \<noteq> None \<and> (\<exists>c\<in>set cs. paid_by r c) else rq_receipt r = None)"

definition requests_ok :: "ext \<Rightarrow> 's daraja_db_scheme \<Rightarrow> bool" where
  "requests_ok x s \<longleftrightarrow> distinct (map rq_id (payment_requests s)) \<and> distinct (map rq_key (payment_requests s))
     \<and> (\<forall>q\<in>set (payment_requests s). \<forall>r\<in>set (payment_requests s). rq_checkout q \<noteq> None \<longrightarrow> rq_checkout q = rq_checkout r \<longrightarrow> q = r)
     \<and> (\<forall>r\<in>set (payment_requests s). request_ok x (contribution_receipts s) r)"

lemma request_ok_stays:
  assumes "receipts_stay s s'" and "request_ok x (contribution_receipts s) r"
  shows "request_ok x (contribution_receipts s') r"
proof -
  have "\<exists>c'\<in>set (contribution_receipts s'). paid_by r c'" if "c \<in> set (contribution_receipts s)" "paid_by r c" for c
  proof -
    from that(1) assms(1) obtain c' where c': "c' \<in> set (contribution_receipts s')" "receipt_core c' = receipt_core c"
      by (auto simp: receipts_stay_def)
    with that(2) receipt_core_same(1,7,8) [OF c'(2)] receipt_core_references [OF c'(2)] c'(1) show ?thesis
      by (intro bexI [of _ c']) (auto simp: paid_by_def)
  qed
  with assms(2) show ?thesis by (auto simp: request_ok_def)
qed

lemma requests_ok_stays:
  assumes "requests_ok x s" and "receipts_stay s s'" and "payment_requests s' = payment_requests s"
  shows "requests_ok x s'"
  using assms(1) request_ok_stays [OF assms(2)] unfolding requests_ok_def assms(3) by blast

text \<open>Updating one request.\<close>

lemma update_request_ok:
  assumes ok: "requests_ok x s" and run: "update_request P f s = Inr (y, s')"
    and row: "\<And>r. r \<in> set (payment_requests s) \<Longrightarrow> P r \<Longrightarrow> later K r (f r) \<and> request_ok x (contribution_receipts s) (f r)"
    and new: "\<And>r q. r \<in> set (payment_requests s) \<Longrightarrow> P r \<Longrightarrow> q \<in> set (payment_requests s) \<Longrightarrow> q \<noteq> r \<Longrightarrow> rq_checkout (f r) \<noteq> None
      \<Longrightarrow> rq_checkout q \<noteq> rq_checkout (f r)"
  shows "requests_ok x s' \<and> develops K s s' \<and> contribution_receipts s' = contribution_receipts s"
proof (cases "find P (payment_requests s)")
  case None
  with run have "s' = s" by (simp add: update_request_def)
  with ok show ?thesis by (simp add: develops_same)
next
  case (Some r)
  note r = find_Some_set [OF Some, THEN conjunct1] find_Some_set [OF Some, THEN conjunct2]
  let ?g = "\<lambda>q. if rq_id q = rq_id r then f q else q"
  have s': "s' = s\<lparr>payment_requests := map ?g (payment_requests s)\<rparr>" using run Some by (simp add: update_request_def)
  have only: "q = r" if "q \<in> set (payment_requests s)" "rq_id q = rq_id r" for q
    using that r ok by (auto simp: requests_ok_def distinct_map dest: inj_onD)
  have g: "?g q = (if q = r then f r else q)" if "q \<in> set (payment_requests s)" for q using only [OF that] by auto
  have fr: "later K r (f r)" "request_ok x (contribution_receipts s) (f r)" using row r by simp_all
  have ids: "rq_id (?g q) = rq_id q" "rq_key (?g q) = rq_key q" if "q \<in> set (payment_requests s)" for q
    using g [OF that] fr(1) by (auto simp: later_def request_terms_def)
  then have "map rq_id (payment_requests s') = map rq_id (payment_requests s)" "map rq_key (payment_requests s') = map rq_key (payment_requests s)"
    unfolding s' by simp_all
  moreover have "request_ok x (contribution_receipts s) q" if "q \<in> set (payment_requests s')" for q
    using that g ok fr(2) by (auto simp: s' requests_ok_def split: if_splits)
  moreover have "p = q" if pq: "p \<in> set (payment_requests s')" "q \<in> set (payment_requests s')" "rq_checkout p \<noteq> None" "rq_checkout p = rq_checkout q" for p q
  proof -
    from pq(1,2) obtain p0 q0 where p0: "p0 \<in> set (payment_requests s)" "p = ?g p0" "q0 \<in> set (payment_requests s)" "q = ?g q0"
      by (auto simp: s')
    show ?thesis
    proof (cases "p0 = r"; cases "q0 = r")
      assume "p0 = r" "q0 \<noteq> r"
      with p0 g pq(3,4) new [OF r p0(3)] show ?thesis by auto
    next
      assume "p0 \<noteq> r" "q0 = r"
      with p0 g pq(3,4) new [OF r p0(1)] show ?thesis by auto
    next
      assume "p0 \<noteq> r" "q0 \<noteq> r"
      with p0 g pq(3,4) ok show ?thesis unfolding requests_ok_def by metis
    qed (use p0 in simp)
  qed
  moreover have "develops K s s'"
    unfolding develops_def
  proof
    fix q
    assume q: "q \<in> set (payment_requests s)"
    then have "?g q \<in> set (payment_requests s')" by (auto simp: s')
    moreover have "later K q (?g q)" using g [OF q] fr(1) by auto
    ultimately show "\<exists>r'\<in>set (payment_requests s'). later K q r'" by blast
  qed
  moreover have "contribution_receipts s' = contribution_receipts s" by (simp add: s')
  ultimately show ?thesis using ok unfolding requests_ok_def by metis
qed

section \<open>What operations keep\<close>

text \<open>\<open>s\<close> is a good state that developed from \<open>s0\<close>.\<close>

definition fine :: "ext \<Rightarrow> string set \<Rightarrow> 's daraja_db_scheme \<Rightarrow> 's daraja_db_scheme \<Rightarrow> bool" where
  "fine x K s0 s \<longleftrightarrow> whole_inv s \<and> requests_ok x s \<and> receipts_stay s0 s \<and> develops K s0 s"

lemma receipts_stay_trans: "receipts_stay s t \<Longrightarrow> receipts_stay t u \<Longrightarrow> receipts_stay s u"
  unfolding receipts_stay_def by metis

lemma fine_refl: "whole_inv s \<Longrightarrow> requests_ok x s \<Longrightarrow> fine x K s s"
  by (simp add: fine_def receipts_stayI develops_same)

lemma fine_trans: "fine x K s t \<Longrightarrow> fine x K t u \<Longrightarrow> fine x K s u"
  unfolding fine_def using receipts_stay_trans develops_trans by blast

lemma fine_ok: "fine x K s0 s \<Longrightarrow> fine x K s s"
  by (rule fine_refl) (simp_all add: fine_def)

lemma fine_elsewhere:
  "fine x K s0 (s\<lparr>daraja_callbacks := cs\<rparr>) = fine x K s0 s" "fine x K s0 (s\<lparr>payment_reconciliations := ps\<rparr>) = fine x K s0 s"
  "fine x K s0 (s\<lparr>payment_recovery_actions := as\<rparr>) = fine x K s0 s"
  by (simp_all add: fine_def requests_ok_def receipts_stay_def develops_def whole.free)

lemma fine_program:
  fixes s s' :: "'s daraja_db_scheme"
  assumes "fine x K s0 s" and "whole_inv s' \<and> receipts_stay s s'" and "payment_requests s' = payment_requests s"
  shows "fine x K s0 s'"
  by (rule fine_trans [OF assms(1)]) (use assms requests_ok_stays [of x s s'] in \<open>simp add: fine_def develops_same\<close>)

lemma fine_update:
  fixes s s' :: "'s daraja_db_scheme"
  assumes "fine x K s0 s" and run: "update_request P f s = Inr (y, s')"
    and "\<And>r. r \<in> set (payment_requests s) \<Longrightarrow> P r \<Longrightarrow> later K r (f r) \<and> request_ok x (contribution_receipts s) (f r)"
    and "\<And>r q. r \<in> set (payment_requests s) \<Longrightarrow> P r \<Longrightarrow> q \<in> set (payment_requests s) \<Longrightarrow> q \<noteq> r \<Longrightarrow> rq_checkout (f r) \<noteq> None
      \<Longrightarrow> rq_checkout q \<noteq> rq_checkout (f r)"
  shows "fine x K s0 s'"
proof (rule fine_trans [OF assms(1)])
  have inv: "whole_inv s" "requests_ok x s" using assms(1) by (simp_all add: fine_def)
  have "whole_inv s'" by (rule keepsD [OF whole.keeps_update inv(1) run])
  with update_request_ok [OF inv(2) run assms(3,4)] show "fine x K s s'" by (simp add: fine_def receipts_stayI)
qed

text \<open>Updates that leave the checkout and the outcome alone.\<close>

definition quiet :: "string set \<Rightarrow> ContributionPaymentRequest \<Rightarrow> ContributionPaymentRequest \<Rightarrow> bool" where
  "quiet K r r' \<longleftrightarrow> request_terms r' = request_terms r \<and> rq_checkout r' = rq_checkout r \<and> rq_status r' = rq_status r
     \<and> rq_receipt r' = rq_receipt r \<and> (asked r' \<or> \<not> asked r \<or> rq_key r \<in> K)"

lemma quiet_ok: "quiet K r r' \<Longrightarrow> request_ok x cs r' = request_ok x cs r"
  by (simp add: quiet_def request_ok_def paid_by_def request_terms_def)

lemma quiet_update: "(\<And>r. P r \<Longrightarrow> quiet K r (f r)) \<Longrightarrow> keeps (fine x K s0) (update_request P f)"
proof (rule keepsI)
  fix s y s'
  assume q: "\<And>r. P r \<Longrightarrow> quiet K r (f r)" and s: "fine x K s0 s" and run: "update_request P f s = Inr (y, s')"
  show "fine x K s0 s'"
  proof (rule fine_update [OF s run])
    fix r
    assume r: "r \<in> set (payment_requests s)" "P r"
    with s have "request_ok x (contribution_receipts s) r" by (simp add: fine_def requests_ok_def)
    with quiet_ok [OF q [OF r(2)]] q [OF r(2)] show "later K r (f r) \<and> request_ok x (contribution_receipts s) (f r)"
      by (auto simp: later_def quiet_def)
    fix p
    assume "p \<in> set (payment_requests s)" "p \<noteq> r" "rq_checkout (f r) \<noteq> None"
    with q [OF r(2)] r s show "rq_checkout p \<noteq> rq_checkout (f r)" unfolding fine_def requests_ok_def quiet_def by metis
  qed
qed

lemma quiet_queries [keeps_intros]:
  "keeps (fine x K s0) (q_ClaimUnsentDarajaRequest v i)" "keeps (fine x K s0) (q_ScheduleDarajaQuery v i b)"
  "keeps (fine x K s0) (q_DeferUnavailableDarajaQuery v i k)"
  unfolding query_defs
  by (intro keeps_intros quiet_update; auto simp: quiet_def request_terms_def asked_def)+

lemma quiet_record: "st \<noteq> ''not_sent'' \<Longrightarrow> keeps (fine x K s0) (q_RecordDarajaQueryResult v i n st)"
  unfolding query_defs by (intro keeps_intros quiet_update) (simp add: quiet_def request_terms_def asked_def)

lemma quiet_claim [keeps_intros]: "keeps (fine x K s0) (q_ClaimDarajaQuery v)"
proof (rule keepsI)
  fix s y s'
  assume s: "fine x K s0 s" and run: "q_ClaimDarajaQuery v s = Inr (y, s')"
  have "keeps (fine x K s0) (update_request (\<lambda>q. rq_id q = i) (\<lambda>q. q\<lparr>rq_attempts := a q, rq_next := t q\<rparr>))" for i a t
    by (rule quiet_update) (auto simp: quiet_def request_terms_def asked_def)
  from keepsD [OF this s] run s show "fine x K s0 s'" by (auto simp: query_defs split: option.splits)
qed

lemma callback_queries [keeps_intros]:
  "keeps (fine x K s0) (q_InsertDarajaCallback v c pl h)" "keeps (fine x K s0) (q_ClaimDarajaCallback v)"
  "keeps (fine x K s0) (q_FinishDarajaCallback v i e)" "keeps (fine x K s0) (q_RequeueDarajaCallbacks v c)"
  "keeps (fine x K s0) (q_InsertPaymentReconciliation v n i t amt tm ev rsn who)"
  "keeps (fine x K s0) (q_InsertPaymentRecoveryAction v n i act rsn who)"
  by (auto simp: keeps_def query_defs update_callback_def tx_simps Let_def fine_elsewhere split: if_splits option.splits prod.splits)

lemma checkout_at:
  assumes s: "fine x K s0 s" and run: "q_UpdateContributionPaymentRequestCheckoutID v i c s = Inr (y, s')"
    and row: "\<And>q. q \<in> set (payment_requests s) \<Longrightarrow> rq_id q = i \<Longrightarrow> rq_checkout q = None \<or> rq_checkout q = Some c"
  shows "fine x K s0 s'"
proof (cases "i \<in> rq_id ` set (payment_requests s)")
  case True
  with run have up: "update_request (\<lambda>r. rq_id r = i) (\<lambda>r. r\<lparr>rq_checkout := Some c, rq_updated := env_now v\<rparr>) s = Inr (y, s')"
    and free: "\<not> (\<exists>q\<in>set (payment_requests s). rq_id q \<noteq> i \<and> rq_checkout q = Some c)"
    by (auto simp: query_defs free_checkout_def tx_bind_Inr_iff split: if_splits)
  have ids: "inj_on rq_id (set (payment_requests s))" using s by (simp add: fine_def requests_ok_def distinct_map)
  show ?thesis
  proof (rule fine_update [OF s up])
    fix r
    assume r: "r \<in> set (payment_requests s)" "rq_id r = i"
    with s have "request_ok x (contribution_receipts s) r" by (simp add: fine_def requests_ok_def)
    with row [OF r] show "later K r (r\<lparr>rq_checkout := Some c, rq_updated := env_now v\<rparr>)
        \<and> request_ok x (contribution_receipts s) (r\<lparr>rq_checkout := Some c, rq_updated := env_now v\<rparr>)"
      by (auto simp: later_def request_terms_def asked_def request_ok_def paid_by_def)
    fix q
    assume "q \<in> set (payment_requests s)" "q \<noteq> r"
    with r ids free show "rq_checkout q \<noteq> rq_checkout (r\<lparr>rq_checkout := Some c, rq_updated := env_now v\<rparr>)" by (auto dest: inj_onD)
  qed
qed (use run s in \<open>simp add: query_defs\<close>)

lemma restore_keeps [keeps_intros]: "keeps (fine x K s0) (q_RestoreDarajaCheckout v i c)"
proof (rule keepsI)
  fix s y s'
  assume s: "fine x K s0 s" and run: "q_RestoreDarajaCheckout v i c s = Inr (y, s')"
  let ?f = "\<lambda>r. r\<lparr>rq_checkout := Some c, rq_next := env_now v, rq_attempts := 0, rq_recovery := ''awaiting_confirmation'', rq_updated := env_now v\<rparr>"
  have ids: "inj_on rq_id (set (payment_requests s))" using s by (simp add: fine_def requests_ok_def distinct_map)
  show "fine x K s0 s'"
  proof (cases "\<exists>r\<in>set (payment_requests s). rq_id r = i \<and> rq_status r = PaymentPending \<and> rq_checkout r = None \<and> rq_receipt r = None")
    case True
    then obtain r0 where r0: "r0 \<in> set (payment_requests s)" "rq_id r0 = i" "rq_status r0 = PaymentPending" "rq_checkout r0 = None" by blast
    from True run obtain z where up: "update_request (\<lambda>r. rq_id r = i) ?f s = Inr (z, s')"
      and free: "\<not> (\<exists>q\<in>set (payment_requests s). rq_id q \<noteq> i \<and> rq_checkout q = Some c)"
      by (auto simp: query_defs free_checkout_def tx_bind_Inr_iff tx_run split: if_splits)
    show ?thesis
    proof (rule fine_update [OF s up])
      fix r
      assume r: "r \<in> set (payment_requests s)" "rq_id r = i"
      with r0 ids have "r = r0" by (auto dest: inj_onD)
      moreover have "request_ok x (contribution_receipts s) r" using r s by (simp add: fine_def requests_ok_def)
      ultimately show "later K r (?f r) \<and> request_ok x (contribution_receipts s) (?f r)"
        using r0 by (auto simp: later_def request_terms_def asked_def request_ok_def paid_by_def)
      fix q
      assume "q \<in> set (payment_requests s)" "q \<noteq> r"
      with r ids free show "rq_checkout q \<noteq> rq_checkout (?f r)" by (auto dest: inj_onD)
    qed
  qed (use run s in \<open>auto simp: query_defs split: if_splits\<close>)
qed

lemma failed_at:
  assumes s: "fine x K s0 s" and run: "q_UpdateContributionPaymentRequestFailed v i n s = Inr (y, s')"
    and row: "\<And>q. q \<in> set (payment_requests s) \<Longrightarrow> rq_id q = i \<Longrightarrow> rq_status q \<noteq> PaymentCompleted"
  shows "fine x K s0 s'"
proof (rule fine_update [OF s run [unfolded query_defs]])
  fix r
  assume r: "r \<in> set (payment_requests s)" "rq_id r = i"
  with s have "request_ok x (contribution_receipts s) r" by (simp add: fine_def requests_ok_def)
  with row [OF r] show "later K r (r\<lparr>rq_status := PaymentFailed, rq_recovery := ''provider_failed'', rq_failure := n, rq_updated := env_now v\<rparr>)
      \<and> request_ok x (contribution_receipts s) (r\<lparr>rq_status := PaymentFailed, rq_recovery := ''provider_failed'', rq_failure := n, rq_updated := env_now v\<rparr>)"
    by (auto simp: later_def request_terms_def asked_def request_ok_def)
  fix q
  assume "q \<in> set (payment_requests s)" "q \<noteq> r"
    "rq_checkout (r\<lparr>rq_status := PaymentFailed, rq_recovery := ''provider_failed'', rq_failure := n, rq_updated := env_now v\<rparr>) \<noteq> None"
  with r s show "rq_checkout q \<noteq> rq_checkout (r\<lparr>rq_status := PaymentFailed, rq_recovery := ''provider_failed'', rq_failure := n, rq_updated := env_now v\<rparr>)"
    unfolding fine_def requests_ok_def by auto
qed

lemma completed_at:
  assumes s: "fine x K s0 s" and run: "q_UpdateContributionPaymentRequestCompleted v i n s = Inr (y, s')"
    and row: "\<And>q. q \<in> set (payment_requests s) \<Longrightarrow> rq_id q = i \<Longrightarrow> rq_status q \<noteq> PaymentCompleted \<and> rq_checkout q \<noteq> None
      \<and> c \<in> set (contribution_receipts s) \<and> paid_by (q\<lparr>rq_receipt := Some n\<rparr>) c"
  shows "fine x K s0 s'"
proof (rule fine_update [OF s run [unfolded query_defs]])
  let ?f = "\<lambda>r. r\<lparr>rq_status := PaymentCompleted, rq_recovery := ''received'', rq_receipt := Some n, rq_failure := None, rq_updated := env_now v\<rparr>"
  fix r
  assume r: "r \<in> set (payment_requests s)" "rq_id r = i"
  with s have "request_ok x (contribution_receipts s) r" by (simp add: fine_def requests_ok_def)
  with row [OF r] show "later K r (?f r) \<and> request_ok x (contribution_receipts s) (?f r)"
    by (auto simp: later_def request_terms_def asked_def request_ok_def paid_by_def)
  fix q
  assume "q \<in> set (payment_requests s)" "q \<noteq> r" "rq_checkout (?f r) \<noteq> None"
  with r s show "rq_checkout q \<noteq> rq_checkout (?f r)" unfolding fine_def requests_ok_def by auto
qed

section \<open>Asking for a payment\<close>

lemma inserted_at:
  assumes s: "fine x K s0 s" and run: "q_InsertContributionPaymentRequest v p s = Inr (y, s')"
    and plan: "np_plan p = buildAllocationPlan x as" "as \<noteq> []"
  shows "fine x K s0 s'"
proof (cases y)
  case None
  with run have "s' = s" by (auto simp: query_defs tx_simps Let_def split: option.splits if_splits prod.splits)
  with s show ?thesis by simp
next
  case (Some r)
  with run have r: "rq_checkout r = None" "rq_status r \<noteq> PaymentCompleted" "rq_receipt r = None" "rq_plan r = np_plan p"
    and s': "s' = s\<lparr>payment_requests := payment_requests s @ [r]\<rparr>"
    and new: "\<forall>q\<in>set (payment_requests s). rq_id q \<noteq> rq_id r \<and> rq_key q \<noteq> rq_key r"
    by (auto simp: query_defs tx_simps Let_def split: option.splits if_splits prod.splits)
  have w: "whole_inv s" "requests_ok x s" using s by (simp_all add: fine_def)
  have "whole_inv s'" by (rule keepsD [OF whole.keeps_payment_queries(1) w(1) run])
  moreover have "requests_ok x s'" using w(2) r new plan by (auto simp: requests_ok_def s' request_ok_def)
  moreover have "develops K s s'" by (auto simp: develops_def s' intro: later_refl)
  ultimately show ?thesis using fine_trans [OF s] by (simp add: fine_def receipts_stayI s')
qed

lemma new_request_fine:
  assumes s: "fine x K s0 s" and run: "newPaymentRequest x v clock p s = Inr (y, s')"
  shows "fine x K s0 s'"
proof -
  from run obtain fees s1 as q where fees: "monthlyFees x v clock (ip_member p) (ip_period p) None s = Inr (fees, s1)"
    and val: "validatePaymentRequestAmount (ip_expected p) as = None"
    and ins: "q_InsertContributionPaymentRequest v \<lparr>np_key = ip_key p, np_member = ip_member p, np_branch = ip_branch p, np_period = ip_period p,
      np_expected = ip_expected p, np_plan = buildAllocationPlan x as, np_requested_by = ip_requested_by p, np_phone = ip_phone p\<rparr> s1 = Inr (Some q, s')"
    by (auto simp: newPaymentRequest_def tx_bind_Inr_iff contribution_errors_Inr or_error_Inr tx_run dest!: reads_same(4,5,6))
  have "daraja_tables s1 = daraja_tables s" by (rule keepsD [OF payments.keeps_fees refl fees])
  then have "fine x K s0 s1"
    using fine_program [OF s monthlyFees_whole [OF _ fees]] s by (simp add: daraja_tables_def fine_def)
  moreover have "as \<noteq> []" using validateReceipt_None [OF val [unfolded validatePaymentRequestAmount_def]] by simp
  ultimately show ?thesis using inserted_at [OF _ ins] by simp
qed

lemma create_request_fine [keeps_intros]: "keeps (fine x K s0) (createContributionPaymentRequest x v clock p)"
proof -
  have "keeps (fine x K s0) (newPaymentRequest x v clock p)" by (auto intro: keepsI new_request_fine)
  then show ?thesis
    unfolding createContributionPaymentRequest_def repeatPaymentRequest_def q_GetContributionPaymentRequestByIdempotencyKey_def by (intro keeps_intros)
qed

text \<open>What the answer to a prompt may be: a checkout that is not known to be another, and no certain refusal
  of a payment that was completed.\<close>

definition answer_fits :: "ContributionPaymentRequest \<Rightarrow> error + string \<Rightarrow> 's daraja_db_scheme \<Rightarrow> bool" where
  "answer_fits r answer s \<longleftrightarrow> list_all (\<lambda>q. rq_id q \<noteq> rq_id r \<or> (case answer of
       Inr c \<Rightarrow> rq_checkout q = None \<or> rq_checkout q = Some c
     | Inl e \<Rightarrow> rq_status q \<noteq> PaymentCompleted \<or> \<not> errors_is e (ContributionE ErrDarajaRejected))) (payment_requests s)"

definition unsent :: "error + string \<Rightarrow> bool" where
  "unsent answer \<longleftrightarrow> (case answer of Inl e \<Rightarrow> errors_is e (ContributionE ErrDarajaNotSent) | Inr _ \<Rightarrow> False)"

lemma or_error_keeps_at:
  "(case execTx (or_error e m) s of (r, t) \<Rightarrow> t = s \<or> (\<exists>y. m s = Inr (y, t)))"
  by (auto simp: execTx_def or_error_def tx_bind_def tx_simps split: sum.splits option.splits)

lemma save_answer_fine:
  assumes s: "fine x K s0 s" and fits: "answer_fits r answer s" and run: "saveAnswer v r answer s = (res, s')"
    and K: "unsent answer \<Longrightarrow> \<exists>q\<in>set (payment_requests s). rq_id q = rq_id r \<and> rq_key q \<in> K"
  shows "fine x K s0 s'"
proof (cases answer)
  case (Inr c)
  with run or_error_keeps_at [where e = NoRowsE and m = "q_UpdateContributionPaymentRequestCheckoutID v (rq_id r) c" and s = s]
  have "s' = s \<or> (\<exists>y. q_UpdateContributionPaymentRequestCheckoutID v (rq_id r) c s = Inr (y, s'))" by (auto simp: saveAnswer_def)
  moreover have "rq_checkout q = None \<or> rq_checkout q = Some c" if "q \<in> set (payment_requests s)" "rq_id q = rq_id r" for q
    using fits that Inr by (auto simp: answer_fits_def list_all_iff)
  ultimately show ?thesis using s checkout_at [OF s] by blast
next
  case (Inl e)
  consider (unsent) "errors_is e (ContributionE ErrDarajaNotSent)"
    | (refused) "\<not> errors_is e (ContributionE ErrDarajaNotSent)" "errors_is e (ContributionE ErrDarajaRejected)"
    | (unclear) "\<not> errors_is e (ContributionE ErrDarajaNotSent)" "\<not> errors_is e (ContributionE ErrDarajaRejected)" by blast
  then show ?thesis
  proof cases
    case unsent
    let ?m = "q_RecordDarajaQueryResult v (rq_id r) (Some (NoteText ''Prompt was not sent; retry the same request'')) ''not_sent'' :: ('s daraja_db_scheme, error, unit) tx"
    from K [unfolded unsent_def Inl] unsent obtain q0 where q0: "q0 \<in> set (payment_requests s)" "rq_id q0 = rq_id r" "rq_key q0 \<in> K" by auto
    from run unsent Inl have "s' = s \<or> (\<exists>y. ?m s = Inr (y, s'))"
      by (auto simp: saveAnswer_def execTx_def split: sum.splits)
    moreover have "fine x K s0 s'" if up: "?m s = Inr (y, s')" for y
    proof -
      from up obtain z where z: "update_request (\<lambda>q. rq_id q = rq_id r \<and> result_recordable ''not_sent'' q)
          (\<lambda>q. q\<lparr>rq_result := Some (NoteText ''Prompt was not sent; retry the same request''), rq_recovery := ''not_sent'', rq_updated := env_now v\<rparr>) s = Inr (z, s')"
        by (auto simp: query_defs tx_bind_Inr_iff tx_run)
      have ids: "inj_on rq_id (set (payment_requests s))" using s by (simp add: fine_def requests_ok_def distinct_map)
      show ?thesis
      proof (rule fine_update [OF s z])
        let ?f = "\<lambda>q. q\<lparr>rq_result := Some (NoteText ''Prompt was not sent; retry the same request''), rq_recovery := ''not_sent'', rq_updated := env_now v\<rparr>"
        fix q
        assume q: "q \<in> set (payment_requests s)" "rq_id q = rq_id r \<and> result_recordable ''not_sent'' q"
        with q0 ids have "rq_key q \<in> K" by (metis inj_onD)
        then have "quiet K q (?f q)" by (simp add: quiet_def request_terms_def)
        with quiet_ok [OF this, of x "contribution_receipts s"] q s
        show "later K q (?f q) \<and> request_ok x (contribution_receipts s) (?f q)" by (auto simp: later_def quiet_def fine_def requests_ok_def)
        fix p
        assume "p \<in> set (payment_requests s)" "p \<noteq> q" "rq_checkout (?f q) \<noteq> None"
        with q s show "rq_checkout p \<noteq> rq_checkout (?f q)" unfolding fine_def requests_ok_def by auto
      qed
    qed
    ultimately show ?thesis using s by blast
  next
    case refused
    let ?m = "q_UpdateContributionPaymentRequestFailed v (rq_id r) (Some (NoteText ''M-Pesa rejected the prompt request''))
      :: ('s daraja_db_scheme, error, ContributionPaymentRequest option) tx"
    from run refused Inl or_error_keeps_at [where e = NoRowsE and m = ?m and s = s] have "s' = s \<or> (\<exists>y. ?m s = Inr (y, s'))"
      by (auto simp: saveAnswer_def split: prod.splits sum.splits)
    moreover have "rq_status q \<noteq> PaymentCompleted" if "q \<in> set (payment_requests s)" "rq_id q = rq_id r" for q
      using fits that Inl refused by (auto simp: answer_fits_def list_all_iff)
    ultimately show ?thesis using s failed_at [OF s] by blast
  next
    case unclear
    with run Inl s show ?thesis by (simp add: saveAnswer_def)
  qed
qed

section \<open>Reports\<close>

lemma mark_failed_fine [keeps_intros]: "keeps (fine x K s0) (markFailedInTx v c n)"
proof (rule keepsI)
  fix s y s'
  assume s: "fine x K s0 s" and run: "markFailedInTx v c n s = Inr (y, s')"
  have ids: "inj_on rq_id (set (payment_requests s))" using s by (simp add: fine_def requests_ok_def distinct_map)
  from run obtain r where r: "find (\<lambda>r. rq_checkout r = Some c) (payment_requests s) = Some r"
    and up: "s' = s \<or> rq_status r \<noteq> PaymentCompleted \<and> (\<exists>z. q_UpdateContributionPaymentRequestFailed v (rq_id r) (map_option NoteText (text_of n)) s = Inr (Some z, s'))"
    unfolding markFailedInTx_def q_LockContributionPaymentRequestByCheckoutID_def
    by (auto simp: tx_bind_Inr_iff tx_run or_error_Inr split: if_splits)
  with s ids failed_at [OF s] show "fine x K s0 s'" by (metis find_Some_set inj_onD)
qed

lemma bind_fine [keeps_intros]: "keeps (fine x K s0) (bindCallback v k c pl h)"
proof (rule keepsI)
  fix s y s'
  assume s: "fine x K s0 s" and run: "bindCallback v k c pl h s = Inr (y, s')"
  have ids: "inj_on rq_id (set (payment_requests s))" using s by (simp add: fine_def requests_ok_def distinct_map)
  from run obtain r where r: "r \<in> set (payment_requests s)"
    and c: "rq_checkout r = None \<or> rq_checkout r = Some c"
    and s': "\<exists>s1. (s1 = s \<or> (\<exists>z. q_UpdateContributionPaymentRequestCheckoutID v (rq_id r) c s = Inr (z, s1))) \<and> q_InsertDarajaCallback v c pl h s1 = Inr (y, s')"
    unfolding bindCallback_def q_GetContributionPaymentRequestByIdempotencyKey_def q_LockDarajaRequest_def
    by (auto simp: tx_bind_Inr_iff tx_run or_error_Inr contribution_errors_Inr split: if_splits dest!: find_Some_set)
  from s' obtain s1 where s1: "s1 = s \<or> (\<exists>z. q_UpdateContributionPaymentRequestCheckoutID v (rq_id r) c s = Inr (z, s1))"
    and ins: "q_InsertDarajaCallback v c pl h s1 = Inr (y, s')" by blast
  have "p = r" if "p \<in> set (payment_requests s)" "rq_id p = rq_id r" for p
    using r that ids by (metis inj_onD)
  with s1 s c checkout_at [OF s] have "fine x K s0 s1" by metis
  with keepsD [OF callback_queries(1) _ ins] show "fine x K s0 s'" by blast
qed

text \<open>The parts of a stored plan have four decimals.\<close>

lemma plan_exact:
  assumes "plan_ext x" and "parseItems x (buildAllocationPlan x as) = Inr bs"
  shows "\<forall>b\<in>set bs. \<not> too_precise (ai_amount b)"
  using assms(2)
proof (induction as arbitrary: bs)
  case Nil
  then show ?case by (simp add: buildAllocationPlan_def)
next
  case (Cons a as)
  have "ext_scan x (TrimSpace (FloatString4 (units a))) = Some \<lparr>n_int = Some (units a), n_exp = -4, n_valid = True\<rparr>"
    using assms(1) by (simp add: plan_ext_def FloatString4_trim FloatString4_in)
  with Cons.prems Cons.IH show ?case
    by (auto simp: buildAllocationPlan_def Let_def too_precise_def split: option.splits sum.splits if_splits)
qed

lemma sorted_sum: "sum_list (map f (sort_key k xs)) = sum_list (map (f :: 'a \<Rightarrow> int) xs)"
  using sum_where_sort [of "\<lambda>_. True" f k xs] by (simp add: sum_where_def)

lemma created_amount:
  fixes s s' :: "'s contribution_db_scheme"
  assumes run: "createReceipt v p es s = Inr ((r, rows), s')" and val: "validateReceipt p es = None" and rok: "receipts_ok s"
    and amt: "\<not> too_precise (ir_amount p)"
  shows "cr_amount r = numericToScale (ir_amount p) (-4) \<and> r \<in> set (contribution_receipts s') \<and> \<not> cr_deleted r"
  using run
proof (cases rule: createReceipt_cases)
  case repeated
  then have r: "r \<in> set (contribution_receipts s)" "\<not> cr_deleted r"
    unfolding existingReceipt_def by (auto simp: tx_simps query_defs live_receipt_def split: option.splits dest!: find_Some_set)
  have "sum_list (map al_amount rows) = sum_list (map al_amount (filter (\<lambda>a. al_receipt a = cr_id r) (contribution_allocations s)))"
    unfolding repeated(3) allocations_of_def by (rule sorted_sum)
  then have "cr_amount r = sum_list (map al_amount rows)" using rok r(1) by (simp add: receipts_ok_def sum_where_def)
  with r repeated match_total [OF repeated(4)] validateReceipt_None [OF val] show ?thesis by simp
next
  case new
  with store_precise [OF new(4) amt] show ?thesis by simp
qed

definition payment_params :: "string \<Rightarrow> string \<Rightarrow> timestamptz \<Rightarrow> DarajaSTKPayment \<Rightarrow> ContributionPaymentRequest \<Rightarrow> InsertContributionReceiptParams" where
  "payment_params c m clock report r = \<lparr>ir_channel = DarajaStk, ir_external = Some m, ir_checkout = Some c, ir_internal = None, ir_key = None,
     ir_session = None, ir_member = Some (rq_member r), ir_branch = rq_branch r, ir_period = Some (rq_period r),
     ir_amount = dp_amount report, ir_plan = rq_plan r, ir_received_by = rq_requested_by r,
     ir_received_at = Some (case dp_received report of None \<Rightarrow> clock | Some t \<Rightarrow> t)\<rparr>"

lemma receive_cases:
  assumes run: "receivePayment x v clock c m report r s = Inr (y, s')"
  obtains (review) e where "needsReview v (rq_id r) e s = Inr (y, s')"
  | (received) es q rows s1 z where "rq_expected r = numericToScale (dp_amount report) (-4)" "parseAllocationPlan x (rq_plan r) = Inr es"
      "validateReceipt (payment_params c m clock report r) es = None"
      "createReceipt v (payment_params c m clock report r) es s = Inr ((q, rows), s1)" "cr_checkout q = None \<or> cr_checkout q = Some c"
      "q_UpdateContributionPaymentRequestCompleted v (rq_id r) (cr_id q) s1 = Inr (Some z, s')" "y = (Some (q, rows), None)"
proof -
  note rec = run [unfolded receivePayment_def Let_def payment_params_def [symmetric]]
  show thesis
  proof (cases "numericToScale (db_num (rq_expected r)) (-4) = numericToScale (dp_amount report) (-4)")
    case False
    with rec show thesis by (intro review) simp
  next
    case same: True
    show thesis
    proof (cases "parseAllocationPlan x (rq_plan r)")
      case (Inl e)
      with rec same show thesis by (intro review) simp
    next
      case (Inr es)
      show thesis
      proof (cases "validateReceipt (payment_params c m clock report r) es")
        case (Some e)
        with rec same Inr show thesis by (intro review) simp
      next
        case None
        with rec same Inr show thesis
          by (auto simp: tx_bind_Inr_iff or_error_Inr tx_run contribution_errors_Inr split: if_splits intro!: received)
      qed
    qed
  qed
qed

lemma received_fine:
  assumes x: "plan_ext x" and s: "fine x K s0 s" and r: "r \<in> set (payment_requests s)" "rq_checkout r = Some c" "rq_status r \<noteq> PaymentCompleted"
    and exact: "\<not> too_precise (dp_amount report)" and run: "receivePayment x v clock c m report r s = Inr (y, s')"
  shows "fine x K s0 s'"
  using run
proof (cases rule: receive_cases)
  case (review e)
  have "keeps (fine x K s0) (needsReview v (rq_id r) e)"
    unfolding needsReview_def by (intro keeps_intros quiet_record) simp
  then show ?thesis using s review by (rule keepsD)
next
  case (received es q rows s1 z)
  let ?p = "payment_params c m clock report r"
  have inv: "whole_inv s" "requests_ok x s" using s by (simp_all add: fine_def)
  from inv(2) r(1) obtain as where as: "rq_plan r = buildAllocationPlan x as" by (auto simp: requests_ok_def request_ok_def)
  have es: "\<forall>e\<in>set es. \<not> too_precise (ai_amount e)"
    using plan_exact [OF x, of as es] received(2) as by (auto simp: parseAllocationPlan_def split: if_splits)
  have pa: "\<not> too_precise (ir_amount ?p)" "ir_channel ?p \<noteq> CashChannel" using exact by (simp_all add: payment_params_def)
  have keep: "payment_requests s1 = payment_requests s"
    using keepsD [OF payments.keeps_createReceipt refl received(4)] by (simp add: daraja_tables_def)
  from fine_program [OF s createReceipt_whole [OF inv(1) received(4,3) es pa] keep] have s1: "fine x K s0 s1" .
  have rok: "receipts_ok s" using inv(1) by (simp add: whole_inv_def)
  have q: "cr_amount q = rq_expected r" "q \<in> set (contribution_receipts s1)" "\<not> cr_deleted q"
    using created_amount [OF received(4,3) rok pa(1)] received(1) by (simp_all add: payment_params_def)
  have "inj_on rq_id (set (payment_requests s))" using s by (simp add: fine_def requests_ok_def distinct_map)
  with r(1) have only: "t = r" if "t \<in> set (payment_requests s1)" "rq_id t = rq_id r" for t using that keep by (auto dest: inj_onD)
  show ?thesis
  proof (rule completed_at [OF s1 received(6), where c = q])
    fix t
    assume "t \<in> set (payment_requests s1)" "rq_id t = rq_id r"
    with only have "t = r" by simp
    with r q received(5) show "rq_status t \<noteq> PaymentCompleted \<and> rq_checkout t \<noteq> None \<and> q \<in> set (contribution_receipts s1) \<and> paid_by (t\<lparr>rq_receipt := Some (cr_id q)\<rparr>) q"
      by (auto simp: paid_by_def)
  qed
qed

lemma process_fine:
  assumes x: "plan_ext x" and exact: "\<not> too_precise (dp_amount report)"
  shows "keeps (fine x K s0) (processPaymentInTx x v clock c m report)"
proof (rule keepsI)
  fix s y s'
  assume s: "fine x K s0 s" and run: "processPaymentInTx x v clock c m report s = Inr (y, s')"
  then obtain r where "find (\<lambda>r. rq_checkout r = Some c) (payment_requests s) = Some r"
    and r: "(if rq_status r = PaymentCompleted then completedPayment m (dp_amount report) r else receivePayment x v clock c m report r) s = Inr (y, s')"
    unfolding processPaymentInTx_def q_LockContributionPaymentRequestByCheckoutID_def by (auto simp: tx_bind_Inr_iff tx_run or_error_Inr)
  note row = find_Some_set [OF this(1)]
  have "keeps (fine x K s0) (completedPayment m (dp_amount report) r)"
    unfolding completedPayment_def q_GetContributionReceiptByID_def by (intro keeps_intros)
  with s r row received_fine [OF x s _ _ _ exact] show "fine x K s0 s'" by (auto dest: keepsD split: if_splits)
qed

section \<open>Staff\<close>

lemma retry_fine [keeps_intros]: "keeps (fine x K s0) (q_RetryDarajaReceipt v i b)"
proof (rule keepsI)
  fix s y s'
  assume s: "fine x K s0 s" and run: "q_RetryDarajaReceipt v i b s = Inr (y, s')"
  let ?P = "\<lambda>r. cr_id r = i \<and> cr_branch r = b \<and> cr_channel r = DarajaStk \<and> (cr_status r = ReceiptFailed \<or> cr_status r = ReceiptManualReview)"
  let ?f = "\<lambda>r. r\<lparr>cr_status := ReceiptPending, cr_failure := None, cr_updated := env_now v\<rparr>"
  from run obtain z where z: "update_receipt ?P ?f s = Inr (z, s')" by (auto simp: query_defs tx_bind_Inr_iff tx_run)
  have "whole_inv s" using s by (simp add: fine_def)
  then have "whole_inv s' \<and> receipts_stay s s'" by (rule receipt_again [OF _ z]) (auto simp: receipt_core_def)
  moreover have "payment_requests s' = payment_requests s" using z by (auto simp: update_receipt_def split: option.splits)
  ultimately show "fine x K s0 s'" by (rule fine_program [OF s])
qed

lemma bind_at: "(\<And>z s1. m s = Inr (z, s1) \<Longrightarrow> P s1) \<Longrightarrow> (\<And>z. keeps P (f z)) \<Longrightarrow> tx_bind m f s = Inr (y, s') \<Longrightarrow> P s'"
  by (metis keepsD tx_bind_Inr_iff)

lemma reconcile_fine:
  assumes s: "fine x K s0 s" and r: "find (\<lambda>r. rq_id r = i \<and> rq_branch r = b) (payment_requests s) = Some r"
    and run: "reconcile v clock hash a req r s = Inr (y, s')"
  shows "fine x K s0 s'"
proof -
  have ids: "inj_on rq_id (set (payment_requests s))" using s by (simp add: fine_def requests_ok_def distinct_map)
  have bind: "fine x K s0 s1" if "reconcileCheckout v req r s = Inr (c, s1)" for c s1
  proof (cases "rq_checkout r")
    case None
    with that obtain c z where "q_UpdateContributionPaymentRequestCheckoutID v (rq_id r) c s = Inr (Some z, s1)"
      by (auto simp: reconcileCheckout_def Let_def tx_bind_Inr_iff or_error_Inr tx_run contribution_errors_Inr split: if_splits)
    moreover have "q = r" if "q \<in> set (payment_requests s)" "rq_id q = rq_id r" for q
      using find_Some_set [OF r] that ids by (metis inj_onD)
    ultimately show ?thesis using checkout_at [OF s] None by blast
  qed (use that s in \<open>auto simp: reconcileCheckout_def tx_run\<close>)
  have rest: "keeps (fine x K s0) (recordReconciliation v hash a req r t u c)" for t u c
    unfolding recordReconciliation_def q_GetContributionReceiptByID_def q_GetPaymentReconciliation_def Let_def by (intro keeps_intros)
  from run obtain t u where "tx_bind (reconcileCheckout v req r) (recordReconciliation v hash a req r t u) s = Inr (y, s')"
    by (auto simp: reconcile_def Let_def contribution_errors_Inr split: if_splits option.splits)
  with bind rest show ?thesis by (rule bind_at)
qed

lemma recover_fine [keeps_intros]: "keeps (fine x K s0) (recoverPaymentInTx v clock hash actor i req)"
proof (rule keepsI)
  fix s y s'
  assume s: "fine x K s0 s" and run: "recoverPaymentInTx v clock hash actor i req s = Inr (y, s')"
  from run obtain r s1 where r: "find (\<lambda>r. rq_id r = i \<and> rq_branch r = pr_branch actor) (payment_requests s) = Some r"
    and act: "s1 = s \<or> (\<exists>a b. q_InsertPaymentRecoveryAction v 2 i a b (pr_id actor) s = Inr ((), s1))"
    and rest: "recoverAction v clock hash actor i req r s1 = Inr (y, s')"
    unfolding recoverPaymentInTx_def q_LockDarajaRequest_def Let_def
    by (auto simp: tx_bind_Inr_iff tx_run or_error_Inr contribution_errors_Inr split: if_splits)
  from act s have s1: "fine x K s0 s1" using keepsD [OF callback_queries(6) s] by blast
  from act have "payment_requests s1 = payment_requests s" by (auto simp: q_InsertPaymentRecoveryAction_def tx_run split: if_splits)
  with r have r1: "find (\<lambda>r. rq_id r = i \<and> rq_branch r = pr_branch actor) (payment_requests s1) = Some r" by simp
  have "keeps (fine x K s0) (restoreCheckout v req r)" unfolding restoreCheckout_def Let_def by (intro keeps_intros)
  then have "keeps (fine x K s0) (recoverAction v clock hash actor i req r)" if "rp_action req \<noteq> ''reconcile''"
    unfolding recoverAction_def if_not_P [OF that] by (intro keeps_intros)
  with keepsD [OF this s1 rest] rest reconcile_fine [OF s1 r1] show "fine x K s0 s'"
    by (cases "rp_action req = ''reconcile''") (auto simp: recoverAction_def)
qed

end
