(* ===== verification/Payment_Steps.thy ===== *)
theory Payment_Steps
  imports Payments
begin

text \<open>
  The program with its M-Pesa payments as a step relation. A state is the database, the requests whose
  prompts are with the provider, and the keys of the prompts that may have reached a member. The steps
  are the transactions, so that those of different callers and workers interleave; the operations of
  \<open>Daraja\<close> are shown to be sequences of steps.
\<close>

type_synonym 's payment_state = "'s daraja_db_scheme \<times> ContributionPaymentRequest list \<times> string list"

text \<open>The provider reports amounts that the database stores exactly.\<close>

definition exact_report :: "ext \<Rightarrow> darajaSTKCallback \<Rightarrow> bool" where
  "exact_report x c \<longleftrightarrow> (case metadata_value ''Amount'' (cb_items c) of None \<Rightarrow> True
     | Some t \<Rightarrow> (case ext_scan x t of None \<Rightarrow> True | Some n \<Rightarrow> \<not> too_precise n))"

inductive daraja_step :: "ext \<Rightarrow> 's payment_state \<Rightarrow> 's payment_state \<Rightarrow> bool" for x where
  program: "full_step x s s' \<Longrightarrow> daraja_step x (s, F, A) (s', F, A)"
| requested: "createContributionPaymentRequest x v clock p s = Inr ((r, new), s') \<Longrightarrow> daraja_step x (s, F, A) (s', if new then r # F else F, A)"
| answered: "r \<in> set F \<Longrightarrow> answer_fits r answer s \<Longrightarrow> saveAnswer v r answer s = (res, s')
    \<Longrightarrow> daraja_step x (s, F, A) (s', remove1 r F, if unsent answer then A else rq_key r # A)"
| unsendable: "r \<in> set F \<Longrightarrow> answer_fits r (Inl (ContributionE ErrDarajaRejected)) s
    \<Longrightarrow> q_UpdateContributionPaymentRequestFailed v (rq_id r) n s = Inr (y, s') \<Longrightarrow> daraja_step x (s, F, A) (s', remove1 r F, A)"
| reported: "HandleSTKCallback v payload hash k signed s = (code, s') \<Longrightarrow> daraja_step x (s, F, A) (s', F, A)"
| claimed: "q_ClaimDarajaCallback v s = Inr (q, s') \<Longrightarrow> daraja_step x (s, F, A) (s', F, A)"
| worked: "exact_report x c \<Longrightarrow> workOff x v clock c s = (err, s') \<Longrightarrow> daraja_step x (s, F, A) (s', F, A)"
| finished: "q_FinishDarajaCallback v i err s = Inr ((), s') \<Longrightarrow> daraja_step x (s, F, A) (s', F, A)"
| query_claimed: "q_ClaimDarajaQuery v s = Inr (q, s') \<Longrightarrow> daraja_step x (s, F, A) (s', F, A)"
| query_refused: "MarkDarajaSTKPaymentFailed v c n s = (err, s') \<Longrightarrow> daraja_step x (s, F, A) (s', F, A)"
| query_saved: "st \<noteq> ''not_sent'' \<Longrightarrow> q_RecordDarajaQueryResult v i res st s = Inr ((), s') \<Longrightarrow> daraja_step x (s, F, A) (s', F, A)"
| query_deferred: "q_DeferUnavailableDarajaQuery v i k s = Inr ((), s') \<Longrightarrow> daraja_step x (s, F, A) (s', F, A)"
| resolved: "RecoverDarajaPayment x v clock hash caller req s = (err, s') \<Longrightarrow> daraja_step x (s, F, A) (s', F, A)"

definition payment_start :: "'s payment_state \<Rightarrow> bool" where
  "payment_start t \<longleftrightarrow> whole_genesis (fst t) \<and> payment_requests (fst t) = [] \<and> snd t = ([], [])"

definition payment_reachable :: "ext \<Rightarrow> 's payment_state \<Rightarrow> bool" where
  "payment_reachable x t \<longleftrightarrow> (\<exists>t0. payment_start t0 \<and> (daraja_step x)\<^sup>*\<^sup>* t0 t)"

section \<open>The database\<close>

lemma work_off_fine:
  assumes "plan_ext x" and "exact_report x c" and s: "fine x K s0 s" and run: "workOff x v clock c s = (err, s')"
  shows "fine x K s0 s'"
proof -
  have failed: "fine x K s0 (snd (MarkDarajaSTKPaymentFailed v k n s))" for k n
    using keeps_execTx [OF mark_failed_fine [of x K s0 v _ n] s]
    by (auto simp: MarkDarajaSTKPaymentFailed_def Let_def s split: prod.splits sum.splits) (metis snd_conv)+
  have process: "fine x K s0 (snd (ProcessDarajaSTKPayment x v clock report s))" if "\<not> too_precise (dp_amount report)" for report
    using keeps_execTx [OF process_fine [OF assms(1) that, of K s0 v clock] s]
    by (auto simp: ProcessDarajaSTKPayment_def Let_def s split: prod.splits sum.splits) (metis snd_conv)+
  have exact: "\<not> too_precise (dp_amount report)" if "successPayment x clock c = Inr report" for report
    using that assms(2) by (auto simp: successPayment_def exact_report_def Let_def split: option.splits if_splits)
  show ?thesis
  proof (cases "cb_code c = Some 0")
    case False
    with run failed show ?thesis by (simp add: workOff_def) (metis snd_conv)
  next
    case True
    with run s process exact show ?thesis
      by (auto simp: workOff_def split: sum.splits prod.splits) (metis snd_conv)
  qed
qed

text \<open>Outside of a prompt's answer, no prompt that may have been sent is forgotten.\<close>

lemma step_elsewhere:
  assumes "plan_ext x" and scan: "scan_ok x" and inv: "whole_inv s" "requests_ok x s" and step: "daraja_step x (s, F, A) (s', F', A')"
  shows "fine x {} s s' \<and> (F' = F \<and> A' = A
      \<or> (\<exists>v clock p r. createContributionPaymentRequest x v clock p s = Inr ((r, True), s') \<and> F' = r # F \<and> A' = A)
      \<or> (\<exists>r\<in>set F. F' = remove1 r F \<and> A' \<in> {A, rq_key r # A}))
    \<or> (\<exists>r\<in>set F. \<exists>v answer res. unsent answer \<and> answer_fits r answer s \<and> saveAnswer v r answer s = (res, s') \<and> F' = remove1 r F \<and> A' = A)"
proof -
  have s: "fine x {} s s" using inv by (rule fine_refl)
  from step show ?thesis
  proof cases
    case program
    have "receipts_ok s" using inv(1) by (simp add: whole_inv_def)
    with full_step_inv [OF scan inv(1) program(3)] full_step_receipts [OF program(3)] full_step_payments [OF program(3)]
    have "fine x {} s s'" by (intro fine_program [OF s]) (simp_all add: daraja_tables_def)
    with program show ?thesis by simp
  next
    case (requested v clock p r new)
    from keepsD [OF create_request_fine s requested(3)] have "fine x {} s s'" .
    with requested show ?thesis by (cases new) auto
  next
    case (answered r answer v res)
    from answered(5) have "unsent answer \<or> fine x {} s s'" using save_answer_fine [OF s answered(4,5)] by blast
    with answered show ?thesis by (cases "unsent answer") auto
  next
    case (unsendable r v n y)
    have "fine x {} s s'" using failed_at [OF s unsendable(5)] unsendable(4) by (auto simp: answer_fits_def list_all_iff)
    with unsendable show ?thesis by auto
  next
    case (reported v payload hash k signed code)
    have "fine x {} s (snd (execTx (bindCallback v k c pl hash) s))" "fine x {} s (snd (execTx (q_InsertDarajaCallback v c pl hash) s))" for c pl
      using keeps_execTx [OF bind_fine s] keeps_execTx [OF callback_queries(1) s] by blast+
    then have "fine x {} s (snd (HandleSTKCallback v payload hash k signed s))"
      by (auto simp: HandleSTKCallback_def Let_def s split: option.splits prod.splits sum.splits) (metis snd_conv)+
    with reported show ?thesis by simp
  next
    case (query_refused v c n err)
    have "fine x {} s (snd (MarkDarajaSTKPaymentFailed v c n s))"
      using keeps_execTx [OF mark_failed_fine [of x "{}" s v _ n] s]
      by (auto simp: MarkDarajaSTKPaymentFailed_def Let_def s split: prod.splits sum.splits) (metis snd_conv)+
    with query_refused show ?thesis by simp
  next
    case (resolved v clock hash caller req err)
    have "fine x {} s (snd (RecoverDarajaPayment x v clock hash caller req s))"
      using keeps_execTx [OF recover_fine [of x "{}" s v clock hash] s]
      by (auto simp: RecoverDarajaPayment_def Let_def s split: prod.splits sum.splits option.splits) (metis snd_conv)+
    with resolved show ?thesis by simp
  next
    case worked
    with work_off_fine [OF assms(1) _ s] show ?thesis by blast
  next
    case claimed
    with keepsD [OF callback_queries(2) s] show ?thesis by blast
  next
    case finished
    with keepsD [OF callback_queries(3) s] show ?thesis by blast
  next
    case query_claimed
    with keepsD [OF quiet_claim s] show ?thesis by blast
  next
    case query_saved
    with keepsD [OF quiet_record s] show ?thesis by blast
  next
    case query_deferred
    with keepsD [OF quiet_queries(3) s] show ?thesis by blast
  qed
qed

section \<open>Prompts\<close>

text \<open>For every key at most one prompt is with the provider or may have reached a member, and then the
  request is marked.\<close>

definition prompts_ok :: "'s payment_state \<Rightarrow> bool" where
  "prompts_ok t \<longleftrightarrow> (case t of (s, F, A) \<Rightarrow> distinct (map rq_key F @ A)
     \<and> (\<forall>k\<in>set (map rq_key F @ A). \<exists>q\<in>set (payment_requests s). rq_key q = k \<and> asked q)
     \<and> (\<forall>r\<in>set F. \<exists>q\<in>set (payment_requests s). rq_id q = rq_id r \<and> rq_key q = rq_key r))"

lemma prompts_evolve:
  assumes ok: "prompts_ok (s, F, A)" and ev: "develops K s s'" and d: "distinct (map rq_key F' @ A')"
    and keys: "set (map rq_key F' @ A') \<subseteq> set (map rq_key F @ A) - K" and F: "set F' \<subseteq> set F"
  shows "prompts_ok (s', F', A')"
proof -
  have "\<exists>q\<in>set (payment_requests s'). rq_key q = k \<and> asked q" if k: "k \<in> set (map rq_key F' @ A')" for k
  proof -
    from k keys have k: "k \<in> set (map rq_key F @ A)" "k \<notin> K" by blast+
    with ok obtain q where q: "q \<in> set (payment_requests s)" "rq_key q = k" "asked q" unfolding prompts_ok_def prod.case by blast
    with ev obtain q' where "q' \<in> set (payment_requests s')" "later K q q'" by (auto simp: develops_def)
    with q k(2) show ?thesis by (auto simp: later_def request_terms_def)
  qed
  moreover have "\<exists>q\<in>set (payment_requests s'). rq_id q = rq_id r \<and> rq_key q = rq_key r" if "r \<in> set F'" for r
  proof -
    from that F ok obtain q where q: "q \<in> set (payment_requests s)" "rq_id q = rq_id r" "rq_key q = rq_key r"
      unfolding prompts_ok_def prod.case by blast
    with ev obtain q' where "q' \<in> set (payment_requests s')" "later K q q'" by (auto simp: develops_def)
    with q show ?thesis by (auto simp: later_def request_terms_def)
  qed
  ultimately show ?thesis using d by (simp add: prompts_ok_def)
qed

lemma new_prompt:
  assumes ok: "requests_ok x s" and run: "createContributionPaymentRequest x v clock p s = Inr ((r, True), s')"
  shows "rq_key r = ip_key p \<and> r \<in> set (payment_requests s') \<and> asked r \<and> rq_checkout r = None \<and> rq_status r = PaymentPending \<and> (\<forall>q\<in>set (payment_requests s). rq_key q = rq_key r \<longrightarrow> \<not> asked q)"
proof (cases "find (\<lambda>r. rq_key r = ip_key p) (payment_requests s)")
  case None
  with run have "newPaymentRequest x v clock p s = Inr ((r, True), s')"
    by (simp add: createContributionPaymentRequest_def q_GetContributionPaymentRequestByIdempotencyKey_def tx_bind_def tx_run)
  then obtain s1 n where "q_InsertContributionPaymentRequest v n s1 = Inr (Some r, s')" "np_key n = ip_key p"
    by (auto simp: newPaymentRequest_def tx_bind_Inr_iff contribution_errors_Inr or_error_Inr tx_run)
  then have "rq_key r = ip_key p" "r \<in> set (payment_requests s')" "asked r" "rq_checkout r = None" "rq_status r = PaymentPending"
    by (auto simp: query_defs tx_simps Let_def asked_def split: option.splits if_splits prod.splits)
  with None show ?thesis by (auto simp: find_None_iff)
next
  case (Some e)
  note e = find_Some_set [OF Some]
  from Some run have "repeatPaymentRequest x v p e s = Inr ((r, True), s')"
    by (simp add: createContributionPaymentRequest_def q_GetContributionPaymentRequestByIdempotencyKey_def tx_bind_def tx_run)
  then have ne: "\<not> asked e" and up: "q_ClaimUnsentDarajaRequest v (rq_id e) s = Inr (Some r, s')"
    by (auto simp: repeatPaymentRequest_def asked_def tx_bind_Inr_iff contribution_errors_Inr or_error_Inr tx_run split: if_splits)
  from up obtain q where q: "q \<in> set (payment_requests s)" "rq_id q = rq_id e" "rq_checkout q = None" "rq_status q = PaymentPending"
    and r: "r = q\<lparr>rq_recovery := ''awaiting_confirmation'', rq_result := None, rq_updated := env_now v\<rparr>" "r \<in> set (payment_requests s')"
    by (auto simp: query_defs update_request_def split: option.splits dest!: find_Some_set)
  have inj: "inj_on rq_id (set (payment_requests s))" "inj_on rq_key (set (payment_requests s))" using ok by (simp_all add: requests_ok_def distinct_map)
  from inj(1) q(1,2) e have "q = e" by (metis inj_onD)
  moreover have "t = e" if "t \<in> set (payment_requests s)" "rq_key t = rq_key e" for t using that e inj(2) by (metis inj_onD)
  then have "\<forall>t\<in>set (payment_requests s). rq_key t = rq_key e \<longrightarrow> \<not> asked t" using ne by blast
  moreover have "asked r" using r(1) by (simp add: asked_def)
  ultimately show ?thesis using r e q by simp
qed

lemma removed_key:
  assumes "distinct (map k F @ A)" and "r \<in> set F"
  shows "distinct (map k (remove1 r F) @ A)" "distinct (map k (remove1 r F) @ k r # A)"
    "set (map k (remove1 r F) @ A) \<subseteq> set (map k F @ A) - {k r}" "set (map k (remove1 r F) @ k r # A) \<subseteq> set (map k F @ A)"
  using assms by (auto simp: distinct_map inj_on_def set_remove1_eq dest: notin_set_remove1)

section \<open>Everything together\<close>

definition payment_inv :: "ext \<Rightarrow> 's payment_state \<Rightarrow> bool" where
  "payment_inv x t \<longleftrightarrow> whole_inv (fst t) \<and> requests_ok x (fst t) \<and> prompts_ok t"

lemma step_inv:
  assumes x: "plan_ext x" "scan_ok x" and inv: "payment_inv x (s, F, A)" and step: "daraja_step x (s, F, A) (s', F', A')"
  shows "payment_inv x (s', F', A') \<and> receipts_stay s s' \<and> develops (rq_key ` (set F - set F')) s s'"
proof -
  have w: "whole_inv s" "requests_ok x s" and ok: "prompts_ok (s, F, A)" using inv by (simp_all add: payment_inv_def)
  have dF: "distinct (map rq_key F @ A)" using ok by (simp add: prompts_ok_def)
  have weaker: "develops K s s'" if "develops {} s s'" for K using that unfolding develops_def later_def by blast
  have "(fine x {} s s' \<or> fine x (rq_key ` (set F - set F')) s s') \<and> prompts_ok (s', F', A')"
    using step_elsewhere [OF x w step]
  proof (elim disjE conjE bexE exE)
    assume fine: "fine x {} s s'" and same: "F' = F" "A' = A"
    then have "develops {} s s'" by (simp add: fine_def)
    from prompts_evolve [OF ok this, of F A] fine dF same show ?thesis by simp
  next
    fix v clock p r
    assume fine: "fine x {} s s'" and run: "createContributionPaymentRequest x v clock p s = Inr ((r, True), s')" and F: "F' = r # F" "A' = A"
    then have "develops {} s s'" by (simp add: fine_def)
    with prompts_evolve [OF ok this, of F A] dF have old: "prompts_ok (s', F, A)" by simp
    note r = new_prompt [OF w(2) run]
    then have "rq_key r \<notin> set (map rq_key F @ A)" using ok unfolding prompts_ok_def prod.case by blast
    with old r have "prompts_ok (s', r # F, A)" by (auto simp: prompts_ok_def)
    with fine F show ?thesis by simp
  next
    fix r
    assume fine: "fine x {} s s'" and r: "r \<in> set F" "F' = remove1 r F" and A: "A' \<in> {A, rq_key r # A}"
    then have "develops {} s s'" by (simp add: fine_def)
    moreover from A have "distinct (map rq_key F' @ A') \<and> set (map rq_key F' @ A') \<subseteq> set (map rq_key F @ A)"
      unfolding insert_iff empty_iff by (elim disjE) (use removed_key [OF dF r(1)] r(2) in blast)+
    ultimately have "prompts_ok (s', F', A')" using prompts_evolve [OF ok, of "{}" s' F' A'] r(2) by (simp add: set_remove1_subset)
    with fine show ?thesis by simp
  next
    fix r v answer res
    assume r: "r \<in> set F" "F' = remove1 r F" "A' = A" and run: "unsent answer" "answer_fits r answer s" "saveAnswer v r answer s = (res, s')"
    have gone: "set F - set F' = {r}" using r dF by (auto simp: distinct_map)
    from ok r(1) have "\<exists>q\<in>set (payment_requests s). rq_id q = rq_id r \<and> rq_key q \<in> {rq_key r}"
      unfolding prompts_ok_def prod.case by fastforce
    with save_answer_fine [OF fine_refl [OF w] run(2,3)] have fine: "fine x {rq_key r} s s'" by blast
    then have "develops {rq_key r} s s'" by (simp add: fine_def)
    moreover have "distinct (map rq_key F' @ A')" "set (map rq_key F' @ A') \<subseteq> set (map rq_key F @ A) - {rq_key r}"
      using removed_key [OF dF r(1)] unfolding r(2,3) by blast+
    ultimately have "prompts_ok (s', F', A')" using prompts_evolve [OF ok, of "{rq_key r}" s' F' A'] r(2) by (simp add: set_remove1_subset)
    with fine gone show ?thesis by simp
  qed
  then show ?thesis using weaker by (auto simp: payment_inv_def fine_def)
qed

interpretation life: invariant_of payment_start "daraja_step x" "\<lambda>t. plan_ext x \<and> scan_ok x \<longrightarrow> payment_inv x t" for x
proof
  fix t :: "'a payment_state"
  assume "payment_start t"
  then show "plan_ext x \<and> scan_ok x \<longrightarrow> payment_inv x t"
    by (cases t) (auto simp: payment_start_def payment_inv_def requests_ok_def prompts_ok_def whole_genesis_inv)
next
  fix t t' :: "'a payment_state"
  assume "plan_ext x \<and> scan_ok x \<longrightarrow> payment_inv x t" "daraja_step x t t'"
  then show "plan_ext x \<and> scan_ok x \<longrightarrow> payment_inv x t'" by (cases t; cases t') (use step_inv in blast)
qed

lemma payment_reachable_inv: "plan_ext x \<Longrightarrow> scan_ok x \<Longrightarrow> payment_reachable x t \<Longrightarrow> payment_inv x t"
  using life.always unfolding payment_reachable_def by blast

text \<open>Over a sequence of steps.\<close>

lemma steps_evolve:
  assumes x: "plan_ext x" "scan_ok x" and inv: "payment_inv x t" and steps: "(daraja_step x)\<^sup>*\<^sup>* t t'"
  shows "payment_inv x t' \<and> receipts_stay (fst t) (fst t') \<and> develops UNIV (fst t) (fst t')"
  using steps
proof (induction rule: rtranclp_induct)
  case base
  with inv show ?case by (simp add: receipts_stayI develops_same)
next
  case (step t1 t2)
  obtain s1 F1 A1 s2 F2 A2 where t: "t1 = (s1, F1, A1)" "t2 = (s2, F2, A2)" by (cases t1; cases t2) auto
  from step_inv [OF x] step t have n: "payment_inv x t2" "receipts_stay s1 s2" "develops (rq_key ` (set F1 - set F2)) s1 s2" by blast+
  from n(3) have "develops UNIV s1 s2" unfolding develops_def later_def by blast
  with n step.IH t show ?case using receipts_stay_trans develops_trans by (metis fst_conv)
qed

section \<open>Operations are sequences of steps\<close>

lemma new_answer_fits:
  assumes "payment_inv x (s, F, A)" and x: "plan_ext x" "scan_ok x" and run: "createContributionPaymentRequest x v clock p s = Inr ((r, True), s')"
  shows "answer_fits r answer s'"
proof -
  have w: "requests_ok x s" using assms(1) by (simp add: payment_inv_def)
  have "payment_inv x (s', r # F, A)" using step_inv [OF x assms(1) requested [OF run]] by simp
  then have "inj_on rq_id (set (payment_requests s'))" by (simp add: payment_inv_def requests_ok_def distinct_map)
  with new_prompt [OF w run] have "q = r" if "q \<in> set (payment_requests s')" "rq_id q = rq_id r" for q using that by (metis inj_onD)
  with new_prompt [OF w run] show ?thesis by (fastforce simp: answer_fits_def list_all_iff split: sum.splits)
qed

lemma failed_total: "q_UpdateContributionPaymentRequestFailed v i n s \<noteq> Inl e"
  by (simp add: q_UpdateContributionPaymentRequestFailed_def update_request_def split: option.splits)

lemma initiate_steps:
  assumes inv: "payment_inv x (s, F, A)" and x: "plan_ext x" "scan_ok x"
    and run: "InitiateDarajaSTKPayment x v v' clock params initiator s = (res, prompt, s')"
  shows "\<exists>A'. (daraja_step x)\<^sup>*\<^sup>* (s, F, A) (s', F, A') \<and> (case prompt of None \<Rightarrow> A' = A
    | Some pr \<Rightarrow> sr_key pr = TrimSpace (ip_key params) \<and> A' \<in> {A, sr_key pr # A}
        \<and> (\<exists>r s1. createContributionPaymentRequest x v clock (params\<lparr>ip_key := TrimSpace (ip_key params), ip_phone := TrimSpace (ip_phone params)\<rparr>) s
            = Inr ((r, True), s1)))"
proof -
  define p where "p = params\<lparr>ip_key := TrimSpace (ip_key params), ip_phone := TrimSpace (ip_phone params)\<rparr>"
  consider "s' = s" "prompt = None"
    | (repeated) r where "createContributionPaymentRequest x v clock p s = Inr ((r, False), s')" "prompt = None"
    | (unsendable) r s1 n y where "createContributionPaymentRequest x v clock p s = Inr ((r, True), s1)" "prompt = None"
        "q_UpdateContributionPaymentRequestFailed v' (rq_id r) n s1 = Inr (y, s')"
    | (sent) r s1 pr provider where "createContributionPaymentRequest x v clock p s = Inr ((r, True), s1)" "prompt = Some pr" "sr_key pr = ip_key p"
        "saveAnswer v' r (provider pr) s1 = (res, s')"
    using run unfolding InitiateDarajaSTKPayment_def Let_def p_def [symmetric]
    by (auto simp: execTx_def failed_total split: option.splits if_splits sum.splits prod.splits bool.splits)
  then show ?thesis
  proof cases
    case repeated
    from requested [OF repeated(1), of F A] repeated(2) show ?thesis by auto
  next
    case unsendable
    note fits = new_answer_fits [OF inv x unsendable(1)]
    have "daraja_step x (s, F, A) (s1, r # F, A)" using requested [OF unsendable(1), of F A] by simp
    moreover from daraja_step.unsendable [OF _ fits unsendable(3), of "r # F" x A] have "daraja_step x (s1, r # F, A) (s', F, A)" by simp
    ultimately show ?thesis using unsendable(2) by (auto intro: converse_rtranclp_into_rtranclp)
  next
    case sent
    note fits = new_answer_fits [OF inv x sent(1)]
    have w: "requests_ok x s" using inv by (simp add: payment_inv_def)
    have "daraja_step x (s, F, A) (s1, r # F, A)" using requested [OF sent(1), of F A] by simp
    moreover from answered [OF _ fits sent(4), of "r # F" x A]
    have "daraja_step x (s1, r # F, A) (s', F, if unsent (provider pr) then A else rq_key r # A)" by simp
    ultimately have path: "(daraja_step x)\<^sup>*\<^sup>* (s, F, A) (s', F, if unsent (provider pr) then A else rq_key r # A)"
      by (auto intro: converse_rtranclp_into_rtranclp)
    show ?thesis by (intro exI conjI, rule path) (use sent new_prompt [OF w sent(1)] in \<open>auto simp: p_def\<close>)
  qed auto
qed

lemma first_by_set: "first_by k xs = Some y \<Longrightarrow> y \<in> set xs"
  by (auto simp: first_by_def split: list.splits) (metis list.set_intros(1) set_sort)

lemma recover_steps:
  assumes "list_all (\<lambda>q. exact_report x (dc_payload q)) (daraja_callbacks s)"
  shows "(daraja_step x)\<^sup>*\<^sup>* (s, F, A) (RecoverDaraja x v v1 v2 clock s, F, A)"
proof (cases "q_ClaimDarajaCallback v s")
  case (Inl e)
  then show ?thesis by (simp add: RecoverDaraja_def execTx_def)
next
  case (Inr z)
  obtain event s1 where z: "z = (event, s1)" by (cases z)
  have one: "daraja_step x (s, F, A) (s1, F, A)" by (rule claimed) (use Inr z in simp)
  show ?thesis
  proof (cases event)
    case None
    with Inr z one show ?thesis by (auto simp: RecoverDaraja_def execTx_def)
  next
    case (Some e)
    obtain err s2 where two: "workOff x v1 clock (dc_payload e) s1 = (err, s2)" by (cases "workOff x v1 clock (dc_payload e) s1")
    obtain s3 where three: "q_FinishDarajaCallback v2 (dc_id e) err s2 = Inr ((), s3)" by (simp add: query_defs tx_run)
    from Inr z Some obtain q where "q \<in> set (daraja_callbacks s)" "dc_payload e = dc_payload q"
      by (auto simp: query_defs Let_def split: option.splits dest!: first_by_set)
    with assms have "exact_report x (dc_payload e)" by (auto simp: list_all_iff)
    from one worked [OF this two, of F A] finished [OF three, of x F A]
    have "(daraja_step x)\<^sup>*\<^sup>* (s, F, A) (s3, F, A)" by (meson converse_rtranclp_into_rtranclp r_into_rtranclp)
    with Inr z Some two three show ?thesis by (simp add: RecoverDaraja_def execTx_def)
  qed
qed

lemma record_total: "q_RecordDarajaQueryResult v i n st s \<noteq> Inl e" "q_DeferUnavailableDarajaQuery v i k s \<noteq> Inl e"
  by (simp_all add: query_defs update_request_def tx_bind_Inl_iff tx_run split: option.splits)

lemma query_steps: "(daraja_step x)\<^sup>*\<^sup>* (s, F, A) (QueryPendingDaraja v v1 provider s, F, A)"
proof (cases "q_ClaimDarajaQuery v s")
  case (Inl e)
  then show ?thesis by (simp add: QueryPendingDaraja_def execTx_def)
next
  case (Inr z)
  obtain q s1 where z: "z = (q, s1)" by (cases z)
  have one: "daraja_step x (s, F, A) (s1, F, A)" by (rule query_claimed) (use Inr z in simp)
  show ?thesis
  proof (cases q)
    case None
    with Inr z one show ?thesis by (auto simp: QueryPendingDaraja_def execTx_def)
  next
    case (Some r)
    have save: "daraja_step x (t, F, A) (snd (execTx (q_RecordDarajaQueryResult v1 (rq_id r) n st) t), F, A)" if "st \<noteq> ''not_sent''" for t n st
      by (rule query_saved [OF that, of v1 "rq_id r" n]) (auto simp: execTx_def record_total split: sum.splits)
    have refuse: "daraja_step x (t, F, A) (snd (MarkDarajaSTKPaymentFailed v1 c n t), F, A)" for t c n
      by (rule query_refused [of v1 c n _ "fst (MarkDarajaSTKPaymentFailed v1 c n t)"]) simp
    have postpone: "(daraja_step x)\<^sup>*\<^sup>* (t, F, A) (snd (execTx (q_DeferUnavailableDarajaQuery v1 (rq_id r) k) t), F, A)" for t k
      by (rule r_into_rtranclp, rule query_deferred [of v1 "rq_id r" k]) (auto simp: execTx_def record_total split: sum.splits)
    have saved: "(daraja_step x)\<^sup>*\<^sup>* (t, F, A) (saveQueryResult v1 r c code n t, F, A)" for t c code n
    proof (cases "code \<in> set [''1032'', ''1037'', ''1'', ''2001'']")
      case True
      then have "saveQueryResult v1 r c code n t = snd (execTx (q_RecordDarajaQueryResult v1 (rq_id r) (Some (NoteText (code @ '' '' @ n))) ''provider_failed'')
          (snd (MarkDarajaSTKPaymentFailed v1 c n t)))" by (simp only: saveQueryResult_def Let_def if_True)
      moreover note refuse [of t c n]
      moreover note save [of "''provider_failed''" "snd (MarkDarajaSTKPaymentFailed v1 c n t)" "Some (NoteText (code @ '' '' @ n))"]
      ultimately show ?thesis by (simp add: converse_rtranclp_into_rtranclp)
    next
      case False
      then obtain st where "saveQueryResult v1 r c code n t = snd (execTx (q_RecordDarajaQueryResult v1 (rq_id r) (Some (NoteText (code @ '' '' @ n))) st) t)"
        "st \<noteq> ''not_sent''" by (simp only: saveQueryResult_def Let_def if_False) (simp split: if_splits)
      with save [of st t] show ?thesis by (simp add: r_into_rtranclp)
    qed
    have "QueryPendingDaraja v v1 provider s = (case provider (case rq_checkout r of None \<Rightarrow> [] | Some c \<Rightarrow> c) of
        Inr (code, n) \<Rightarrow> saveQueryResult v1 r (case rq_checkout r of None \<Rightarrow> [] | Some c \<Rightarrow> c) code n s1
      | Inl e \<Rightarrow> if errors_is e (ContributionE ErrDarajaQueryUnavailable)
          then snd (execTx (q_DeferUnavailableDarajaQuery v1 (rq_id r) (rq_attempts r)) s1)
          else saveQueryResult v1 r (case rq_checkout r of None \<Rightarrow> [] | Some c \<Rightarrow> c) [] ''Provider could not verify this checkout'' s1)"
      using Inr z Some by (simp add: QueryPendingDaraja_def execTx_def Let_def)
    with saved postpone have "(daraja_step x)\<^sup>*\<^sup>* (s1, F, A) (QueryPendingDaraja v v1 provider s, F, A)"
      by (auto split: sum.splits)
    with one show ?thesis by (rule converse_rtranclp_into_rtranclp)
  qed
qed

end
