(* ===== verification/Payment_Claims.thy ===== *)
theory Payment_Claims
  imports Payment_Steps Custody_Samples
begin

text \<open>
  What holds of M-Pesa payments in every state that the program can reach, with a run in which member 7
  is asked for a hundred shillings, for the fees of the month and for shares, and pays them.
\<close>

section \<open>A payment\<close>

definition mpesa_genesis :: daraja_db where
  "mpesa_genesis = \<lparr>members = [sample_member], member_status_history = [],
     share_accounts = [], share_transactions = [],
     share_adjustments = [], share_pledges = [], loans = [], loan_guarantors = [], repayment_schedules = [],
     loan_transactions = [], loan_monthly_interest = [], credit_balances = [], credit_operations = [], loan_audit_trails = [],
     contribution_receipts = [], contribution_allocations = [], contribution_monthly_fees = [], contribution_charges = [],
     cashier_sessions = [], cash_deposits = [], cash_deposit_sessions = [],
     payment_requests = [], daraja_callbacks = [], payment_reconciliations = [], payment_recovery_actions = []\<rparr>"

definition mpesa_params :: InitiateDarajaSTKPaymentParams where
  "mpesa_params = \<lparr>ip_key = ''p1'', ip_phone = ''254700000001'', ip_member = Some 7, ip_branch = 1, ip_period = Some 0,
     ip_expected = db_num 1000000,
     ip_allocations = [\<lparr>ai_type = SharePurchase, ai_target = Some 1, ai_amount = db_num 400000, ai_label = []\<rparr>], ip_requested_by = Some 9\<rparr>"

definition mpesa_request :: ContributionPaymentRequest where
  "mpesa_request = \<lparr>rq_id = 600, rq_checkout = None, rq_member = 7, rq_branch = 1, rq_period = 0, rq_expected = 1000000,
     rq_plan = [plan_item SharePurchase [] ''1'' ''40.0000'', plan_item Com [] [] ''30.0000'', plan_item Lgom [] [] ''30.0000''],
     rq_status = PaymentPending, rq_receipt = None, rq_failure = None, rq_requested_by = Some 9, rq_created = 1200, rq_updated = 1200,
     rq_key = ''p1'', rq_phone = ''254700000001'', rq_recovery = ''awaiting_confirmation'', rq_attempts = 0, rq_next = 120001200, rq_result = None\<rparr>"

definition mpesa_requested :: daraja_db where
  "mpesa_requested = mpesa_genesis\<lparr>contribution_monthly_fees := sample_fees, payment_requests := [mpesa_request]\<rparr>"

definition mpesa_prompted :: daraja_db where
  "mpesa_prompted = mpesa_requested\<lparr>payment_requests := [mpesa_request\<lparr>rq_checkout := Some ''ws1'', rq_updated := 1300\<rparr>]\<rparr>"

definition mpesa_callback :: darajaSTKCallback where
  "mpesa_callback = \<lparr>cb_checkout = ''ws1'', cb_code = Some 0, cb_desc = ''ok'', cb_items = [(''Amount'', JsonRaw ''100.00''),
     (''MpesaReceiptNumber'', JsonString ''abc1''), (''TransactionDate'', JsonRaw ''19700101030001'')], cb_rest = []\<rparr>"

definition mpesa_report :: DarajaSTKPayment where
  "mpesa_report = \<lparr>dp_checkout = ''ws1'', dp_receipt = ''abc1'', dp_amount = \<lparr>n_int = Some 10000, n_exp = -2, n_valid = True\<rparr>, dp_received = Some 1000000\<rparr>"

definition mpesa_receipt :: ContributionReceipt where
  "mpesa_receipt = \<lparr>cr_id = 620, cr_channel = DarajaStk, cr_external = Some ''ABC1'', cr_checkout = Some ''ws1'', cr_internal = None,
     cr_key = None, cr_session = None, cr_member = 7, cr_branch = 1, cr_period = 0, cr_amount = 1000000, cr_plan = rq_plan mpesa_request,
     cr_status = ReceiptPending, cr_failure = None, cr_received_by = Some 9, cr_received_at = 1000000, cr_deleted = False,
     cr_created = 1400, cr_updated = 1400, cr_snapshot = None\<rparr>"

definition mpesa_part :: "uuid \<Rightarrow> ContributionAllocationType \<Rightarrow> pg_uuid \<Rightarrow> int \<Rightarrow> ContributionAllocation" where
  "mpesa_part i ty t n = (sample_part i ty t n)\<lparr>al_receipt := 620, al_created := 1400, al_updated := 1400\<rparr>"

definition mpesa_rows :: "ContributionAllocation list" where
  "mpesa_rows = [mpesa_part 621 SharePurchase (Some 1) 400000, mpesa_part 622 Com None 300000, mpesa_part 623 Lgom None 300000]"

definition mpesa_completed :: ContributionPaymentRequest where
  "mpesa_completed = mpesa_request\<lparr>rq_checkout := Some ''ws1'', rq_status := PaymentCompleted, rq_recovery := ''received'', rq_receipt := Some 620,
     rq_updated := 1400\<rparr>"

definition mpesa_paid :: daraja_db where
  "mpesa_paid = mpesa_prompted\<lparr>contribution_receipts := [mpesa_receipt], contribution_allocations := mpesa_rows,
     payment_requests := [mpesa_completed]\<rparr>"

lemma mpesa_run:
  "createContributionPaymentRequest text_ext (sample_env 1200 600) 1200 mpesa_params mpesa_genesis = Inr ((mpesa_request, True), mpesa_requested)"
  "saveAnswer (sample_env 1300 610) mpesa_request (Inr ''ws1'') mpesa_requested = (Inr (hd (payment_requests mpesa_prompted)), mpesa_prompted)"
  "answer_fits mpesa_request (Inr ''ws1'') mpesa_requested" "exact_report text_ext mpesa_callback"
  by code_simp+

lemma mpesa_process: "ProcessDarajaSTKPayment text_ext (sample_env 1400 620) 1400 mpesa_report mpesa_prompted
    = ((Some (mpesa_receipt, mpesa_rows), None), mpesa_paid)"
  by code_simp

lemma mpesa_work: "workOff text_ext (sample_env 1400 620) 1400 mpesa_callback mpesa_prompted = (None, mpesa_paid)"
  by code_simp

lemma payment_reachable_step: "payment_reachable x t \<Longrightarrow> daraja_step x t t' \<Longrightarrow> payment_reachable x t'"
  by (auto simp: payment_reachable_def intro: rtranclp.rtrancl_into_rtrancl)

lemma mpesa_reachable:
  "payment_reachable text_ext (mpesa_requested, [mpesa_request], [])"
  "payment_reachable text_ext (mpesa_prompted, [], [''p1''])" "payment_reachable text_ext (mpesa_paid, [], [''p1''])"
proof -
  note step = payment_reachable_step [where x = text_ext]
  have "payment_start (mpesa_genesis, [], [])"
    by (simp add: payment_start_def whole_genesis_def genesis_def contrib_def mpesa_genesis_def)
  then have "payment_reachable text_ext (mpesa_genesis, [], [])" by (auto simp: payment_reachable_def)
  from step [OF this requested [OF mpesa_run(1)]] show r: "payment_reachable text_ext (mpesa_requested, [mpesa_request], [])" by simp
  have "\<not> unsent (Inr ''ws1'' :: error + string)" "rq_key mpesa_request = ''p1''" by code_simp+
  with step [OF r answered [OF _ mpesa_run(3,2)]] show p: "payment_reachable text_ext (mpesa_prompted, [], [''p1''])" by simp
  show "payment_reachable text_ext (mpesa_paid, [], [''p1''])" by (rule step [OF p worked [OF mpesa_run(4) mpesa_work]])
qed

lemma text_ext_scan: "scan_ok text_ext"
  by (simp add: scan_ok_def text_ext_def)

section \<open>Claims\<close>



text \<open>C9. A member is not prompted twice for one request: of the prompts sent under one key at most one may
  have reached the member, and once one may have, or is with the provider, asking again with that key
  sends no prompt.
\<close>
theorem prompted_once:
  assumes "plan_ext x" and "scan_ok x" and "payment_reachable x (s, F, A)"
  shows "distinct (A @ map rq_key F)
    \<and> (TrimSpace (ip_key params) \<in> set (A @ map rq_key F) \<longrightarrow> fst (snd (InitiateDarajaSTKPayment x v v' clock params initiator s)) = None)"
proof -
  note inv = payment_reachable_inv [OF assms]
  then have ok: "requests_ok x s" "prompts_ok (s, F, A)" by (simp_all add: payment_inv_def)
  obtain res prompt s' where run: "InitiateDarajaSTKPayment x v v' clock params initiator s = (res, prompt, s')"
    by (cases "InitiateDarajaSTKPayment x v v' clock params initiator s") auto
  have "prompt = None" if k: "TrimSpace (ip_key params) \<in> set (A @ map rq_key F)"
  proof (rule ccontr)
    assume "prompt \<noteq> None"
    with initiate_steps [OF inv assms(1,2) run] obtain r s1 where
      "createContributionPaymentRequest x v clock (params\<lparr>ip_key := TrimSpace (ip_key params), ip_phone := TrimSpace (ip_phone params)\<rparr>) s = Inr ((r, True), s1)"
      by (auto split: option.splits)
    from new_prompt [OF ok(1) this] have "\<forall>q\<in>set (payment_requests s). rq_key q = TrimSpace (ip_key params) \<longrightarrow> \<not> asked q" by simp
    moreover have "\<exists>q\<in>set (payment_requests s). rq_key q = TrimSpace (ip_key params) \<and> asked q"
      using ok(2) k unfolding prompts_ok_def prod.case by auto
    ultimately show False by blast
  qed
  moreover have "distinct (A @ map rq_key F)" using ok(2) by (auto simp: prompts_ok_def)
  ultimately show ?thesis using run by simp
qed

theorem prompted_once_witness:
  "fst (snd (InitiateDarajaSTKPayment text_ext (sample_env 1500 630) (sample_env 1500 640) 1500 mpesa_params (Some (\<lambda>_. Inr ''ws2'')) mpesa_prompted)) = None"
proof -
  have "TrimSpace (ip_key mpesa_params) \<in> set ([''p1''] @ map rq_key [])" by code_simp
  with prompted_once [OF text_ext_ok text_ext_scan mpesa_reachable(2)] show ?thesis by blast
qed



section \<open>Reports that arrive again\<close>

lemma find_unique: "y \<in> set xs \<Longrightarrow> P y \<Longrightarrow> (\<And>z. z \<in> set xs \<Longrightarrow> P z \<Longrightarrow> z = y) \<Longrightarrow> find P xs = Some y"
  by (metis find_None_iff find_Some_set option.exhaust)

lemma received_Inr:
  assumes ok: "requests_ok x s" and r: "r \<in> set (payment_requests s)" and rok: "receipts_ok s" and exact: "\<not> too_precise (dp_amount report)"
    and run: "receivePayment x v clock c m report r s = Inr ((Some (q, rows), None), s')"
  shows "q \<in> set (contribution_receipts s') \<and> \<not> cr_deleted q \<and> cr_amount q = numericToScale (dp_amount report) (-4)
    \<and> (\<exists>z\<in>set (payment_requests s'). rq_checkout z = rq_checkout r \<and> rq_status z = PaymentCompleted \<and> rq_receipt z = Some (cr_id q))"
  using run
proof (cases rule: receive_cases)
  case (received es q1 rows1 s1 z)
  note create = received(4) and up = received(6) and q1 = received(7)
  have keep: "payment_requests s1 = payment_requests s"
    using keepsD [OF payments.keeps_createReceipt refl create] by (simp add: daraja_tables_def)
  have "t = r" if "t \<in> set (payment_requests s)" "rq_id t = rq_id r" for t
    using that r ok by (auto simp: requests_ok_def distinct_map dest: inj_onD)
  then have "find (\<lambda>t. rq_id t = rq_id r) (payment_requests s1) = Some r" using r keep by (intro find_unique) auto
  with up q1 r keep have "contribution_receipts s' = contribution_receipts s1" "z \<in> set (payment_requests s')" "rq_checkout z = rq_checkout r"
    "rq_status z = PaymentCompleted" "rq_receipt z = Some (cr_id q)"
    by (auto simp: q_UpdateContributionPaymentRequestCompleted_def update_request_def)
  with created_amount [OF create received(3) rok] q1 exact show ?thesis by (auto simp: payment_params_def)
qed (auto simp: needsReview_def tx_bind_Inr_iff tx_run)



end
